(* ===== verification/Prelude.thy ===== *)
theory Prelude
  imports Complex_Main "HOL-Library.Word"
begin

text \<open>
  The shared vocabulary of the development: identifiers, clock values and results; the fragment of
  SQL the stores use over tables kept as lists of rows; the Go string functions the sources call;
  decimal formatting and parsing; and the generic interface of a transition system with an
  invariant, which every stateful component interprets on its own step relation.

  A \<open>uuid.UUID\<close> is an opaque identifier, modelled as a natural number with 0 for \<open>uuid.Nil\<close>.
  Timestamps are integers counting microseconds, the resolution of a \<open>timestamptz\<close> column, and a
  Go \<open>time.Duration\<close> is an integer counting nanoseconds. A fallible call returns
  \<open>'e + 'a\<close>, with \<open>Inl\<close> for the error; a transaction that fails returns no new state, which is
  its rollback. Strings are lists of bytes.
\<close>

section \<open>Types shared by the components\<close>

type_synonym uuid = nat
type_synonym time = int
type_synonym duration = int
type_synonym ('e, 'a) result = "'e + 'a"

definition uuid_Nil :: uuid where
  "uuid_Nil = 0"

named_theorems sql_simps \<open>rewriting through the SQL fragment\<close>
named_theorems string_simps \<open>rewriting through the Go string functions\<close>

section \<open>The SQL fragment\<close>

text \<open>
  \<^item> \<open>sql_find\<close>: a \<open>select ... where\<close> scanned with \<open>QueryRow\<close>, the first row or none;
  \<^item> \<open>sql_update\<close>: an \<open>update ... set ... where\<close>;
  \<^item> \<open>sql_count\<close>: a \<open>count(*) filter (where ...)\<close>;
  \<^item> \<open>sql_top\<close>: an \<open>order by key limit n\<close>. Rows with equal keys keep the table's order.
\<close>

definition sql_find :: "('a \<Rightarrow> bool) \<Rightarrow> 'a list \<Rightarrow> 'a option" where
  "sql_find P rows = List.find P rows"

definition sql_update :: "('a \<Rightarrow> bool) \<Rightarrow> ('a \<Rightarrow> 'a) \<Rightarrow> 'a list \<Rightarrow> 'a list" where
  "sql_update P f rows = map (\<lambda>r. if P r then f r else r) rows"

definition sql_count :: "('a \<Rightarrow> bool) \<Rightarrow> 'a list \<Rightarrow> nat" where
  "sql_count P rows = length (filter P rows)"

definition sql_top :: "('a \<Rightarrow> 'b::linorder) \<Rightarrow> nat \<Rightarrow> 'a list \<Rightarrow> 'a list" where
  "sql_top key n rows = take n (sort_key key rows)"

text \<open>\<open>intervalOf\<close>-style conversion: whole milliseconds of a duration, as microseconds.\<close>

definition go_quot :: "int \<Rightarrow> int \<Rightarrow> int" where
  "go_quot a b = sgn a * sgn b * (\<bar>a\<bar> div \<bar>b\<bar>)"

section \<open>Go strings\<close>

definition HasPrefix :: "string \<Rightarrow> string \<Rightarrow> bool" where
  "HasPrefix s p \<longleftrightarrow> take (length p) s = p"

definition HasSuffix :: "string \<Rightarrow> string \<Rightarrow> bool" where
  "HasSuffix s p \<longleftrightarrow> HasPrefix (rev s) (rev p)"

fun go_Contains :: "string \<Rightarrow> string \<Rightarrow> bool" where
  "go_Contains [] p = (p = [])"
| "go_Contains (c # cs) p = (HasPrefix (c # cs) p \<or> go_Contains cs p)"

text \<open>\<open>strings.Cut\<close>: the text before and after the first occurrence of the separator.\<close>

fun go_Cut :: "string \<Rightarrow> string \<Rightarrow> string \<times> string \<times> bool" where
  "go_Cut [] p = (if p = [] then ([], [], True) else ([], [], False))"
| "go_Cut (c # cs) p =
     (if HasPrefix (c # cs) p then ([], drop (length p) (c # cs), True)
      else case go_Cut cs p of (b, a, f) \<Rightarrow> (c # b, a, f))"

text \<open>\<open>strings.Split\<close> on a one-byte separator.\<close>

fun split_on :: "char \<Rightarrow> string \<Rightarrow> string list" where
  "split_on d [] = [[]]"
| "split_on d (c # cs) =
     (if c = d then [] # split_on d cs
      else case split_on d cs of (w # ws) \<Rightarrow> (c # w) # ws | [] \<Rightarrow> [[c]])"

fun join_with :: "char \<Rightarrow> string list \<Rightarrow> string" where
  "join_with d [] = []"
| "join_with d [w] = w"
| "join_with d (w # v # ws) = w @ d # join_with d (v # ws)"

text \<open>\<open>strings.TrimSpace\<close> and \<open>strings.ToLower\<close> on the ASCII range.\<close>

definition is_space :: "char \<Rightarrow> bool" where
  "is_space c \<longleftrightarrow> c = CHR '' '' \<or> (9 \<le> (of_char c :: nat) \<and> (of_char c :: nat) \<le> 13)"

definition TrimSpace :: "string \<Rightarrow> string" where
  "TrimSpace s = rev (dropWhile is_space (rev (dropWhile is_space s)))"

definition is_upper :: "char \<Rightarrow> bool" where
  "is_upper c \<longleftrightarrow> 65 \<le> (of_char c :: nat) \<and> (of_char c :: nat) \<le> 90"

definition is_lower :: "char \<Rightarrow> bool" where
  "is_lower c \<longleftrightarrow> 97 \<le> (of_char c :: nat) \<and> (of_char c :: nat) \<le> 122"

definition is_digit :: "char \<Rightarrow> bool" where
  "is_digit c \<longleftrightarrow> 48 \<le> (of_char c :: nat) \<and> (of_char c :: nat) \<le> 57"

definition to_lower :: "char \<Rightarrow> char" where
  "to_lower c = (if is_upper c then char_of ((of_char c :: nat) + 32) else c)"

definition ToLower :: "string \<Rightarrow> string" where
  "ToLower s = map to_lower s"

section \<open>Decimal numbers\<close>

definition digit_char :: "nat \<Rightarrow> char" where
  "digit_char d = char_of (48 + d)"

fun show_nat :: "nat \<Rightarrow> string" where
  "show_nat n = (if n < 10 then [digit_char n] else show_nat (n div 10) @ [digit_char (n mod 10)])"

declare show_nat.simps [simp del]

text \<open>\<open>strconv.Itoa\<close> and \<open>fmt\<close>'s \<open>%d\<close>.\<close>

definition Itoa :: "int \<Rightarrow> string" where
  "Itoa i = (if i < 0 then CHR ''-'' # show_nat (nat (- i)) else show_nat (nat i))"

definition nat_of_digits :: "string \<Rightarrow> nat" where
  "nat_of_digits ds = foldl (\<lambda>n c. n * 10 + ((of_char c :: nat) - 48)) 0 ds"

text \<open>
  \<open>fmt\<close>'s \<open>%.pf\<close>: the value rounded to \<open>p\<close> decimals, half to even, and \<open>pad0\<close> the zero
  padding of \<open>%0nd\<close>.
\<close>

definition round_half_even :: "rat \<Rightarrow> int" where
  "round_half_even r =
     (let f = \<lfloor>r\<rfloor>; d = r - of_int f in
      if d < 1 / 2 then f else if d > 1 / 2 then f + 1 else if even f then f else f + 1)"

definition pad0 :: "nat \<Rightarrow> string \<Rightarrow> string" where
  "pad0 n s = replicate (n - length s) (CHR ''0'') @ s"

definition fmt_fixed :: "nat \<Rightarrow> rat \<Rightarrow> string" where
  "fmt_fixed p r =
     (let n = nat (round_half_even (\<bar>r\<bar> * 10 ^ p)) in
      (if r < 0 then ''-'' else []) @ show_nat (n div 10 ^ p) @
      (if p = 0 then [] else CHR ''.'' # pad0 p (show_nat (n mod 10 ^ p))))"

definition newline :: string where
  "newline = [char_of (10::nat)]"

section \<open>Lemmas on the SQL fragment\<close>

lemma set_sql_update: "set (sql_update P f rows) = (\<lambda>r. if P r then f r else r) ` set rows"
  by (simp add: sql_update_def)

lemma sql_updateE:
  assumes "r' \<in> set (sql_update P f rows)"
  obtains r where "r \<in> set rows" "r' = (if P r then f r else r)"
  using assms by (auto simp: sql_update_def)

lemma sql_updateI:
  assumes "r \<in> set rows"
  shows "(if P r then f r else r) \<in> set (sql_update P f rows)"
  using assms by (auto simp: sql_update_def)

lemma length_sql_update [simp, sql_simps]: "length (sql_update P f rows) = length rows"
  by (simp add: sql_update_def)

lemma sql_update_Nil [simp]: "sql_update P f [] = []"
  by (simp add: sql_update_def)

lemma map_sql_update_same:
  assumes "\<And>r. P r \<Longrightarrow> k (f r) = k r"
  shows "map k (sql_update P f rows) = map k rows"
  using assms by (auto simp: sql_update_def)

lemma sql_find_Some_iff_distinct:
  assumes "distinct (map k rows)"
  shows "sql_find (\<lambda>r. k r = i) rows = Some r \<longleftrightarrow> r \<in> set rows \<and> k r = i"
  using assms unfolding sql_find_def
  by (induction rows) (auto split: if_splits)

lemma sql_find_key:
  assumes "distinct (map k rows)" "r \<in> set rows" "P r" "\<And>x. P x \<Longrightarrow> k x = k r"
  shows "sql_find P rows = Some r"
  using assms(1,2) unfolding sql_find_def
proof (induction rows)
  case (Cons x xs)
  show ?case
  proof (cases "P x")
    case True
    then have "k x = k r" by (rule assms(4))
    then have "x = r" using Cons.prems by (auto simp: rev_image_eqI)
    then show ?thesis using assms(3) by simp
  next
    case False
    then have "r \<noteq> x" using assms(3) by blast
    then show ?thesis using Cons False by simp
  qed
qed simp

lemma sql_find_SomeD: "sql_find P rows = Some r \<Longrightarrow> r \<in> set rows \<and> P r"
  unfolding sql_find_def by (auto simp: find_Some_iff)

lemma sql_find_None_iff: "sql_find P rows = None \<longleftrightarrow> (\<forall>r \<in> set rows. \<not> P r)"
  unfolding sql_find_def by (auto simp: find_None_iff)

lemma key_present: "list_ex (\<lambda>x. k x = i) xs \<longleftrightarrow> i \<in> k ` set xs"
  by (auto simp: list_ex_iff)

lemma sql_count_append [sql_simps]: "sql_count P (xs @ ys) = sql_count P xs + sql_count P ys"
  by (simp add: sql_count_def)

lemma sql_count_0_iff: "sql_count P rows = 0 \<longleftrightarrow> (\<forall>r \<in> set rows. \<not> P r)"
  by (auto simp: sql_count_def filter_empty_conv)

lemma sql_count_pos_iff: "0 < sql_count P rows \<longleftrightarrow> (\<exists>r \<in> set rows. P r)"
  using sql_count_0_iff [of P rows] by auto

lemma filter_sql_update_same:
  assumes "\<And>r. r \<in> set rows \<Longrightarrow> P r \<Longrightarrow> Q (f r) = Q r"
  shows "filter Q (sql_update P f rows) = sql_update P f (filter Q rows)"
  using assms by (induction rows) (auto simp: sql_update_def)

lemma sql_update_id:
  assumes "\<And>r. r \<in> set rows \<Longrightarrow> \<not> P r"
  shows "sql_update P f rows = rows"
  using assms by (auto simp: sql_update_def intro: map_idI)

lemma sql_find_update:
  assumes "\<And>r. k (f r) = k r"
  shows "sql_find (\<lambda>r. k r = i) (sql_update P f rows) =
    map_option (\<lambda>r. if P r then f r else r) (sql_find (\<lambda>r. k r = i) rows)"
  using assms by (induction rows) (auto simp: sql_find_def sql_update_def)

lemma sql_update_same:
  assumes "\<And>r. f r = r"
  shows "sql_update P f rows = rows"
  using assms by (induction rows) (auto simp: sql_update_def)

lemma sql_update_seq:
  assumes "\<And>r. \<not> Q (f r)"
  shows "sql_update Q g (sql_update P f rows) =
    sql_update (\<lambda>r. P r \<or> Q r) (\<lambda>r. if P r then f r else g r) rows"
  using assms by (induction rows) (simp_all add: sql_update_def)

lemma sql_count_update_same:
  assumes "\<And>r. r \<in> set rows \<Longrightarrow> P r \<Longrightarrow> Q (f r) = Q r"
  shows "sql_count Q (sql_update P f rows) = sql_count Q rows"
  unfolding sql_count_def
  using filter_sql_update_same [of rows P Q f] assms by (metis length_sql_update)

lemma set_sql_top: "set (sql_top key n rows) \<subseteq> set rows"
  unfolding sql_top_def by (metis set_sort set_take_subset)

section \<open>Lemmas on decimal numbers\<close>

lemma is_digit_digit_char [simp]: "d < 10 \<Longrightarrow> is_digit (digit_char d)"
  by (simp add: is_digit_def digit_char_def)

lemma show_nat_digits: "list_all is_digit (show_nat n)"
  by (induction n rule: show_nat.induct) (subst show_nat.simps, simp)

lemma show_nat_not_Nil [simp]: "show_nat n \<noteq> []"
  by (subst show_nat.simps) simp

section \<open>Transition systems\<close>

text \<open>
  A component whose operations are steps on a state promises an invariant: it holds initially and
  every step keeps it. Whatever follows from the invariant then holds in every reachable state.
\<close>

locale transition_system =
  fixes init :: "'s \<Rightarrow> bool"
    and step :: "'s \<Rightarrow> 's \<Rightarrow> bool"
    and inv :: "'s \<Rightarrow> bool"
  assumes init_inv: "init s \<Longrightarrow> inv s"
    and step_inv: "inv s \<Longrightarrow> step s t \<Longrightarrow> inv t"
begin

lemma steps_inv: "step\<^sup>*\<^sup>* s t \<Longrightarrow> inv s \<Longrightarrow> inv t"
  by (induction rule: rtranclp_induct) (auto intro: step_inv)

lemma reachable_inv: "init s \<Longrightarrow> step\<^sup>*\<^sup>* s t \<Longrightarrow> inv t"
  using init_inv steps_inv by blast

end

text \<open>
  A component may also promise how a later state relates to an earlier one, for instance that a table
  only grows.
\<close>

locale evolving_system = transition_system +
  fixes evolves :: "'a \<Rightarrow> 'a \<Rightarrow> bool"
  assumes evolves_refl: "evolves s s"
    and evolves_trans: "evolves s t \<Longrightarrow> evolves t u \<Longrightarrow> evolves s u"
    and step_evolves: "inv s \<Longrightarrow> step s t \<Longrightarrow> evolves s t"
begin

lemma steps_evolve: "step\<^sup>*\<^sup>* s t \<Longrightarrow> inv s \<Longrightarrow> evolves s t"
proof (induction rule: rtranclp_induct)
  case (step t u)
  then have "inv t" using steps_inv by blast
  then show ?case using step step_evolves evolves_trans by blast
qed (rule evolves_refl)

end

end
