(* ===== verification/Task_State.thy ===== *)
theory Task_State
  imports Prelude
begin

text \<open>
  The state machines of \<open>internal/job/state.go\<close>: task, attempt and job states, the two tables of
  legal transitions, the checks that turn an illegal move into an error, and the failure classes
  that decide whether a failure is retried. The tables are read through one interface, the locale
  \<open>transition_table\<close>, interpreted for tasks and for attempts.
\<close>

section \<open>States\<close>

datatype task_state =
  TaskPending | TaskQueued | TaskLeased | TaskRunning | TaskSucceeded | TaskFailed | TaskCancelled

datatype attempt_state =
  AttemptLeased | AttemptRunning | AttemptSucceeded | AttemptFailed | AttemptCancelled
| AttemptExpired

datatype job_state = JobPending | JobRunning | JobSucceeded | JobFailed | JobCancelled

fun task_state_str :: "task_state \<Rightarrow> string" where
  "task_state_str TaskPending = ''pending''"
| "task_state_str TaskQueued = ''queued''"
| "task_state_str TaskLeased = ''leased''"
| "task_state_str TaskRunning = ''running''"
| "task_state_str TaskSucceeded = ''succeeded''"
| "task_state_str TaskFailed = ''failed''"
| "task_state_str TaskCancelled = ''cancelled''"

fun attempt_state_str :: "attempt_state \<Rightarrow> string" where
  "attempt_state_str AttemptLeased = ''leased''"
| "attempt_state_str AttemptRunning = ''running''"
| "attempt_state_str AttemptSucceeded = ''succeeded''"
| "attempt_state_str AttemptFailed = ''failed''"
| "attempt_state_str AttemptCancelled = ''cancelled''"
| "attempt_state_str AttemptExpired = ''expired''"

section \<open>The transition tables\<close>

fun legalTaskTransitions :: "task_state \<Rightarrow> task_state list" where
  "legalTaskTransitions TaskPending = [TaskQueued, TaskCancelled]"
| "legalTaskTransitions TaskQueued = [TaskLeased, TaskCancelled]"
| "legalTaskTransitions TaskLeased = [TaskRunning, TaskQueued, TaskFailed, TaskCancelled]"
| "legalTaskTransitions TaskRunning = [TaskSucceeded, TaskFailed, TaskCancelled, TaskQueued]"
| "legalTaskTransitions TaskFailed = [TaskQueued]"
| "legalTaskTransitions TaskSucceeded = []"
| "legalTaskTransitions TaskCancelled = []"

fun legalAttemptTransitions :: "attempt_state \<Rightarrow> attempt_state list" where
  "legalAttemptTransitions AttemptLeased =
     [AttemptRunning, AttemptFailed, AttemptCancelled, AttemptExpired]"
| "legalAttemptTransitions AttemptRunning =
     [AttemptSucceeded, AttemptFailed, AttemptCancelled, AttemptExpired]"
| "legalAttemptTransitions AttemptSucceeded = []"
| "legalAttemptTransitions AttemptFailed = []"
| "legalAttemptTransitions AttemptCancelled = []"
| "legalAttemptTransitions AttemptExpired = []"

definition task_IsTerminal :: "task_state \<Rightarrow> bool" where
  "task_IsTerminal s \<longleftrightarrow> s = TaskSucceeded \<or> s = TaskCancelled \<or> s = TaskFailed"

definition attempt_IsTerminal :: "attempt_state \<Rightarrow> bool" where
  "attempt_IsTerminal s \<longleftrightarrow> length (legalAttemptTransitions s) = 0"

text \<open>The loops over the table's row: the move is legal when the target is listed.\<close>

definition CanTransitionTask :: "task_state \<Rightarrow> task_state \<Rightarrow> bool" where
  "CanTransitionTask from to \<longleftrightarrow> list_ex (\<lambda>s. s = to) (legalTaskTransitions from)"

definition CanTransitionAttempt :: "attempt_state \<Rightarrow> attempt_state \<Rightarrow> bool" where
  "CanTransitionAttempt from to \<longleftrightarrow> list_ex (\<lambda>s. s = to) (legalAttemptTransitions from)"

section \<open>Errors\<close>

text \<open>
  The errors of package \<open>job\<close>. \<open>ErrIllegalTransition\<close> carries the kind and both states;
  \<open>ErrConstraint\<close> stands for a statement the database refuses (a duplicate key or a failed check).
\<close>

datatype job_error =
  ErrNotFound
| ErrNoTasks
| ErrBadDepend string string
| ErrNoWork
| ErrStaleAttempt
| ErrIllegalTransition string string string
| ErrConstraint string

definition checkTask :: "task_state \<Rightarrow> task_state \<Rightarrow> job_error option" where
  "checkTask from to =
     (if \<not> CanTransitionTask from to
      then Some (ErrIllegalTransition ''task'' (task_state_str from) (task_state_str to))
      else None)"

definition checkAttempt :: "attempt_state \<Rightarrow> attempt_state \<Rightarrow> job_error option" where
  "checkAttempt from to =
     (if \<not> CanTransitionAttempt from to
      then Some (ErrIllegalTransition ''attempt'' (attempt_state_str from) (attempt_state_str to))
      else None)"

section \<open>Failure classes\<close>

text \<open>A \<open>FailureClass\<close> arrives as an arbitrary string in a worker's report.\<close>

type_synonym FailureClass = string

definition ClassTransient :: FailureClass where "ClassTransient = ''transient''"
definition ClassResource :: FailureClass where "ClassResource = ''resource''"
definition ClassPermanentInput :: FailureClass where "ClassPermanentInput = ''permanent_input''"
definition ClassPermanentConfig :: FailureClass where "ClassPermanentConfig = ''permanent_config''"
definition ClassInfrastructure :: FailureClass where "ClassInfrastructure = ''infrastructure''"
definition ClassUnknown :: FailureClass where "ClassUnknown = ''unknown''"

lemmas class_defs =
  ClassTransient_def ClassResource_def ClassPermanentInput_def ClassPermanentConfig_def
  ClassInfrastructure_def ClassUnknown_def

definition Retryable :: "FailureClass \<Rightarrow> bool" where
  "Retryable c \<longleftrightarrow>
     c = ClassTransient \<or> c = ClassResource \<or> c = ClassInfrastructure \<or> c = ClassUnknown"

definition class_Valid :: "FailureClass \<Rightarrow> bool" where
  "class_Valid c \<longleftrightarrow>
     c = ClassTransient \<or> c = ClassResource \<or> c = ClassPermanentInput \<or>
     c = ClassPermanentConfig \<or> c = ClassInfrastructure \<or> c = ClassUnknown"

text \<open>The normalisation both \<open>Fail\<close> and \<open>Complete\<close> apply to a reported class.\<close>

definition normalise_class :: "FailureClass \<Rightarrow> FailureClass" where
  "normalise_class c = (if \<not> class_Valid c then ClassUnknown else c)"

section \<open>Lemmas\<close>

text \<open>
  The contract of a transition table: the legality test is membership in the table's row, no state
  moves to itself, and a state without a successor is one the caller treats as closed.
\<close>

locale transition_table =
  fixes row :: "'s \<Rightarrow> 's list"
    and can :: "'s \<Rightarrow> 's \<Rightarrow> bool"
    and closed :: "'s \<Rightarrow> bool"
  assumes can_row: "can s t \<longleftrightarrow> t \<in> set (row s)"
    and no_self: "s \<notin> set (row s)"
    and closed_row: "closed s \<longleftrightarrow> row s = []"
begin

lemma can_irrefl: "\<not> can s s"
  by (simp add: can_row no_self)

lemma closed_stays: "can\<^sup>*\<^sup>* s t \<Longrightarrow> closed s \<Longrightarrow> t = s"
  by (induction rule: rtranclp_induct) (auto simp: can_row closed_row)

end

interpretation task_table: transition_table legalTaskTransitions CanTransitionTask
  "\<lambda>s. s = TaskSucceeded \<or> s = TaskCancelled"
proof unfold_locales
  fix s t
  show "CanTransitionTask s t \<longleftrightarrow> t \<in> set (legalTaskTransitions s)"
    by (auto simp: CanTransitionTask_def list_ex_iff)
  show "s \<notin> set (legalTaskTransitions s)"
    by (cases s) simp_all
  show "(s = TaskSucceeded \<or> s = TaskCancelled) \<longleftrightarrow> legalTaskTransitions s = []"
    by (cases s) simp_all
qed

interpretation attempt_table: transition_table legalAttemptTransitions CanTransitionAttempt
  attempt_IsTerminal
proof unfold_locales
  fix s t
  show "CanTransitionAttempt s t \<longleftrightarrow> t \<in> set (legalAttemptTransitions s)"
    by (auto simp: CanTransitionAttempt_def list_ex_iff)
  show "s \<notin> set (legalAttemptTransitions s)"
    by (cases s) simp_all
  show "attempt_IsTerminal s \<longleftrightarrow> legalAttemptTransitions s = []"
    by (simp add: attempt_IsTerminal_def)
qed

lemma CanTransitionTask_simps [simp]:
  "CanTransitionTask s TaskPending = False"
  "CanTransitionTask s TaskQueued = (s \<in> {TaskPending, TaskLeased, TaskRunning, TaskFailed})"
  "CanTransitionTask s TaskLeased = (s = TaskQueued)"
  "CanTransitionTask s TaskRunning = (s = TaskLeased)"
  "CanTransitionTask s TaskSucceeded = (s = TaskRunning)"
  "CanTransitionTask s TaskFailed = (s \<in> {TaskLeased, TaskRunning})"
  "CanTransitionTask s TaskCancelled =
     (s \<in> {TaskPending, TaskQueued, TaskLeased, TaskRunning})"
  by (cases s; simp add: CanTransitionTask_def)+

lemma CanTransitionAttempt_simps [simp]:
  "CanTransitionAttempt s AttemptLeased = False"
  "CanTransitionAttempt s AttemptRunning = (s = AttemptLeased)"
  "CanTransitionAttempt s AttemptSucceeded = (s = AttemptRunning)"
  "CanTransitionAttempt s AttemptFailed = (s \<in> {AttemptLeased, AttemptRunning})"
  "CanTransitionAttempt s AttemptCancelled = (s \<in> {AttemptLeased, AttemptRunning})"
  "CanTransitionAttempt s AttemptExpired = (s \<in> {AttemptLeased, AttemptRunning})"
  by (cases s; simp add: CanTransitionAttempt_def)+

lemma attempt_live_iff: "\<not> attempt_IsTerminal s \<longleftrightarrow> s = AttemptLeased \<or> s = AttemptRunning"
  by (cases s) (simp_all add: attempt_IsTerminal_def)

lemma class_Valid_normalise: "class_Valid (normalise_class c)"
  by (simp add: normalise_class_def class_Valid_def)

lemma checkTask_None_iff [simp]: "checkTask s t = None \<longleftrightarrow> CanTransitionTask s t"
  by (simp add: checkTask_def)

lemma checkAttempt_None_iff [simp]: "checkAttempt s t = None \<longleftrightarrow> CanTransitionAttempt s t"
  by (simp add: checkAttempt_def)

end
