(* ===== verification/Job_Store.thy ===== *)
theory Job_Store
  imports Complex_Main Task_State
begin

text \<open>
  The store of \<open>internal/job/job.go\<close> over the tables \<open>jobs\<close>, \<open>tasks\<close> and \<open>task_attempts\<close>. Every
  operation is one database transaction: it takes the tables and the transaction's clock and
  returns either an error, with nothing changed, or the new tables.
\<close>

section \<open>Rows\<close>

text \<open>
  \<open>job.Requirements\<close> as it is stored: every field is \<open>omitempty\<close>, so the zero value is the
  absent key that \<open>requirements->>'...' is null\<close> tests.
\<close>

record Requirements =
  Encoder :: string
  Arch :: string
  GPU :: bool
  MemoryBytes :: int
  DiskBytes :: int
  SlotClass :: string

definition no_requirements :: Requirements where
  "no_requirements = \<lparr>Encoder = [], Arch = [], GPU = False, MemoryBytes = 0, DiskBytes = 0,
     SlotClass = []\<rparr>"

record job_row =
  j_id :: uuid
  j_tenant :: uuid
  j_version :: uuid
  j_pipeline :: uuid
  j_idem :: "string option"
  j_priority :: int
  j_state :: job_state
  j_failure_reason :: "string option"
  j_created :: time
  j_started :: "time option"
  j_finished :: "time option"

record task_row =
  t_id :: uuid
  t_tenant :: uuid
  t_job :: uuid
  t_operation :: string
  t_spec :: string
  t_requirements :: Requirements
  t_depends_on :: "uuid list"
  t_priority :: int
  t_state :: task_state
  t_attempt_count :: int
  t_max_attempts :: int
  t_failure_class :: "string option"
  t_failure_reason :: "string option"
  t_queued_at :: "time option"
  t_created :: time
  t_finished :: "time option"

text \<open>\<open>job.Metrics\<close>, the per-attempt resource accounting.\<close>

record Metrics =
  CPUSeconds :: rat
  WallSeconds :: rat
  PeakMemoryBytes :: int
  GPUSeconds :: rat
  BytesIn :: int
  BytesOut :: int

record attempt_row =
  a_id :: uuid
  a_tenant :: uuid
  a_task :: uuid
  a_number :: int
  a_worker :: uuid
  a_state :: attempt_state
  a_lease_expires :: time
  a_reason :: string
  a_progress :: "rat option"
  a_metrics :: "Metrics option"
  a_failure_class :: "string option"
  a_failure_reason :: "string option"
  a_log_key :: "string option"
  a_leased :: time
  a_started :: "time option"
  a_finished :: "time option"
  a_output :: "string option"

record job_db =
  jobs :: "job_row list"
  tasks :: "task_row list"
  attempts :: "attempt_row list"

definition nullable :: "string \<Rightarrow> string option" where
  "nullable s = (if s = [] then None else Some s)"

section \<open>What the store returns\<close>

record Job =
  job_ID :: uuid
  job_AssetVersionID :: uuid
  job_State :: job_state
  job_Priority :: int
  job_FailureReason :: "string option"
  job_CreatedAt :: time
  job_StartedAt :: "time option"
  job_FinishedAt :: "time option"

record Task =
  task_ID :: uuid
  task_JobID :: uuid
  task_Operation :: string
  task_State :: task_state
  task_DependsOn :: "uuid list"
  task_Priority :: int
  task_AttemptCount :: int
  task_MaxAttempts :: int
  task_FailureClass :: "string option"
  task_FailureReason :: "string option"

record NewTask =
  nt_Key :: string
  nt_Operation :: string
  nt_Spec :: string
  nt_Requirements :: "Requirements option"
  nt_DependsOn :: "string list"
  nt_Priority :: int
  nt_MaxAttempts :: int

definition scan_job :: "job_row \<Rightarrow> Job" where
  "scan_job r = \<lparr>job_ID = j_id r, job_AssetVersionID = j_version r, job_State = j_state r,
     job_Priority = j_priority r, job_FailureReason = j_failure_reason r,
     job_CreatedAt = j_created r, job_StartedAt = j_started r, job_FinishedAt = j_finished r\<rparr>"

definition scan_task :: "task_row \<Rightarrow> Task" where
  "scan_task r = \<lparr>task_ID = t_id r, task_JobID = t_job r, task_Operation = t_operation r,
     task_State = t_state r, task_DependsOn = t_depends_on r, task_Priority = t_priority r,
     task_AttemptCount = t_attempt_count r, task_MaxAttempts = t_max_attempts r,
     task_FailureClass = t_failure_class r, task_FailureReason = t_failure_reason r\<rparr>"

section \<open>Queries\<close>

definition job_Get :: "job_db \<Rightarrow> uuid \<Rightarrow> uuid \<Rightarrow> job_error + Job" where
  "job_Get db tenantID jobID =
     (case sql_find (\<lambda>j. j_id j = jobID \<and> j_tenant j = tenantID) (jobs db) of
        None \<Rightarrow> Inl ErrNotFound
      | Some j \<Rightarrow> Inr (scan_job j))"

definition job_List :: "job_db \<Rightarrow> uuid \<Rightarrow> nat \<Rightarrow> Job list" where
  "job_List db tenantID limit =
     map scan_job (sql_top (\<lambda>j. - j_created j) limit
       (filter (\<lambda>j. j_tenant j = tenantID) (jobs db)))"

definition job_Tasks :: "job_db \<Rightarrow> uuid \<Rightarrow> uuid \<Rightarrow> Task list" where
  "job_Tasks db tenantID jobID =
     map scan_task (sort_key t_created
       (filter (\<lambda>t. t_job t = jobID \<and> t_tenant t = tenantID) (tasks db)))"

text \<open>
  \<open>Attempts\<close> joins each attempt with its task and with its worker, whose name is looked up in
  \<open>worker_name\<close> (the \<open>workers\<close> table, owned by package \<open>worker\<close>).
\<close>

definition job_Attempts ::
  "(uuid \<Rightarrow> string option) \<Rightarrow> job_db \<Rightarrow> uuid \<Rightarrow> uuid \<Rightarrow> (attempt_row \<times> string \<times> string) list" where
  "job_Attempts worker_name db tenantID jobID =
     concat (map (\<lambda>a.
       case sql_find (\<lambda>t. t_id t = a_task a) (tasks db) of
         None \<Rightarrow> []
       | Some t \<Rightarrow>
           (case worker_name (a_worker a) of
              None \<Rightarrow> []
            | Some n \<Rightarrow>
                if t_job t = jobID \<and> a_tenant a = tenantID then [(a, t_operation t, n)] else []))
       (sort_key a_leased (attempts db)))"

definition byIdempotencyKey :: "job_db \<Rightarrow> uuid \<Rightarrow> string \<Rightarrow> job_error + Job" where
  "byIdempotencyKey db tenantID key =
     (case sql_find (\<lambda>j. j_tenant j = tenantID \<and> j_idem j = Some key) (jobs db) of
        None \<Rightarrow> Inl ErrNotFound
      | Some j \<Rightarrow> Inr (scan_job j))"

section \<open>Creating a job\<close>

text \<open>
  \<open>uuid.NewV7\<close> is called once per task, in order, and then once for the job: \<open>fresh i\<close> is the
  value of the \<open>i\<close>-th call. The map from keys to identifiers lets a later task with the same key
  overwrite an earlier one, as assigning to a Go map does.
\<close>

definition task_ids :: "(nat \<Rightarrow> uuid) \<Rightarrow> NewTask list \<Rightarrow> string \<Rightarrow> uuid option" where
  "task_ids fresh ts = map_of (rev (zip (map nt_Key ts) (map fresh [0..<length ts])))"

fun bad_depend :: "(string \<Rightarrow> uuid option) \<Rightarrow> NewTask list \<Rightarrow> (string \<times> string) option" where
  "bad_depend ids [] = None"
| "bad_depend ids (t # ts) =
     (case List.find (\<lambda>dep. ids dep = None) (nt_DependsOn t) of
        Some dep \<Rightarrow> Some (nt_Key t, dep)
      | None \<Rightarrow> bad_depend ids ts)"

text \<open>The \<open>check (operation in ...)\<close> of the \<open>tasks\<close> table.\<close>

definition task_operations :: "string list" where
  "task_operations = [''probe'', ''plan'', ''encode'', ''package'', ''protect'', ''thumbnail'',
     ''subtitle'', ''audio'', ''transcribe'', ''clip'', ''watermark'', ''validate'']"

text \<open>One iteration of \<open>Create\<close>'s second loop: the row for a task of the graph.\<close>

definition new_task_row ::
  "time \<Rightarrow> (string \<Rightarrow> uuid option) \<Rightarrow> uuid \<Rightarrow> uuid \<Rightarrow> int \<Rightarrow> NewTask \<Rightarrow> task_row" where
  "new_task_row now ids tenantID jobID priority t =
     (let deps = map (\<lambda>d. the (ids d)) (nt_DependsOn t);
          ready = (length deps = 0)
      in \<lparr>t_id = the (ids (nt_Key t)), t_tenant = tenantID, t_job = jobID,
          t_operation = nt_Operation t,
          t_spec = (if nt_Spec t = [] then ''{}'' else nt_Spec t),
          t_requirements = (case nt_Requirements t of None \<Rightarrow> no_requirements | Some r \<Rightarrow> r),
          t_depends_on = deps,
          t_priority = (if nt_Priority t \<le> 0 then priority else nt_Priority t),
          t_state = (if ready then TaskQueued else TaskPending),
          t_attempt_count = 0,
          t_max_attempts = (if nt_MaxAttempts t \<le> 0 then 3 else nt_MaxAttempts t),
          t_failure_class = None, t_failure_reason = None,
          t_queued_at = (if ready then Some now else None),
          t_created = now, t_finished = None\<rparr>)"

definition insert_task :: "task_row \<Rightarrow> job_db \<Rightarrow> job_error + job_db" where
  "insert_task r db =
     (if list_ex (\<lambda>t. t_id t = t_id r) (tasks db) then Inl (ErrConstraint ''tasks_pkey'')
      else if \<not> List.member task_operations (t_operation r)
      then Inl (ErrConstraint ''tasks_operation_check'')
      else Inr (db\<lparr>tasks := tasks db @ [r]\<rparr>))"

fun insert_tasks :: "task_row list \<Rightarrow> job_db \<Rightarrow> job_error + job_db" where
  "insert_tasks [] db = Inr db"
| "insert_tasks (r # rs) db =
     (case insert_task r db of Inl e \<Rightarrow> Inl e | Inr db' \<Rightarrow> insert_tasks rs db')"

definition job_Create ::
  "time \<Rightarrow> (nat \<Rightarrow> uuid) \<Rightarrow> job_db \<Rightarrow> uuid \<Rightarrow> uuid \<Rightarrow> uuid \<Rightarrow> string \<Rightarrow> int \<Rightarrow> NewTask list \<Rightarrow>
   job_error + (job_db \<times> Job)" where
  "job_Create now fresh db tenantID versionID pipelineVersionID idempotencyKey priority ts =
     (if length ts = 0 then Inl ErrNoTasks
      else let ids = task_ids fresh ts in
      case bad_depend ids ts of
        Some (key, dep) \<Rightarrow> Inl (ErrBadDepend key dep)
      | None \<Rightarrow>
          let jobID = fresh (length ts);
              row = \<lparr>j_id = jobID, j_tenant = tenantID, j_version = versionID,
                     j_pipeline = pipelineVersionID, j_idem = nullable idempotencyKey,
                     j_priority = priority, j_state = JobPending, j_failure_reason = None,
                     j_created = now, j_started = None, j_finished = None\<rparr>
          in if nullable idempotencyKey \<noteq> None \<and>
                list_ex (\<lambda>j. j_tenant j = tenantID \<and> j_idem j = nullable idempotencyKey) (jobs db)
             then (case byIdempotencyKey db tenantID idempotencyKey of
                     Inl e \<Rightarrow> Inl e
                   | Inr j \<Rightarrow> Inr (db, j))
             else if list_ex (\<lambda>j. j_id j = jobID) (jobs db)
             then Inl (ErrConstraint ''jobs_pkey'')
             else (case insert_tasks (map (new_task_row now ids tenantID jobID priority) ts)
                          (db\<lparr>jobs := jobs db @ [row]\<rparr>) of
                     Inl e \<Rightarrow> Inl e
                   | Inr db' \<Rightarrow> Inr (db', scan_job row)))"

section \<open>Moving tasks\<close>

definition releaseDependents :: "time \<Rightarrow> job_db \<Rightarrow> uuid \<Rightarrow> uuid \<Rightarrow> job_db" where
  "releaseDependents now db jobID doneID =
     db\<lparr>tasks := sql_update
          (\<lambda>t. t_job t = jobID \<and> t_state t = TaskPending \<and>
               List.member (t_depends_on t) doneID \<and>
               \<not> list_ex (\<lambda>d. List.member (t_depends_on t) (t_id d) \<and> t_state d \<noteq> TaskSucceeded)
                   (tasks db))
          (\<lambda>t. t\<lparr>t_state := TaskQueued, t_queued_at := Some now\<rparr>) (tasks db)\<rparr>"

text \<open>The counts of \<open>reconcileJob\<close> and the state they determine.\<close>

definition next_job_state :: "nat \<Rightarrow> nat \<Rightarrow> nat \<Rightarrow> nat \<Rightarrow> nat \<Rightarrow> job_state" where
  "next_job_state n succeeded failed cancelled active =
     (if failed > 0 then JobFailed
      else if cancelled > 0 then JobCancelled
      else if succeeded = n then JobSucceeded
      else if active > 0 \<or> succeeded > 0 then JobRunning
      else JobPending)"

definition job_tasks :: "job_db \<Rightarrow> uuid \<Rightarrow> task_row list" where
  "job_tasks db jobID = filter (\<lambda>t. t_job t = jobID) (tasks db)"

definition derived_state :: "task_row list \<Rightarrow> job_state" where
  "derived_state ts = next_job_state (length ts)
     (sql_count (\<lambda>t. t_state t = TaskSucceeded) ts)
     (sql_count (\<lambda>t. t_state t = TaskFailed) ts)
     (sql_count (\<lambda>t. t_state t = TaskCancelled) ts)
     (sql_count (\<lambda>t. t_state t = TaskLeased \<or> t_state t = TaskRunning) ts)"

definition job_terminal :: "job_state \<Rightarrow> bool" where
  "job_terminal s \<longleftrightarrow> s = JobSucceeded \<or> s = JobFailed \<or> s = JobCancelled"

definition coalesce :: "'a option \<Rightarrow> 'a option \<Rightarrow> 'a option" where
  "coalesce a b = (case a of None \<Rightarrow> b | Some x \<Rightarrow> Some x)"

definition reconcileJob :: "time \<Rightarrow> job_db \<Rightarrow> uuid \<Rightarrow> uuid \<Rightarrow> job_db" where
  "reconcileJob now db tenantID jobID =
     (let nxt = derived_state (job_tasks db jobID); terminal = job_terminal nxt in
      db\<lparr>jobs := sql_update (\<lambda>j. j_id j = jobID \<and> j_tenant j = tenantID)
           (\<lambda>j. j\<lparr>j_state := nxt,
                  j_started := coalesce (j_started j) (if nxt \<noteq> JobPending then Some now else None),
                  j_finished := (if terminal then coalesce (j_finished j) (Some now)
                                 else j_finished j)\<rparr>) (jobs db)\<rparr>)"

definition transitionTx ::
  "time \<Rightarrow> job_db \<Rightarrow> uuid \<Rightarrow> uuid \<Rightarrow> task_state \<Rightarrow> job_error + (job_db \<times> uuid)" where
  "transitionTx now db tenantID taskID to =
     (case sql_find (\<lambda>t. t_id t = taskID \<and> t_tenant t = tenantID) (tasks db) of
        None \<Rightarrow> Inl ErrNotFound
      | Some t \<Rightarrow>
          (case checkTask (t_state t) to of
             Some e \<Rightarrow> Inl e
           | None \<Rightarrow>
               let finishedAt = (if task_IsTerminal to then Some now else None);
                   queuedAt = (if to = TaskQueued then Some now else None);
                   db1 = db\<lparr>tasks := sql_update (\<lambda>r. t_id r = taskID)
                              (\<lambda>r. r\<lparr>t_state := to,
                                     t_finished := coalesce finishedAt (t_finished r),
                                     t_queued_at := coalesce queuedAt (t_queued_at r)\<rparr>) (tasks db)\<rparr>;
                   db2 = (if to = TaskSucceeded then releaseDependents now db1 (t_job t) taskID
                          else db1)
               in Inr (db2, t_job t)))"

definition Transition :: "time \<Rightarrow> job_db \<Rightarrow> uuid \<Rightarrow> uuid \<Rightarrow> task_state \<Rightarrow> job_error + job_db" where
  "Transition now db tenantID taskID to =
     (case transitionTx now db tenantID taskID to of
        Inl e \<Rightarrow> Inl e
      | Inr (db', jobID) \<Rightarrow> Inr (reconcileJob now db' tenantID jobID))"

definition Fail ::
  "time \<Rightarrow> job_db \<Rightarrow> uuid \<Rightarrow> uuid \<Rightarrow> FailureClass \<Rightarrow> string \<Rightarrow> job_error + (job_db \<times> bool)" where
  "Fail now db tenantID taskID class0 reason =
     (let cls = normalise_class class0 in
      case sql_find (\<lambda>t. t_id t = taskID \<and> t_tenant t = tenantID) (tasks db) of
        None \<Rightarrow> Inl ErrNotFound
      | Some t \<Rightarrow>
          let retrying = (Retryable cls \<and> t_attempt_count t < t_max_attempts t);
              to = (if retrying then TaskQueued else TaskFailed)
          in case checkTask (t_state t) to of
               Some e \<Rightarrow> Inl e
             | None \<Rightarrow>
                 let db1 = db\<lparr>tasks := sql_update (\<lambda>r. t_id r = taskID)
                       (\<lambda>r. if retrying
                            then r\<lparr>t_state := TaskQueued, t_queued_at := Some now,
                                   t_failure_class := Some cls, t_failure_reason := Some reason\<rparr>
                            else r\<lparr>t_state := TaskFailed, t_finished := Some now,
                                   t_failure_class := Some cls, t_failure_reason := Some reason\<rparr>)
                       (tasks db)\<rparr>
                 in Inr (reconcileJob now db1 tenantID (t_job t), retrying))"

definition job_Cancel :: "time \<Rightarrow> job_db \<Rightarrow> uuid \<Rightarrow> uuid \<Rightarrow> job_error + job_db" where
  "job_Cancel now db tenantID jobID =
     (case sql_find (\<lambda>j. j_id j = jobID \<and> j_tenant j = tenantID) (jobs db) of
        None \<Rightarrow> Inl ErrNotFound
      | Some j \<Rightarrow>
          if j_state j = JobSucceeded \<or> j_state j = JobFailed \<or> j_state j = JobCancelled then Inr db
          else Inr (db\<lparr>tasks := sql_update
                  (\<lambda>t. t_job t = jobID \<and>
                       t_state t \<in> {TaskPending, TaskQueued, TaskLeased, TaskRunning})
                  (\<lambda>t. t\<lparr>t_state := TaskCancelled, t_finished := Some now\<rparr>) (tasks db),
                jobs := sql_update (\<lambda>r. j_id r = jobID)
                  (\<lambda>r. r\<lparr>j_state := JobCancelled, j_finished := Some now\<rparr>) (jobs db)\<rparr>))"

section \<open>Queue statistics\<close>

record QueueCount =
  qc_Operation :: string
  qc_State :: task_state
  qc_Count :: nat

definition queue_open :: "task_row \<Rightarrow> bool" where
  "queue_open t \<longleftrightarrow> t_state t \<in> {TaskPending, TaskQueued, TaskLeased, TaskRunning}"

definition QueueStats :: "job_db \<Rightarrow> QueueCount list" where
  "QueueStats db =
     (let open_rows = filter queue_open (tasks db) in
      map (\<lambda>(op, st). \<lparr>qc_Operation = op, qc_State = st,
             qc_Count = sql_count (\<lambda>t. t_operation t = op \<and> t_state t = st) open_rows\<rparr>)
        (remdups (map (\<lambda>t. (t_operation t, t_state t)) open_rows)))"

text \<open>
  What \<open>UnschedulableCount\<close> reads of a row of \<open>workers\<close>: whether it is online, what it declares,
  and its hardware.
\<close>

record worker_facts_row =
  wf_online :: bool
  wf_operations :: "string list"
  wf_encoders :: "string list"
  wf_arch :: string
  wf_gpu :: bool
  wf_memory :: int

definition worker_can_run :: "worker_facts_row \<Rightarrow> task_row \<Rightarrow> bool" where
  "worker_can_run w t \<longleftrightarrow>
     wf_online w \<and> List.member (wf_operations w) (t_operation t) \<and>
     (Encoder (t_requirements t) = [] \<or> List.member (wf_encoders w) (Encoder (t_requirements t))) \<and>
     (Arch (t_requirements t) = [] \<or> wf_arch w = Arch (t_requirements t)) \<and>
     (\<not> GPU (t_requirements t) \<or> wf_gpu w) \<and>
     MemoryBytes (t_requirements t) \<le> wf_memory w"

definition UnschedulableCount :: "worker_facts_row list \<Rightarrow> job_db \<Rightarrow> nat" where
  "UnschedulableCount workers db =
     sql_count (\<lambda>t. t_state t = TaskQueued \<and> \<not> list_ex (\<lambda>w. worker_can_run w t) workers) (tasks db)"

end
