(* ===== verification/Job_Lease.thy ===== *)
theory Job_Lease
  imports Job_Store
begin

text \<open>
  The reports a worker makes about an attempt it holds, \<open>internal/job/lease.go\<close>: starting,
  renewing the lease, completing, and being authorised to register outputs. All of them go through
  \<open>withAttempt\<close>, which refuses a caller that does not own the attempt or whose attempt has ended.
\<close>

section \<open>Data\<close>

record Result =
  Success :: bool
  res_FailureClass :: FailureClass
  res_FailureReason :: string
  res_Metrics :: Metrics
  res_LogStorageKey :: string
  res_Output :: string

record Completion =
  comp_Operation :: string
  comp_TaskID :: uuid
  comp_JobID :: uuid
  comp_TenantID :: uuid
  comp_AssetVersionID :: uuid
  comp_Succeeded :: bool
  comp_Retrying :: bool
  comp_JobState :: "job_state option"

record AttemptContext =
  ctx_TenantID :: uuid
  ctx_TaskID :: uuid
  ctx_JobID :: uuid

record attemptRow =
  at_tenantID :: uuid
  at_taskID :: uuid
  at_jobID :: uuid
  at_assetVersionID :: uuid
  at_operation :: string
  at_state :: attempt_state
  at_taskState :: task_state

section \<open>Helpers\<close>

text \<open>\<open>intervalOf\<close>: the whole milliseconds of a duration, here as microseconds to add to a clock.\<close>

definition intervalOf :: "duration \<Rightarrow> int" where
  "intervalOf d = go_quot d 1000000 * 1000"

definition completionPct :: "bool \<Rightarrow> rat option" where
  "completionPct success = (if \<not> success then None else Some 100)"

definition nullJSON :: "string \<Rightarrow> string option" where
  "nullJSON raw = (if length raw = 0 then None else Some raw)"

section \<open>Holding an attempt\<close>

text \<open>The join of \<open>withAttempt\<close>: the attempt with its task and the task's job.\<close>

definition attempt_join :: "job_db \<Rightarrow> uuid \<Rightarrow> uuid \<Rightarrow> attemptRow option" where
  "attempt_join db attemptID workerID =
     (case sql_find (\<lambda>a. a_id a = attemptID \<and> a_worker a = workerID) (attempts db) of
        None \<Rightarrow> None
      | Some a \<Rightarrow>
          (case sql_find (\<lambda>t. t_id t = a_task a) (tasks db) of
             None \<Rightarrow> None
           | Some t \<Rightarrow>
               (case sql_find (\<lambda>j. j_id j = t_job t) (jobs db) of
                  None \<Rightarrow> None
                | Some j \<Rightarrow>
                    Some \<lparr>at_tenantID = a_tenant a, at_taskID = a_task a, at_jobID = t_job t,
                          at_assetVersionID = j_version j, at_operation = t_operation t,
                          at_state = a_state a, at_taskState = t_state t\<rparr>)))"

definition withAttempt ::
  "job_db \<Rightarrow> uuid \<Rightarrow> uuid \<Rightarrow> (attemptRow \<Rightarrow> job_error + (job_db \<times> 'r)) \<Rightarrow> job_error + (job_db \<times> 'r)" where
  "withAttempt db attemptID workerID fn =
     (case attempt_join db attemptID workerID of
        None \<Rightarrow> Inl ErrStaleAttempt
      | Some ar \<Rightarrow> if attempt_IsTerminal (at_state ar) then Inl ErrStaleAttempt else fn ar)"

definition closeAttemptCancelled :: "time \<Rightarrow> job_db \<Rightarrow> uuid \<Rightarrow> job_db" where
  "closeAttemptCancelled now db attemptID =
     db\<lparr>attempts := sql_update (\<lambda>a. a_id a = attemptID)
          (\<lambda>a. a\<lparr>a_state := AttemptCancelled, a_finished := Some now,
                 a_failure_reason :=
                   Some ''the task was cancelled while this attempt was running''\<rparr>) (attempts db)\<rparr>"

section \<open>Reports\<close>

definition job_Start ::
  "time \<Rightarrow> job_db \<Rightarrow> uuid \<Rightarrow> uuid \<Rightarrow> duration \<Rightarrow> job_error + (job_db \<times> unit)" where
  "job_Start now db attemptID workerID leaseTTL =
     withAttempt db attemptID workerID (\<lambda>ar.
       if at_taskState ar = TaskCancelled then Inr (closeAttemptCancelled now db attemptID, ())
       else case checkAttempt (at_state ar) AttemptRunning of
              Some e \<Rightarrow> Inl e
            | None \<Rightarrow>
                let db1 = db\<lparr>attempts := sql_update (\<lambda>a. a_id a = attemptID)
                      (\<lambda>a. a\<lparr>a_state := AttemptRunning, a_started := Some now,
                             a_lease_expires := now + intervalOf leaseTTL\<rparr>) (attempts db)\<rparr>
                in case transitionTx now db1 (at_tenantID ar) (at_taskID ar) TaskRunning of
                     Inl e \<Rightarrow> Inl e
                   | Inr (db2, _) \<Rightarrow> Inr (db2, ()))"

text \<open>\<open>Progress\<close> returns whether the task has been cancelled.\<close>

definition job_Progress ::
  "time \<Rightarrow> job_db \<Rightarrow> uuid \<Rightarrow> uuid \<Rightarrow> rat \<Rightarrow> duration \<Rightarrow> job_error + (job_db \<times> bool)" where
  "job_Progress now db attemptID workerID pct leaseTTL =
     withAttempt db attemptID workerID (\<lambda>ar.
       if at_taskState ar = TaskCancelled then Inr (db, True)
       else Inr (db\<lparr>attempts := sql_update (\<lambda>a. a_id a = attemptID)
                     (\<lambda>a. a\<lparr>a_progress := Some pct,
                            a_lease_expires := now + intervalOf leaseTTL\<rparr>) (attempts db)\<rparr>, False))"

definition finish_row :: "time \<Rightarrow> attempt_state \<Rightarrow> Result \<Rightarrow> attempt_row \<Rightarrow> attempt_row" where
  "finish_row now to res a =
     a\<lparr>a_state := to, a_finished := Some now, a_progress := completionPct (Success res),
       a_metrics := Some (res_Metrics res),
       a_failure_class := nullable (res_FailureClass res),
       a_failure_reason := nullable (res_FailureReason res),
       a_log_key := nullable (res_LogStorageKey res),
       a_output := nullJSON (res_Output res)\<rparr>"

definition finish_attempt ::
  "time \<Rightarrow> job_db \<Rightarrow> uuid \<Rightarrow> attempt_state \<Rightarrow> Result \<Rightarrow> job_db" where
  "finish_attempt now db attemptID to res =
     db\<lparr>attempts := sql_update (\<lambda>a. a_id a = attemptID) (finish_row now to res) (attempts db)\<rparr>"

text \<open>The last statement of the failure path: the retry decision written to the task.\<close>

definition settle_row ::
  "time \<Rightarrow> task_state \<Rightarrow> FailureClass \<Rightarrow> string \<Rightarrow> task_row \<Rightarrow> task_row" where
  "settle_row now to cls reason t =
     t\<lparr>t_state := to,
       t_queued_at := (if to = TaskQueued then Some now else t_queued_at t),
       t_finished := (if to = TaskFailed then Some now else t_finished t),
       t_failure_class := Some cls, t_failure_reason := Some reason\<rparr>"

definition settle_task ::
  "time \<Rightarrow> job_db \<Rightarrow> uuid \<Rightarrow> task_state \<Rightarrow> FailureClass \<Rightarrow> string \<Rightarrow> job_db" where
  "settle_task now db taskID to cls reason =
     db\<lparr>tasks := sql_update (\<lambda>t. t_id t = taskID) (settle_row now to cls reason) (tasks db)\<rparr>"

text \<open>The transaction of \<open>Complete\<close>: whether the completion counted as a success and is retried.\<close>

definition complete_tx ::
  "time \<Rightarrow> job_db \<Rightarrow> uuid \<Rightarrow> Result \<Rightarrow> attemptRow \<Rightarrow>
   job_error + (job_db \<times> attemptRow \<times> bool \<times> bool)" where
  "complete_tx now db attemptID res ar =
     (if at_taskState ar = TaskCancelled
      then Inr (closeAttemptCancelled now db attemptID, ar, False, False)
      else let attemptTo = (if \<not> Success res then AttemptFailed else AttemptSucceeded) in
      case checkAttempt (at_state ar) attemptTo of
        Some e \<Rightarrow> Inl e
      | None \<Rightarrow>
          let db1 = finish_attempt now db attemptID attemptTo res in
          if Success res then
            (case transitionTx now db1 (at_tenantID ar) (at_taskID ar) TaskSucceeded of
               Inl e \<Rightarrow> Inl e
             | Inr (db2, _) \<Rightarrow>
                 Inr (reconcileJob now db2 (at_tenantID ar) (at_jobID ar), ar, True, False))
          else let cls = normalise_class (res_FailureClass res) in
            (case sql_find (\<lambda>t. t_id t = at_taskID ar) (tasks db1) of
               None \<Rightarrow> Inl ErrNotFound
             | Some t \<Rightarrow>
                 let retrying = (Retryable cls \<and> t_attempt_count t < t_max_attempts t);
                     to = (if retrying then TaskQueued else TaskFailed)
                 in case checkTask (at_taskState ar) to of
                      Some e \<Rightarrow> Inl e
                    | None \<Rightarrow>
                        let db2 = settle_task now db1 (at_taskID ar) to cls (res_FailureReason res)
                        in Inr (reconcileJob now db2 (at_tenantID ar) (at_jobID ar), ar, False,
                                retrying)))"

definition job_Complete ::
  "time \<Rightarrow> job_db \<Rightarrow> uuid \<Rightarrow> uuid \<Rightarrow> Result \<Rightarrow> job_error + (job_db \<times> Completion)" where
  "job_Complete now db attemptID workerID res =
     (case withAttempt db attemptID workerID (complete_tx now db attemptID res) of
        Inl e \<Rightarrow> Inl e
      | Inr (db', ar, succeeded, retrying) \<Rightarrow>
          Inr (db', \<lparr>comp_Operation = at_operation ar, comp_TaskID = at_taskID ar,
                     comp_JobID = at_jobID ar, comp_TenantID = at_tenantID ar,
                     comp_AssetVersionID = at_assetVersionID ar,
                     comp_Succeeded = succeeded, comp_Retrying = retrying,
                     comp_JobState = (case job_Get db' (at_tenantID ar) (at_jobID ar) of
                                        Inl _ \<Rightarrow> None | Inr j \<Rightarrow> Some (job_State j))\<rparr>))"

definition AuthorizeAttempt :: "job_db \<Rightarrow> uuid \<Rightarrow> uuid \<Rightarrow> job_error + AttemptContext" where
  "AuthorizeAttempt db attemptID workerID =
     (case withAttempt db attemptID workerID (\<lambda>ar.
        if at_taskState ar = TaskCancelled then Inl ErrStaleAttempt
        else Inr (db, \<lparr>ctx_TenantID = at_tenantID ar, ctx_TaskID = at_taskID ar,
                       ctx_JobID = at_jobID ar\<rparr>)) of
        Inl e \<Rightarrow> Inl e
      | Inr (_, c) \<Rightarrow> Inr c)"

end
