(* ===== verification/Job_Schedule.thy ===== *)
theory Job_Schedule
  imports Job_Lease
begin

text \<open>
  The scheduler of \<open>internal/job/schedule.go\<close>: which capacity pools of a worker have room, which
  queued tasks the worker can run, how they are ranked, and the lease that hands one task out.

  The score is computed by the database on \<open>numeric\<close> values and is kept here as an exact rational.
  \<open>quota\<close> is the column \<open>tenants.quotas->>'concurrent_tasks'\<close>, owned by package \<open>tenant\<close>, and
  \<open>locked\<close> the tasks other transactions hold, which \<open>skip locked\<close> passes over.
\<close>

record WorkerFacts =
  w_ID :: uuid
  w_Name :: string
  w_Arch :: string
  w_Operations :: "string list"
  w_Encoders :: "string list"
  w_HasGPU :: bool
  w_MemoryBytes :: int
  w_DiskFree :: int
  w_SlotCapacity :: "(string \<times> int) list"

record Assignment =
  as_TaskID :: uuid
  as_AttemptID :: uuid
  as_JobID :: uuid
  as_TenantID :: uuid
  as_Operation :: string
  as_Spec :: string
  as_Attempt :: int
  as_LeaseTTL :: int

record decision =
  d_priority :: int
  d_ageSeconds :: rat
  d_tenantActive :: nat
  d_needsGPU :: bool
  d_encoder :: "string option"
  d_slotClass :: string
  d_slotsInUse :: int
  d_slotCapacity :: int
  d_local :: bool
  d_score :: rat

definition agePointsPerSecond :: rat where "agePointsPerSecond = 100 / 600"
definition localityBonus :: rat where "localityBonus = 125 / 100"
definition gpuIdlePenalty :: rat where "gpuIdlePenalty = 4 / 10"

section \<open>Capacity\<close>

definition slot_class :: "task_row \<Rightarrow> string" where
  "slot_class t =
     (if SlotClass (t_requirements t) = [] then t_operation t else SlotClass (t_requirements t))"

definition task_of :: "job_db \<Rightarrow> attempt_row \<Rightarrow> task_row option" where
  "task_of db a = sql_find (\<lambda>t. t_id t = a_task a) (tasks db)"

definition a_live :: "attempt_row \<Rightarrow> bool" where
  "a_live a \<longleftrightarrow> a_state a = AttemptLeased \<or> a_state a = AttemptRunning"

text \<open>The grouped count, as a function of the class: a class without a row reads as zero.\<close>

definition slots_in_use :: "job_db \<Rightarrow> uuid \<Rightarrow> string \<Rightarrow> int" where
  "slots_in_use db workerID cls =
     int (sql_count (\<lambda>a. a_worker a = workerID \<and> a_live a \<and>
            (case task_of db a of None \<Rightarrow> False | Some t \<Rightarrow> slot_class t = cls)) (attempts db))"

definition capacity_of :: "WorkerFacts \<Rightarrow> string \<Rightarrow> int" where
  "capacity_of w cls = (case map_of (w_SlotCapacity w) cls of None \<Rightarrow> 0 | Some n \<Rightarrow> n)"

definition freeSlotClasses :: "job_db \<Rightarrow> WorkerFacts \<Rightarrow> string list" where
  "freeSlotClasses db w =
     filter (\<lambda>cls. slots_in_use db (w_ID w) cls < capacity_of w cls) (map fst (w_SlotCapacity w))"

section \<open>Candidates and their rank\<close>

definition tenant_active :: "job_db \<Rightarrow> uuid \<Rightarrow> nat" where
  "tenant_active db tenantID =
     sql_count (\<lambda>a. a_live a \<and>
        (case task_of db a of None \<Rightarrow> False | Some t \<Rightarrow> t_tenant t = tenantID)) (attempts db)"

definition job_local :: "job_db \<Rightarrow> uuid \<Rightarrow> uuid \<Rightarrow> bool" where
  "job_local db workerID jobID \<longleftrightarrow>
     list_ex (\<lambda>a. a_worker a = workerID \<and> a_state a = AttemptSucceeded \<and>
        (case task_of db a of None \<Rightarrow> False | Some t \<Rightarrow> t_job t = jobID)) (attempts db)"

definition age_seconds :: "time \<Rightarrow> task_row \<Rightarrow> rat" where
  "age_seconds now t =
     of_int (now - (case t_queued_at t of None \<Rightarrow> t_created t | Some q \<Rightarrow> q)) / 1000000"

text \<open>The hard constraints: what this worker can run at all, in a pool that has room.\<close>

definition feasible :: "WorkerFacts \<Rightarrow> string list \<Rightarrow> task_row \<Rightarrow> bool" where
  "feasible w free t \<longleftrightarrow>
     t_state t = TaskQueued \<and>
     List.member (w_Operations w) (t_operation t) \<and>
     (Arch (t_requirements t) = [] \<or> Arch (t_requirements t) = w_Arch w) \<and>
     (Encoder (t_requirements t) = [] \<or>
      List.member (w_Encoders w) (Encoder (t_requirements t))) \<and>
     (\<not> GPU (t_requirements t) \<or> w_HasGPU w) \<and>
     MemoryBytes (t_requirements t) \<le> w_MemoryBytes w \<and>
     DiskBytes (t_requirements t) \<le> w_DiskFree w \<and>
     List.member free (slot_class t)"

definition quota_of :: "(uuid \<Rightarrow> int option) \<Rightarrow> uuid \<Rightarrow> int" where
  "quota_of quota tenantID = (case quota tenantID of None \<Rightarrow> 2147483647 | Some q \<Rightarrow> q)"

definition lease_score :: "time \<Rightarrow> job_db \<Rightarrow> WorkerFacts \<Rightarrow> task_row \<Rightarrow> rat" where
  "lease_score now db w t =
     (of_int (t_priority t) + age_seconds now t * agePointsPerSecond)
       * (1 / (1 + of_nat (tenant_active db (t_tenant t))))
       * (if job_local db (w_ID w) (t_job t) then localityBonus else 1)
       * (if w_HasGPU w \<and> \<not> GPU (t_requirements t) then gpuIdlePenalty else 1)"

definition lease_candidates ::
  "(uuid \<Rightarrow> int option) \<Rightarrow> uuid list \<Rightarrow> job_db \<Rightarrow> WorkerFacts \<Rightarrow> string list \<Rightarrow> task_row list" where
  "lease_candidates quota locked db w free =
     filter (\<lambda>t. feasible w free t \<and>
                 int (tenant_active db (t_tenant t)) < quota_of quota (t_tenant t) \<and>
                 \<not> List.member locked (t_id t)) (tasks db)"

text \<open>\<open>order by score desc, age_seconds desc limit 1\<close>.\<close>

definition ranks_before :: "time \<Rightarrow> job_db \<Rightarrow> WorkerFacts \<Rightarrow> task_row \<Rightarrow> task_row \<Rightarrow> bool" where
  "ranks_before now db w s t \<longleftrightarrow>
     lease_score now db w t < lease_score now db w s \<or>
     lease_score now db w t = lease_score now db w s \<and> age_seconds now t < age_seconds now s"

fun pick_best :: "('a \<Rightarrow> 'a \<Rightarrow> bool) \<Rightarrow> 'a list \<Rightarrow> 'a option" where
  "pick_best before [] = None"
| "pick_best before (t # ts) =
     (case pick_best before ts of
        None \<Rightarrow> Some t
      | Some s \<Rightarrow> if before s t then Some s else Some t)"

definition leaseQuery ::
  "time \<Rightarrow> (uuid \<Rightarrow> int option) \<Rightarrow> uuid list \<Rightarrow> job_db \<Rightarrow> WorkerFacts \<Rightarrow> string list \<Rightarrow> task_row option" where
  "leaseQuery now quota locked db w free =
     pick_best (ranks_before now db w) (lease_candidates quota locked db w free)"

section \<open>The explanation\<close>

definition explain :: "WorkerFacts \<Rightarrow> Assignment \<Rightarrow> decision \<Rightarrow> string" where
  "explain w a d =
     ''worker '' @ w_Name w @ '' <- '' @ as_Operation a @ '' (score '' @ fmt_fixed 1 (d_score d) @
       '')'' @ newline @
     ''+ operation '' @ as_Operation a @ '' supported'' @ newline @
     (case d_encoder d of None \<Rightarrow> [] | Some e \<Rightarrow> ''+ encoder '' @ e @ '' available'' @ newline) @
     (if w_Arch w \<noteq> [] then ''+ arch '' @ w_Arch w @ newline else []) @
     (if d_needsGPU d then ''+ GPU required and present'' @ newline
      else if w_HasGPU w
      then ''- GPU worker on non-GPU work (penalty '' @ fmt_fixed 2 gpuIdlePenalty @ '')'' @ newline
      else []) @
     ''+ '' @ Itoa (d_slotCapacity d - d_slotsInUse d) @ '' of '' @ Itoa (d_slotCapacity d) @ '' '' @
       d_slotClass d @ '' slots free'' @ newline @
     ''+ priority '' @ Itoa (d_priority d) @ '', queued '' @ fmt_fixed 0 (d_ageSeconds d) @ ''s'' @
       newline @
     ''+ tenant has '' @ Itoa (int (d_tenantActive d)) @ '' task(s) running (fair share)'' @ newline @
     (if d_local d then ''+ prior task of this job ran here (source likely local)'' @ newline
      else [])"

section \<open>The lease\<close>

definition assignment_of :: "task_row \<Rightarrow> uuid \<Rightarrow> duration \<Rightarrow> Assignment" where
  "assignment_of t attemptID leaseTTL =
     \<lparr>as_TaskID = t_id t, as_AttemptID = attemptID, as_JobID = t_job t, as_TenantID = t_tenant t,
      as_Operation = t_operation t, as_Spec = t_spec t, as_Attempt = t_attempt_count t + 1,
      as_LeaseTTL = go_quot leaseTTL 1000000000\<rparr>"

definition decision_of :: "time \<Rightarrow> job_db \<Rightarrow> WorkerFacts \<Rightarrow> task_row \<Rightarrow> decision" where
  "decision_of now db w t =
     \<lparr>d_priority = t_priority t, d_ageSeconds = age_seconds now t,
      d_tenantActive = tenant_active db (t_tenant t), d_needsGPU = GPU (t_requirements t),
      d_encoder = nullable (Encoder (t_requirements t)), d_slotClass = slot_class t,
      d_slotsInUse = slots_in_use db (w_ID w) (slot_class t),
      d_slotCapacity = capacity_of w (slot_class t),
      d_local = job_local db (w_ID w) (t_job t), d_score = lease_score now db w t\<rparr>"

definition new_attempt ::
  "time \<Rightarrow> Assignment \<Rightarrow> uuid \<Rightarrow> duration \<Rightarrow> string \<Rightarrow> attempt_row" where
  "new_attempt now a workerID leaseTTL reason =
     \<lparr>a_id = as_AttemptID a, a_tenant = as_TenantID a, a_task = as_TaskID a,
      a_number = as_Attempt a, a_worker = workerID, a_state = AttemptLeased,
      a_lease_expires = now + intervalOf leaseTTL, a_reason = reason, a_progress = None,
      a_metrics = None, a_failure_class = None, a_failure_reason = None, a_log_key = None,
      a_leased = now, a_started = None, a_finished = None, a_output = None\<rparr>"

definition insert_attempt :: "attempt_row \<Rightarrow> job_db \<Rightarrow> job_error + job_db" where
  "insert_attempt r db =
     (if list_ex (\<lambda>a. a_id a = a_id r) (attempts db) then Inl (ErrConstraint ''task_attempts_pkey'')
      else if list_ex (\<lambda>a. a_task a = a_task r \<and> a_number a = a_number r) (attempts db)
      then Inl (ErrConstraint ''task_attempts_task_id_attempt_number_key'')
      else Inr (db\<lparr>attempts := attempts db @ [r]\<rparr>))"

definition mark_leased :: "job_db \<Rightarrow> uuid \<Rightarrow> int \<Rightarrow> job_db" where
  "mark_leased db taskID n =
     db\<lparr>tasks := sql_update (\<lambda>t. t_id t = taskID)
          (\<lambda>t. t\<lparr>t_state := TaskLeased, t_attempt_count := n\<rparr>) (tasks db)\<rparr>"

definition job_Lease ::
  "time \<Rightarrow> uuid \<Rightarrow> (uuid \<Rightarrow> int option) \<Rightarrow> uuid list \<Rightarrow> job_db \<Rightarrow> WorkerFacts \<Rightarrow> duration \<Rightarrow>
   job_error + (job_db \<times> Assignment)" where
  "job_Lease now attemptID quota locked db w leaseTTL =
     (if length (w_Operations w) = 0 then Inl ErrNoWork
      else let free = freeSlotClasses db w in
      if length free = 0 then Inl ErrNoWork
      else case leaseQuery now quota locked db w free of
        None \<Rightarrow> Inl ErrNoWork
      | Some t \<Rightarrow>
          let a = assignment_of t attemptID leaseTTL;
              reason = explain w a (decision_of now db w t);
              db1 = mark_leased db (as_TaskID a) (as_Attempt a)
          in case insert_attempt (new_attempt now a (w_ID w) leaseTTL reason) db1 of
               Inl e \<Rightarrow> Inl e
             | Inr db2 \<Rightarrow> Inr (reconcileJob now db2 (as_TenantID a) (as_JobID a), a))"

section \<open>The advisory lock\<close>

definition uuid_bytes :: "uuid \<Rightarrow> 8 word list" where
  "uuid_bytes u = map (\<lambda>i. of_nat (u div 256 ^ (15 - i))) [0..<16]"

definition fnv64a :: "8 word list \<Rightarrow> 64 word" where
  "fnv64a bs = foldl (\<lambda>h b. xor h (ucast b) * 1099511628211) 14695981039346656037 bs"

definition lockKey :: "uuid \<Rightarrow> int" where
  "lockKey u = sint (drop_bit 1 (fnv64a (uuid_bytes u)))"

end
