(* ===== verification/Job_Expire.thy ===== *)
theory Job_Expire
  imports Job_Lease
begin

text \<open>
  The lease sweeper of \<open>internal/job/expire.go\<close>: attempts whose lease has lapsed are marked
  expired and their tasks are queued again or, once the budget is spent, failed.
\<close>

record ExpiredLease =
  el_TaskID :: uuid
  el_AttemptID :: uuid
  el_WorkerID :: uuid
  el_Attempt :: int
  el_Requeued :: bool

text \<open>A row of the sweep's query: an attempt joined with its task, as read before any update.\<close>

record expired_row =
  xr_attemptID :: uuid
  xr_taskID :: uuid
  xr_workerID :: uuid
  xr_attempt :: int
  xr_tenantID :: uuid
  xr_taskState :: task_state
  xr_jobID :: uuid
  xr_attemptCount :: int
  xr_maxAttempts :: int

definition lease_lapsed :: "time \<Rightarrow> attempt_row \<Rightarrow> bool" where
  "lease_lapsed now a \<longleftrightarrow>
     (a_state a = AttemptLeased \<or> a_state a = AttemptRunning) \<and> a_lease_expires a < now"

text \<open>
  The query: \<open>locked\<close> names the attempts other transactions hold, which \<open>skip locked\<close> passes over.
\<close>

definition expired_rows :: "time \<Rightarrow> uuid list \<Rightarrow> job_db \<Rightarrow> nat \<Rightarrow> expired_row list" where
  "expired_rows now locked db limit =
     concat (map (\<lambda>a. case sql_find (\<lambda>t. t_id t = a_task a) (tasks db) of
                        None \<Rightarrow> []
                      | Some t \<Rightarrow>
                          [\<lparr>xr_attemptID = a_id a, xr_taskID = a_task a, xr_workerID = a_worker a,
                            xr_attempt = a_number a, xr_tenantID = a_tenant a,
                            xr_taskState = t_state t, xr_jobID = t_job t,
                            xr_attemptCount = t_attempt_count t,
                            xr_maxAttempts = t_max_attempts t\<rparr>])
       (sql_top a_lease_expires limit
         (filter (\<lambda>a. lease_lapsed now a \<and> \<not> List.member locked (a_id a)) (attempts db))))"

definition expire_attempt :: "time \<Rightarrow> job_db \<Rightarrow> uuid \<Rightarrow> job_db" where
  "expire_attempt now db attemptID =
     db\<lparr>attempts := sql_update (\<lambda>a. a_id a = attemptID)
          (\<lambda>a. a\<lparr>a_state := AttemptExpired, a_finished := Some now,
                 a_failure_class := Some ClassTransient,
                 a_failure_reason := Some ''lease expired: the worker stopped reporting''\<rparr>)
          (attempts db)\<rparr>"

definition requeue_task :: "time \<Rightarrow> job_db \<Rightarrow> uuid \<Rightarrow> task_state \<Rightarrow> job_db" where
  "requeue_task now db taskID to =
     db\<lparr>tasks := sql_update (\<lambda>t. t_id t = taskID)
          (\<lambda>t. t\<lparr>t_state := to,
                 t_queued_at := (if to = TaskQueued then Some now else t_queued_at t),
                 t_finished := (if to = TaskFailed then Some now else t_finished t),
                 t_failure_class := Some ClassTransient,
                 t_failure_reason := (if to = TaskFailed
                    then Some ''lease expired and the retry budget is exhausted''
                    else t_failure_reason t)\<rparr>) (tasks db)\<rparr>"

definition expired_of :: "expired_row \<Rightarrow> bool \<Rightarrow> ExpiredLease" where
  "expired_of r requeued = \<lparr>el_TaskID = xr_taskID r, el_AttemptID = xr_attemptID r,
     el_WorkerID = xr_workerID r, el_Attempt = xr_attempt r, el_Requeued = requeued\<rparr>"

text \<open>One iteration of the loop over the rows found.\<close>

definition expire_one :: "time \<Rightarrow> job_db \<Rightarrow> expired_row \<Rightarrow> job_error + (job_db \<times> ExpiredLease)" where
  "expire_one now db r =
     (let db1 = expire_attempt now db (xr_attemptID r) in
      if xr_taskState r = TaskCancelled \<or> task_IsTerminal (xr_taskState r)
      then Inr (db1, expired_of r False)
      else let requeue = (xr_attemptCount r < xr_maxAttempts r);
               to = (if requeue then TaskQueued else TaskFailed)
           in case checkTask (xr_taskState r) to of
                Some e \<Rightarrow> Inl e
              | None \<Rightarrow>
                  Inr (reconcileJob now (requeue_task now db1 (xr_taskID r) to)
                         (xr_tenantID r) (xr_jobID r), expired_of r requeue))"

fun expire_loop :: "time \<Rightarrow> job_db \<Rightarrow> expired_row list \<Rightarrow> job_error + (job_db \<times> ExpiredLease list)" where
  "expire_loop now db [] = Inr (db, [])"
| "expire_loop now db (r # rs) =
     (case expire_one now db r of
        Inl e \<Rightarrow> Inl e
      | Inr (db1, x) \<Rightarrow>
          (case expire_loop now db1 rs of
             Inl e \<Rightarrow> Inl e
           | Inr (db2, xs) \<Rightarrow> Inr (db2, x # xs)))"

definition ExpireLeases ::
  "time \<Rightarrow> uuid list \<Rightarrow> job_db \<Rightarrow> nat \<Rightarrow> job_error + (job_db \<times> ExpiredLease list)" where
  "ExpireLeases now locked db limit = expire_loop now db (expired_rows now locked db limit)"

text \<open>One tick of \<open>SweepLeases\<close>: a failed sweep changes nothing and the next tick retries.\<close>

definition SweepLeases_tick :: "time \<Rightarrow> uuid list \<Rightarrow> job_db \<Rightarrow> job_db" where
  "SweepLeases_tick now locked db =
     (case ExpireLeases now locked db 100 of Inl _ \<Rightarrow> db | Inr (db', _) \<Rightarrow> db')"

end
