(* ===== verification/Job_Invariant.thy ===== *)
theory Job_Invariant
  imports Job_Schedule Job_Expire
begin

text \<open>
  The invariant of the job tables and the lemmas that every operation the control plane calls keeps
  it. The invariant has five parts: identifiers are unique; references resolve inside one tenant;
  each task's state agrees with its attempts and its retry budget; dependencies gate exactly the
  pending tasks; and each job's state is the one its tasks determine.
\<close>

section \<open>The invariant\<close>

definition task_attempts :: "job_db \<Rightarrow> uuid \<Rightarrow> attempt_row list" where
  "task_attempts db tid = filter (\<lambda>a. a_task a = tid) (attempts db)"

text \<open>The states of a task's live attempts that each task state allows.\<close>

fun in_step :: "task_state \<Rightarrow> attempt_state list \<Rightarrow> bool" where
  "in_step TaskLeased ls = (ls = [AttemptLeased])"
| "in_step TaskRunning ls = (ls = [AttemptRunning])"
| "in_step TaskCancelled ls = (length ls \<le> 1)"
| "in_step TaskPending ls = (ls = [])"
| "in_step TaskQueued ls = (ls = [])"
| "in_step TaskSucceeded ls = (ls = [])"
| "in_step TaskFailed ls = (ls = [])"

definition live_states :: "attempt_row list \<Rightarrow> attempt_state list" where
  "live_states as = map a_state (filter a_live as)"

definition budget_ok :: "task_row \<Rightarrow> bool" where
  "budget_ok t \<longleftrightarrow>
     0 \<le> t_attempt_count t \<and> t_attempt_count t \<le> t_max_attempts t \<and>
     (t_state t \<in> {TaskPending, TaskQueued} \<longrightarrow> t_attempt_count t < t_max_attempts t)"

definition task_ok :: "task_row \<Rightarrow> attempt_row list \<Rightarrow> bool" where
  "task_ok t as \<longleftrightarrow>
     in_step (t_state t) (live_states as) \<and>
     map a_number as = map int [1..<Suc (nat (t_attempt_count t))] \<and> budget_ok t"

definition tasks_ok :: "job_db \<Rightarrow> bool" where
  "tasks_ok db \<longleftrightarrow> (\<forall>t \<in> set (tasks db). task_ok t (task_attempts db (t_id t)))"

definition ids_ok :: "job_db \<Rightarrow> bool" where
  "ids_ok db \<longleftrightarrow> distinct (map j_id (jobs db)) \<and> distinct (map t_id (tasks db)) \<and>
     distinct (map a_id (attempts db))"

definition refs_ok :: "job_db \<Rightarrow> bool" where
  "refs_ok db \<longleftrightarrow>
     (\<forall>a \<in> set (attempts db). \<exists>t \<in> set (tasks db). t_id t = a_task a \<and> t_tenant t = a_tenant a) \<and>
     (\<forall>t \<in> set (tasks db). \<exists>j \<in> set (jobs db). j_id j = t_job t \<and> j_tenant j = t_tenant t)"

definition deps_ok :: "task_row list \<Rightarrow> bool" where
  "deps_ok ts \<longleftrightarrow>
     (\<forall>t \<in> set ts. \<forall>d \<in> set (t_depends_on t). \<exists>u \<in> set ts. t_id u = d \<and> t_job u = t_job t) \<and>
     (\<forall>t \<in> set ts. t_state t \<notin> {TaskPending, TaskCancelled} \<longrightarrow>
        (\<forall>u \<in> set ts. t_id u \<in> set (t_depends_on t) \<longrightarrow> t_state u = TaskSucceeded)) \<and>
     (\<forall>t \<in> set ts. t_state t = TaskPending \<longrightarrow>
        (\<exists>u \<in> set ts. t_id u \<in> set (t_depends_on t) \<and> t_state u \<noteq> TaskSucceeded))"

definition jobs_ok :: "job_db \<Rightarrow> bool" where
  "jobs_ok db \<longleftrightarrow> (\<forall>j \<in> set (jobs db). j_state j = derived_state (job_tasks db (j_id j)))"

definition job_inv :: "job_db \<Rightarrow> bool" where
  "job_inv db \<longleftrightarrow>
     ids_ok db \<and> refs_ok db \<and> tasks_ok db \<and> deps_ok (tasks db) \<and> jobs_ok db"

lemmas job_inv_parts = job_inv_def ids_ok_def refs_ok_def

section \<open>Updates that keep the keys\<close>

definition keeps_task :: "(task_row \<Rightarrow> task_row) \<Rightarrow> bool" where
  "keeps_task f \<longleftrightarrow> (\<forall>t. t_id (f t) = t_id t \<and> t_job (f t) = t_job t \<and> t_tenant (f t) = t_tenant t \<and>
     t_depends_on (f t) = t_depends_on t \<and> t_max_attempts (f t) = t_max_attempts t)"

definition keeps_attempt :: "(attempt_row \<Rightarrow> attempt_row) \<Rightarrow> bool" where
  "keeps_attempt g \<longleftrightarrow> (\<forall>a. a_id (g a) = a_id a \<and> a_task (g a) = a_task a \<and>
     a_tenant (g a) = a_tenant a \<and> a_number (g a) = a_number a \<and> a_worker (g a) = a_worker a)"

definition job_keys :: "job_db \<Rightarrow> (uuid \<times> uuid) list" where
  "job_keys db = map (\<lambda>j. (j_id j, j_tenant j)) (jobs db)"

lemma ids_refs_update:
  assumes "ids_ok db" "refs_ok db"
    and T: "tasks db' = sql_update P f (tasks db)" "keeps_task f"
    and A: "attempts db' = sql_update Q g (attempts db)" "keeps_attempt g"
    and J: "job_keys db' = job_keys db"
  shows "ids_ok db' \<and> refs_ok db'"
proof -
  have jm: "map j_id (jobs db') = map j_id (jobs db)"
    using J unfolding job_keys_def by (metis (no_types, lifting) map_eq_conv map_map comp_apply fst_conv)
  have js: "(\<lambda>j. (j_id j, j_tenant j)) ` set (jobs db') = (\<lambda>j. (j_id j, j_tenant j)) ` set (jobs db)"
    using J unfolding job_keys_def by (metis list.set_map)
  have tm: "map t_id (tasks db') = map t_id (tasks db)"
    using T by (auto simp: keeps_task_def intro!: map_sql_update_same)
  have am: "map a_id (attempts db') = map a_id (attempts db)"
    using A by (auto simp: keeps_attempt_def intro!: map_sql_update_same)
  have "ids_ok db'" using assms(1) jm tm am by (simp add: ids_ok_def)
  moreover have "\<exists>t \<in> set (tasks db'). t_id t = a_task a \<and> t_tenant t = a_tenant a"
    if mem: "a \<in> set (attempts db')" for a
  proof -
    obtain a0 where a0: "a0 \<in> set (attempts db)" "a = (if Q a0 then g a0 else a0)"
      using mem unfolding A(1) by (elim sql_updateE)
    then have "a_task a = a_task a0" "a_tenant a = a_tenant a0" using A(2) by (auto simp: keeps_attempt_def)
    with a0 obtain t where "t \<in> set (tasks db)" "t_id t = a_task a" "t_tenant t = a_tenant a"
      using assms(2) by (auto simp: refs_ok_def)
    then show ?thesis
      using T(2) sql_updateI [of t "tasks db" P f] unfolding T(1)
      by (intro bexI [of _ "if P t then f t else t"]) (auto simp: keeps_task_def)
  qed
  moreover have "\<exists>j \<in> set (jobs db'). j_id j = t_job t \<and> j_tenant j = t_tenant t"
    if mem: "t \<in> set (tasks db')" for t
  proof -
    obtain t0 where t0: "t0 \<in> set (tasks db)" "t = (if P t0 then f t0 else t0)"
      using mem unfolding T(1) by (elim sql_updateE)
    then have "t_job t = t_job t0" "t_tenant t = t_tenant t0" using T(2) by (auto simp: keeps_task_def)
    with t0 obtain j where "j \<in> set (jobs db)" "j_id j = t_job t" "j_tenant j = t_tenant t"
      using assms(2) by (auto simp: refs_ok_def)
    then have "(t_job t, t_tenant t) \<in> (\<lambda>j. (j_id j, j_tenant j)) ` set (jobs db')"
      unfolding js by (auto intro!: image_eqI)
    then show ?thesis by auto
  qed
  ultimately show ?thesis by (auto simp: refs_ok_def)
qed

lemma deps_ok_update:
  assumes "deps_ok ts" "keeps_task f"
    and "\<And>t. t \<in> set ts \<Longrightarrow> P t \<Longrightarrow> t_state t \<noteq> TaskSucceeded \<and> t_state (f t) \<noteq> TaskSucceeded"
    and "\<And>t. t \<in> set ts \<Longrightarrow> P t \<Longrightarrow> t_state (f t) \<noteq> TaskPending"
    and "\<And>t. t \<in> set ts \<Longrightarrow> P t \<Longrightarrow>
           t_state (f t) = TaskCancelled \<or> t_state t \<notin> {TaskPending, TaskCancelled}"
  shows "deps_ok (sql_update P f ts)"
proof -
  have k: "t_id (f t) = t_id t" "t_job (f t) = t_job t" "t_depends_on (f t) = t_depends_on t" for t
    using assms(2) by (auto simp: keeps_task_def)
  show ?thesis unfolding deps_ok_def set_sql_update
  proof (intro conjI ballI impI)
    fix t d assume "t \<in> (\<lambda>r. if P r then f r else r) ` set ts" "d \<in> set (t_depends_on t)"
    then obtain t0 where "t0 \<in> set ts" "t_job t = t_job t0" "d \<in> set (t_depends_on t0)"
      using k by (auto split: if_splits)
    then obtain u where "u \<in> set ts" "t_id u = d" "t_job u = t_job t"
      using assms(1) unfolding deps_ok_def by metis
    then show "\<exists>u \<in> (\<lambda>r. if P r then f r else r) ` set ts. t_id u = d \<and> t_job u = t_job t"
      using k by (intro bexI [of _ "if P u then f u else u"]) auto
  next
    fix t u assume t: "t \<in> (\<lambda>r. if P r then f r else r) ` set ts"
      and s: "t_state t \<notin> {TaskPending, TaskCancelled}"
      and u: "u \<in> (\<lambda>r. if P r then f r else r) ` set ts" "t_id u \<in> set (t_depends_on t)"
    obtain t0 where t0: "t0 \<in> set ts" "t = (if P t0 then f t0 else t0)" using t by auto
    obtain u0 where u0: "u0 \<in> set ts" "u = (if P u0 then f u0 else u0)" using u by auto
    have "t_state t0 \<notin> {TaskPending, TaskCancelled}"
      using s t0 assms(5) [of t0] by (auto split: if_splits)
    moreover have "t_id u0 \<in> set (t_depends_on t0)" using t0(2) u0(2) u(2) k by (simp split: if_splits)
    ultimately have "t_state u0 = TaskSucceeded"
      using assms(1) t0(1) u0(1) unfolding deps_ok_def by blast
    then show "t_state u = TaskSucceeded" using u0 assms(3) [of u0] by auto
  next
    fix t assume t: "t \<in> (\<lambda>r. if P r then f r else r) ` set ts" and s: "t_state t = TaskPending"
    obtain t0 where t0: "t0 \<in> set ts" "t = (if P t0 then f t0 else t0)" using t by auto
    have "\<not> P t0" using s t0 assms(4) [of t0] by auto
    then obtain u where "u \<in> set ts" "t_id u \<in> set (t_depends_on t)" "t_state u \<noteq> TaskSucceeded"
      using assms(1) t0 s unfolding deps_ok_def by (metis (full_types))
    then show "\<exists>u \<in> (\<lambda>r. if P r then f r else r) ` set ts.
                 t_id u \<in> set (t_depends_on t) \<and> t_state u \<noteq> TaskSucceeded"
      using k assms(3) [of u] by (intro bexI [of _ "if P u then f u else u"]) auto
  qed
qed

section \<open>Attempts of one task\<close>

lemma task_attempts_update:
  assumes "attempts db' = sql_update Q g (attempts db)" "keeps_attempt g"
  shows "task_attempts db' tid = sql_update Q g (task_attempts db tid)"
  using assms unfolding task_attempts_def
  by (auto simp: keeps_attempt_def intro!: filter_sql_update_same)

lemma task_attempts_update_other:
  assumes "attempts db' = sql_update (\<lambda>a. a_id a = aid) g (attempts db)" "keeps_attempt g"
    and "distinct (map a_id (attempts db))" "a \<in> set (attempts db)" "a_id a = aid" "a_task a \<noteq> tid"
  shows "task_attempts db' tid = task_attempts db tid"
proof -
  have "\<not> a_id x = aid" if "x \<in> set (task_attempts db tid)" for x
    using that assms(3-6) unfolding task_attempts_def by (auto simp: distinct_map dest: inj_onD)
  then show ?thesis
    unfolding task_attempts_update [OF assms(1,2)] by (intro sql_update_id) blast
qed

lemma numbers_update:
  "keeps_attempt g \<Longrightarrow> map a_number (sql_update Q g as) = map a_number as"
  by (auto simp: keeps_attempt_def intro!: map_sql_update_same)

lemma live_update_single:
  assumes "distinct (map a_id as)" "filter a_live as = [a]" "a_id a = aid"
  shows "live_states (sql_update (\<lambda>x. a_id x = aid) g as) = (if a_live (g a) then [a_state (g a)] else [])"
proof -
  obtain xs ys where as: "as = xs @ a # ys" and f: "filter a_live xs = []" "filter a_live ys = []"
    using assms(2) by (metis filter_eq_Cons_iff filter_empty_conv)
  have "sql_update (\<lambda>x. a_id x = aid) g xs = xs" "sql_update (\<lambda>x. a_id x = aid) g ys = ys"
    using assms(1,3) as by (auto intro!: sql_update_id simp: image_iff)
  then have "sql_update (\<lambda>x. a_id x = aid) g as = xs @ g a # ys"
    using as assms(3) by (simp add: sql_update_def)
  then show ?thesis using f by (simp add: live_states_def)
qed

lemma live_of_task:
  assumes "task_ok t as" "a \<in> set as" "a_live a"
  shows "filter a_live as = [a] \<and>
    (t_state t = TaskLeased \<and> a_state a = AttemptLeased \<or>
     t_state t = TaskRunning \<and> a_state a = AttemptRunning \<or> t_state t = TaskCancelled)"
proof -
  have m: "a \<in> set (filter a_live as)" using assms by simp
  have "length (filter a_live as) \<le> 1"
    using assms(1) by (cases "t_state t") (auto simp: task_ok_def live_states_def)
  then have one: "filter a_live as = [a]"
    using m by (cases "filter a_live as") auto
  then show ?thesis using assms(1) by (cases "t_state t") (auto simp: task_ok_def live_states_def)
qed

lemma tasks_ok_update:
  assumes "tasks_ok db"
    and T: "tasks db' = sql_update P f (tasks db)" "keeps_task f"
    and "\<And>t. t \<in> set (tasks db) \<Longrightarrow> \<not> P t \<Longrightarrow> task_ok t (task_attempts db (t_id t)) \<Longrightarrow>
           task_ok t (task_attempts db' (t_id t))"
    and "\<And>t. t \<in> set (tasks db) \<Longrightarrow> P t \<Longrightarrow> task_ok t (task_attempts db (t_id t)) \<Longrightarrow>
           task_ok (f t) (task_attempts db' (t_id t))"
  shows "tasks_ok db'"
  unfolding tasks_ok_def
proof
  fix t assume "t \<in> set (tasks db')"
  then obtain t0 where t0: "t0 \<in> set (tasks db)" "t = (if P t0 then f t0 else t0)"
    using T by (auto simp: set_sql_update)
  have "task_ok t0 (task_attempts db (t_id t0))" using assms(1) t0 by (simp add: tasks_ok_def)
  moreover have "t_id t = t_id t0" using t0 T by (simp add: keeps_task_def)
  ultimately show "task_ok t (task_attempts db' (t_id t))"
    using t0 assms(4,5) [of t0] by auto
qed

section \<open>Reconciling a job\<close>

lemma reconcileJob_simps [simp]:
  "tasks (reconcileJob now db ten jid) = tasks db"
  "attempts (reconcileJob now db ten jid) = attempts db"
  "job_keys (reconcileJob now db ten jid) = job_keys db"
  "task_attempts (reconcileJob now db ten jid) = task_attempts db"
  "job_tasks (reconcileJob now db ten jid) = job_tasks db"
  by (auto simp: reconcileJob_def Let_def job_keys_def task_attempts_def job_tasks_def
      intro!: map_sql_update_same)

lemma jobs_ok_reconcile:
  assumes "\<And>j. j \<in> set (jobs db) \<Longrightarrow> j_id j \<noteq> jid \<Longrightarrow> j_state j = derived_state (job_tasks db (j_id j))"
    and "\<And>j. j \<in> set (jobs db) \<Longrightarrow> j_id j = jid \<Longrightarrow> j_tenant j = ten"
  shows "jobs_ok (reconcileJob now db ten jid)"
  unfolding jobs_ok_def
proof
  fix j assume "j \<in> set (jobs (reconcileJob now db ten jid))"
  then obtain j0 where "j0 \<in> set (jobs db)"
    and "j = (if j_id j0 = jid \<and> j_tenant j0 = ten
         then j0\<lparr>j_state := derived_state (job_tasks db jid),
                 j_started := coalesce (j_started j0)
                   (if derived_state (job_tasks db jid) \<noteq> JobPending then Some now else None),
                 j_finished := (if job_terminal (derived_state (job_tasks db jid))
                   then coalesce (j_finished j0) (Some now) else j_finished j0)\<rparr> else j0)"
    by (auto simp: reconcileJob_def Let_def elim: sql_updateE)
  then show "j_state j = derived_state (job_tasks (reconcileJob now db ten jid) (j_id j))"
    using assms(1,2) [of j0] by (cases "j_id j0 = jid") auto
qed

lemma job_tasks_other:
  assumes "tasks db' = sql_update P f (tasks db)" "keeps_task f"
    and "\<And>t. t \<in> set (tasks db) \<Longrightarrow> P t \<Longrightarrow> t_job t \<noteq> j"
  shows "job_tasks db' j = job_tasks db j"
proof -
  have "filter (\<lambda>t. t_job t = j) (tasks db') = sql_update P f (filter (\<lambda>t. t_job t = j) (tasks db))"
    using assms(1,2) by (simp add: filter_sql_update_same keeps_task_def)
  also have "\<dots> = filter (\<lambda>t. t_job t = j) (tasks db)"
    using assms(3) by (intro sql_update_id) auto
  finally show ?thesis by (simp add: job_tasks_def)
qed

lemma job_inv_reconcile:
  assumes "ids_ok db" "refs_ok db" "tasks_ok db" "deps_ok (tasks db)"
    and "\<And>j. j \<in> set (jobs db) \<Longrightarrow> j_id j \<noteq> jid \<Longrightarrow> j_state j = derived_state (job_tasks db (j_id j))"
    and "\<And>j. j \<in> set (jobs db) \<Longrightarrow> j_id j = jid \<Longrightarrow> j_tenant j = ten"
  shows "job_inv (reconcileJob now db ten jid)"
proof -
  have "tasks (reconcileJob now db ten jid) = sql_update (\<lambda>_. False) id (tasks db)"
    "attempts (reconcileJob now db ten jid) = sql_update (\<lambda>_. False) id (attempts db)"
    by (simp_all add: sql_update_def)
  then have "ids_ok (reconcileJob now db ten jid) \<and> refs_ok (reconcileJob now db ten jid)"
    by (intro ids_refs_update [OF assms(1,2)]) (auto simp: keeps_task_def keeps_attempt_def)
  moreover have "tasks_ok (reconcileJob now db ten jid)" using assms(3) by (simp add: tasks_ok_def)
  moreover have "jobs_ok (reconcileJob now db ten jid)" using assms(5,6) by (rule jobs_ok_reconcile)
  ultimately show ?thesis using assms(4) by (simp add: job_inv_def)
qed

section \<open>Moving one attempt and its task\<close>

definition holds :: "job_db \<Rightarrow> attempt_row \<Rightarrow> task_row \<Rightarrow> bool" where
  "holds db a t \<longleftrightarrow> a \<in> set (attempts db) \<and> t \<in> set (tasks db) \<and> t_id t = a_task a \<and>
     t_tenant t = a_tenant a \<and> a_live a"

lemma holds_filter:
  assumes "job_inv db" "holds db a t"
  shows "filter a_live (task_attempts db (t_id t)) = [a] \<and>
    (t_state t = TaskLeased \<and> a_state a = AttemptLeased \<or>
     t_state t = TaskRunning \<and> a_state a = AttemptRunning \<or> t_state t = TaskCancelled)"
proof -
  have "task_ok t (task_attempts db (t_id t))"
    using assms unfolding job_inv_def tasks_ok_def holds_def by blast
  moreover have "a \<in> set (task_attempts db (t_id t))" "a_live a"
    using assms(2) by (auto simp: task_attempts_def holds_def)
  ultimately show ?thesis by (rule live_of_task)
qed

lemma job_tenant:
  assumes "job_inv db" "t \<in> set (tasks db)" "j \<in> set (jobs db)" "j_id j = t_job t"
  shows "j_tenant j = t_tenant t"
proof -
  obtain j' where j': "j' \<in> set (jobs db)" "j_id j' = t_job t" "j_tenant j' = t_tenant t"
    using assms(1,2) by (auto simp: job_inv_parts)
  moreover have "inj_on j_id (set (jobs db))" using assms(1) by (simp add: job_inv_parts distinct_map)
  ultimately have "j' = j" using assms(3,4) by (metis inj_onD)
  then show ?thesis using j' by simp
qed

lemma same_task:
  assumes "job_inv db" "t \<in> set (tasks db)" "u \<in> set (tasks db)" "t_id u = t_id t"
  shows "u = t"
  using assms by (auto simp: job_inv_parts distinct_map dest: inj_onD)

lemma same_attempt:
  assumes "job_inv db" "a \<in> set (attempts db)" "b \<in> set (attempts db)" "a_id b = a_id a"
  shows "b = a"
  using assms by (auto simp: job_inv_parts distinct_map dest: inj_onD)

lemma move_tasks_ok:
  assumes inv: "job_inv db" and h: "holds db a t"
    and T: "tasks db' = sql_update (\<lambda>x. t_id x = t_id t) f (tasks db)" "keeps_task f"
    and A: "attempts db' = sql_update (\<lambda>x. a_id x = a_id a) g (attempts db)" "keeps_attempt g"
    and S: "in_step (t_state (f t)) (if a_live (g a) then [a_state (g a)] else [])"
    and B: "t_attempt_count (f t) = t_attempt_count t" "t_state (f t) \<noteq> TaskPending"
      "t_state (f t) = TaskQueued \<Longrightarrow> t_attempt_count t < t_max_attempts t"
  shows "tasks_ok db'"
proof (rule tasks_ok_update [OF _ T])
  show "tasks_ok db" using inv by (simp add: job_inv_def)
  have da: "distinct (map a_id (attempts db))" using inv by (simp add: job_inv_parts)
  show "task_ok u (task_attempts db' (t_id u))"
    if "\<not> t_id u = t_id t" "task_ok u (task_attempts db (t_id u))" for u
    using task_attempts_update_other [OF A da, of a "t_id u"] h that by (auto simp: holds_def)
  show "task_ok (f u) (task_attempts db' (t_id u))"
    if u: "u \<in> set (tasks db)" "t_id u = t_id t" "task_ok u (task_attempts db (t_id u))" for u
  proof -
    have "u = t" using same_task [OF inv _ u(1,2)] h by (simp add: holds_def)
    moreover have "distinct (map a_id (task_attempts db (t_id t)))"
      using da unfolding task_attempts_def by (rule distinct_map_filter)
    then have "live_states (task_attempts db' (t_id t)) = (if a_live (g a) then [a_state (g a)] else [])"
      unfolding task_attempts_update [OF A] using holds_filter [OF inv h]
      by (intro live_update_single) auto
    moreover have "map a_number (task_attempts db' (t_id t)) = map a_number (task_attempts db (t_id t))"
      unfolding task_attempts_update [OF A] by (rule numbers_update [OF A(2)])
    ultimately show ?thesis
      using u(3) S B T(2) by (auto simp: task_ok_def budget_ok_def keeps_task_def)
  qed
qed

lemma move_deps_ok:
  assumes inv: "job_inv db" and h: "holds db a t"
    and T: "tasks db' = sql_update (\<lambda>x. t_id x = t_id t) f (tasks db)" "keeps_task f"
    and S: "t_state (f t) \<notin> {TaskPending, TaskSucceeded}"
      "t_state t = TaskCancelled \<Longrightarrow> t_state (f t) = TaskCancelled"
  shows "deps_ok (tasks db')"
  unfolding T(1)
proof (rule deps_ok_update [OF _ T(2)])
  show "deps_ok (tasks db)" using inv by (simp add: job_inv_def)
  fix u assume u: "u \<in> set (tasks db)" "t_id u = t_id t"
  then have "u = t" using same_task [OF inv _ u] h by (simp add: holds_def)
  then show "t_state u \<noteq> TaskSucceeded \<and> t_state (f u) \<noteq> TaskSucceeded" "t_state (f u) \<noteq> TaskPending"
    "t_state (f u) = TaskCancelled \<or> t_state u \<notin> {TaskPending, TaskCancelled}"
    using S holds_filter [OF inv h] by auto
qed

lemma other_jobs_ok:
  assumes inv: "job_inv db" and "tasks db' = sql_update P f (tasks db)" "keeps_task f"
    and "\<And>t. t \<in> set (tasks db) \<Longrightarrow> P t \<Longrightarrow> t_job t = jid"
    and "j \<in> set (jobs db)" "j_id j \<noteq> jid"
  shows "j_state j = derived_state (job_tasks db' (j_id j))"
proof -
  have "job_tasks db' (j_id j) = job_tasks db (j_id j)"
    using assms(4,6) by (intro job_tasks_other [OF assms(2,3)]) auto
  then show ?thesis using inv assms(5) by (simp add: job_inv_def jobs_ok_def)
qed

lemma move_reconcile_inv:
  assumes inv: "job_inv db" and h: "holds db a t"
    and T: "tasks db' = sql_update (\<lambda>x. t_id x = t_id t) f (tasks db)" "keeps_task f"
    and A: "attempts db' = sql_update (\<lambda>x. a_id x = a_id a) g (attempts db)" "keeps_attempt g"
    and J: "jobs db' = jobs db"
    and S: "in_step (t_state (f t)) (if a_live (g a) then [a_state (g a)] else [])"
      "t_state (f t) \<notin> {TaskPending, TaskSucceeded}" "t_state t = TaskCancelled \<Longrightarrow> t_state (f t) = TaskCancelled"
    and B: "t_attempt_count (f t) = t_attempt_count t"
      "t_state (f t) = TaskQueued \<Longrightarrow> t_attempt_count t < t_max_attempts t"
  shows "job_inv (reconcileJob now db' (t_tenant t) (t_job t))"
proof (rule job_inv_reconcile)
  have p: "ids_ok db" "refs_ok db" "job_keys db' = job_keys db"
    using inv J by (auto simp: job_inv_def job_keys_def)
  show "ids_ok db'" "refs_ok db'" using ids_refs_update [OF p(1,2) T A p(3)] by auto
  show "tasks_ok db'" using move_tasks_ok [OF inv h T A] S B by auto
  show "deps_ok (tasks db')" using move_deps_ok [OF inv h T] S by auto
  fix j assume j: "j \<in> set (jobs db')"
  show "j_state j = derived_state (job_tasks db' (j_id j))" if "j_id j \<noteq> t_job t"
  proof (rule other_jobs_ok [OF inv T, of "t_job t"])
    show "t_job x = t_job t" if "x \<in> set (tasks db)" "t_id x = t_id t" for x
      using same_task [OF inv _ that] h by (simp add: holds_def)
  qed (use j J that in auto)
  show "j_tenant j = t_tenant t" if "j_id j = t_job t"
    using job_tenant [OF inv] that h j J by (auto simp: holds_def)
qed

text \<open>A change to one live attempt that leaves every task alone.\<close>

lemma attempt_only_inv:
  assumes inv: "job_inv db" and h: "holds db a t"
    and A: "attempts db' = sql_update (\<lambda>x. a_id x = a_id a) g (attempts db)" "keeps_attempt g"
    and U: "tasks db' = tasks db" "jobs db' = jobs db"
    and S: "in_step (t_state t) (if a_live (g a) then [a_state (g a)] else [])"
  shows "job_inv db'"
proof -
  have T: "tasks db' = sql_update (\<lambda>x. t_id x = t_id t) id (tasks db)" "keeps_task id"
    by (simp_all add: U sql_update_same keeps_task_def)
  have p: "ids_ok db" "refs_ok db" "job_keys db' = job_keys db"
    using inv U by (auto simp: job_inv_def job_keys_def)
  have "tasks_ok db'"
    using move_tasks_ok [OF inv h T A] S holds_filter [OF inv h] by auto
  moreover have "ids_ok db' \<and> refs_ok db'" by (rule ids_refs_update [OF p(1,2) T A p(3)])
  ultimately show ?thesis
    using inv U by (simp add: job_inv_def jobs_ok_def job_tasks_def)
qed

section \<open>Reports on an attempt\<close>

lemma attempt_join_holds:
  assumes inv: "job_inv db" and "attempt_join db aid wid = Some ar" "\<not> attempt_IsTerminal (at_state ar)"
  obtains a t j where "holds db a t" "a_id a = aid" "a_worker a = wid" "j \<in> set (jobs db)"
    "j_id j = t_job t"
    "ar = \<lparr>at_tenantID = t_tenant t, at_taskID = t_id t, at_jobID = t_job t,
           at_assetVersionID = j_version j, at_operation = t_operation t, at_state = a_state a,
           at_taskState = t_state t\<rparr>"
proof -
  obtain a t j where *: "sql_find (\<lambda>a. a_id a = aid \<and> a_worker a = wid) (attempts db) = Some a"
    "sql_find (\<lambda>t. t_id t = a_task a) (tasks db) = Some t"
    "sql_find (\<lambda>j. j_id j = t_job t) (jobs db) = Some j"
    "ar = \<lparr>at_tenantID = a_tenant a, at_taskID = a_task a, at_jobID = t_job t,
           at_assetVersionID = j_version j, at_operation = t_operation t, at_state = a_state a,
           at_taskState = t_state t\<rparr>"
    using assms(2) by (auto simp: attempt_join_def split: option.splits)
  note f = *(1-3) [THEN sql_find_SomeD]
  obtain u where u: "u \<in> set (tasks db)" "t_id u = a_task a" "t_tenant u = a_tenant a"
    using inv f(1) by (auto simp: job_inv_parts)
  then have "u = t" using same_task [OF inv, of t u] f by simp
  then have "holds db a t"
    using f u *(4) assms(3) by (simp add: holds_def a_live_def attempt_live_iff)
  then show ?thesis using that [of a t j] f *(4) by (simp add: holds_def)
qed

lemma withAttempt_Inr:
  assumes "withAttempt db aid wid fn = Inr r"
  obtains ar where "attempt_join db aid wid = Some ar" "\<not> attempt_IsTerminal (at_state ar)" "fn ar = Inr r"
  using assms by (auto simp: withAttempt_def split: option.splits if_splits)

lemma closeAttemptCancelled_inv:
  assumes inv: "job_inv db" and h: "holds db a t" and "t_state t = TaskCancelled"
  shows "job_inv (closeAttemptCancelled now db (a_id a))"
  by (rule attempt_only_inv [OF inv h])
    (auto simp: closeAttemptCancelled_def keeps_attempt_def a_live_def assms(3))

lemma job_Progress_Inr:
  assumes inv: "job_inv db" and "job_Progress now db aid wid pct ttl = Inr (db', c)"
  obtains a t where "holds db a t" "a_id a = aid" "a_worker a = wid" "c = (t_state t = TaskCancelled)"
    "db' = (if t_state t = TaskCancelled then db
       else db\<lparr>attempts := sql_update (\<lambda>a. a_id a = aid)
         (\<lambda>a. a\<lparr>a_progress := Some pct, a_lease_expires := now + intervalOf ttl\<rparr>) (attempts db)\<rparr>)"
  using assms(2) unfolding job_Progress_def
proof (rule withAttempt_Inr)
  fix ar assume 1: "attempt_join db aid wid = Some ar" "\<not> attempt_IsTerminal (at_state ar)"
  obtain a t where "holds db a t" "a_id a = aid" "a_worker a = wid" "at_taskState ar = t_state t"
    by (rule attempt_join_holds [OF inv 1]) auto
  moreover assume "(if at_taskState ar = TaskCancelled then Inr (db, True)
     else Inr (db\<lparr>attempts := sql_update (\<lambda>a. a_id a = aid)
                     (\<lambda>a. a\<lparr>a_progress := Some pct,
                            a_lease_expires := now + intervalOf ttl\<rparr>) (attempts db)\<rparr>, False))
     = (Inr (db', c) :: job_error + _)"
  ultimately show ?thesis by (intro that [of a t]) (auto split: if_splits)
qed

lemma job_Progress_inv:
  assumes inv: "job_inv db" and "job_Progress now db aid wid pct ttl = Inr (db', c)"
  shows "job_inv db'"
  using assms
proof (rule job_Progress_Inr)
  fix a t
  assume h: "holds db a t" "a_id a = aid" and db': "db' = (if t_state t = TaskCancelled then db
       else db\<lparr>attempts := sql_update (\<lambda>a. a_id a = aid)
         (\<lambda>a. a\<lparr>a_progress := Some pct, a_lease_expires := now + intervalOf ttl\<rparr>) (attempts db)\<rparr>)"
  show ?thesis
  proof (cases "t_state t = TaskCancelled")
    case False
    then have "in_step (t_state t) [a_state a]" using holds_filter [OF inv h(1)] by auto
    then show ?thesis using False h db' by (intro attempt_only_inv [OF inv h(1)])
      (auto simp: keeps_attempt_def a_live_def holds_def)
  qed (use inv db' in simp)
qed

text \<open>What \<open>transitionTx\<close> does to a task that the caller's attempt holds.\<close>

lemma transitionTx_task:
  assumes "distinct (map t_id (tasks db))" "t \<in> set (tasks db)"
  shows "transitionTx now db (t_tenant t) (t_id t) to =
    (case checkTask (t_state t) to of
       Some e \<Rightarrow> Inl e
     | None \<Rightarrow>
         let db1 = db\<lparr>tasks := sql_update (\<lambda>r. t_id r = t_id t)
                   (\<lambda>r. r\<lparr>t_state := to,
                     t_finished := coalesce (if task_IsTerminal to then Some now else None) (t_finished r),
                     t_queued_at := coalesce (if to = TaskQueued then Some now else None)
                                      (t_queued_at r)\<rparr>) (tasks db)\<rparr>
         in Inr (if to = TaskSucceeded then releaseDependents now db1 (t_job t) (t_id t) else db1,
                 t_job t))"
proof -
  have "sql_find (\<lambda>r. t_id r = t_id t \<and> t_tenant r = t_tenant t) (tasks db) = Some t"
    by (rule sql_find_key [OF assms]) auto
  then show ?thesis unfolding transitionTx_def by (simp only: option.case Let_def)
qed

lemma derived_state_update:
  assumes "\<And>t. t \<in> set ts \<Longrightarrow> P t \<Longrightarrow> t_state t \<in> {TaskLeased, TaskRunning} \<and>
             t_state (f t) \<in> {TaskLeased, TaskRunning}"
  shows "derived_state (sql_update P f ts) = derived_state ts"
proof -
  have "sql_count (\<lambda>t. t_state t = s) (sql_update P f ts) = sql_count (\<lambda>t. t_state t = s) ts"
    if "s \<notin> {TaskLeased, TaskRunning}" for s
    using assms that by (intro sql_count_update_same) fastforce
  moreover have "sql_count (\<lambda>t. t_state t = TaskLeased \<or> t_state t = TaskRunning) (sql_update P f ts) =
     sql_count (\<lambda>t. t_state t = TaskLeased \<or> t_state t = TaskRunning) ts"
    using assms by (intro sql_count_update_same) fastforce
  ultimately show ?thesis by (simp add: derived_state_def)
qed

definition started_db :: "time \<Rightarrow> duration \<Rightarrow> job_db \<Rightarrow> uuid \<Rightarrow> uuid \<Rightarrow> job_db" where
  "started_db now ttl db aid tid =
     db\<lparr>attempts := sql_update (\<lambda>a. a_id a = aid) (\<lambda>a. a\<lparr>a_state := AttemptRunning,
          a_started := Some now, a_lease_expires := now + intervalOf ttl\<rparr>) (attempts db),
        tasks := sql_update (\<lambda>r. t_id r = tid) (\<lambda>r. r\<lparr>t_state := TaskRunning\<rparr>) (tasks db)\<rparr>"

lemma job_Start_Inr:
  assumes inv: "job_inv db" and "job_Start now db aid wid ttl = Inr (db', u)"
  obtains a t where "holds db a t" "a_id a = aid" "a_worker a = wid"
    "t_state t = TaskCancelled \<and> db' = closeAttemptCancelled now db aid \<or>
     t_state t = TaskLeased \<and> a_state a = AttemptLeased \<and> db' = started_db now ttl db aid (t_id t)"
  using assms(2) unfolding job_Start_def
proof (rule withAttempt_Inr)
  fix ar assume 1: "attempt_join db aid wid = Some ar" "\<not> attempt_IsTerminal (at_state ar)"
  obtain a t j where h: "holds db a t" "a_id a = aid" "a_worker a = wid"
    and "j \<in> set (jobs db)" "j_id j = t_job t"
    and ar: "ar = \<lparr>at_tenantID = t_tenant t, at_taskID = t_id t, at_jobID = t_job t,
           at_assetVersionID = j_version j, at_operation = t_operation t, at_state = a_state a,
           at_taskState = t_state t\<rparr>"
    by (rule attempt_join_holds [OF inv 1])
  have tm: "t \<in> set (tasks db)" "distinct (map t_id (tasks db))"
    using h inv by (auto simp: holds_def job_inv_parts)
  let ?db1 = "db\<lparr>attempts := sql_update (\<lambda>a. a_id a = aid) (\<lambda>a. a\<lparr>a_state := AttemptRunning,
      a_started := Some now, a_lease_expires := now + intervalOf ttl\<rparr>) (attempts db)\<rparr>"
  have run: "transitionTx now ?db1 (t_tenant t) (t_id t) TaskRunning =
      (if t_state t = TaskLeased then Inr (started_db now ttl db aid (t_id t), t_job t)
       else Inl (ErrIllegalTransition ''task'' (task_state_str (t_state t)) ''running''))"
    by (subst transitionTx_task)
      (use tm in \<open>auto simp: started_db_def checkTask_def coalesce_def task_IsTerminal_def\<close>)
  assume "(if at_taskState ar = TaskCancelled then Inr (closeAttemptCancelled now db aid, ())
     else case checkAttempt (at_state ar) AttemptRunning of
       Some e \<Rightarrow> Inl e
     | None \<Rightarrow> let db1 = ?db1 in
         case transitionTx now db1 (at_tenantID ar) (at_taskID ar) TaskRunning of
           Inl e \<Rightarrow> Inl e | Inr (db2, _) \<Rightarrow> Inr (db2, ())) = Inr (db', u)"
  then show ?thesis using ar run h holds_filter [OF inv h(1)]
    by (intro that [of a t]) (auto split: if_splits option.splits)
qed

lemma started_inv:
  assumes inv: "job_inv db" and h: "holds db a t" and st: "t_state t = TaskLeased"
  shows "job_inv (started_db now ttl db (a_id a) (t_id t))"
proof -
  let ?g = "\<lambda>a. a\<lparr>a_state := AttemptRunning, a_started := Some now, a_lease_expires := now + intervalOf ttl\<rparr>"
  let ?f = "\<lambda>r. r\<lparr>t_state := TaskRunning\<rparr>"
  let ?db2 = "started_db now ttl db (a_id a) (t_id t)"
  have tm: "t \<in> set (tasks db)" using h by (simp add: holds_def)
  have T: "tasks ?db2 = sql_update (\<lambda>x. t_id x = t_id t) ?f (tasks db)" "keeps_task ?f"
    by (simp_all add: started_db_def keeps_task_def)
  have A: "attempts ?db2 = sql_update (\<lambda>x. a_id x = a_id a) ?g (attempts db)" "keeps_attempt ?g"
    by (simp_all add: started_db_def keeps_attempt_def)
  have p: "ids_ok db" "refs_ok db" "job_keys ?db2 = job_keys db"
    using inv by (auto simp: job_inv_def job_keys_def started_db_def)
  have "tasks_ok ?db2" by (rule move_tasks_ok [OF inv h T A]) (auto simp: a_live_def)
  moreover have "deps_ok (tasks ?db2)" by (rule move_deps_ok [OF inv h T]) (auto simp: st)
  moreover have "ids_ok ?db2 \<and> refs_ok ?db2" by (rule ids_refs_update [OF p(1,2) T A p(3)])
  moreover have "derived_state (job_tasks ?db2 i) = derived_state (job_tasks db i)" for i
  proof -
    have "job_tasks ?db2 i = sql_update (\<lambda>x. t_id x = t_id t) ?f (job_tasks db i)"
      by (simp add: job_tasks_def started_db_def filter_sql_update_same)
    moreover have "x = t" if "x \<in> set (job_tasks db i)" "t_id x = t_id t" for x
      using same_task [OF inv tm, of x] that by (simp add: job_tasks_def)
    then have "t_state x = TaskLeased" if "x \<in> set (job_tasks db i)" "t_id x = t_id t" for x
      using that st by blast
    ultimately show ?thesis by (simp add: derived_state_update)
  qed
  then have "jobs_ok ?db2" using inv by (simp add: jobs_ok_def job_inv_def started_db_def)
  ultimately show ?thesis by (simp add: job_inv_def)
qed

lemma job_Start_inv:
  assumes inv: "job_inv db" and "job_Start now db aid wid ttl = Inr (db', u)"
  shows "job_inv db'"
  using assms by (rule job_Start_Inr) (use closeAttemptCancelled_inv [OF inv] started_inv [OF inv] in blast)

end
