(* ===== verification/Job_Preservation.thy ===== *)
theory Job_Preservation
  imports Job_Invariant
begin

text \<open>
  Every operation the control plane calls keeps the invariant of the job tables: completing with the
  release of dependents, cancelling, leasing, creating a task graph, and sweeping lapsed leases.
\<close>

section \<open>Completing\<close>

lemma releaseDependents_simps [simp]:
  "jobs (releaseDependents now db jid did) = jobs db"
  "attempts (releaseDependents now db jid did) = attempts db"
  by (simp_all add: releaseDependents_def)

definition released :: "job_db \<Rightarrow> uuid \<Rightarrow> uuid \<Rightarrow> task_row \<Rightarrow> bool" where
  "released db jid did t \<longleftrightarrow> t_job t = jid \<and> t_state t = TaskPending \<and> did \<in> set (t_depends_on t) \<and>
     (\<forall>d \<in> set (tasks db). t_id d \<in> set (t_depends_on t) \<longrightarrow> t_state d = TaskSucceeded)"

lemma tasks_releaseDependents:
  "tasks (releaseDependents now db jid did) =
     sql_update (released db jid did) (\<lambda>t. t\<lparr>t_state := TaskQueued, t_queued_at := Some now\<rparr>) (tasks db)"
proof -
  have "(t_job t = jid \<and> t_state t = TaskPending \<and> List.member (t_depends_on t) did \<and>
        \<not> list_ex (\<lambda>d. List.member (t_depends_on t) (t_id d) \<and> t_state d \<noteq> TaskSucceeded) (tasks db))
      = released db jid did t" for t
    by (auto simp: released_def list_ex_iff)
  then show ?thesis by (simp add: releaseDependents_def)
qed

lemma deps_ok_release:
  assumes D: "deps_ok (tasks db)" and dist: "distinct (map t_id (tasks db))"
    and t: "t \<in> set (tasks db)" "t_state t = TaskRunning"
    and T: "tasks db1 = sql_update (\<lambda>x. t_id x = t_id t) f (tasks db)" "keeps_task f"
    and S: "t_state (f t) = TaskSucceeded"
  shows "deps_ok (tasks (releaseDependents now db1 (t_job t) (t_id t)))"
proof -
  let ?q = "\<lambda>t. t\<lparr>t_state := TaskQueued, t_queued_at := Some now\<rparr>"
  let ?R = "released db1 (t_job t) (t_id t)"
  let ?u1 = "\<lambda>x. if t_id x = t_id t then f x else x" and ?u2 = "\<lambda>x. if ?R x then ?q x else x"
  have k: "t_id (f x) = t_id x" "t_job (f x) = t_job x" "t_depends_on (f x) = t_depends_on x" for x
    using T(2) by (auto simp: keeps_task_def)
  have same: "x = t" if "x \<in> set (tasks db)" "t_id x = t_id t" for x
    using dist t(1) that by (auto simp: distinct_map dest: inj_onD)
  have keep: "t_id (?u2 (?u1 x)) = t_id x" "t_job (?u2 (?u1 x)) = t_job x"
    "t_depends_on (?u2 (?u1 x)) = t_depends_on x" for x using k by auto
  have s1: "t_state (?u1 x) = (if x = t then TaskSucceeded else t_state x)" if "x \<in> set (tasks db)" for x
    using same [OF that] S by auto
  have sets: "set (tasks (releaseDependents now db1 (t_job t) (t_id t))) = (\<lambda>x. ?u2 (?u1 x)) ` set (tasks db)"
    by (auto simp: tasks_releaseDependents T(1) sql_update_def)
  have unsucc: "t_state (?u2 (?u1 x)) = TaskSucceeded \<longleftrightarrow> t_state (?u1 x) = TaskSucceeded" for x
    by (simp add: released_def)
  show ?thesis unfolding deps_ok_def sets
  proof (intro conjI; simp only: ball_simps bex_simps keep; intro ballI impI)
    fix x d assume "x \<in> set (tasks db)" "d \<in> set (t_depends_on x)"
    then show "\<exists>u \<in> set (tasks db). t_id u = d \<and> t_job u = t_job x"
      using D unfolding deps_ok_def by blast
  next
    fix x u assume x: "x \<in> set (tasks db)" "t_state (?u2 (?u1 x)) \<notin> {TaskPending, TaskCancelled}"
      and u: "u \<in> set (tasks db)" "t_id u \<in> set (t_depends_on x)"
    have "t_state (?u1 u) = TaskSucceeded"
    proof (cases "?R (?u1 x)")
      case True
      moreover have "?u1 u \<in> set (tasks db1)" unfolding T(1) using u(1) by (rule sql_updateI)
      ultimately show ?thesis using u(2) k by (auto simp: released_def)
    next
      case False
      then have "t_state (?u1 x) \<notin> {TaskPending, TaskCancelled}" using x(2) by simp
      then have "t_state x \<notin> {TaskPending, TaskCancelled}"
        unfolding s1 [OF x(1)] using t(2) by (cases "x = t") simp_all
      then have "t_state u = TaskSucceeded" using D x(1) u unfolding deps_ok_def by blast
      then show ?thesis using s1 [OF u(1)] by simp
    qed
    then show "t_state (?u2 (?u1 u)) = TaskSucceeded" using unsucc by blast
  next
    fix x assume x: "x \<in> set (tasks db)" "t_state (?u2 (?u1 x)) = TaskPending"
    then have p: "t_state (?u1 x) = TaskPending" "\<not> ?R (?u1 x)" by (auto split: if_splits)
    then have x0: "x \<noteq> t" "t_state x = TaskPending" "?u1 x = x"
      using s1 [OF x(1)] same [OF x(1)] by (auto split: if_splits)
    obtain v where v: "v \<in> set (tasks db)" "t_id v \<in> set (t_depends_on x)" "t_state v \<noteq> TaskSucceeded"
      using D x(1) x0(2) unfolding deps_ok_def by blast
    show "\<exists>u \<in> set (tasks db). t_id u \<in> set (t_depends_on x) \<and> t_state (?u2 (?u1 u)) \<noteq> TaskSucceeded"
    proof (cases "v = t")
      case False
      then have "t_state (?u1 v) \<noteq> TaskSucceeded" using s1 [OF v(1)] v(3) by simp
      then show ?thesis using v(1,2) unsucc by blast
    next
      case True
      obtain w where w: "w \<in> set (tasks db)" "t_id w = t_id t" "t_job w = t_job x"
        using D x(1) v(2) True unfolding deps_ok_def by metis
      then have "t_job x = t_job t" using same [OF w(1,2)] by simp
      then obtain d where d: "d \<in> set (tasks db1)" "t_id d \<in> set (t_depends_on x)" "t_state d \<noteq> TaskSucceeded"
        using p(2) v(2) True x0(2) unfolding x0(3) released_def by blast
      then obtain u where u: "u \<in> set (tasks db)" "d = ?u1 u" unfolding T(1) by (elim sql_updateE)
      then have "t_id u = t_id d" "t_state (?u2 (?u1 u)) \<noteq> TaskSucceeded"
        using d(3) unsucc [of u] k(1) [of u] by auto
      then show ?thesis using d(2) u(1) by (metis (no_types, lifting))
    qed
  qed
qed

lemma released_task_ok:
  "task_ok t as \<Longrightarrow> t_state t = TaskPending \<Longrightarrow>
   task_ok (t\<lparr>t_state := TaskQueued, t_queued_at := q\<rparr>) as"
  by (auto simp: task_ok_def budget_ok_def)

text \<open>The success path: the attempt ends, the task succeeds, its dependents are released.\<close>

lemma succeed_inv:
  assumes inv: "job_inv db" and h: "holds db a t" and run: "t_state t = TaskRunning"
    and T: "tasks db1 = sql_update (\<lambda>x. t_id x = t_id t) f (tasks db)" "keeps_task f"
    and A: "attempts db1 = sql_update (\<lambda>x. a_id x = a_id a) g (attempts db)" "keeps_attempt g"
    and J: "jobs db1 = jobs db"
    and S: "t_state (f t) = TaskSucceeded" "t_attempt_count (f t) = t_attempt_count t" "\<not> a_live (g a)"
  shows "job_inv (reconcileJob now (releaseDependents now db1 (t_job t) (t_id t)) (t_tenant t) (t_job t))"
proof (rule job_inv_reconcile)
  let ?db2 = "releaseDependents now db1 (t_job t) (t_id t)"
  let ?q = "\<lambda>t. t\<lparr>t_state := TaskQueued, t_queued_at := Some now\<rparr>"
  have tm: "t \<in> set (tasks db)" using h by (simp add: holds_def)
  have p: "ids_ok db" "refs_ok db" "job_keys db1 = job_keys db"
    using inv J by (auto simp: job_inv_def job_keys_def)
  have 1: "ids_ok db1 \<and> refs_ok db1" by (rule ids_refs_update [OF p(1,2) T A p(3)])
  have R: "tasks ?db2 = sql_update (released db1 (t_job t) (t_id t)) ?q (tasks db1)" "keeps_task ?q"
    "attempts ?db2 = sql_update (\<lambda>_. False) id (attempts db1)" "keeps_attempt id"
    "job_keys ?db2 = job_keys db1"
    by (simp_all add: tasks_releaseDependents keeps_task_def keeps_attempt_def sql_update_def job_keys_def)
  show "ids_ok ?db2" "refs_ok ?db2" using ids_refs_update [OF _ _ R] 1 by auto
  have ok1: "tasks_ok db1" by (rule move_tasks_ok [OF inv h T A]) (use S in auto)
  show "tasks_ok ?db2"
    by (rule tasks_ok_update [OF ok1 R(1,2)])
      (auto simp: task_attempts_def released_def intro!: released_task_ok)
  show "deps_ok (tasks ?db2)"
    using inv tm run T S(1) by (intro deps_ok_release) (auto simp: job_inv_parts)
  fix j assume j: "j \<in> set (jobs ?db2)"
  show "j_tenant j = t_tenant t" if "j_id j = t_job t"
    using job_tenant [OF inv tm] that j J by simp
  show "j_state j = derived_state (job_tasks ?db2 (j_id j))" if "j_id j \<noteq> t_job t"
  proof -
    have "job_tasks ?db2 (j_id j) = job_tasks db1 (j_id j)"
      using that by (intro job_tasks_other [OF R(1,2)]) (auto simp: released_def)
    moreover have "j_state j = derived_state (job_tasks db1 (j_id j))"
    proof (rule other_jobs_ok [OF inv T, of "t_job t"])
      show "t_job x = t_job t" if "x \<in> set (tasks db)" "t_id x = t_id t" for x
        using same_task [OF inv tm that] by simp
    qed (use j J that in auto)
    ultimately show ?thesis by simp
  qed
qed

text \<open>The three outcomes of a completion that is accepted.\<close>

lemma complete_tx_cases:
  assumes inv: "job_inv db" and h: "holds db a t"
    and ar: "ar = \<lparr>at_tenantID = t_tenant t, at_taskID = t_id t, at_jobID = t_job t,
           at_assetVersionID = v, at_operation = t_operation t, at_state = a_state a,
           at_taskState = t_state t\<rparr>"
  shows "complete_tx now db (a_id a) res ar =
    (if t_state t = TaskCancelled
     then Inr (closeAttemptCancelled now db (a_id a), ar, False, False)
     else if Success res \<and> a_state a = AttemptLeased
     then Inl (ErrIllegalTransition ''attempt'' ''leased'' ''succeeded'')
     else if Success res then
       Inr (reconcileJob now (releaseDependents now
              ((finish_attempt now db (a_id a) AttemptSucceeded res)\<lparr>tasks :=
                 sql_update (\<lambda>x. t_id x = t_id t)
                   (\<lambda>r. r\<lparr>t_state := TaskSucceeded, t_finished := Some now\<rparr>) (tasks db)\<rparr>)
              (t_job t) (t_id t)) (t_tenant t) (t_job t), ar, True, False)
     else let cls = normalise_class (res_FailureClass res);
              retrying = (Retryable cls \<and> t_attempt_count t < t_max_attempts t)
          in Inr (reconcileJob now (settle_task now (finish_attempt now db (a_id a) AttemptFailed res)
                     (t_id t) (if retrying then TaskQueued else TaskFailed) cls (res_FailureReason res))
                  (t_tenant t) (t_job t), ar, False, retrying))"
proof -
  have tm: "t \<in> set (tasks db)" "distinct (map t_id (tasks db))"
    using h inv by (auto simp: holds_def job_inv_parts)
  have find: "sql_find (\<lambda>x. t_id x = t_id t) (tasks db) = Some t"
    by (rule sql_find_key [OF tm(2,1)]) auto
  have fa: "tasks (finish_attempt now db (a_id a) s res) = tasks db" for s
    by (simp add: finish_attempt_def)
  have st: "t_state t = TaskCancelled \<or> t_state t = TaskLeased \<and> a_state a = AttemptLeased \<or>
      t_state t = TaskRunning \<and> a_state a = AttemptRunning"
    using holds_filter [OF inv h] by auto
  have succ: "transitionTx now (finish_attempt now db (a_id a) AttemptSucceeded res) (t_tenant t) (t_id t)
      TaskSucceeded = Inr (releaseDependents now
              ((finish_attempt now db (a_id a) AttemptSucceeded res)\<lparr>tasks :=
                 sql_update (\<lambda>x. t_id x = t_id t)
                   (\<lambda>r. r\<lparr>t_state := TaskSucceeded, t_finished := Some now\<rparr>) (tasks db)\<rparr>)
              (t_job t) (t_id t), t_job t)" if "t_state t = TaskRunning"
    using that by (subst transitionTx_task)
      (auto simp: fa tm checkTask_def task_IsTerminal_def coalesce_def)
  show ?thesis
    using st by (auto simp: complete_tx_def ar checkAttempt_def checkTask_def Let_def succ fa find)
qed

definition succeeded_db :: "time \<Rightarrow> job_db \<Rightarrow> attempt_row \<Rightarrow> task_row \<Rightarrow> Result \<Rightarrow> job_db" where
  "succeeded_db now db a t res =
     (finish_attempt now db (a_id a) AttemptSucceeded res)\<lparr>tasks := sql_update (\<lambda>x. t_id x = t_id t)
        (\<lambda>r. r\<lparr>t_state := TaskSucceeded, t_finished := Some now\<rparr>) (tasks db)\<rparr>"

definition failed_db :: "time \<Rightarrow> job_db \<Rightarrow> attempt_row \<Rightarrow> task_row \<Rightarrow> Result \<Rightarrow> bool \<Rightarrow> job_db" where
  "failed_db now db a t res retrying =
     settle_task now (finish_attempt now db (a_id a) AttemptFailed res) (t_id t)
       (if retrying then TaskQueued else TaskFailed) (normalise_class (res_FailureClass res))
       (res_FailureReason res)"

lemma keeps_finish: "keeps_attempt (finish_row now to res)"
  by (simp add: keeps_attempt_def finish_row_def)

lemma keeps_settle: "keeps_task (settle_row now to cls reason)"
  by (simp add: keeps_task_def settle_row_def)

lemma failed_db_simps:
  "tasks (failed_db now db a t res r) = sql_update (\<lambda>x. t_id x = t_id t)
     (settle_row now (if r then TaskQueued else TaskFailed) (normalise_class (res_FailureClass res))
        (res_FailureReason res)) (tasks db)"
  "attempts (failed_db now db a t res r) =
     sql_update (\<lambda>x. a_id x = a_id a) (finish_row now AttemptFailed res) (attempts db)"
  "jobs (failed_db now db a t res r) = jobs db"
  by (simp_all add: failed_db_def settle_task_def finish_attempt_def)

lemma succeeded_db_simps:
  "tasks (succeeded_db now db a t res) = sql_update (\<lambda>x. t_id x = t_id t)
     (\<lambda>r. r\<lparr>t_state := TaskSucceeded, t_finished := Some now\<rparr>) (tasks db)"
  "attempts (succeeded_db now db a t res) =
     sql_update (\<lambda>x. a_id x = a_id a) (finish_row now AttemptSucceeded res) (attempts db)"
  "jobs (succeeded_db now db a t res) = jobs db"
  by (simp_all add: succeeded_db_def finish_attempt_def)

lemma job_Complete_Inr:
  assumes inv: "job_inv db" and "job_Complete now db aid wid res = Inr (db', c)"
  obtains (cancelled) a t where "holds db a t" "a_id a = aid" "a_worker a = wid" "t_state t = TaskCancelled"
      "db' = closeAttemptCancelled now db aid" "\<not> comp_Succeeded c" "\<not> comp_Retrying c"
  | (succeeded) a t where "holds db a t" "a_id a = aid" "a_worker a = wid" "t_state t = TaskRunning" "Success res"
      "db' = reconcileJob now (releaseDependents now (succeeded_db now db a t res) (t_job t) (t_id t))
               (t_tenant t) (t_job t)" "comp_Succeeded c" "\<not> comp_Retrying c"
  | (failed) a t r where "holds db a t" "a_id a = aid" "a_worker a = wid"
      "t_state t \<in> {TaskLeased, TaskRunning}" "\<not> Success res"
      "r \<longleftrightarrow> Retryable (normalise_class (res_FailureClass res)) \<and> t_attempt_count t < t_max_attempts t"
      "db' = reconcileJob now (failed_db now db a t res r) (t_tenant t) (t_job t)"
      "\<not> comp_Succeeded c" "comp_Retrying c = r"
proof -
  obtain ar s r where w: "withAttempt db aid wid (complete_tx now db aid res) = Inr (db', ar, s, r)"
    and c: "comp_Succeeded c = s" "comp_Retrying c = r"
    using assms(2) by (auto simp: job_Complete_def split: sum.splits prod.splits)
  then obtain ar' where 1: "attempt_join db aid wid = Some ar'" "\<not> attempt_IsTerminal (at_state ar')"
    and tx: "complete_tx now db aid res ar' = Inr (db', ar, s, r)"
    by (elim withAttempt_Inr)
  obtain a t j where h: "holds db a t" "a_id a = aid" "a_worker a = wid" and "j \<in> set (jobs db)"
    "j_id j = t_job t" and ar: "ar' = \<lparr>at_tenantID = t_tenant t, at_taskID = t_id t, at_jobID = t_job t,
           at_assetVersionID = j_version j, at_operation = t_operation t, at_state = a_state a,
           at_taskState = t_state t\<rparr>"
    by (rule attempt_join_holds [OF inv 1])
  note cases = complete_tx_cases [OF inv h(1) ar, of now res, unfolded h(2) tx]
  have st: "t_state t = TaskCancelled \<or> t_state t = TaskLeased \<and> a_state a = AttemptLeased \<or>
      t_state t = TaskRunning \<and> a_state a = AttemptRunning"
    using holds_filter [OF inv h(1)] by auto
  consider "t_state t = TaskCancelled" | "t_state t \<noteq> TaskCancelled" "Success res"
    | "t_state t \<noteq> TaskCancelled" "\<not> Success res" by blast
  then show ?thesis
  proof cases
    case 1
    then show ?thesis using cases h c by (intro cancelled) auto
  next
    case 2
    then have "t_state t = TaskRunning" using cases st by (auto split: if_splits)
    then show ?thesis using 2 cases h c st
      by (intro succeeded [OF h]) (auto simp: succeeded_db_def split: if_splits)
  next
    case 3
    then show ?thesis using cases h c st
      by (intro failed [OF h]) (auto simp: failed_db_def Let_def)
  qed
qed

lemma job_Complete_inv:
  assumes inv: "job_inv db" and c: "job_Complete now db aid wid res = Inr (db', c)"
  shows "job_inv db'"
  using assms
proof (cases rule: job_Complete_Inr)
  case (cancelled a t)
  then show ?thesis using closeAttemptCancelled_inv [OF inv] by blast
next
  case (succeeded a t)
  show ?thesis unfolding succeeded(6)
    by (rule succeed_inv [OF inv succeeded(1,4) succeeded_db_simps(1) _ succeeded_db_simps(2) keeps_finish
          succeeded_db_simps(3)])
      (auto simp: keeps_task_def finish_row_def a_live_def)
next
  case (failed a t r)
  show ?thesis unfolding failed(7)
    by (rule move_reconcile_inv [OF inv failed(1) failed_db_simps(1) keeps_settle failed_db_simps(2)
          keeps_finish failed_db_simps(3)])
      (use failed in \<open>auto simp: settle_row_def finish_row_def a_live_def\<close>)
qed

section \<open>Cancelling\<close>

lemma derived_cases:
  "derived_state ts = (if \<exists>t \<in> set ts. t_state t = TaskFailed then JobFailed
     else if \<exists>t \<in> set ts. t_state t = TaskCancelled then JobCancelled
     else if \<forall>t \<in> set ts. t_state t = TaskSucceeded then JobSucceeded
     else if \<exists>t \<in> set ts. t_state t \<in> {TaskLeased, TaskRunning, TaskSucceeded} then JobRunning
     else JobPending)"
proof -
  have "length (filter P ts) = length ts \<longleftrightarrow> (\<forall>t \<in> set ts. P t)" for P
    by (metis filter_True length_filter_less less_irrefl)
  then show ?thesis
    by (auto simp: derived_state_def next_job_state_def sql_count_pos_iff sql_count_0_iff) (auto simp: sql_count_def)
qed

lemma derived_open:
  "\<not> job_terminal (derived_state ts) \<longleftrightarrow>
     (\<forall>t \<in> set ts. t_state t \<noteq> TaskFailed \<and> t_state t \<noteq> TaskCancelled) \<and>
     (\<exists>t \<in> set ts. t_state t \<noteq> TaskSucceeded)"
proof -
  have "\<not> job_terminal (if A then JobFailed else if B then JobCancelled else if C then JobSucceeded
       else if D then JobRunning else JobPending) \<longleftrightarrow> \<not> A \<and> \<not> B \<and> \<not> C" for A B C D
    by (simp add: job_terminal_def)
  note * = this
  show ?thesis unfolding derived_cases * by blast
qed

lemma cancel_row_ok:
  "task_ok t as \<Longrightarrow> t_state t \<in> {TaskPending, TaskQueued, TaskLeased, TaskRunning} \<Longrightarrow>
   task_ok (t\<lparr>t_state := TaskCancelled, t_finished := x\<rparr>) as"
  by (cases "t_state t") (auto simp: task_ok_def budget_ok_def)

lemma job_Cancel_inv:
  assumes inv: "job_inv db" and c: "job_Cancel now db ten jid = Inr db'"
  shows "job_inv db'"
proof -
  let ?open = "\<lambda>t. t_job t = jid \<and> t_state t \<in> {TaskPending, TaskQueued, TaskLeased, TaskRunning}"
  let ?f = "\<lambda>t. t\<lparr>t_state := TaskCancelled, t_finished := Some now\<rparr>"
  let ?g = "\<lambda>r. r\<lparr>j_state := JobCancelled, j_finished := Some now\<rparr>"
  let ?db = "db\<lparr>tasks := sql_update ?open ?f (tasks db), jobs := sql_update (\<lambda>r. j_id r = jid) ?g (jobs db)\<rparr>"
  obtain j where j: "j \<in> set (jobs db)" "j_id j = jid"
    and d: "db' = db \<or> \<not> job_terminal (j_state j) \<and> db' = ?db"
    using c by (auto simp: job_Cancel_def job_terminal_def split: option.splits if_splits
        dest!: sql_find_SomeD)
  have T: "tasks ?db = sql_update ?open ?f (tasks db)" "keeps_task ?f" by (simp_all add: keeps_task_def)
  have A: "attempts ?db = sql_update (\<lambda>_. False) id (attempts db)" "keeps_attempt id"
    by (simp_all add: sql_update_def keeps_attempt_def)
  have p: "ids_ok db" "refs_ok db" "job_keys ?db = job_keys db" "tasks_ok db" "deps_ok (tasks db)"
    using inv by (auto simp: job_inv_def job_keys_def intro!: map_sql_update_same)
  show ?thesis
  proof (cases "db' = db")
    case False
    with d have nt: "\<not> job_terminal (j_state j)" and db': "db' = ?db" by auto
    have "ids_ok ?db \<and> refs_ok ?db" by (rule ids_refs_update [OF p(1,2) T A p(3)])
    moreover have "tasks_ok ?db"
      by (rule tasks_ok_update [OF p(4) T]) (auto simp: task_attempts_def intro!: cancel_row_ok)
    moreover have "deps_ok (tasks ?db)" unfolding T(1) by (rule deps_ok_update [OF p(5) T(2)]) auto
    moreover have "jobs_ok ?db" unfolding jobs_ok_def
    proof
      fix i assume "i \<in> set (jobs ?db)"
      then obtain i0 where i0: "i0 \<in> set (jobs db)" "i = (if j_id i0 = jid then ?g i0 else i0)"
        by (auto elim: sql_updateE)
      show "j_state i = derived_state (job_tasks ?db (j_id i))"
      proof (cases "j_id i0 = jid")
        case True
        have st: "j_state j = derived_state (job_tasks db jid)"
          using inv j by (simp add: job_inv_def jobs_ok_def)
        have "job_tasks ?db jid = sql_update ?open ?f (job_tasks db jid)"
          by (simp add: job_tasks_def filter_sql_update_same)
        then have js: "set (job_tasks ?db jid) = (\<lambda>t. if ?open t then ?f t else t) ` set (job_tasks db jid)"
          by (simp add: set_sql_update)
        then obtain t where t: "t \<in> set (job_tasks db jid)" "t_state t \<noteq> TaskSucceeded"
          and nf: "\<forall>t \<in> set (job_tasks db jid). t_state t \<noteq> TaskFailed \<and> t_state t \<noteq> TaskCancelled"
          using nt unfolding st derived_open by blast
        then have "?open t" using nf by (cases "t_state t") (auto simp: job_tasks_def)
        then have "\<exists>t \<in> set (job_tasks ?db jid). t_state t = TaskCancelled"
          unfolding js using t(1) by (intro bexI [of _ "?f t"]) (auto intro!: image_eqI [of _ _ t])
        moreover have "\<forall>t \<in> set (job_tasks ?db jid). t_state t \<noteq> TaskFailed"
          unfolding js using nf by auto
        ultimately have "derived_state (job_tasks ?db jid) = JobCancelled" by (simp add: derived_cases)
        then show ?thesis using i0(2) True by simp
      next
        case False
        then have "j_state i0 = derived_state (job_tasks ?db (j_id i0))"
          using i0(1) by (intro other_jobs_ok [OF inv T, of jid]) auto
        then show ?thesis using i0(2) False by simp
      qed
    qed
    ultimately show ?thesis unfolding db' by (simp add: job_inv_def)
  qed (use inv in simp)
qed

section \<open>Leasing\<close>

lemma pick_best_Some: "pick_best before xs = Some x \<Longrightarrow> x \<in> set xs"
  by (induction xs arbitrary: x) (auto split: option.splits if_splits)

lemma pick_best_None [simp]: "pick_best before xs = None \<longleftrightarrow> xs = []"
  by (cases xs) (auto split: option.splits)

text \<open>
  What \<open>order by ... limit 1\<close> relies on: the ranking is a strict weak order. Then no row ranks before
  the one picked.
\<close>

locale ranking =
  fixes before :: "'a \<Rightarrow> 'a \<Rightarrow> bool"
  assumes irrefl: "\<not> before x x"
    and asym: "before x y \<Longrightarrow> \<not> before y x"
    and weak: "before x y \<Longrightarrow> \<not> before z y \<Longrightarrow> before x z"
begin

lemma picked_first: "pick_best before xs = Some x \<Longrightarrow> y \<in> set xs \<Longrightarrow> \<not> before y x"
proof (induction xs arbitrary: x y)
  case (Cons t ts)
  show ?case
  proof (cases "pick_best before ts")
    case None
    then show ?thesis using Cons.prems irrefl by auto
  next
    case (Some s)
    have rest: "\<not> before z s" if "z \<in> set ts" for z using Cons.IH [OF Some that] .
    show ?thesis
    proof (cases "before s t")
      case True
      then have "x = s" using Cons.prems(1) Some by simp
      then show ?thesis using Cons.prems(2) rest asym [OF True] by auto
    next
      case False
      then have "x = t" using Cons.prems(1) Some by simp
      then show ?thesis using Cons.prems(2) rest weak [of y t s] irrefl False by auto
    qed
  qed
qed simp

end

interpretation lease_rank: ranking "ranks_before now db w" for now db w
  by unfold_locales (unfold ranks_before_def, linarith+)

lemma leased_row_ok:
  assumes "task_ok t as" "t_state t = TaskQueued"
    and "a_state r = AttemptLeased" "a_number r = t_attempt_count t + 1"
  shows "task_ok (t\<lparr>t_state := TaskLeased, t_attempt_count := t_attempt_count t + 1\<rparr>) (as @ [r])"
proof -
  have "[1..<Suc (nat (t_attempt_count t + 1))] =
      [1..<Suc (nat (t_attempt_count t))] @ [Suc (nat (t_attempt_count t))]"
    using assms(1) by (simp add: task_ok_def budget_ok_def Suc_nat_eq_nat_zadd1 [symmetric] add.commute)
  then show ?thesis
    using assms by (auto simp: task_ok_def budget_ok_def live_states_def a_live_def)
qed

text \<open>The effect of a lease: the task, its new attempt, and the reconciled job.\<close>

definition leased_db :: "time \<Rightarrow> job_db \<Rightarrow> task_row \<Rightarrow> attempt_row \<Rightarrow> job_db" where
  "leased_db now db t r =
     reconcileJob now ((mark_leased db (t_id t) (t_attempt_count t + 1))\<lparr>attempts := attempts db @ [r]\<rparr>)
       (t_tenant t) (t_job t)"

lemma job_Lease_Inr:
  assumes "job_Lease now aid quota locked db w ttl = Inr (db', a)"
  obtains t reason where "t \<in> set (lease_candidates quota locked db w (freeSlotClasses db w))"
    "leaseQuery now quota locked db w (freeSlotClasses db w) = Some t"
    "a = assignment_of t aid ttl" "aid \<notin> a_id ` set (attempts db)"
    "db' = leased_db now db t (new_attempt now a (w_ID w) ttl reason)"
  using assms
  by (auto simp: job_Lease_def Let_def insert_attempt_def leased_db_def mark_leased_def new_attempt_def
      assignment_of_def list_ex_iff leaseQuery_def split: if_splits option.splits sum.splits
      dest!: pick_best_Some)

lemma job_Lease_inv:
  assumes inv: "job_inv db" and "job_Lease now aid quota locked db w ttl = Inr (db', a)"
  shows "job_inv db'"
  using assms(2)
proof (rule job_Lease_Inr)
  fix t :: task_row and reason
  let ?r = "new_attempt now a (w_ID w) ttl reason"
  let ?f = "\<lambda>x. x\<lparr>t_state := TaskLeased, t_attempt_count := t_attempt_count t + 1\<rparr>"
  let ?db = "(mark_leased db (t_id t) (t_attempt_count t + 1))\<lparr>attempts := attempts db @ [?r]\<rparr>"
  assume "t \<in> set (lease_candidates quota locked db w (freeSlotClasses db w))"
  then have t: "t \<in> set (tasks db)" "t_state t = TaskQueued"
    by (auto simp: lease_candidates_def feasible_def)
  assume "a = assignment_of t aid ttl" "aid \<notin> a_id ` set (attempts db)"
  then have r: "a_task ?r = t_id t" "a_tenant ?r = t_tenant t" "a_id ?r \<notin> a_id ` set (attempts db)"
    "a_state ?r = AttemptLeased" "a_number ?r = t_attempt_count t + 1"
    by (simp_all add: new_attempt_def assignment_of_def)
  have T: "tasks ?db = sql_update (\<lambda>x. t_id x = t_id t) ?f (tasks db)" "keeps_task ?f"
    by (simp_all add: mark_leased_def keeps_task_def)
  have u: "x = t" if "x \<in> set (tasks db)" "t_id x = t_id t" for x
    using same_task [OF inv t(1) that] .
  let ?m = "mark_leased db (t_id t) (t_attempt_count t + 1)"
  have p: "ids_ok db" "refs_ok db" "tasks ?m = sql_update (\<lambda>x. t_id x = t_id t) ?f (tasks db)"
    "attempts ?m = sql_update (\<lambda>_. False) id (attempts db)" "keeps_attempt id" "job_keys ?m = job_keys db"
    using inv by (simp_all add: job_inv_def job_keys_def mark_leased_def keeps_attempt_def sql_update_def)
  have m: "ids_ok ?m \<and> refs_ok ?m" by (rule ids_refs_update [OF p(1-3) T(2) p(4-6)])
  assume "db' = leased_db now db t ?r"
  moreover have "job_inv (reconcileJob now ?db (t_tenant t) (t_job t))"
  proof (rule job_inv_reconcile)
    show "ids_ok ?db" using m r(3) by (auto simp: ids_ok_def mark_leased_def)
    have "?f t \<in> set (tasks ?db)"
      using sql_updateI [OF t(1), of "\<lambda>x. t_id x = t_id t" ?f] unfolding T(1) by simp
    then have "\<exists>x \<in> set (tasks ?db). t_id x = a_task ?r \<and> t_tenant x = a_tenant ?r"
      using r by (intro bexI [of _ "?f t"]) auto
    then show "refs_ok ?db" using m by (auto simp: refs_ok_def mark_leased_def)
    show "tasks_ok ?db"
    proof (rule tasks_ok_update [OF _ T])
      show "tasks_ok db" using inv by (simp add: job_inv_def)
    next
      fix x assume "\<not> t_id x = t_id t" "task_ok x (task_attempts db (t_id x))"
      then show "task_ok x (task_attempts ?db (t_id x))" using r(1) by (simp add: task_attempts_def)
    next
      fix x assume "x \<in> set (tasks db)" "t_id x = t_id t" "task_ok x (task_attempts db (t_id x))"
      moreover from this have "x = t" by (intro u)
      ultimately show "task_ok (?f x) (task_attempts ?db (t_id x))"
        using r t(2) leased_row_ok [of t "task_attempts db (t_id t)" ?r] by (simp add: task_attempts_def)
    qed
    show "deps_ok (tasks ?db)" unfolding T(1)
    proof (rule deps_ok_update [OF _ T(2)])
      show "deps_ok (tasks db)" using inv by (simp add: job_inv_def)
    next
      fix x assume "x \<in> set (tasks db)" "t_id x = t_id t"
      then have "x = t" by (rule u)
      then show "t_state x \<noteq> TaskSucceeded \<and> t_state (?f x) \<noteq> TaskSucceeded"
        "t_state (?f x) = TaskCancelled \<or> t_state x \<notin> {TaskPending, TaskCancelled}" using t(2) by auto
    qed auto
    fix j assume j: "j \<in> set (jobs ?db)"
    show "j_tenant j = t_tenant t" if "j_id j = t_job t"
      using job_tenant [OF inv t(1)] j that by (simp add: mark_leased_def)
    show "j_state j = derived_state (job_tasks ?db (j_id j))" if "j_id j \<noteq> t_job t"
      by (rule other_jobs_ok [OF inv T, of "t_job t"]) (use u j that in \<open>auto simp: mark_leased_def\<close>)
  qed
  ultimately show ?thesis by (simp add: leased_db_def)
qed

section \<open>Creating\<close>

lemma insert_tasks_Inr:
  assumes "insert_tasks rs db = Inr db'" "distinct (map t_id (tasks db))"
  shows "tasks db' = tasks db @ rs \<and> jobs db' = jobs db \<and> attempts db' = attempts db \<and>
    distinct (map t_id (tasks db @ rs)) \<and> (\<forall>r \<in> set rs. t_operation r \<in> set task_operations)"
  using assms
proof (induction rs arbitrary: db)
  case (Cons r rs)
  then obtain db1 where 1: "insert_task r db = Inr db1" "insert_tasks rs db1 = Inr db'"
    by (auto split: sum.splits)
  then have "db1 = db\<lparr>tasks := tasks db @ [r]\<rparr>" "t_id r \<notin> t_id ` set (tasks db)"
    "t_operation r \<in> set task_operations"
    by (auto simp: insert_task_def list_ex_iff split: if_splits)
  moreover from this have "distinct (map t_id (tasks db1))" using Cons.prems(2) by simp
  ultimately show ?case using Cons.IH [OF 1(2)] by simp
qed simp

lemma task_ids_None: "task_ids fresh ts k = None \<longleftrightarrow> k \<notin> nt_Key ` set ts"
proof -
  have "fst ` set (zip (map nt_Key ts) (map fresh [0..<length ts])) = nt_Key ` set ts"
    unfolding set_map [symmetric] by (subst map_fst_zip) simp_all
  then show ?thesis by (simp add: task_ids_def map_of_eq_None_iff)
qed

lemma bad_depend_None:
  "bad_depend ids ts = None \<longleftrightarrow> (\<forall>t \<in> set ts. \<forall>d \<in> set (nt_DependsOn t). ids d \<noteq> None)"
  by (induction ts) (auto split: option.splits simp: find_None_iff find_Some_iff)

text \<open>The rows a task graph becomes, and what holds of them before any of them has run.\<close>

definition graph_rows :: "time \<Rightarrow> (nat \<Rightarrow> uuid) \<Rightarrow> uuid \<Rightarrow> uuid \<Rightarrow> int \<Rightarrow> NewTask list \<Rightarrow> task_row list" where
  "graph_rows now fresh ten jid prio ts = map (new_task_row now (task_ids fresh ts) ten jid prio) ts"

lemma graph_row:
  assumes "r \<in> set (graph_rows now fresh ten jid prio ts)"
  shows "t_job r = jid" "t_tenant r = ten" "t_attempt_count r = 0" "0 < t_max_attempts r"
    "t_state r = (if t_depends_on r = [] then TaskQueued else TaskPending)"
  using assms by (auto simp: graph_rows_def new_task_row_def Let_def)

lemma graph_dep:
  assumes "bad_depend (task_ids fresh ts) ts = None" "r \<in> set (graph_rows now fresh ten jid prio ts)"
    and "d \<in> set (t_depends_on r)"
  shows "\<exists>u \<in> set (graph_rows now fresh ten jid prio ts). t_id u = d"
proof -
  obtain t k where "t \<in> set ts" "k \<in> set (nt_DependsOn t)" and d: "d = the (task_ids fresh ts k)"
    using assms(2,3) by (auto simp: graph_rows_def new_task_row_def Let_def)
  then have "task_ids fresh ts k \<noteq> None" using assms(1) unfolding bad_depend_None by blast
  then have "k \<in> nt_Key ` set ts" using task_ids_None by metis
  then obtain t' where "t' \<in> set ts" "nt_Key t' = k" by auto
  then show ?thesis unfolding graph_rows_def d
    by (intro bexI [of _ "new_task_row now (task_ids fresh ts) ten jid prio t'"])
      (auto simp: new_task_row_def Let_def)
qed

lemma job_Create_Inr:
  assumes "job_Create now fresh db ten ver pv key prio ts = Inr (db', j)" "db' \<noteq> db"
    and "distinct (map t_id (tasks db))"
  obtains row rows where "db' = db\<lparr>jobs := jobs db @ [row], tasks := tasks db @ rows\<rparr>"
    "j = scan_job row" "j_id row = fresh (length ts)" "j_tenant row = ten" "j_state row = JobPending"
    "j_id row \<notin> j_id ` set (jobs db)" "distinct (map t_id (tasks db @ rows))"
    "rows = graph_rows now fresh ten (j_id row) prio ts" "rows \<noteq> []"
    "bad_depend (task_ids fresh ts) ts = None"
proof -
  let ?row = "\<lparr>j_id = fresh (length ts), j_tenant = ten, j_version = ver, j_pipeline = pv,
      j_idem = nullable key, j_priority = prio, j_state = JobPending, j_failure_reason = None,
      j_created = now, j_started = None, j_finished = None\<rparr>"
  let ?rows = "graph_rows now fresh ten (fresh (length ts)) prio ts"
  have 1: "ts \<noteq> []" "bad_depend (task_ids fresh ts) ts = None" "fresh (length ts) \<notin> j_id ` set (jobs db)"
    "insert_tasks ?rows (db\<lparr>jobs := jobs db @ [?row]\<rparr>) = Inr db'" "j = scan_job ?row"
    using assms(1,2) unfolding job_Create_def Let_def graph_rows_def
    by (auto simp: list_ex_iff byIdempotencyKey_def split: if_splits option.splits sum.splits)
  note ins = insert_tasks_Inr [OF 1(4)]
  have "db' = db\<lparr>jobs := jobs db @ [?row], tasks := tasks db @ ?rows\<rparr>"
    using ins assms(3) by (intro job_db.equality) auto
  moreover have "distinct (map t_id (tasks db @ ?rows))" "?rows \<noteq> []"
    using ins assms(3) 1(1) by (simp_all add: graph_rows_def)
  ultimately show ?thesis using 1 by (intro that [of ?rows ?row]) (assumption | simp)+
qed

lemma deps_ok_append:
  assumes "deps_ok ts" "distinct (map t_id (ts @ rs))"
    and own: "\<And>r d. r \<in> set rs \<Longrightarrow> d \<in> set (t_depends_on r) \<Longrightarrow> \<exists>u \<in> set rs. t_id u = d \<and> t_job u = t_job r"
    and st: "\<And>r. r \<in> set rs \<Longrightarrow> t_state r = (if t_depends_on r = [] then TaskQueued else TaskPending)"
  shows "deps_ok (ts @ rs)"
proof -
  have fresh: "t_id r \<notin> set (t_depends_on t)" if tr: "t \<in> set ts" "r \<in> set rs" for t r
  proof
    assume "t_id r \<in> set (t_depends_on t)"
    then obtain u where "u \<in> set ts" "t_id u = t_id r"
      using assms(1) tr(1) unfolding deps_ok_def by blast
    then have "t_id r \<in> t_id ` set ts" by (metis image_eqI)
    then show False using assms(2) tr(2) by auto
  qed
  show ?thesis unfolding deps_ok_def
  proof (intro conjI ballI impI)
    fix t d assume "t \<in> set (ts @ rs)" "d \<in> set (t_depends_on t)"
    then show "\<exists>u \<in> set (ts @ rs). t_id u = d \<and> t_job u = t_job t"
      using assms(1) own [of t d] unfolding deps_ok_def set_append by blast
  next
    fix t u assume t: "t \<in> set (ts @ rs)" "t_state t \<notin> {TaskPending, TaskCancelled}"
      and u: "u \<in> set (ts @ rs)" "t_id u \<in> set (t_depends_on t)"
    have "t \<in> set ts" using t u(2) st [of t] by (cases "t_depends_on t") auto
    then have "u \<in> set ts" using u fresh by auto
    then show "t_state u = TaskSucceeded" using assms(1) \<open>t \<in> set ts\<close> t(2) u(2) unfolding deps_ok_def by blast
  next
    fix t assume t: "t \<in> set (ts @ rs)" "t_state t = TaskPending"
    show "\<exists>u \<in> set (ts @ rs). t_id u \<in> set (t_depends_on t) \<and> t_state u \<noteq> TaskSucceeded"
    proof (cases "t \<in> set ts")
      case True
      then obtain u where "u \<in> set ts" "t_id u \<in> set (t_depends_on t)" "t_state u \<noteq> TaskSucceeded"
        using assms(1) t(2) unfolding deps_ok_def by blast
      then show ?thesis by (intro bexI [of _ u]) simp_all
    next
      case False
      then have r: "t \<in> set rs" "t_depends_on t \<noteq> []" using t st [of t] by (auto split: if_splits)
      then obtain u where "u \<in> set rs" "t_id u = hd (t_depends_on t)"
        using own [OF r(1), of "hd (t_depends_on t)"] by auto
      then show ?thesis using r(2) st [of u] by (intro bexI [of _ u]) (auto split: if_splits)
    qed
  qed
qed

lemma job_Create_inv:
  assumes inv: "job_inv db" and c: "job_Create now fresh db ten ver pv key prio ts = Inr (db', j)"
  shows "job_inv db'"
proof (cases "db' = db")
  case False
  have "distinct (map t_id (tasks db))" using inv by (simp add: job_inv_parts)
  then show ?thesis
  proof (rule job_Create_Inr [OF c False])
    fix row rows
    assume db': "db' = db\<lparr>jobs := jobs db @ [row], tasks := tasks db @ rows\<rparr>"
      and row: "j_tenant row = ten" "j_state row = JobPending" "j_id row \<notin> j_id ` set (jobs db)"
      and d: "distinct (map t_id (tasks db @ rows))" and ne: "rows \<noteq> []"
      and rows: "rows = graph_rows now fresh ten (j_id row) prio ts"
      and bd: "bad_depend (task_ids fresh ts) ts = None"
    note r = graph_row [of _ now fresh ten "j_id row" prio ts, folded rows]
    have old: "t_job t \<noteq> j_id row" if t: "t \<in> set (tasks db)" for t
    proof -
      obtain i where "i \<in> set (jobs db)" "j_id i = t_job t" using inv t by (auto simp: job_inv_parts)
      then show ?thesis using row(3) by (metis image_eqI)
    qed
    have noatt: "task_attempts db (t_id u) = []" if "u \<in> set rows" for u
    proof -
      have "a_task a \<noteq> t_id u" if a: "a \<in> set (attempts db)" for a
      proof -
        obtain t where "t \<in> set (tasks db)" "t_id t = a_task a" using inv a by (auto simp: job_inv_parts)
        then have "a_task a \<in> t_id ` set (tasks db)" by (metis image_eqI)
        then show ?thesis using d \<open>u \<in> set rows\<close> by auto
      qed
      then show ?thesis by (auto simp: task_attempts_def filter_empty_conv)
    qed
    have "ids_ok db'" using inv row(3) d by (auto simp: db' job_inv_parts)
    moreover have "refs_ok db'" using inv row(1) r by (auto simp: db' job_inv_parts)
    moreover have "tasks_ok db'" unfolding tasks_ok_def
    proof
      fix t assume "t \<in> set (tasks db')"
      moreover have "task_attempts db' (t_id t) = task_attempts db (t_id t)"
        by (simp add: db' task_attempts_def)
      moreover have "task_ok t []" if "t \<in> set rows"
        using r(3-5) [OF that] by (simp add: task_ok_def live_states_def budget_ok_def)
      ultimately show "task_ok t (task_attempts db' (t_id t))"
        using inv noatt [of t] by (auto simp: db' job_inv_def tasks_ok_def)
    qed
    moreover have "deps_ok (tasks db')"
    proof -
      have "\<exists>u \<in> set rows. t_id u = e \<and> t_job u = t_job x" if "x \<in> set rows" "e \<in> set (t_depends_on x)" for x e
        using graph_dep [OF bd, of x now ten "j_id row" prio e, folded rows] that r(1) by metis
      then show ?thesis using inv d r(5) by (simp add: db' job_inv_def deps_ok_append)
    qed
    moreover have "jobs_ok db'"
    proof -
      have "job_tasks db' (j_id row) = rows"
        using old r(1) by (simp add: db' job_tasks_def filter_id_conv)
      moreover have "derived_state rows = JobPending"
        using ne r(5) by (auto simp: derived_cases neq_Nil_conv split: if_splits)
      moreover have "job_tasks db' i = job_tasks db i" if "i \<noteq> j_id row" for i
        using r(1) that by (auto simp: db' job_tasks_def filter_empty_conv)
      ultimately show ?thesis
        using inv row(2,3) by (auto simp: jobs_ok_def db' job_inv_def image_iff)
    qed
    ultimately show ?thesis by (simp add: job_inv_def)
  qed
qed (use inv in simp)

section \<open>Expiring\<close>

definition row_of :: "attempt_row \<times> task_row \<Rightarrow> expired_row" where
  "row_of p = (case p of (a, t) \<Rightarrow>
     \<lparr>xr_attemptID = a_id a, xr_taskID = a_task a, xr_workerID = a_worker a, xr_attempt = a_number a,
      xr_tenantID = a_tenant a, xr_taskState = t_state t, xr_jobID = t_job t,
      xr_attemptCount = t_attempt_count t, xr_maxAttempts = t_max_attempts t\<rparr>)"

text \<open>Where the sweep leaves the task of a lapsed attempt.\<close>

definition swept_state :: "task_row \<Rightarrow> task_state" where
  "swept_state t =
     (if t_state t = TaskCancelled then TaskCancelled
      else if t_attempt_count t < t_max_attempts t then TaskQueued else TaskFailed)"

abbreviation expire_row :: "time \<Rightarrow> attempt_row \<Rightarrow> attempt_row" where
  "expire_row now a \<equiv> a\<lparr>a_state := AttemptExpired, a_finished := Some now,
     a_failure_class := Some ClassTransient,
     a_failure_reason := Some ''lease expired: the worker stopped reporting''\<rparr>"

lemma holds_frame:
  assumes inv: "job_inv db" and h: "holds db a t" and h2: "holds db a2 t2" "a2 \<noteq> a"
  shows "t_id t2 \<noteq> t_id t"
proof
  assume "t_id t2 = t_id t"
  then have "a2 \<in> set (filter a_live (task_attempts db (t_id t)))"
    using h2 by (auto simp: holds_def task_attempts_def)
  then show False using holds_filter [OF inv h] h2(2) by simp
qed

lemma expire_one_holds:
  assumes inv: "job_inv db" and h: "holds db a t"
  obtains db' where
    "expire_one now db (row_of (a, t)) =
       Inr (db', expired_of (row_of (a, t)) (swept_state t = TaskQueued))"
    "job_inv db'"
    "attempts db' = sql_update (\<lambda>x. a_id x = a_id a) (expire_row now) (attempts db)"
    "\<exists>t' \<in> set (tasks db'). t_id t' = t_id t \<and> t_state t' = swept_state t"
    "\<And>u. u \<in> set (tasks db) \<Longrightarrow> t_id u \<noteq> t_id t \<Longrightarrow> u \<in> set (tasks db')"
proof -
  let ?db1 = "expire_attempt now db (a_id a)"
  have A: "attempts ?db1 = sql_update (\<lambda>x. a_id x = a_id a) (expire_row now) (attempts db)"
    "keeps_attempt (expire_row now)" by (simp_all add: expire_attempt_def keeps_attempt_def)
  have tm: "t \<in> set (tasks db)" "t_id t = a_task a" "t_tenant t = a_tenant a"
    using h by (simp_all add: holds_def)
  show ?thesis
  proof (cases "t_state t = TaskCancelled")
    case True
    have "job_inv ?db1"
      by (rule attempt_only_inv [OF inv h A]) (simp_all add: expire_attempt_def True a_live_def)
    then show ?thesis using True A tm
      by (intro that [of ?db1])
        (auto simp: expire_one_def Let_def row_of_def swept_state_def expire_attempt_def)
  next
    case False
    let ?to = "swept_state t"
    let ?db2 = "requeue_task now ?db1 (t_id t) ?to"
    let ?f = "\<lambda>t. t\<lparr>t_state := ?to, t_queued_at := (if ?to = TaskQueued then Some now else t_queued_at t),
         t_finished := (if ?to = TaskFailed then Some now else t_finished t),
         t_failure_class := Some ClassTransient,
         t_failure_reason := (if ?to = TaskFailed
           then Some ''lease expired and the retry budget is exhausted'' else t_failure_reason t)\<rparr>"
    have st: "t_state t = TaskLeased \<or> t_state t = TaskRunning" using holds_filter [OF inv h] False by auto
    have T: "tasks ?db2 = sql_update (\<lambda>x. t_id x = t_id t) ?f (tasks db)" "keeps_task ?f"
      "attempts ?db2 = attempts ?db1" "jobs ?db2 = jobs db"
      by (simp_all add: requeue_task_def expire_attempt_def keeps_task_def)
    have i: "job_inv (reconcileJob now ?db2 (t_tenant t) (t_job t))"
      by (rule move_reconcile_inv [OF inv h T(1,2) _ A(2) T(4)])
        (use A(1) T(3) False in \<open>auto simp: swept_state_def a_live_def split: if_splits\<close>)
    have e: "expire_one now db (row_of (a, t)) = Inr (reconcileJob now ?db2 (t_tenant t) (t_job t),
        expired_of (row_of (a, t)) (?to = TaskQueued))"
      using st tm by (auto simp: expire_one_def Let_def row_of_def swept_state_def checkTask_def task_IsTerminal_def)
    have "?f t \<in> set (tasks ?db2)" unfolding T(1)
      using sql_updateI [OF tm(1), of "\<lambda>x. t_id x = t_id t" ?f] by simp
    moreover have "u \<in> set (tasks ?db2)" if "u \<in> set (tasks db)" "t_id u \<noteq> t_id t" for u unfolding T(1)
      using sql_updateI [OF that(1), of "\<lambda>x. t_id x = t_id t" ?f] that(2) by simp
    ultimately show ?thesis using i e A(1) T(3)
      by (intro that [of "reconcileJob now ?db2 (t_tenant t) (t_job t)"])
        (auto intro!: bexI [of _ "?f t"])
  qed
qed

lemma sql_update_merge:
  assumes "\<And>x. k (g x) = k x" "\<And>x. g (g x) = g x"
  shows "sql_update (\<lambda>x. k x \<in> B) g (sql_update (\<lambda>x. k x = i) g xs) = sql_update (\<lambda>x. k x \<in> insert i B) g xs"
  using assms by (auto simp: sql_update_def)

lemma expire_loop_holds:
  assumes "job_inv db" "\<forall>p \<in> set ps. holds db (fst p) (snd p)" "distinct (map fst ps)"
  shows "\<exists>db'. expire_loop now db (map row_of ps) =
      Inr (db', map (\<lambda>p. expired_of (row_of p) (swept_state (snd p) = TaskQueued)) ps) \<and>
    job_inv db' \<and>
    attempts db' = sql_update (\<lambda>x. a_id x \<in> a_id ` fst ` set ps) (expire_row now) (attempts db) \<and>
    (\<forall>p \<in> set ps. \<exists>t' \<in> set (tasks db'). t_id t' = t_id (snd p) \<and> t_state t' = swept_state (snd p)) \<and>
    (\<forall>u \<in> set (tasks db). t_id u \<notin> t_id ` snd ` set ps \<longrightarrow> u \<in> set (tasks db'))"
  using assms
proof (induction ps arbitrary: db)
  case Nil
  then show ?case by (simp add: sql_update_id)
next
  case (Cons p ps)
  obtain a t where p: "p = (a, t)" by (cases p)
  have h: "holds db a t" using Cons.prems(2) p by simp
  obtain db1 where 1: "expire_one now db (row_of p) =
        Inr (db1, expired_of (row_of p) (swept_state t = TaskQueued))"
    and inv1: "job_inv db1"
    and att: "attempts db1 = sql_update (\<lambda>x. a_id x = a_id a) (expire_row now) (attempts db)"
    and t1: "\<exists>t' \<in> set (tasks db1). t_id t' = t_id t \<and> t_state t' = swept_state t"
    and fr: "\<And>u. u \<in> set (tasks db) \<Longrightarrow> t_id u \<noteq> t_id t \<Longrightarrow> u \<in> set (tasks db1)"
    using expire_one_holds [OF Cons.prems(1) h] unfolding p by metis
  have other: "t_id (snd q) \<noteq> t_id t \<and> holds db1 (fst q) (snd q)" if q: "q \<in> set ps" for q
  proof -
    have hq: "holds db (fst q) (snd q)" "fst q \<noteq> a" using Cons.prems(2,3) q p by force+
    then have ne: "t_id (snd q) \<noteq> t_id t" by (intro holds_frame [OF Cons.prems(1) h])
    have "a_id (fst q) \<noteq> a_id a"
      using same_attempt [OF Cons.prems(1), of a "fst q"] hq h by (auto simp: holds_def)
    then have "fst q \<in> set (attempts db1)"
      using sql_updateI [of "fst q" "attempts db" "\<lambda>x. a_id x = a_id a" "expire_row now"] hq(1)
      unfolding att by (simp add: holds_def)
    then show ?thesis using hq(1) ne fr [of "snd q"] by (simp add: holds_def)
  qed
  obtain db2 where 2: "expire_loop now db1 (map row_of ps) =
      Inr (db2, map (\<lambda>p. expired_of (row_of p) (swept_state (snd p) = TaskQueued)) ps)" "job_inv db2"
    and att2: "attempts db2 = sql_update (\<lambda>x. a_id x \<in> a_id ` fst ` set ps) (expire_row now) (attempts db1)"
    and t2: "\<forall>p \<in> set ps. \<exists>t' \<in> set (tasks db2). t_id t' = t_id (snd p) \<and> t_state t' = swept_state (snd p)"
    and fr2: "\<forall>u \<in> set (tasks db1). t_id u \<notin> t_id ` snd ` set ps \<longrightarrow> u \<in> set (tasks db2)"
    using Cons.IH [OF inv1] other Cons.prems(3) by auto
  have "attempts db2 = sql_update (\<lambda>x. a_id x \<in> a_id ` fst ` set (p # ps)) (expire_row now) (attempts db)"
    unfolding att2 att by (subst sql_update_merge) (simp_all add: p)
  moreover have "\<exists>t' \<in> set (tasks db2). t_id t' = t_id t \<and> t_state t' = swept_state t"
    using t1 fr2 other by fastforce
  ultimately show ?case
    using 1 2 t2 fr fr2 by (auto simp: p)
qed

definition lapsed_rows :: "time \<Rightarrow> uuid list \<Rightarrow> job_db \<Rightarrow> nat \<Rightarrow> attempt_row list" where
  "lapsed_rows now locked db limit =
     sql_top a_lease_expires limit
       (filter (\<lambda>a. lease_lapsed now a \<and> \<not> List.member locked (a_id a)) (attempts db))"

lemma lapsed_rows_holds:
  assumes inv: "job_inv db" and a: "a \<in> set (lapsed_rows now locked db limit)"
  shows "\<exists>t. task_of db a = Some t \<and> holds db a t"
proof -
  have m: "a \<in> set (attempts db)" "a_live a"
    using a set_sql_top [of a_lease_expires limit] by (fastforce simp: lapsed_rows_def lease_lapsed_def a_live_def)+
  obtain t where t: "t \<in> set (tasks db)" "t_id t = a_task a" "t_tenant t = a_tenant a"
    using inv m(1) by (auto simp: job_inv_parts)
  have "distinct (map t_id (tasks db))" using inv by (simp add: job_inv_parts)
  then have "task_of db a = Some t"
    unfolding task_of_def using t by (intro sql_find_key [where k = t_id]) auto
  then show ?thesis using m t by (simp add: holds_def)
qed

lemma distinct_lapsed_rows:
  assumes "job_inv db"
  shows "distinct (lapsed_rows now locked db limit)"
  using assms by (simp add: lapsed_rows_def sql_top_def job_inv_parts distinct_map)

lemma expired_rows_eq:
  assumes "job_inv db"
  shows "expired_rows now locked db limit =
    map row_of (map (\<lambda>a. (a, the (task_of db a))) (lapsed_rows now locked db limit))"
proof -
  have "concat (map (\<lambda>a. case task_of db a of None \<Rightarrow> [] | Some t \<Rightarrow> [row_of (a, t)]) as) =
      map row_of (map (\<lambda>a. (a, the (task_of db a))) as)" if "\<forall>a \<in> set as. task_of db a \<noteq> None" for as
    using that by (induction as) auto
  moreover have "\<forall>a \<in> set (lapsed_rows now locked db limit). task_of db a \<noteq> None"
    using lapsed_rows_holds [OF assms] by fastforce
  ultimately have "concat (map (\<lambda>a. case task_of db a of None \<Rightarrow> [] | Some t \<Rightarrow> [row_of (a, t)])
       (lapsed_rows now locked db limit)) =
      map row_of (map (\<lambda>a. (a, the (task_of db a))) (lapsed_rows now locked db limit))" by blast
  then show ?thesis unfolding expired_rows_def lapsed_rows_def task_of_def row_of_def prod.case .
qed

lemma ExpireLeases_holds:
  assumes inv: "job_inv db"
  obtains db' where
    "ExpireLeases now locked db limit =
       Inr (db', map (\<lambda>a. expired_of (row_of (a, the (task_of db a)))
                       (swept_state (the (task_of db a)) = TaskQueued)) (lapsed_rows now locked db limit))"
    "job_inv db'"
    "attempts db' = sql_update (\<lambda>x. a_id x \<in> a_id ` set (lapsed_rows now locked db limit))
       (expire_row now) (attempts db)"
    "\<And>a. a \<in> set (lapsed_rows now locked db limit) \<Longrightarrow> \<exists>t' \<in> set (tasks db').
       t_id t' = a_task a \<and> t_state t' = swept_state (the (task_of db a))"
    "\<And>u. u \<in> set (tasks db) \<Longrightarrow> t_id u \<notin> a_task ` set (lapsed_rows now locked db limit) \<Longrightarrow> u \<in> set (tasks db')"
proof -
  let ?as = "lapsed_rows now locked db limit"
  let ?ps = "map (\<lambda>a. (a, the (task_of db a))) ?as"
  have "\<forall>p \<in> set ?ps. holds db (fst p) (snd p)" using lapsed_rows_holds [OF inv] by fastforce
  moreover have "distinct (map fst ?ps)" using distinct_lapsed_rows [OF inv] by (simp add: comp_def)
  ultimately obtain db' where r: "expire_loop now db (map row_of ?ps) =
      Inr (db', map (\<lambda>p. expired_of (row_of p) (swept_state (snd p) = TaskQueued)) ?ps)" "job_inv db'"
    "attempts db' = sql_update (\<lambda>x. a_id x \<in> a_id ` fst ` set ?ps) (expire_row now) (attempts db)"
    "\<forall>p \<in> set ?ps. \<exists>t' \<in> set (tasks db'). t_id t' = t_id (snd p) \<and> t_state t' = swept_state (snd p)"
    "\<forall>u \<in> set (tasks db). t_id u \<notin> t_id ` snd ` set ?ps \<longrightarrow> u \<in> set (tasks db')"
    using expire_loop_holds [OF inv] by blast
  have tid: "t_id (the (task_of db a)) = a_task a" if "a \<in> set ?as" for a
    using lapsed_rows_holds [OF inv that] by (auto simp: holds_def)
  show ?thesis
  proof (rule that)
    show "ExpireLeases now locked db limit = Inr (db', map (\<lambda>a. expired_of (row_of (a, the (task_of db a)))
                       (swept_state (the (task_of db a)) = TaskQueued)) ?as)"
      unfolding ExpireLeases_def expired_rows_eq [OF inv] r(1) by (simp add: comp_def)
    show "attempts db' = sql_update (\<lambda>x. a_id x \<in> a_id ` set ?as) (expire_row now) (attempts db)"
      using r(3) by (simp add: image_image)
    show "\<exists>t' \<in> set (tasks db'). t_id t' = a_task a \<and> t_state t' = swept_state (the (task_of db a))"
      if "a \<in> set ?as" for a using r(4) tid that by auto
    show "u \<in> set (tasks db')" if "u \<in> set (tasks db)" "t_id u \<notin> a_task ` set ?as" for u
      using r(5) tid that by (auto simp: image_iff)
  qed (rule r(2))
qed

end
