(* ===== verification/Job_System.thy ===== *)
theory Job_System
  imports Job_Preservation
begin

text \<open>
  The job store as a transition system: every call the control plane makes is one step. The steps
  interpret the interface \<open>transition_system\<close> with the invariant of the job tables, so the
  invariant holds in every reachable state, and every step moves tasks and attempts only along the
  tables of \<open>internal/job/state.go\<close>. The properties the scheduler promises follow.
\<close>

section \<open>The steps\<close>

definition job_empty :: job_db where
  "job_empty = \<lparr>jobs = [], tasks = [], attempts = []\<rparr>"

inductive job_step :: "job_db \<Rightarrow> job_db \<Rightarrow> bool" where
  create: "job_Create now fresh db ten ver pv key prio ts = Inr (db', j) \<Longrightarrow> job_step db db'"
| lease: "job_Lease now aid quota locked db w ttl = Inr (db', a) \<Longrightarrow> job_step db db'"
| start: "job_Start now db aid wid ttl = Inr (db', u) \<Longrightarrow> job_step db db'"
| progress: "job_Progress now db aid wid pct ttl = Inr (db', c) \<Longrightarrow> job_step db db'"
| complete: "job_Complete now db aid wid res = Inr (db', compl) \<Longrightarrow> job_step db db'"
| cancel: "job_Cancel now db ten jid = Inr db' \<Longrightarrow> job_step db db'"
| expire: "ExpireLeases now locked db limit = Inr (db', xs) \<Longrightarrow> job_step db db'"

lemma ExpireLeases_inv:
  assumes "job_inv db" "ExpireLeases now locked db limit = Inr (db', xs)"
  shows "job_inv db'"
  by (rule ExpireLeases_holds [OF assms(1), of now locked limit]) (use assms(2) in simp)

lemma job_step_inv: "job_step db db' \<Longrightarrow> job_inv db \<Longrightarrow> job_inv db'"
  by (induction rule: job_step.induct)
    (blast intro: job_Create_inv job_Lease_inv job_Start_inv job_Progress_inv job_Complete_inv
      job_Cancel_inv ExpireLeases_inv)+

interpretation job_sys: transition_system "\<lambda>db. db = job_empty" job_step job_inv
proof
  show "job_inv s" if "s = job_empty" for s
    using that by (simp add: job_empty_def job_inv_parts tasks_ok_def deps_ok_def jobs_ok_def)
  show "job_inv t" if "job_inv s" "job_step s t" for s t
    using job_step_inv that by blast
qed

abbreviation job_reachable :: "job_db \<Rightarrow> bool" where
  "job_reachable db \<equiv> job_step\<^sup>*\<^sup>* job_empty db"

lemmas job_reachable_inv = job_sys.reachable_inv [OF refl]

section \<open>Steps follow the state machines\<close>

definition task_moves :: "job_db \<Rightarrow> job_db \<Rightarrow> bool" where
  "task_moves db db' \<longleftrightarrow> (\<forall>t \<in> set (tasks db). \<exists>t' \<in> set (tasks db'). t_id t' = t_id t \<and>
     (t_state t' = t_state t \<or>
      CanTransitionTask (t_state t) (t_state t') \<and> \<not> task_IsTerminal (t_state t)))"

definition attempt_moves :: "job_db \<Rightarrow> job_db \<Rightarrow> bool" where
  "attempt_moves db db' \<longleftrightarrow> (\<forall>a \<in> set (attempts db). \<exists>a' \<in> set (attempts db'). a_id a' = a_id a \<and>
     a_task a' = a_task a \<and> a_worker a' = a_worker a \<and> a_number a' = a_number a \<and>
     (a_state a' = a_state a \<or> CanTransitionAttempt (a_state a) (a_state a')))"

lemma task_moves_update:
  assumes "tasks db' = sql_update P f (tasks db)" "keeps_task f"
    and "\<And>t. t \<in> set (tasks db) \<Longrightarrow> P t \<Longrightarrow> t_state (f t) = t_state t \<or>
      CanTransitionTask (t_state t) (t_state (f t)) \<and> \<not> task_IsTerminal (t_state t)"
  shows "task_moves db db'"
  unfolding task_moves_def
proof
  fix t assume t: "t \<in> set (tasks db)"
  show "\<exists>t' \<in> set (tasks db'). t_id t' = t_id t \<and> (t_state t' = t_state t \<or>
      CanTransitionTask (t_state t) (t_state t') \<and> \<not> task_IsTerminal (t_state t))"
    using sql_updateI [OF t, of P f] assms(2,3) t unfolding assms(1)
    by (intro bexI [of _ "if P t then f t else t"]) (auto simp: keeps_task_def)
qed

lemma attempt_moves_update:
  assumes "attempts db' = sql_update P g (attempts db)" "keeps_attempt g"
    and "\<And>a. a \<in> set (attempts db) \<Longrightarrow> P a \<Longrightarrow> a_state (g a) = a_state a \<or>
      CanTransitionAttempt (a_state a) (a_state (g a))"
  shows "attempt_moves db db'"
  unfolding attempt_moves_def
proof
  fix a assume a: "a \<in> set (attempts db)"
  show "\<exists>a' \<in> set (attempts db'). a_id a' = a_id a \<and> a_task a' = a_task a \<and>
      a_worker a' = a_worker a \<and> a_number a' = a_number a \<and>
      (a_state a' = a_state a \<or> CanTransitionAttempt (a_state a) (a_state a'))"
    using sql_updateI [OF a, of P g] assms(2,3) a unfolding assms(1)
    by (intro bexI [of _ "if P a then g a else a"]) (auto simp: keeps_attempt_def)
qed

lemma moves_same:
  "tasks db' = tasks db \<Longrightarrow> task_moves db db'"
  "attempts db' = attempts db \<Longrightarrow> attempt_moves db db'"
  by (auto simp: task_moves_def attempt_moves_def)

lemma moves_reconcile [simp]:
  "task_moves db (reconcileJob now db' ten jid) = task_moves db db'"
  "attempt_moves db (reconcileJob now db' ten jid) = attempt_moves db db'"
  by (simp_all add: task_moves_def attempt_moves_def)

lemma holds_state:
  assumes inv: "job_inv db" and h: "holds db a t"
  shows "x \<in> set (tasks db) \<Longrightarrow> t_id x = t_id t \<Longrightarrow> t_state x \<in> {TaskLeased, TaskRunning, TaskCancelled} \<and> x = t"
    and "y \<in> set (attempts db) \<Longrightarrow> a_id y = a_id a \<Longrightarrow> a_state y \<in> {AttemptLeased, AttemptRunning} \<and> y = a"
  using same_task [OF inv, of t x] same_attempt [OF inv, of a y] holds_filter [OF inv h] h
  by (auto simp: holds_def a_live_def)

lemma closeAttemptCancelled_moves:
  assumes "job_inv db" "holds db a t"
  shows "task_moves db (closeAttemptCancelled now db (a_id a))"
    "attempt_moves db (closeAttemptCancelled now db (a_id a))"
proof -
  show "task_moves db (closeAttemptCancelled now db (a_id a))"
    by (rule moves_same) (simp add: closeAttemptCancelled_def)
  show "attempt_moves db (closeAttemptCancelled now db (a_id a))"
    by (rule attempt_moves_update [where P = "\<lambda>x. a_id x = a_id a"])
      (use holds_state(2) [OF assms] in \<open>auto simp: closeAttemptCancelled_def keeps_attempt_def\<close>)
qed

lemma started_moves:
  assumes inv: "job_inv db" and h: "holds db a t" and st: "t_state t = TaskLeased" "a_state a = AttemptLeased"
  shows "task_moves db (started_db now ttl db (a_id a) (t_id t))"
    "attempt_moves db (started_db now ttl db (a_id a) (t_id t))"
proof -
  have x: "t_state x = TaskLeased" if "x \<in> set (tasks db)" "t_id x = t_id t" for x
    using holds_state(1) [OF inv h that] st by simp
  have y: "a_state y = AttemptLeased" if "y \<in> set (attempts db)" "a_id y = a_id a" for y
    using holds_state(2) [OF inv h that] st by simp
  show "task_moves db (started_db now ttl db (a_id a) (t_id t))"
    by (rule task_moves_update [where P = "\<lambda>x. t_id x = t_id t"])
      (auto simp: started_db_def keeps_task_def task_IsTerminal_def x)
  show "attempt_moves db (started_db now ttl db (a_id a) (t_id t))"
    by (rule attempt_moves_update [where P = "\<lambda>x. a_id x = a_id a"])
      (auto simp: started_db_def keeps_attempt_def y)
qed

lemma failed_moves:
  assumes inv: "job_inv db" and h: "holds db a t" and st: "t_state t \<in> {TaskLeased, TaskRunning}"
  shows "task_moves db (failed_db now db a t res r)" "attempt_moves db (failed_db now db a t res r)"
proof -
  have x: "t_state x \<in> {TaskLeased, TaskRunning}" if "x \<in> set (tasks db)" "t_id x = t_id t" for x
    using holds_state(1) [OF inv h that] st by simp
  show "task_moves db (failed_db now db a t res r)"
    by (rule task_moves_update [OF failed_db_simps(1) keeps_settle])
      (use x in \<open>force simp: settle_row_def task_IsTerminal_def\<close>)
  show "attempt_moves db (failed_db now db a t res r)"
    by (rule attempt_moves_update [OF failed_db_simps(2) keeps_finish])
      (use holds_state(2) [OF inv h] in \<open>auto simp: finish_row_def\<close>)
qed

lemma succeeded_moves:
  assumes inv: "job_inv db" and h: "holds db a t" and st: "t_state t = TaskRunning"
  shows "task_moves db (releaseDependents now (succeeded_db now db a t res) (t_job t) (t_id t))"
    "attempt_moves db (releaseDependents now (succeeded_db now db a t res) (t_job t) (t_id t))"
proof -
  let ?R = "released (succeeded_db now db a t res) (t_job t) (t_id t)"
  have u: "x = t" if "x \<in> set (tasks db)" "t_id x = t_id t" for x using holds_state(1) [OF inv h that] by blast
  have T: "tasks (releaseDependents now (succeeded_db now db a t res) (t_job t) (t_id t)) =
      sql_update (\<lambda>x. t_id x = t_id t \<or> ?R x) (\<lambda>x. if t_id x = t_id t
        then x\<lparr>t_state := TaskSucceeded, t_finished := Some now\<rparr>
        else x\<lparr>t_state := TaskQueued, t_queued_at := Some now\<rparr>) (tasks db)"
    unfolding tasks_releaseDependents succeeded_db_simps(1)
    by (rule sql_update_seq) (simp add: released_def)
  show "task_moves db (releaseDependents now (succeeded_db now db a t res) (t_job t) (t_id t))"
    by (rule task_moves_update [OF T])
      (use u st in \<open>force simp: keeps_task_def released_def task_IsTerminal_def\<close>)+
  have y: "a_state y = AttemptRunning" if "y \<in> set (attempts db)" "a_id y = a_id a" for y
    using holds_state(2) [OF inv h that] holds_filter [OF inv h] st by auto
  show "attempt_moves db (releaseDependents now (succeeded_db now db a t res) (t_job t) (t_id t))"
    by (rule attempt_moves_update [OF _ keeps_finish, where P = "\<lambda>x. a_id x = a_id a"])
      (auto simp: succeeded_db_simps finish_row_def y)
qed

lemma leased_moves:
  assumes inv: "job_inv db" and t: "t \<in> set (tasks db)" "t_state t = TaskQueued"
  shows "task_moves db (leased_db now db t r)" "attempt_moves db (leased_db now db t r)"
proof -
  have "t_state x = TaskQueued" if "x \<in> set (tasks db)" "t_id x = t_id t" for x
    using same_task [OF inv t(1) that] t(2) by simp
  then show "task_moves db (leased_db now db t r)" unfolding leased_db_def moves_reconcile
    by (intro task_moves_update [where P = "\<lambda>x. t_id x = t_id t"])
      (auto simp: mark_leased_def keeps_task_def task_IsTerminal_def)
  show "attempt_moves db (leased_db now db t r)"
    unfolding leased_db_def moves_reconcile by (auto simp: attempt_moves_def)
qed

lemma expire_moves:
  assumes inv: "job_inv db" and e: "ExpireLeases now locked db limit = Inr (db', xs)"
  shows "task_moves db db' \<and> attempt_moves db db'"
proof (rule ExpireLeases_holds [OF inv, of now locked limit])
  fix db2
  let ?as = "lapsed_rows now locked db limit"
  assume "ExpireLeases now locked db limit =
       Inr (db2, map (\<lambda>a. expired_of (row_of (a, the (task_of db a)))
                       (swept_state (the (task_of db a)) = TaskQueued)) ?as)"
  then have eq: "db2 = db'" using e by simp
  assume att: "attempts db2 = sql_update (\<lambda>x. a_id x \<in> a_id ` set ?as) (expire_row now) (attempts db)"
  assume sw: "\<And>a. a \<in> set ?as \<Longrightarrow> \<exists>t' \<in> set (tasks db2). t_id t' = a_task a \<and> t_state t' = swept_state (the (task_of db a))"
  assume fr: "\<And>u. u \<in> set (tasks db) \<Longrightarrow> t_id u \<notin> a_task ` set ?as \<Longrightarrow> u \<in> set (tasks db2)"
  have "attempt_moves db db2"
  proof (rule attempt_moves_update [OF att])
    fix a assume a: "a \<in> set (attempts db)" "a_id a \<in> a_id ` set ?as"
    then obtain b where b: "b \<in> set ?as" "a_id a = a_id b" by auto
    obtain t where "holds db b t" using lapsed_rows_holds [OF inv b(1)] by blast
    then have "a_state a \<in> {AttemptLeased, AttemptRunning}" using holds_state(2) [OF inv _ a(1) b(2)] by blast
    then show "a_state (expire_row now a) = a_state a \<or> CanTransitionAttempt (a_state a) (a_state (expire_row now a))"
      by auto
  qed (simp add: keeps_attempt_def)
  moreover have "task_moves db db2" unfolding task_moves_def
  proof
    fix u assume u: "u \<in> set (tasks db)"
    show "\<exists>t' \<in> set (tasks db2). t_id t' = t_id u \<and> (t_state t' = t_state u \<or>
      CanTransitionTask (t_state u) (t_state t') \<and> \<not> task_IsTerminal (t_state u))"
    proof (cases "t_id u \<in> a_task ` set ?as")
      case True
      then obtain a where a: "a \<in> set ?as" "t_id u = a_task a" by auto
      obtain t where t: "task_of db a = Some t" "holds db a t" using lapsed_rows_holds [OF inv a(1)] by blast
      then have "u = t" "t_state u \<in> {TaskLeased, TaskRunning, TaskCancelled}"
        using holds_state(1) [OF inv t(2) u] a(2) by (auto simp: holds_def)
      then show ?thesis using sw [OF a(1)] t(1) a(2)
        by (auto simp: swept_state_def task_IsTerminal_def split: if_splits)
    next
      case False
      then show ?thesis using fr [OF u] by auto
    qed
  qed
  ultimately show ?thesis using eq by simp
qed

lemma cancel_moves:
  assumes "job_Cancel now db ten jid = Inr db'"
  shows "task_moves db db' \<and> attempt_moves db db'"
proof -
  let ?open = "\<lambda>t. t_job t = jid \<and> t_state t \<in> {TaskPending, TaskQueued, TaskLeased, TaskRunning}"
  let ?f = "\<lambda>t. t\<lparr>t_state := TaskCancelled, t_finished := Some now\<rparr>"
  have "db' = db \<or> tasks db' = sql_update ?open ?f (tasks db) \<and> attempts db' = attempts db"
    using assms by (auto simp: job_Cancel_def split: option.splits if_splits)
  moreover have "task_moves db db'" if "tasks db' = sql_update ?open ?f (tasks db)"
    using that by (rule task_moves_update) (auto simp: keeps_task_def task_IsTerminal_def)
  ultimately show ?thesis using moves_same by metis
qed

lemma create_moves:
  assumes "job_inv db" "job_Create now fresh db ten ver pv key prio ts = Inr (db', j)"
  shows "task_moves db db' \<and> attempt_moves db db'"
proof (cases "db' = db")
  case False
  have "distinct (map t_id (tasks db))" using assms(1) by (simp add: job_inv_parts)
  then show ?thesis
    by (rule job_Create_Inr [OF assms(2) False]) (auto simp: task_moves_def attempt_moves_def)
qed (simp add: moves_same)

lemma job_step_moves: "job_step db db' \<Longrightarrow> job_inv db \<Longrightarrow> task_moves db db' \<and> attempt_moves db db'"
proof (induction rule: job_step.induct)
  case (create now fresh db ten ver pv key prio ts db' j)
  then show ?case using create_moves by blast
next
  case (lease now aid quota locked db w ttl db' a)
  then show ?case
    by (elim job_Lease_Inr) (auto simp: lease_candidates_def feasible_def intro!: leased_moves)
next
  case (start now db aid wid ttl db' u)
  then show ?case
    by (elim job_Start_Inr [rotated]) (use closeAttemptCancelled_moves started_moves in blast)
next
  case (progress now db aid wid pct ttl db' c)
  let ?g = "\<lambda>a. a\<lparr>a_progress := Some pct, a_lease_expires := now + intervalOf ttl\<rparr>"
  have "db' = db \<or> tasks db' = tasks db \<and> attempts db' = sql_update (\<lambda>a. a_id a = aid) ?g (attempts db)"
    by (rule job_Progress_Inr [OF progress(2,1)]) auto
  moreover have "attempt_moves db db'" if "attempts db' = sql_update (\<lambda>a. a_id a = aid) ?g (attempts db)"
    using that by (rule attempt_moves_update) (simp_all add: keeps_attempt_def)
  ultimately show ?case using moves_same by metis
next
  case (complete now db aid wid res db' c)
  from complete(2,1) show ?case
  proof (cases rule: job_Complete_Inr)
    case (cancelled a t) then show ?thesis using closeAttemptCancelled_moves [OF complete(2)] by blast
  next
    case (succeeded a t) then show ?thesis using succeeded_moves [OF complete(2)] by simp
  next
    case (failed a t r) then show ?thesis using failed_moves [OF complete(2)] by simp
  qed
next
  case (cancel now db ten jid db')
  then show ?case using cancel_moves by blast
next
  case (expire now locked db limit db' xs)
  then show ?case using expire_moves by blast
qed

end
