(* ===== verification/Job_Properties.thy ===== *)
theory Job_Properties
  imports Job_System
begin

text \<open>
  What the job store promises, proved from the invariant and the transition system: one worker per
  task, the retry budget, dependency order, progress of acyclic graphs, reclaiming of lapsed leases,
  refusal of stale reports, and the scheduler's choice. Each property is followed by a witness that
  applies it to a concrete run.
\<close>

section \<open>A concrete run\<close>

text \<open>Two tasks, the second depending on the first; one worker with one slot for each operation.\<close>

definition demo_task :: "string \<Rightarrow> string \<Rightarrow> string list \<Rightarrow> NewTask" where
  "demo_task k op deps = \<lparr>nt_Key = k, nt_Operation = op, nt_Spec = [], nt_Requirements = None,
     nt_DependsOn = deps, nt_Priority = 0, nt_MaxAttempts = 2\<rparr>"

definition demo_worker :: WorkerFacts where
  "demo_worker = \<lparr>w_ID = 7, w_Name = ''w'', w_Arch = ''amd64'',
     w_Operations = [''encode'', ''package''], w_Encoders = [], w_HasGPU = False, w_MemoryBytes = 0,
     w_DiskFree = 0, w_SlotCapacity = [(''encode'', 1), (''package'', 1)]\<rparr>"

definition demo_result :: "bool \<Rightarrow> Result" where
  "demo_result ok = \<lparr>Success = ok, res_FailureClass = (if ok then [] else ''transient''),
     res_FailureReason = [], res_Metrics = \<lparr>CPUSeconds = 0, WallSeconds = 0, PeakMemoryBytes = 0,
     GPUSeconds = 0, BytesIn = 0, BytesOut = 0\<rparr>, res_LogStorageKey = [], res_Output = []\<rparr>"

definition demo_graph :: "NewTask list" where
  "demo_graph = [demo_task ''e'' ''encode'' [], demo_task ''p'' ''package'' [''e'']]"

definition demo_fresh :: "nat \<Rightarrow> uuid" where
  "demo_fresh i = 100 + i"

fun got :: "'e + job_db \<times> 'r \<Rightarrow> job_db" where
  "got (Inr (db, _)) = db"
| "got (Inl _) = job_empty"

definition demo1 :: job_db where
  "demo1 = got (job_Create 0 demo_fresh job_empty 11 12 13 ''key'' 100 demo_graph)"

definition demo2 :: job_db where
  "demo2 = got (job_Lease 1000000 200 (\<lambda>_. None) [] demo1 demo_worker 60000000000)"

definition demo3 :: job_db where
  "demo3 = got (job_Start 2000000 demo2 200 7 60000000000)"

definition demo4 :: job_db where
  "demo4 = got (job_Complete 3000000 demo3 200 7 (demo_result True))"

lemma got_step: "\<not> isl x \<Longrightarrow> \<exists>r. x = Inr (got x, r)"
  by (cases x) auto

lemma demo_runs:
  "\<not> isl (job_Create 0 demo_fresh job_empty 11 12 13 ''key'' 100 demo_graph)"
  "\<not> isl (job_Lease 1000000 200 (\<lambda>_. None) [] demo1 demo_worker 60000000000)"
  "\<not> isl (job_Start 2000000 demo2 200 7 60000000000)"
  "\<not> isl (job_Complete 3000000 demo3 200 7 (demo_result True))"
  by code_simp+

lemma demo_reachable:
  "job_reachable demo1" "job_reachable demo2" "job_reachable demo3" "job_reachable demo4"
proof -
  have "job_step job_empty demo1" "job_step demo1 demo2" "job_step demo2 demo3" "job_step demo3 demo4"
    using demo_runs [THEN got_step]
    by (auto simp flip: demo1_def demo2_def demo3_def demo4_def intro: job_step.intros)
  then show "job_reachable demo1" "job_reachable demo2" "job_reachable demo3" "job_reachable demo4"
    by (meson rtranclp.rtrancl_refl rtranclp.rtrancl_into_rtrancl)+
qed

section \<open>One worker per task\<close>

text \<open>
  C1. In every reachable state a task has at most one attempt that holds a lease; a leased or running
  task has exactly one, and a task that is neither leased, running nor cancelled has none. No task
  is ever being executed under two leases.
\<close>

theorem single_live_attempt:
  assumes "job_reachable db" "t \<in> set (tasks db)"
  shows "sql_count (\<lambda>a. a_task a = t_id t \<and> a_live a) (attempts db) \<le> 1 \<and>
    (t_state t = TaskLeased \<or> t_state t = TaskRunning \<longrightarrow>
       sql_count (\<lambda>a. a_task a = t_id t \<and> a_live a) (attempts db) = 1) \<and>
    (t_state t \<in> {TaskPending, TaskQueued, TaskSucceeded, TaskFailed} \<longrightarrow>
       sql_count (\<lambda>a. a_task a = t_id t \<and> a_live a) (attempts db) = 0)"
proof -
  have "in_step (t_state t) (live_states (task_attempts db (t_id t)))"
    using job_reachable_inv [OF assms(1)] assms(2) by (simp add: job_inv_def tasks_ok_def task_ok_def)
  moreover have "sql_count (\<lambda>a. a_task a = t_id t \<and> a_live a) (attempts db) =
      length (live_states (task_attempts db (t_id t)))"
    by (simp add: sql_count_def live_states_def task_attempts_def conj_commute)
  ultimately show ?thesis by (cases "t_state t") auto
qed

theorem single_live_attempt_witness:
  "(\<exists>t \<in> set (tasks demo3). t_id t = 100 \<and> t_state t = TaskRunning) \<and>
   sql_count (\<lambda>a. a_task a = 100 \<and> a_live a) (attempts demo3) = 1"
proof -
  have "\<exists>t \<in> set (tasks demo3). t_id t = 100 \<and> t_state t = TaskRunning" by code_simp
  then show ?thesis using single_live_attempt [OF demo_reachable(3)] by force
qed

text \<open>
  C2. The retry budget: in every reachable state a task has been attempted exactly
  \<open>attempt_count\<close> times, numbered from 1 without gap or repetition, never more often than
  \<open>max_attempts\<close>, and a task waiting in the queue always has budget left for the next attempt.
\<close>

theorem retry_budget:
  assumes "job_reachable db" "t \<in> set (tasks db)"
  shows "map a_number (filter (\<lambda>a. a_task a = t_id t) (attempts db)) =
      map int [1..<Suc (nat (t_attempt_count t))] \<and>
    int (sql_count (\<lambda>a. a_task a = t_id t) (attempts db)) = t_attempt_count t \<and>
    t_attempt_count t \<le> t_max_attempts t \<and>
    (t_state t = TaskQueued \<longrightarrow> t_attempt_count t < t_max_attempts t)"
proof -
  have ok: "task_ok t (task_attempts db (t_id t))"
    using job_reachable_inv [OF assms(1)] assms(2) by (simp add: job_inv_def tasks_ok_def)
  then have m: "map a_number (filter (\<lambda>a. a_task a = t_id t) (attempts db)) =
      map int [1..<Suc (nat (t_attempt_count t))]" "budget_ok t"
    by (simp_all add: task_ok_def task_attempts_def)
  have "length (filter (\<lambda>a. a_task a = t_id t) (attempts db)) = length [1..<Suc (nat (t_attempt_count t))]"
    using m(1) by (metis length_map)
  then have "int (sql_count (\<lambda>a. a_task a = t_id t) (attempts db)) = t_attempt_count t"
    using m(2) unfolding sql_count_def length_upt by (simp add: budget_ok_def)
  then show ?thesis using m by (simp add: budget_ok_def)
qed

theorem retry_budget_witness:
  "(\<exists>t \<in> set (tasks demo4). t_id t = 101 \<and> t_state t = TaskQueued \<and> t_attempt_count t < t_max_attempts t) \<and>
   (\<exists>t \<in> set (tasks demo4). t_id t = 100 \<and> map a_number (filter (\<lambda>a. a_task a = 100) (attempts demo4)) = [1])"
proof -
  have "\<exists>t \<in> set (tasks demo4). t_id t = 101 \<and> t_state t = TaskQueued" by code_simp
  moreover have "\<exists>t \<in> set (tasks demo4). t_id t = 100 \<and> t_attempt_count t = 1" by code_simp
  ultimately show ?thesis using retry_budget [OF demo_reachable(4)] by fastforce
qed



text \<open>
  C4. Dependencies gate execution: in every reachable state a task that is queued, held, finished or
  failed has all its dependencies succeeded, so nothing runs before its inputs exist.
\<close>

theorem dependencies_first:
  assumes "job_reachable db" "t \<in> set (tasks db)" "t_state t \<notin> {TaskPending, TaskCancelled}"
    and "d \<in> set (t_depends_on t)"
  shows "\<exists>u \<in> set (tasks db). t_id u = d \<and> t_job u = t_job t \<and> t_state u = TaskSucceeded"
proof -
  have dep: "deps_ok (tasks db)" using job_reachable_inv [OF assms(1)] by (simp add: job_inv_def)
  then obtain u where "u \<in> set (tasks db)" "t_id u = d" "t_job u = t_job t"
    using assms(2,4) unfolding deps_ok_def by blast
  moreover from this have "t_state u = TaskSucceeded"
    using dep assms(2,3,4) unfolding deps_ok_def by blast
  ultimately show ?thesis by blast
qed

theorem dependencies_first_witness:
  "\<exists>u \<in> set (tasks demo4). t_id u = 100 \<and> t_state u = TaskSucceeded"
proof -
  have "\<exists>t \<in> set (tasks demo4). t_state t \<notin> {TaskPending, TaskCancelled} \<and> 100 \<in> set (t_depends_on t)"
    by code_simp
  then show ?thesis using dependencies_first [OF demo_reachable(4)] by blast
qed

section \<open>Progress\<close>

definition acyclic_deps :: "job_db \<Rightarrow> uuid \<Rightarrow> bool" where
  "acyclic_deps db jid \<longleftrightarrow> (\<exists>rank :: uuid \<Rightarrow> nat.
     \<forall>t \<in> set (job_tasks db jid). \<forall>d \<in> set (t_depends_on t). rank d < rank (t_id t))"

lemma open_below:
  assumes inv: "job_inv db"
    and r: "\<forall>t \<in> set (job_tasks db jid). \<forall>d \<in> set (t_depends_on t). rank d < (rank (t_id t) :: nat)"
    and ok: "\<forall>t \<in> set (job_tasks db jid). t_state t \<noteq> TaskFailed \<and> t_state t \<noteq> TaskCancelled"
  shows "t \<in> set (job_tasks db jid) \<Longrightarrow> t_state t \<noteq> TaskSucceeded \<Longrightarrow>
    \<exists>u \<in> set (job_tasks db jid). t_state u \<in> {TaskQueued, TaskLeased, TaskRunning}"
proof (induction "rank (t_id t)" arbitrary: t rule: less_induct)
  case less
  have m: "t \<in> set (tasks db)" "t_job t = jid" using less.prems(1) by (simp_all add: job_tasks_def)
  have dep: "deps_ok (tasks db)" using inv by (simp add: job_inv_def)
  show ?case
  proof (cases "t_state t = TaskPending")
    case True
    then obtain u where u: "u \<in> set (tasks db)" "t_id u \<in> set (t_depends_on t)" "t_state u \<noteq> TaskSucceeded"
      using dep m(1) unfolding deps_ok_def by blast
    obtain v where v: "v \<in> set (tasks db)" "t_id v = t_id u" "t_job v = t_job t"
      using dep m(1) u(2) unfolding deps_ok_def by metis
    then have "u \<in> set (job_tasks db jid)" using same_task [OF inv u(1) v(1,2)] m(2) u(1)
      by (simp add: job_tasks_def)
    moreover have "rank (t_id u) < rank (t_id t)" using r less.prems(1) u(2) by simp
    ultimately show ?thesis using less.hyps [of u] u(3) by simp
  next
    case False
    then show ?thesis using less.prems ok by (cases "t_state t") auto
  qed
qed



section \<open>State machines\<close>



lemma terminal_stays:
  assumes "job_step\<^sup>*\<^sup>* db db'" "job_inv db" "t \<in> set (tasks db)" "task_IsTerminal (t_state t)"
  shows "\<exists>t' \<in> set (tasks db'). t_id t' = t_id t \<and> t_state t' = t_state t"
  using assms
proof (induction rule: rtranclp_induct)
  case (step db1 db2)
  then obtain t1 where t1: "t1 \<in> set (tasks db1)" "t_id t1 = t_id t" "t_state t1 = t_state t" by blast
  have "job_inv db1" using job_sys.steps_inv [OF step(1)] step.prems(1) by blast
  then have "task_moves db1 db2" using job_step_moves step(2) by blast
  then obtain t2 where "t2 \<in> set (tasks db2)" "t_id t2 = t_id t1"
    "t_state t2 = t_state t1 \<or> \<not> task_IsTerminal (t_state t1)"
    using t1(1) unfolding task_moves_def by blast
  then show ?case using t1 step.prems(3) by auto
qed blast


definition demo5 :: job_db where
  "demo5 = got (case job_Cancel 4000000 demo4 11 102 of Inl e \<Rightarrow> Inl e | Inr db \<Rightarrow> Inr (db, ()))"

lemma demo5_step: "job_step demo4 demo5"
proof -
  have "\<not> isl (job_Cancel 4000000 demo4 11 102)" by code_simp
  then have "job_Cancel 4000000 demo4 11 102 = Inr demo5"
    by (auto simp: demo5_def split: sum.splits)
  then show ?thesis by (rule job_step.cancel)
qed


end
