(* ===== verification/Lease_Properties.thy ===== *)
theory Lease_Properties
  imports Job_Properties
begin

text \<open>
  Properties of single operations of the job store: the scheduler's choice, capacity and quota, the
  sweep of lapsed leases, stale reports, completion, creation and cancellation.
\<close>

section \<open>Leasing\<close>

lemma insert_attempt_fresh:
  assumes inv: "job_inv db" and t: "t \<in> set (tasks db)" and aid: "aid \<notin> a_id ` set (attempts db)"
    and r: "r = new_attempt now (assignment_of t aid ttl) wid ttl reason"
  shows "insert_attempt r (mark_leased db i n) = Inr ((mark_leased db i n)\<lparr>attempts := attempts db @ [r]\<rparr>)"
proof -
  have n: "map a_number (task_attempts db (t_id t)) = map int [1..<Suc (nat (t_attempt_count t))]"
    "0 \<le> t_attempt_count t"
    using inv t by (simp_all add: job_inv_def tasks_ok_def task_ok_def budget_ok_def)
  have "a_number a \<noteq> t_attempt_count t + 1" if "a \<in> set (attempts db)" "a_task a = t_id t" for a
  proof -
    have "a_number a \<in> set (map a_number (task_attempts db (t_id t)))"
      using that by (simp add: task_attempts_def)
    then have "1 \<le> a_number a \<and> a_number a \<le> t_attempt_count t" unfolding n(1) using n(2) by auto
    then show ?thesis by linarith
  qed
  then show ?thesis using aid r
    by (auto simp: insert_attempt_def mark_leased_def list_ex_iff new_attempt_def assignment_of_def)
qed

text \<open>
  C8. The scheduler is work-conserving: from a reachable state, with a fresh attempt identifier, a
  poll fails only with \<open>ErrNoWork\<close>, and exactly when no queued, unlocked task satisfies the worker's
  hard constraints, a free capacity pool and the tenant's quota. No constraint of the database can
  refuse the attempt it inserts.
\<close>

theorem lease_work_conserving:
  assumes "job_reachable db" "aid \<notin> a_id ` set (attempts db)"
  shows "job_Lease now aid quota locked db w ttl = Inl e \<longleftrightarrow>
    e = ErrNoWork \<and> lease_candidates quota locked db w (freeSlotClasses db w) = []"
proof -
  have inv: "job_inv db" using assms(1) by (rule job_reachable_inv)
  have none: "lease_candidates quota locked db w (freeSlotClasses db w) = []"
    if "w_Operations w = [] \<or> freeSlotClasses db w = []"
    using that by (auto simp: lease_candidates_def feasible_def filter_empty_conv)
  show ?thesis
  proof (cases "leaseQuery now quota locked db w (freeSlotClasses db w)")
    case None
    then show ?thesis by (auto simp: job_Lease_def Let_def leaseQuery_def)
  next
    case (Some t)
    then have c: "t \<in> set (lease_candidates quota locked db w (freeSlotClasses db w))"
      by (auto simp: leaseQuery_def dest: pick_best_Some)
    then have "t \<in> set (tasks db)" by (simp add: lease_candidates_def)
    note ins = insert_attempt_fresh [OF inv this assms(2) refl]
    have "w_Operations w \<noteq> []" "freeSlotClasses db w \<noteq> []" using none c by auto
    then show ?thesis using c Some by (auto simp: job_Lease_def Let_def ins)
  qed
qed

theorem lease_work_conserving_witness:
  "job_Lease 2000000 201 (\<lambda>_. None) [] demo2 demo_worker 60000000000 = Inl ErrNoWork"
proof -
  have "201 \<notin> a_id ` set (attempts demo2)" by code_simp
  moreover have "lease_candidates (\<lambda>_. None) [] demo2 demo_worker (freeSlotClasses demo2 demo_worker) = []"
    by code_simp
  ultimately show ?thesis using lease_work_conserving [OF demo_reachable(2)] by blast
qed

lemma lease_best:
  assumes "job_Lease now aid quota locked db w ttl = Inr (db', a)"
  shows "\<exists>t \<in> set (tasks db). as_TaskID a = t_id t \<and> t_state t = TaskQueued \<and>
      t_operation t \<in> set (w_Operations w) \<and>
      (Arch (t_requirements t) \<noteq> [] \<longrightarrow> Arch (t_requirements t) = w_Arch w) \<and>
      (Encoder (t_requirements t) \<noteq> [] \<longrightarrow> Encoder (t_requirements t) \<in> set (w_Encoders w)) \<and>
      (GPU (t_requirements t) \<longrightarrow> w_HasGPU w) \<and>
      MemoryBytes (t_requirements t) \<le> w_MemoryBytes w \<and> DiskBytes (t_requirements t) \<le> w_DiskFree w \<and>
      slots_in_use db (w_ID w) (slot_class t) < capacity_of w (slot_class t) \<and>
      int (tenant_active db (t_tenant t)) < quota_of quota (t_tenant t) \<and>
      (\<forall>s \<in> set (lease_candidates quota locked db w (freeSlotClasses db w)). \<not> ranks_before now db w s t) \<and>
      t\<lparr>t_state := TaskLeased, t_attempt_count := t_attempt_count t + 1\<rparr> \<in> set (tasks db') \<and>
      (\<exists>r \<in> set (attempts db'). a_id r = aid \<and> a_task r = t_id t \<and> a_worker r = w_ID w \<and>
         a_state r = AttemptLeased \<and> a_number r = t_attempt_count t + 1)"
  using assms
proof (rule job_Lease_Inr)
  fix t :: task_row and reason
  let ?C = "lease_candidates quota locked db w (freeSlotClasses db w)"
  assume t: "t \<in> set ?C" and q: "leaseQuery now quota locked db w (freeSlotClasses db w) = Some t"
    and a: "a = assignment_of t aid ttl"
    and db': "db' = leased_db now db t (new_attempt now a (w_ID w) ttl reason)"
  have best: "\<forall>s \<in> set ?C. \<not> ranks_before now db w s t"
    using lease_rank.picked_first q unfolding leaseQuery_def by blast
  have "t \<in> set (tasks db)" using t by (simp add: lease_candidates_def)
  then have "t\<lparr>t_state := TaskLeased, t_attempt_count := t_attempt_count t + 1\<rparr> \<in> set (tasks db')"
    using sql_updateI [of t "tasks db" "\<lambda>x. t_id x = t_id t"
        "\<lambda>x. x\<lparr>t_state := TaskLeased, t_attempt_count := t_attempt_count t + 1\<rparr>"]
    by (simp add: db' leased_db_def mark_leased_def)
  then show ?thesis using t best a db'
    by (intro bexI [of _ t])
      (auto simp: lease_candidates_def feasible_def freeSlotClasses_def assignment_of_def leased_db_def
        new_attempt_def)
qed

lemma task_of_leased:
  "map_option slot_class (task_of (leased_db now db t r) a) = map_option slot_class (task_of db a)"
  "map_option t_tenant (task_of (leased_db now db t r) a) = map_option t_tenant (task_of db a)"
proof -
  have "task_of (leased_db now db t r) a = map_option (\<lambda>x. if t_id x = t_id t
      then x\<lparr>t_state := TaskLeased, t_attempt_count := t_attempt_count t + 1\<rparr> else x) (task_of db a)"
    by (simp add: task_of_def leased_db_def mark_leased_def sql_find_update [where k = t_id])
  then show "map_option slot_class (task_of (leased_db now db t r) a) = map_option slot_class (task_of db a)"
    "map_option t_tenant (task_of (leased_db now db t r) a) = map_option t_tenant (task_of db a)"
    by (auto simp: option.map_comp comp_def slot_class_def intro!: option.map_cong0)
qed

lemma task_of_test:
  "(case x of None \<Rightarrow> False | Some t \<Rightarrow> f t = c) \<longleftrightarrow> map_option f x = Some c"
  by (cases x) auto

lemma attempts_leased_db: "attempts (leased_db now db t r) = attempts db @ [r]"
  by (simp add: leased_db_def)

lemma lease_within:
  assumes "job_reachable db" "job_Lease now aid quota locked db w ttl = Inr (db', a)"
  shows "(\<forall>cls. slots_in_use db' (w_ID w) cls \<le> max (slots_in_use db (w_ID w) cls) (capacity_of w cls)) \<and>
    int (tenant_active db' (as_TenantID a)) \<le> quota_of quota (as_TenantID a)"
  using assms(2)
proof (rule job_Lease_Inr)
  fix t :: task_row and reason
  let ?r = "new_attempt now a (w_ID w) ttl reason"
  assume t: "t \<in> set (lease_candidates quota locked db w (freeSlotClasses db w))"
    and a: "a = assignment_of t aid ttl" and db': "db' = leased_db now db t ?r"
  have cap: "slots_in_use db (w_ID w) (slot_class t) < capacity_of w (slot_class t)"
    "int (tenant_active db (t_tenant t)) < quota_of quota (t_tenant t)" "t \<in> set (tasks db)"
    using t by (auto simp: lease_candidates_def feasible_def freeSlotClasses_def)
  have "distinct (map t_id (tasks db))" using job_reachable_inv [OF assms(1)] by (simp add: job_inv_parts)
  then have r: "task_of db ?r = Some t" "a_worker ?r = w_ID w" "a_live ?r"
    unfolding task_of_def using cap(3) a
    by (auto simp: new_attempt_def assignment_of_def a_live_def intro: sql_find_key)
  have "slots_in_use db' (w_ID w) cls = slots_in_use db (w_ID w) cls + (if slot_class t = cls then 1 else 0)" for cls
    unfolding slots_in_use_def db' attempts_leased_db sql_count_append task_of_test task_of_leased
    by (simp add: sql_count_def r)
  moreover have "tenant_active db' (t_tenant t) = tenant_active db (t_tenant t) + 1"
    unfolding tenant_active_def db' attempts_leased_db sql_count_append task_of_test task_of_leased
    by (simp add: sql_count_def r)
  moreover have "as_TenantID a = t_tenant t" by (simp add: a assignment_of_def)
  ultimately show ?thesis using cap by auto
qed

text \<open>
  C9. What a lease hands out: a task that was queued, that the worker declared it can run (operation,
  architecture, encoder, GPU, memory, disk), drawing on a pool with a free slot, of a tenant below
  its quota, and no candidate ranks before it by score and then age. Its row becomes leased with
  one more attempt on the counter and the new attempt names the worker. Afterwards no pool of the worker is above
  the capacity it declared, unless it was before, and the tenant is within its quota of concurrent tasks.
\<close>

theorem lease_best_feasible:
  assumes "job_reachable db" "job_Lease now aid quota locked db w ttl = Inr (db', a)"
  shows "(\<exists>t \<in> set (tasks db). as_TaskID a = t_id t \<and> t_state t = TaskQueued \<and>
      t_operation t \<in> set (w_Operations w) \<and>
      (Arch (t_requirements t) \<noteq> [] \<longrightarrow> Arch (t_requirements t) = w_Arch w) \<and>
      (Encoder (t_requirements t) \<noteq> [] \<longrightarrow> Encoder (t_requirements t) \<in> set (w_Encoders w)) \<and>
      (GPU (t_requirements t) \<longrightarrow> w_HasGPU w) \<and>
      MemoryBytes (t_requirements t) \<le> w_MemoryBytes w \<and> DiskBytes (t_requirements t) \<le> w_DiskFree w \<and>
      slots_in_use db (w_ID w) (slot_class t) < capacity_of w (slot_class t) \<and>
      int (tenant_active db (t_tenant t)) < quota_of quota (t_tenant t) \<and>
      (\<forall>s \<in> set (lease_candidates quota locked db w (freeSlotClasses db w)). \<not> ranks_before now db w s t) \<and>
      t\<lparr>t_state := TaskLeased, t_attempt_count := t_attempt_count t + 1\<rparr> \<in> set (tasks db') \<and>
      (\<exists>r \<in> set (attempts db'). a_id r = aid \<and> a_task r = t_id t \<and> a_worker r = w_ID w \<and>
         a_state r = AttemptLeased \<and> a_number r = t_attempt_count t + 1)) \<and>
    (\<forall>cls. slots_in_use db' (w_ID w) cls \<le> max (slots_in_use db (w_ID w) cls) (capacity_of w cls)) \<and>
    int (tenant_active db' (as_TenantID a)) \<le> quota_of quota (as_TenantID a)"
  using lease_best [OF assms(2)] lease_within [OF assms] by (rule conjI)

lemma demo2_lease:
  "\<exists>a. job_Lease 1000000 200 (\<lambda>_. None) [] demo1 demo_worker 60000000000 = Inr (demo2, a)"
  using got_step [OF demo_runs(2)] by (simp add: demo2_def)

theorem lease_best_feasible_witness:
  "(\<exists>t \<in> set (tasks demo1). t_state t = TaskQueued \<and> t_operation t \<in> set (w_Operations demo_worker)) \<and>
   slots_in_use demo2 (w_ID demo_worker) ''encode'' \<le> 1"
proof -
  have one: "capacity_of demo_worker ''encode'' = 1" "slots_in_use demo1 (w_ID demo_worker) ''encode'' = 0"
    by code_simp+
  obtain a where "job_Lease 1000000 200 (\<lambda>_. None) [] demo1 demo_worker 60000000000 = Inr (demo2, a)"
    using demo2_lease by blast
  note held = lease_best_feasible [OF demo_reachable(1) this]
  have "slots_in_use demo2 (w_ID demo_worker) ''encode'' \<le> max 0 1"
    using conjunct1 [OF conjunct2 [OF held]] one by metis
  then show ?thesis using held by auto
qed

text \<open>
  Waiting beats priority: of two tasks alike in tenant, locality and GPU need, the one that has
  waited longer ranks first as soon as its lead in age, at 100 points every ten minutes, exceeds the
  other's lead in priority. No priority gap can starve a task for ever.
\<close>

theorem waiting_outranks_priority:
  assumes "t_tenant s = t_tenant t" "GPU (t_requirements s) = GPU (t_requirements t)"
    and "job_local db (w_ID w) (t_job s) = job_local db (w_ID w) (t_job t)"
    and "of_int (t_priority t - t_priority s) < (age_seconds now s - age_seconds now t) * (100 / 600)"
  shows "ranks_before now db w s t"
proof -
  let ?m = "(1 / (1 + of_nat (tenant_active db (t_tenant t))))
      * (if job_local db (w_ID w) (t_job t) then localityBonus else 1)
      * (if w_HasGPU w \<and> \<not> GPU (t_requirements t) then gpuIdlePenalty else 1) :: rat"
  have "of_int (t_priority t) + age_seconds now t * agePointsPerSecond
      < of_int (t_priority s) + age_seconds now s * agePointsPerSecond"
    using assms(4) by (simp add: agePointsPerSecond_def field_simps)
  moreover have "0 < ?m" by (simp add: localityBonus_def gpuIdlePenalty_def)
  ultimately have "(of_int (t_priority t) + age_seconds now t * agePointsPerSecond) * ?m
      < (of_int (t_priority s) + age_seconds now s * agePointsPerSecond) * ?m"
    by (rule mult_strict_right_mono)
  then show ?thesis using assms(1-3) by (simp add: ranks_before_def lease_score_def mult.assoc)
qed

text \<open>A task of priority 1 that has waited 20 minutes and one of priority 200 queued just now.\<close>

definition demo_row :: "int \<Rightarrow> time \<Rightarrow> task_row" where
  "demo_row prio queued = (new_task_row queued (\<lambda>_. Some 5) 11 12 prio (demo_task ''e'' ''encode'' []))"

theorem waiting_outranks_priority_witness:
  "ranks_before 1200000000 demo1 demo_worker (demo_row 1 0) (demo_row 200 1200000000)"
proof (rule waiting_outranks_priority)
  show "of_int (t_priority (demo_row 200 1200000000) - t_priority (demo_row 1 0))
      < (age_seconds 1200000000 (demo_row 1 0) - age_seconds 1200000000 (demo_row 200 1200000000)) * (100 / 600)"
    by (simp add: demo_row_def new_task_row_def demo_task_def age_seconds_def Let_def)
qed (simp_all add: demo_row_def new_task_row_def demo_task_def Let_def)

end
