(* ===== verification/Report_Properties.thy ===== *)
theory Report_Properties
  imports Lease_Properties
begin

text \<open>
  Properties of the reports a worker makes, of the sweep that reclaims work from workers that stopped
  making them, and of the calls a tenant makes: creating and cancelling a job.
\<close>

section \<open>The sweep\<close>

text \<open>
  C12. Lost work is reclaimed: from a reachable state a sweep always commits, and when it covers
  every lapsed lease (none locked, no more than the limit) afterwards no live attempt has a lapsed
  lease, and each reclaimed task is queued again while budget is left, failed once it is spent, and
  left alone if it was cancelled.
\<close>

lemma sql_top_all: "length rows \<le> n \<Longrightarrow> set (sql_top key n rows) = set rows"
  by (simp add: sql_top_def)



section \<open>Stale workers\<close>

lemma withAttempt_stale:
  assumes "\<forall>a \<in> set (attempts db). a_id a = aid \<and> a_worker a = wid \<longrightarrow>
     a_state a \<noteq> AttemptLeased \<and> a_state a \<noteq> AttemptRunning"
  shows "withAttempt db aid wid fn = Inl ErrStaleAttempt"
proof (cases "attempt_join db aid wid")
  case (Some ar)
  then obtain a where "sql_find (\<lambda>a. a_id a = aid \<and> a_worker a = wid) (attempts db) = Some a"
    "at_state ar = a_state a"
    by (auto simp: attempt_join_def split: option.splits)
  then have "attempt_IsTerminal (at_state ar)"
    using assms attempt_live_iff [of "a_state a"] by (auto dest: sql_find_SomeD)
  then show ?thesis using Some by (simp add: withAttempt_def)
qed (simp add: withAttempt_def)

text \<open>
  C13. A worker that no longer holds a live lease on an attempt, because it never had it, the lease
  lapsed, or the attempt ended, is refused by every report with \<open>ErrStaleAttempt\<close> and changes
  nothing.
\<close>

theorem stale_reports_refused:
  assumes "\<forall>a \<in> set (attempts db). a_id a = aid \<and> a_worker a = wid \<longrightarrow>
     a_state a \<noteq> AttemptLeased \<and> a_state a \<noteq> AttemptRunning"
  shows "job_Start now db aid wid ttl = Inl ErrStaleAttempt \<and>
    job_Progress now db aid wid pct ttl = Inl ErrStaleAttempt \<and>
    job_Complete now db aid wid res = Inl ErrStaleAttempt \<and>
    AuthorizeAttempt db aid wid = Inl ErrStaleAttempt"
  by (simp add: job_Start_def job_Progress_def job_Complete_def AuthorizeAttempt_def
      withAttempt_stale [OF assms])

theorem stale_reports_refused_witness:
  "job_Complete 5000000 demo4 200 7 (demo_result True) = Inl ErrStaleAttempt \<and>
   AuthorizeAttempt demo3 200 8 = Inl ErrStaleAttempt"
proof -
  have "\<forall>a \<in> set (attempts demo4). a_id a = 200 \<and> a_worker a = 7 \<longrightarrow>
     a_state a \<noteq> AttemptLeased \<and> a_state a \<noteq> AttemptRunning" by code_simp
  moreover have "\<forall>a \<in> set (attempts demo3). a_id a = 200 \<and> a_worker a = 8 \<longrightarrow>
     a_state a \<noteq> AttemptLeased \<and> a_state a \<noteq> AttemptRunning" by code_simp
  ultimately show ?thesis using stale_reports_refused by blast
qed

section \<open>Completion\<close>

text \<open>A live attempt found by its owner is the one the report acts on.\<close>

lemma attempt_join_live:
  assumes inv: "job_inv db" and h: "holds db a t"
  obtains v where "attempt_join db (a_id a) (a_worker a) =
     Some \<lparr>at_tenantID = t_tenant t, at_taskID = t_id t, at_jobID = t_job t, at_assetVersionID = v,
           at_operation = t_operation t, at_state = a_state a, at_taskState = t_state t\<rparr>"
proof -
  have d: "distinct (map a_id (attempts db))" "distinct (map t_id (tasks db))"
    using inv by (auto simp: job_inv_parts)
  have m: "a \<in> set (attempts db)" "t \<in> set (tasks db)" "t_id t = a_task a" "t_tenant t = a_tenant a"
    using h by (auto simp: holds_def)
  have 1: "sql_find (\<lambda>x. a_id x = a_id a \<and> a_worker x = a_worker a) (attempts db) = Some a"
    by (rule sql_find_key [OF d(1) m(1)]) auto
  have 2: "sql_find (\<lambda>x. t_id x = a_task a) (tasks db) = Some t"
    by (rule sql_find_key [OF d(2) m(2)]) (use m(3) in auto)
  obtain j where "sql_find (\<lambda>x. j_id x = t_job t) (jobs db) = Some j"
    using inv m(2) sql_find_None_iff [of "\<lambda>x. j_id x = t_job t" "jobs db"]
    by (cases "sql_find (\<lambda>x. j_id x = t_job t) (jobs db)") (auto simp: job_inv_parts)
  then show ?thesis using 1 2 m by (intro that [of "j_version j"]) (simp add: attempt_join_def)
qed

lemma live_holds:
  assumes "job_inv db" "a \<in> set (attempts db)" "a_live a" "t \<in> set (tasks db)" "t_id t = a_task a"
  shows "holds db a t"
proof -
  obtain u where u: "u \<in> set (tasks db)" "t_id u = a_task a" "t_tenant u = a_tenant a"
    using assms(1,2) by (auto simp: job_inv_parts)
  then have "u = t" using same_task [OF assms(1,4)] assms(5) by simp
  then show ?thesis using u assms by (simp add: holds_def)
qed

lemma job_Complete_live:
  assumes inv: "job_inv db" and h: "holds db a t" and nc: "t_state t \<noteq> TaskCancelled"
  shows "Success res \<Longrightarrow> a_state a = AttemptLeased \<Longrightarrow> job_Complete now db (a_id a) (a_worker a) res =
      Inl (ErrIllegalTransition ''attempt'' ''leased'' ''succeeded'')"
    and "Success res \<Longrightarrow> a_state a = AttemptRunning \<Longrightarrow> \<exists>c. job_Complete now db (a_id a) (a_worker a) res =
      Inr (reconcileJob now (releaseDependents now (succeeded_db now db a t res) (t_job t) (t_id t))
        (t_tenant t) (t_job t), c) \<and> comp_Succeeded c"
    and "\<not> Success res \<Longrightarrow> \<exists>c. job_Complete now db (a_id a) (a_worker a) res =
      Inr (reconcileJob now (failed_db now db a t res (Retryable (normalise_class (res_FailureClass res)) \<and>
        t_attempt_count t < t_max_attempts t)) (t_tenant t) (t_job t), c) \<and>
      \<not> comp_Succeeded c \<and> (comp_Retrying c \<longleftrightarrow>
        Retryable (normalise_class (res_FailureClass res)) \<and> t_attempt_count t < t_max_attempts t)"
proof -
  obtain v where j: "attempt_join db (a_id a) (a_worker a) = Some \<lparr>at_tenantID = t_tenant t, at_taskID = t_id t,
      at_jobID = t_job t, at_assetVersionID = v, at_operation = t_operation t, at_state = a_state a,
      at_taskState = t_state t\<rparr>" (is "_ = Some ?ar")
    by (rule attempt_join_live [OF inv h])
  have live: "\<not> attempt_IsTerminal (a_state a)" using h by (simp add: holds_def a_live_def attempt_live_iff)
  have base: "job_Complete now db (a_id a) (a_worker a) res =
      (case complete_tx now db (a_id a) res ?ar of
         Inl e \<Rightarrow> Inl e
       | Inr (db', ar, succeeded, retrying) \<Rightarrow>
           Inr (db', \<lparr>comp_Operation = at_operation ar, comp_TaskID = at_taskID ar,
                     comp_JobID = at_jobID ar, comp_TenantID = at_tenantID ar,
                     comp_AssetVersionID = at_assetVersionID ar,
                     comp_Succeeded = succeeded, comp_Retrying = retrying,
                     comp_JobState = (case job_Get db' (at_tenantID ar) (at_jobID ar) of
                                        Inl _ \<Rightarrow> None | Inr j \<Rightarrow> Some (job_State j))\<rparr>))"
    using live by (simp add: job_Complete_def withAttempt_def j)
  note tx = base [unfolded complete_tx_cases [OF inv h, of ?ar v now res, OF refl]]
  show "job_Complete now db (a_id a) (a_worker a) res =
      Inl (ErrIllegalTransition ''attempt'' ''leased'' ''succeeded'')"
    if "Success res" "a_state a = AttemptLeased"
    unfolding tx using that nc by simp
  show "\<exists>c. job_Complete now db (a_id a) (a_worker a) res =
      Inr (reconcileJob now (releaseDependents now (succeeded_db now db a t res) (t_job t) (t_id t))
        (t_tenant t) (t_job t), c) \<and> comp_Succeeded c" if "Success res" "a_state a = AttemptRunning"
    unfolding tx using that nc by (simp add: succeeded_db_def)
  show "\<exists>c. job_Complete now db (a_id a) (a_worker a) res =
      Inr (reconcileJob now (failed_db now db a t res (Retryable (normalise_class (res_FailureClass res)) \<and>
        t_attempt_count t < t_max_attempts t)) (t_tenant t) (t_job t), c) \<and>
      \<not> comp_Succeeded c \<and> (comp_Retrying c \<longleftrightarrow>
        Retryable (normalise_class (res_FailureClass res)) \<and> t_attempt_count t < t_max_attempts t)"
    if "\<not> Success res"
    unfolding tx using that nc by (simp add: failed_db_def Let_def)
qed



text \<open>
  C15. A success reported by the holder of a running attempt is accepted, marks the task succeeded and
  queues, in the same transaction, every pending task of the job whose last unfinished dependency it
  was.
\<close>

theorem success_releases_dependents:
  assumes "job_reachable db" "a \<in> set (attempts db)" "a_state a = AttemptRunning" "t \<in> set (tasks db)"
    and "t_id t = a_task a" "t_state t \<noteq> TaskCancelled" "Success res"
  shows "\<exists>db' c. job_Complete now db (a_id a) (a_worker a) res = Inr (db', c) \<and> comp_Succeeded c \<and>
    (\<exists>t' \<in> set (tasks db'). t_id t' = t_id t \<and> t_state t' = TaskSucceeded) \<and>
    (\<forall>u \<in> set (tasks db). t_state u = TaskPending \<and> t_id t \<in> set (t_depends_on u) \<and>
       (\<forall>v \<in> set (tasks db). t_id v \<in> set (t_depends_on u) \<and> t_id v \<noteq> t_id t \<longrightarrow> t_state v = TaskSucceeded) \<longrightarrow>
       (\<exists>u' \<in> set (tasks db'). t_id u' = t_id u \<and> t_state u' = TaskQueued))"
proof -
  have inv: "job_inv db" using assms(1) by (rule job_reachable_inv)
  have h: "holds db a t" using live_holds [OF inv assms(2) _ assms(4,5)] assms(3) by (simp add: a_live_def)
  let ?db1 = "succeeded_db now db a t res"
  let ?db2 = "releaseDependents now ?db1 (t_job t) (t_id t)"
  let ?f = "\<lambda>r. r\<lparr>t_state := TaskSucceeded, t_finished := Some now\<rparr>"
  let ?q = "\<lambda>t. t\<lparr>t_state := TaskQueued, t_queued_at := Some now\<rparr>"
  have f: "?f t \<in> set (tasks ?db1)" unfolding succeeded_db_simps
    by (rule sql_updateI [OF assms(4), where P = "\<lambda>x. t_id x = t_id t", simplified])
  have keep: "x \<in> set (tasks ?db1) \<Longrightarrow> \<not> released ?db1 (t_job t) (t_id t) x \<Longrightarrow> x \<in> set (tasks ?db2)"
    "x \<in> set (tasks ?db1) \<Longrightarrow> released ?db1 (t_job t) (t_id t) x \<Longrightarrow> ?q x \<in> set (tasks ?db2)" for x
    using sql_updateI [of x "tasks ?db1" "released ?db1 (t_job t) (t_id t)" ?q]
    by (auto simp: tasks_releaseDependents)
  have ft: "?f t \<in> set (tasks ?db2)" by (rule keep(1) [OF f]) (simp add: released_def)
  have "?q u \<in> set (tasks ?db2)"
    if u: "u \<in> set (tasks db)" "t_state u = TaskPending" "t_id t \<in> set (t_depends_on u)"
      and all: "\<forall>v \<in> set (tasks db). t_id v \<in> set (t_depends_on u) \<and> t_id v \<noteq> t_id t \<longrightarrow> t_state v = TaskSucceeded" for u
  proof (rule keep(2))
    have "t_id u \<noteq> t_id t"
      using same_task [OF inv assms(4) u(1)] u(2) holds_filter [OF inv h] by auto
    then show "u \<in> set (tasks ?db1)" unfolding succeeded_db_simps
      using sql_updateI [OF u(1), of "\<lambda>x. t_id x = t_id t" ?f] by simp
    have "t_state d = TaskSucceeded" if "d \<in> set (tasks ?db1)" "t_id d \<in> set (t_depends_on u)" for d
      using that all unfolding succeeded_db_simps by (elim sql_updateE) (auto split: if_splits)
    moreover have "t_job u = t_job t"
    proof -
      obtain w where w: "w \<in> set (tasks db)" "t_id w = t_id t" "t_job w = t_job u"
        using inv u(1,3) unfolding job_inv_def deps_ok_def by metis
      then show ?thesis using same_task [OF inv assms(4) w(1,2)] by simp
    qed
    ultimately show "released ?db1 (t_job t) (t_id t) u" using u by (simp add: released_def)
  qed
  note rel = this
  let ?db = "reconcileJob now ?db2 (t_tenant t) (t_job t)"
  obtain c where c: "job_Complete now db (a_id a) (a_worker a) res = Inr (?db, c)" "comp_Succeeded c"
    using job_Complete_live(2) [OF inv h assms(6,7,3), of now] by blast
  have "\<exists>t' \<in> set (tasks ?db). t_id t' = t_id t \<and> t_state t' = TaskSucceeded"
    using ft by (intro bexI [of _ "?f t"]) auto
  moreover have "\<exists>u' \<in> set (tasks ?db). t_id u' = t_id u \<and> t_state u' = TaskQueued"
    if "u \<in> set (tasks db)" "t_state u = TaskPending \<and> t_id t \<in> set (t_depends_on u) \<and>
       (\<forall>v \<in> set (tasks db). t_id v \<in> set (t_depends_on u) \<and> t_id v \<noteq> t_id t \<longrightarrow> t_state v = TaskSucceeded)" for u
    using rel [of u] that by (intro bexI [of _ "?q u"]) auto
  ultimately show ?thesis using c by blast
qed

theorem success_releases_dependents_witness:
  "\<exists>db' c. job_Complete 3000000 demo3 200 7 (demo_result True) = Inr (db', c) \<and>
     (\<exists>t' \<in> set (tasks db'). t_id t' = 101 \<and> t_state t' = TaskQueued)"
proof -
  have "\<exists>a \<in> set (attempts demo3). a_state a = AttemptRunning \<and> a_id a = 200 \<and> a_worker a = 7 \<and> a_task a = 100"
    by code_simp
  then obtain a where a: "a \<in> set (attempts demo3)" "a_state a = AttemptRunning" "a_id a = 200"
    "a_worker a = 7" "a_task a = 100" by blast
  have "\<exists>t \<in> set (tasks demo3). t_id t = 100 \<and> t_state t = TaskRunning" by code_simp
  then obtain t where t: "t \<in> set (tasks demo3)" "t_id t = 100" "t_state t = TaskRunning" by blast
  have u: "\<exists>u \<in> set (tasks demo3). t_id u = 101 \<and> t_state u = TaskPending \<and> t_depends_on u = [100]"
    by code_simp
  have "Success (demo_result True)" by code_simp
  then show ?thesis
    using success_releases_dependents [OF demo_reachable(3) a(1,2) t(1), of "demo_result True" 3000000] a t u
    by fastforce
qed

text \<open>
  A success is refused until the attempt has been reported as started: while the attempt is only
  leased the completion fails with an illegal transition, nothing changes, and the work is lost
  when the lease lapses. (The agent goes on to execute when its start report fails.)
\<close>

theorem success_needs_start:
  assumes "job_reachable db" "a \<in> set (attempts db)" "a_state a = AttemptLeased" "t \<in> set (tasks db)"
    and "t_id t = a_task a" "t_state t \<noteq> TaskCancelled" "Success res"
  shows "job_Complete now db (a_id a) (a_worker a) res =
    Inl (ErrIllegalTransition ''attempt'' ''leased'' ''succeeded'')"
proof -
  have inv: "job_inv db" using assms(1) by (rule job_reachable_inv)
  have "holds db a t" using live_holds [OF inv assms(2) _ assms(4,5)] assms(3) by (simp add: a_live_def)
  then show ?thesis using job_Complete_live(1) [OF inv] assms by blast
qed

theorem success_needs_start_witness:
  "job_Complete 3000000 demo2 200 7 (demo_result True) =
    Inl (ErrIllegalTransition ''attempt'' ''leased'' ''succeeded'')"
proof -
  have "\<exists>a \<in> set (attempts demo2). a_state a = AttemptLeased \<and> a_id a = 200 \<and> a_worker a = 7 \<and> a_task a = 100"
    by code_simp
  then obtain a where a: "a \<in> set (attempts demo2)" "a_state a = AttemptLeased" "a_id a = 200"
    "a_worker a = 7" "a_task a = 100" by blast
  have "\<exists>t \<in> set (tasks demo2). t_id t = 100 \<and> t_state t = TaskLeased" by code_simp
  then obtain t where t: "t \<in> set (tasks demo2)" "t_id t = 100" "t_state t = TaskLeased" by blast
  have "Success (demo_result True)" by code_simp
  then show ?thesis
    using success_needs_start [OF demo_reachable(2) a(1,2) t(1), of "demo_result True" 3000000] a t by simp
qed

section \<open>Creating and cancelling\<close>

text \<open>
  C17. A retried submission is a no-op: once a creation with an idempotency key has returned a job,
  any later well-formed creation by the same tenant with that key changes nothing and returns the
  same job, whatever else it asks for.
\<close>

theorem create_idempotent:
  assumes "job_Create now fresh db ten ver pv key prio ts = Inr (db1, j)" "key \<noteq> []"
    and "ts' \<noteq> []" "\<forall>t \<in> set ts'. set (nt_DependsOn t) \<subseteq> nt_Key ` set ts'"
    and "distinct (map t_id (tasks db))"
  shows "job_Create now' fresh' db1 ten ver' pv' key prio' ts' = Inr (db1, j)"
proof -
  have "\<exists>r. sql_find (\<lambda>x. j_tenant x = ten \<and> j_idem x = Some key) (jobs db1) = Some r \<and> j = scan_job r"
  proof (cases "\<exists>x \<in> set (jobs db). j_tenant x = ten \<and> j_idem x = Some key")
    case True
    then show ?thesis using assms(1,2)
      by (auto simp: job_Create_def Let_def nullable_def list_ex_iff byIdempotencyKey_def
          split: if_splits option.splits prod.splits)
  next
    case False
    then obtain row where "jobs db1 = jobs db @ [row]" "j_tenant row = ten" "j_idem row = Some key" "j = scan_job row"
      using assms(1,2,5)
      by (auto simp: job_Create_def Let_def nullable_def list_ex_iff split: if_splits option.splits prod.splits
          sum.splits dest!: insert_tasks_Inr)
    moreover have "sql_find (\<lambda>x. j_tenant x = ten \<and> j_idem x = Some key) (xs @ [row]) = Some row"
      if "\<forall>x \<in> set xs. \<not> (j_tenant x = ten \<and> j_idem x = Some key)" for xs
      using that \<open>j_tenant row = ten\<close> \<open>j_idem row = Some key\<close> by (induction xs) (auto simp: sql_find_def)
    ultimately show ?thesis using False by auto
  qed
  then obtain r where r: "sql_find (\<lambda>x. j_tenant x = ten \<and> j_idem x = Some key) (jobs db1) = Some r" "j = scan_job r"
    by blast
  have "bad_depend (task_ids fresh' ts') ts' = None"
    unfolding bad_depend_None using assms(4) task_ids_None by (metis subsetD)
  then show ?thesis using r assms(2,3) sql_find_SomeD [OF r(1)]
    by (auto simp: job_Create_def Let_def nullable_def list_ex_iff byIdempotencyKey_def)
qed

theorem create_idempotent_witness:
  "\<exists>j. job_Create 9 demo_fresh demo1 11 14 15 ''key'' 7 [demo_task ''x'' ''probe'' []] = Inr (demo1, j)"
proof -
  obtain j where j: "job_Create 0 demo_fresh job_empty 11 12 13 ''key'' 100 demo_graph = Inr (demo1, j)"
    using got_step [OF demo_runs(1)] by (auto simp: demo1_def)
  show ?thesis using create_idempotent [OF j, of "[demo_task ''x'' ''probe'' []]" 9 demo_fresh 14 15 7]
    by (simp add: demo_task_def job_empty_def)
qed

lemma job_Cancel_open:
  assumes inv: "job_inv db" and j: "j \<in> set (jobs db)" "j_tenant j = ten"
    and "j_state j \<notin> {JobSucceeded, JobFailed, JobCancelled}"
  shows "job_Cancel now db ten (j_id j) =
    Inr (db\<lparr>tasks := sql_update (\<lambda>t. t_job t = j_id j \<and> t_state t \<in> {TaskPending, TaskQueued, TaskLeased, TaskRunning})
              (\<lambda>t. t\<lparr>t_state := TaskCancelled, t_finished := Some now\<rparr>) (tasks db),
            jobs := sql_update (\<lambda>r. j_id r = j_id j)
              (\<lambda>r. r\<lparr>j_state := JobCancelled, j_finished := Some now\<rparr>) (jobs db)\<rparr>)"
proof -
  have "distinct (map j_id (jobs db))" using inv by (simp add: job_inv_parts)
  then have "sql_find (\<lambda>x. j_id x = j_id j \<and> j_tenant x = ten) (jobs db) = Some j"
    using j by (intro sql_find_key [where k = j_id]) auto
  then show ?thesis using assms(4) by (simp add: job_Cancel_def)
qed



text \<open>A run in which one of two independent tasks fails for good while the other is still queued.\<close>

definition demo_bad_result :: Result where
  "demo_bad_result = (demo_result False)\<lparr>res_FailureClass := ''permanent_input''\<rparr>"

definition demoF1 :: job_db where
  "demoF1 = got (job_Create 0 demo_fresh job_empty 11 12 13 ''key'' 100
     [demo_task ''a'' ''encode'' [], demo_task ''b'' ''encode'' []])"

definition demoF2 :: job_db where
  "demoF2 = got (job_Lease 1000000 200 (\<lambda>_. None) [] demoF1 demo_worker 60000000000)"

definition demoF3 :: job_db where
  "demoF3 = got (job_Start 2000000 demoF2 200 7 60000000000)"

definition demoF4 :: job_db where
  "demoF4 = got (job_Complete 3000000 demoF3 200 7 demo_bad_result)"

lemma demoF_runs:
  "\<not> isl (job_Create 0 demo_fresh job_empty 11 12 13 ''key'' 100
     [demo_task ''a'' ''encode'' [], demo_task ''b'' ''encode'' []])"
  "\<not> isl (job_Lease 1000000 200 (\<lambda>_. None) [] demoF1 demo_worker 60000000000)"
  "\<not> isl (job_Start 2000000 demoF2 200 7 60000000000)"
  "\<not> isl (job_Complete 3000000 demoF3 200 7 demo_bad_result)"
  by code_simp+

lemma demoF_reachable: "job_reachable demoF4"
proof -
  have "job_step job_empty demoF1" "job_step demoF1 demoF2" "job_step demoF2 demoF3" "job_step demoF3 demoF4"
    using demoF_runs [THEN got_step]
    by (auto simp flip: demoF1_def demoF2_def demoF3_def demoF4_def intro: job_step.intros)
  then show ?thesis by (meson rtranclp.rtrancl_refl rtranclp.rtrancl_into_rtrancl)
qed


text \<open>
  The advisory lock of a worker is a non-negative 64-bit integer whatever the identifier, so the
  conversion to \<open>int64\<close> never wraps.
\<close>

lemma lockKey_range:
  "0 \<le> lockKey u \<and> lockKey u < 2 ^ 63 \<and> lockKey u = uint (fnv64a (uuid_bytes u)) div 2"
proof -
  let ?h = "fnv64a (uuid_bytes u)"
  have u: "uint (drop_bit 1 ?h) = uint ?h div 2" by (simp add: drop_bit_eq_div uint_div)
  have b: "uint ?h div 2 < 2 ^ 63" using uint_lt2p [of ?h] by simp
  have "sint (drop_bit 1 ?h) = uint (drop_bit 1 ?h)"
  proof -
    have "- (2 ^ 63) \<le> (0 :: int)" "0 \<le> uint ?h div 2" by simp_all
    then have "- (2 ^ 63) \<le> uint ?h div 2" by (rule order.trans)
    then show ?thesis
      unfolding sint_uint u using b by (intro signed_take_bit_int_eq_self) simp_all
  qed
  then show ?thesis using u b by (simp add: lockKey_def)
qed

end
