(* ===== verification/Float64.thy ===== *)
theory Float64
  imports Prelude "HOL-Library.Log_Nat"
begin

text \<open>
  Go's \<open>float64\<close> arithmetic, for the places where a computation runs through it. A finite value is
  the rational it denotes and \<open>f64\<close> rounds an exact result to the nearest value with a 53-bit
  significand, ties to even. Overflow to infinity and the loss of precision of subnormal values are
  not represented: no computation modelled here leaves the normal range.

  What the clients rely on is stated once, as the interface \<open>rounding\<close>, and discharged for \<open>f64\<close>.
\<close>

section \<open>Rounding to nearest, ties to even\<close>

definition pow2 :: "int \<Rightarrow> rat" where
  "pow2 k = (if 0 \<le> k then 2 ^ nat k else 1 / 2 ^ nat (- k))"

text \<open>The exponent of a positive rational: \<open>pow2 e \<le> x < pow2 (e + 1)\<close>.\<close>

definition exponent_of :: "rat \<Rightarrow> int" where
  "exponent_of x =
     (let (p, q) = quotient_of x; k = int (floorlog 2 (nat p)) - int (floorlog 2 (nat q)) in
      if pow2 k \<le> x then k else k - 1)"

definition f64 :: "rat \<Rightarrow> rat" where
  "f64 x =
     (if x = 0 then 0
      else let u = pow2 (exponent_of \<bar>x\<bar> - 52) in
        sgn x * (of_int (round_half_even (\<bar>x\<bar> / u)) * u))"

text \<open>\<open>int(v)\<close>, truncation towards zero, and \<open>math.Ceil\<close>.\<close>

definition go_trunc :: "rat \<Rightarrow> int" where
  "go_trunc v = (if 0 \<le> v then \<lfloor>v\<rfloor> else \<lceil>v\<rceil>)"

section \<open>Shortest decimal formatting\<close>

text \<open>
  The shortest decimal form of a non-negative value: the fewest significant digits that read back as
  the same \<open>float64\<close>, in positional notation unless the decimal exponent is below \<open>lo\<close> or from \<open>hi\<close> on.
  For \<open>fmt\<close>'s \<open>%g\<close> the limits are -4 and 6.
\<close>

definition pow10 :: "int \<Rightarrow> rat" where
  "pow10 k = (if 0 \<le> k then 10 ^ nat k else 1 / 10 ^ nat (- k))"

definition exponent10 :: "rat \<Rightarrow> int" where
  "exponent10 x = (case List.find (\<lambda>e. pow10 e \<le> x) (map (\<lambda>i. 308 - int i) [0..<633]) of
      None \<Rightarrow> -324 | Some e \<Rightarrow> e)"

definition sig_digits :: "rat \<Rightarrow> nat \<Rightarrow> nat" where
  "sig_digits x p = nat (round_half_even (x / pow10 (exponent10 x - int p + 1)))"

definition shortest_prec :: "rat \<Rightarrow> nat" where
  "shortest_prec x =
     (case List.find (\<lambda>p. f64 (of_nat (sig_digits x p) * pow10 (exponent10 x - int p + 1)) = x) [1..<17] of
        None \<Rightarrow> 17 | Some p \<Rightarrow> p)"

definition fmt_shortest :: "int \<Rightarrow> int \<Rightarrow> nat \<Rightarrow> rat \<Rightarrow> string" where
  "fmt_shortest lo hi width x =
     (if x = 0 then ''0''
      else let p = shortest_prec x; m = sig_digits x p;
               carry = (m = 10 ^ p);
               e = (if carry then exponent10 x + 1 else exponent10 x);
               ds = show_nat (if carry then m div 10 else m)
      in if e < lo \<or> hi \<le> e
         then take 1 ds @ (if length ds = 1 then [] else CHR ''.'' # drop 1 ds) @ ''e'' @
              (if e < 0 then ''-'' else ''+'') @ pad0 width (show_nat (nat \<bar>e\<bar>))
         else if e < 0 then ''0.'' @ replicate (nat (- e - 1)) (CHR ''0'') @ ds
         else if length ds \<le> nat e + 1 then ds @ replicate (nat e + 1 - length ds) (CHR ''0'')
         else take (nat e + 1) ds @ CHR ''.'' # drop (nat e + 1) ds)"

definition fmt_g :: "rat \<Rightarrow> string" where
  "fmt_g x = fmt_shortest (- 4) 6 2 x"

text \<open>\<open>encoding/json\<close>'s form of a \<open>float64\<close>: positional between 1e-6 and 1e21.\<close>

definition json_float :: "rat \<Rightarrow> string" where
  "json_float x = (if x < 0 then ''-'' else []) @ fmt_shortest (- 6) 21 1 \<bar>x\<bar>"

section \<open>The contract of a rounding mode\<close>

locale rounding =
  fixes rnd :: "rat \<Rightarrow> rat"
  assumes mono: "x \<le> y \<Longrightarrow> rnd x \<le> rnd y"
    and exact: "\<bar>n\<bar> \<le> 2 ^ 53 \<Longrightarrow> rnd (of_int n) = of_int n"
    and close: "0 \<le> x \<Longrightarrow> rnd x \<le> x * (1 + 1 / 2 ^ 52)"
    and halve: "rnd (x / 2) = rnd x / 2"
begin

lemma nonneg: "0 \<le> x \<Longrightarrow> 0 \<le> rnd x"
  using mono [of 0 x] exact [of 0] by simp

lemma below_int: "x \<le> of_int n \<Longrightarrow> \<bar>n\<bar> \<le> 2 ^ 53 \<Longrightarrow> rnd x \<le> of_int n"
  using mono [of x "of_int n"] exact [of n] by simp

text \<open>Half of a value of at most \<open>s\<close>, less one half, stays below \<open>(s - 1) / 2\<close>.\<close>

lemma half_below:
  assumes "v \<le> of_int s" "\<bar>s\<bar> \<le> 2 ^ 52"
  shows "rnd (rnd (v / 2) - 1 / 2) \<le> of_int (s - 1) / 2"
proof -
  have s: "\<bar>s\<bar> \<le> 2 ^ 53" "\<bar>s - 1\<bar> \<le> 2 ^ 53" using assms(2) by auto
  have "rnd (v / 2) - 1 / 2 \<le> of_int (s - 1) / 2"
    using below_int [OF assms(1) s(1)] halve [of v] by simp
  then have "rnd (rnd (v / 2) - 1 / 2) \<le> rnd (of_int (s - 1) / 2)" by (rule mono)
  also have "\<dots> = of_int (s - 1) / 2" using exact [OF s(2)] by (simp only: halve)
  finally show ?thesis .
qed

text \<open>Scaling an integer by a rounded factor of at most one does not exceed it.\<close>

lemma scaled_below:
  assumes "0 \<le> s" "s \<le> 2 ^ 53" "c \<le> 1"
  shows "rnd (of_int s * c) \<le> of_int s"
  using assms by (intro below_int) (auto simp: mult_left_le)

text \<open>Scaling \<open>s\<close> down to \<open>r\<close> overshoots \<open>r\<close> by less than one.\<close>

lemma scaled_near:
  assumes "0 < s" "0 < r" "r \<le> 2 ^ 40" "c \<le> rnd (of_int r / of_int s)" "0 \<le> c"
  shows "rnd (of_int s * c) \<le> of_int r + 1"
proof -
  have q: "0 \<le> (of_int r :: rat) / of_int s" using assms(1,2) by simp
  have "of_int s * c \<le> of_int s * (of_int r / of_int s * (1 + 1 / 2 ^ 52))"
    using assms(1,4) close [OF q] by (intro mult_left_mono) auto
  also have "\<dots> = of_int r * (1 + 1 / 2 ^ 52)" using assms(1) by simp
  finally have 1: "of_int s * c \<le> of_int r * (1 + 1 / 2 ^ 52)" .
  have "0 \<le> of_int s * c" using assms(1,5) by simp
  then have "rnd (of_int s * c) \<le> of_int s * c * (1 + 1 / 2 ^ 52)" by (rule close)
  also have "\<dots> \<le> of_int r * (1 + 1 / 2 ^ 52) * (1 + 1 / 2 ^ 52)"
    using 1 by (intro mult_right_mono) auto
  also have "\<dots> \<le> of_int r + 1"
  proof -
    have "(of_int r :: rat) \<le> 2 ^ 40" using assms(3) by (metis of_int_le_iff of_int_numeral of_int_power)
    then have "of_int r * ((1 + 1 / 2 ^ 52) * (1 + 1 / 2 ^ 52) - 1) \<le> (2 ^ 40 :: rat) * ((1 + 1 / 2 ^ 52) * (1 + 1 / 2 ^ 52) - 1)"
      by (intro mult_right_mono) auto
    also have "\<dots> \<le> 1" by simp
    finally show ?thesis by (simp add: algebra_simps)
  qed
  finally show ?thesis .
qed

end

section \<open>The contract holds\<close>

lemma pow2_pos [simp]: "0 < pow2 k"
  by (simp add: pow2_def)

lemma pow2_powi: "pow2 k = 2 powi k"
  unfolding pow2_def power_int_def by (simp only: inverse_eq_divide power_one_over)

lemma pow2_add: "pow2 (a + b) = pow2 a * pow2 b"
  by (simp add: pow2_powi power_int_add)

lemma pow2_mono: "a \<le> b \<Longrightarrow> pow2 a \<le> pow2 b"
  by (simp add: pow2_powi power_int_increasing)

lemma pow2_nat: "pow2 (int n) = 2 ^ n"
  by (simp add: pow2_def)

lemma pow2_diff: "pow2 (int a - int b) = 2 ^ a / 2 ^ b"
  by (simp add: pow2_powi power_int_diff)

lemma exponent_bounds:
  assumes "0 < x"
  shows "pow2 (exponent_of x) \<le> x" "x < pow2 (exponent_of x + 1)"
proof -
  obtain p q where pq: "quotient_of x = (p, q)" by (cases "quotient_of x")
  then have x: "x = of_int p / of_int q" and q: "0 < q"
    using quotient_of_div quotient_of_denom_pos by blast+
  have p: "0 < p" using assms x q by (simp add: zero_less_divide_iff)
  define P Q where "P = nat p" and "Q = nat q"
  have x: "x = of_nat P / of_nat Q" and pos: "0 < P" "0 < Q" using x p q by (simp_all add: P_def Q_def)
  define a b where "a = floorlog 2 P" and "b = floorlog 2 Q"
  have "1 \<le> a" "1 \<le> b" using pos by (simp_all add: a_def b_def floorlog_def)
  have P: "2 ^ (a - 1) \<le> P" "P < 2 ^ a" and Q: "2 ^ (b - 1) \<le> Q" "Q < 2 ^ b"
    using floorlog_bounds [of P 2] floorlog_bounds [of Q 2] pos by (simp_all add: a_def b_def)
  have P': "(2 :: rat) ^ (a - 1) \<le> of_nat P" "of_nat P < (2 :: rat) ^ a"
    and Q': "(2 :: rat) ^ (b - 1) \<le> of_nat Q" "of_nat Q < (2 :: rat) ^ b"
    using P Q by (metis of_nat_le_iff of_nat_less_iff of_nat_numeral of_nat_power)+
  have "x < 2 ^ a / 2 ^ (b - 1)"
    unfolding x using P' Q' pos by (intro frac_less) auto
  also have "\<dots> = pow2 (int a - int b + 1)"
    using \<open>1 \<le> b\<close> pow2_diff [of a "b - 1"] by (simp add: algebra_simps)
  finally have up: "x < pow2 (int a - int b + 1)" .
  have "pow2 (int a - int b - 1) = 2 ^ (a - 1) / 2 ^ b"
    using \<open>1 \<le> a\<close> pow2_diff [of "a - 1" b] by (simp add: algebra_simps)
  also have "\<dots> \<le> x" unfolding x using P' Q' pos by (intro frac_le) auto
  finally have low: "pow2 (int a - int b - 1) \<le> x" .
  have "exponent_of x = (if pow2 (int a - int b) \<le> x then int a - int b else int a - int b - 1)"
    by (simp add: exponent_of_def pq a_def b_def P_def Q_def Let_def)
  then show "pow2 (exponent_of x) \<le> x" "x < pow2 (exponent_of x + 1)" using up low by auto
qed

lemma exponent_mono:
  assumes "0 < x" "x \<le> y"
  shows "exponent_of x \<le> exponent_of y"
proof (rule ccontr)
  assume "\<not> ?thesis"
  then have "pow2 (exponent_of y + 1) \<le> pow2 (exponent_of x)" by (intro pow2_mono) simp
  then show False using exponent_bounds [of x] exponent_bounds [of y] assms by linarith
qed

lemma round_half_even_near: "\<bar>of_int (round_half_even r) - r\<bar> \<le> 1 / 2"
  using floor_correct [of r] unfolding round_half_even_def Let_def by (auto simp: abs_le_iff)

lemma round_half_even_of_int [simp]: "round_half_even (of_int n) = n"
  by (simp add: round_half_even_def Let_def)

lemma round_half_even_mono:
  assumes "r \<le> s"
  shows "round_half_even r \<le> round_half_even s"
proof (cases "\<lfloor>r\<rfloor> = \<lfloor>s\<rfloor>")
  case True
  then show ?thesis using assms by (auto simp: round_half_even_def Let_def)
next
  case False
  then have "\<lfloor>r\<rfloor> + 1 \<le> \<lfloor>s\<rfloor>" using floor_mono [OF assms] by simp
  moreover have "round_half_even r \<le> \<lfloor>r\<rfloor> + 1" "\<lfloor>s\<rfloor> \<le> round_half_even s"
    by (simp_all add: round_half_even_def Let_def)
  ultimately show ?thesis by linarith
qed

lemma f64_neg: "f64 (- x) = - f64 x"
  by (simp add: f64_def Let_def sgn_if)

lemma f64_pos:
  assumes "0 < x"
  shows "f64 x = of_int (round_half_even (x / pow2 (exponent_of x - 52))) * pow2 (exponent_of x - 52)"
  using assms by (simp add: f64_def Let_def)

lemma significand_bounds:
  assumes "0 < x"
  shows "2 ^ 52 \<le> x / pow2 (exponent_of x - 52)" "x / pow2 (exponent_of x - 52) \<le> 2 ^ 53"
proof -
  have "pow2 (exponent_of x) = 2 ^ 52 * pow2 (exponent_of x - 52)"
    "pow2 (exponent_of x + 1) = 2 ^ 53 * pow2 (exponent_of x - 52)"
    using pow2_add [of 52 "exponent_of x - 52"] pow2_add [of 53 "exponent_of x - 52"]
      pow2_nat [of 52] pow2_nat [of 53] by (simp_all add: algebra_simps)
  then show "2 ^ 52 \<le> x / pow2 (exponent_of x - 52)" "x / pow2 (exponent_of x - 52) \<le> 2 ^ 53"
    using exponent_bounds [OF assms] by (simp_all add: pos_le_divide_eq pos_divide_le_eq)
qed

lemma f64_binade:
  assumes "0 < x"
  shows "pow2 (exponent_of x) \<le> f64 x" "f64 x \<le> pow2 (exponent_of x + 1)"
proof -
  let ?u = "pow2 (exponent_of x - 52)"
  have e: "pow2 (exponent_of x) = of_int (2 ^ 52) * ?u" "pow2 (exponent_of x + 1) = of_int (2 ^ 53) * ?u"
    using pow2_add [of 52 "exponent_of x - 52"] pow2_add [of 53 "exponent_of x - 52"]
      pow2_nat [of 52] pow2_nat [of 53] by (simp_all add: algebra_simps)
  have "2 ^ 52 \<le> round_half_even (x / ?u)" "round_half_even (x / ?u) \<le> 2 ^ 53"
    using round_half_even_mono [OF significand_bounds(1) [OF assms]] round_half_even_of_int [of "2 ^ 52"]
      round_half_even_mono [OF significand_bounds(2) [OF assms]] round_half_even_of_int [of "2 ^ 53"]
    by simp_all
  then show "pow2 (exponent_of x) \<le> f64 x" "f64 x \<le> pow2 (exponent_of x + 1)"
    unfolding f64_pos [OF assms] e
    by (intro mult_right_mono; simp add: less_imp_le del: of_int_power)+
qed

lemma f64_mono_pos:
  assumes "0 < x" "x \<le> y"
  shows "f64 x \<le> f64 y"
proof (cases "exponent_of x = exponent_of y")
  case True
  have "x / pow2 (exponent_of y - 52) \<le> y / pow2 (exponent_of y - 52)"
    using assms by (intro divide_right_mono) (simp_all add: less_imp_le)
  then show ?thesis
    using assms True round_half_even_mono by (simp add: f64_pos mult_right_mono less_imp_le)
next
  case False
  then have "exponent_of x + 1 \<le> exponent_of y" using exponent_mono [OF assms] by simp
  then have "pow2 (exponent_of x + 1) \<le> pow2 (exponent_of y)" by (rule pow2_mono)
  then show ?thesis using f64_binade(2) [OF assms(1)] f64_binade(1) [of y] assms by linarith
qed

lemma f64_nonneg: "0 \<le> x \<Longrightarrow> 0 \<le> f64 x"
  using f64_binade(1) [of x] pow2_pos [of "exponent_of x"]
  by (cases "x = 0") (auto simp: f64_def simp del: pow2_pos)

lemma f64_exact_pos:
  assumes "0 < n" "n \<le> 2 ^ 53"
  shows "f64 (of_int n) = of_int n"
proof -
  let ?x = "of_int n :: rat"
  have x: "0 < ?x" using assms(1) by simp
  have "pow2 (exponent_of ?x) \<le> 2 ^ 53"
    using exponent_bounds(1) [OF x] assms(2) by (metis of_int_le_iff of_int_numeral of_int_power order.trans)
  then have "exponent_of ?x \<le> 53"
    using pow2_mono [of 54 "exponent_of ?x"] pow2_nat [of 54] by (cases "exponent_of ?x \<le> 53") auto
  then consider "exponent_of ?x \<le> 52" | "exponent_of ?x = 53" by linarith
  then have "\<exists>m. ?x / pow2 (exponent_of ?x - 52) = of_int m"
  proof cases
    case 1
    then have "pow2 (exponent_of ?x - 52) = 1 / 2 ^ nat (52 - exponent_of ?x)" by (simp add: pow2_def)
    then have "?x / pow2 (exponent_of ?x - 52) = of_int (n * 2 ^ nat (52 - exponent_of ?x))" by simp
    then show ?thesis by blast
  next
    case 2
    then have "(2 :: rat) ^ 53 \<le> ?x" using exponent_bounds(1) [OF x] pow2_nat [of 53] by simp
    then have "n = 2 ^ 53" using assms(2) by (metis antisym of_int_le_iff of_int_numeral of_int_power)
    then have "?x / pow2 (exponent_of ?x - 52) = of_int (2 ^ 52)" using 2 by (simp add: pow2_def)
    then show ?thesis by blast
  qed
  then obtain m where "?x / pow2 (exponent_of ?x - 52) = of_int m" by blast
  moreover from this have "?x = of_int m * pow2 (exponent_of ?x - 52)"
    by (metis less_irrefl nonzero_divide_eq_eq pow2_pos)
  ultimately show ?thesis unfolding f64_pos [OF x] by simp
qed

lemma f64_close:
  assumes "0 < x"
  shows "f64 x \<le> x * (1 + 1 / 2 ^ 52)"
proof -
  let ?u = "pow2 (exponent_of x - 52)"
  have "of_int (round_half_even (x / ?u)) \<le> x / ?u + 1 / 2"
    using round_half_even_near [of "x / ?u"] by linarith
  then have "f64 x \<le> (x / ?u + 1 / 2) * ?u"
    unfolding f64_pos [OF assms] by (intro mult_right_mono) (simp_all add: less_imp_le)
  also have "\<dots> = x + ?u / 2" by (simp add: algebra_simps less_imp_neq [symmetric])
  also have "?u \<le> x / 2 ^ 52"
    using significand_bounds(1) [OF assms] by (simp add: pos_le_divide_eq mult.commute)
  finally show ?thesis using assms by (simp add: algebra_simps)
qed

lemma exponent_unique:
  assumes "pow2 e \<le> x" "x < pow2 (e + 1)"
  shows "exponent_of x = e"
proof -
  have x: "0 < x" using assms(1) pow2_pos [of e] by linarith
  note b = exponent_bounds [OF x]
  have "\<not> e + 1 \<le> exponent_of x" using pow2_mono [of "e + 1" "exponent_of x"] b(1) assms(2) by linarith
  moreover have "\<not> exponent_of x + 1 \<le> e" using pow2_mono [of "exponent_of x + 1" e] b(2) assms(1) by linarith
  ultimately show ?thesis by linarith
qed

lemma pow2_pred: "pow2 (e - 1) = pow2 e / 2"
  using pow2_add [of "e - 1" 1] by (simp add: pow2_def)

lemma f64_halve_pos:
  assumes "0 < x"
  shows "f64 (x / 2) = f64 x / 2"
proof -
  have e: "exponent_of (x / 2) = exponent_of x - 1"
    using exponent_bounds [OF assms] pow2_pred [of "exponent_of x"] pow2_pred [of "exponent_of x + 1"]
    by (intro exponent_unique) auto
  define u where "u = pow2 (exponent_of x - 52)"
  have h: "pow2 (exponent_of (x / 2) - 52) = u / 2"
    unfolding e u_def using pow2_pred [of "exponent_of x - 52"] by (simp add: algebra_simps)
  have "f64 (x / 2) = of_int (round_half_even (x / 2 / (u / 2))) * (u / 2)"
    using assms f64_pos [of "x / 2", unfolded h] by simp
  also have "x / 2 / (u / 2) = x / u" by simp
  finally show ?thesis using f64_pos [OF assms] by (simp add: u_def)
qed

interpretation f64: rounding f64
proof
  show "f64 (x / 2) = f64 x / 2" for x
    using f64_halve_pos [of x] f64_halve_pos [of "- x"] f64_neg [of x] f64_neg [of "x / 2"]
    by (cases x "0 :: rat" rule: linorder_cases) (auto simp: f64_def)
  show "f64 x \<le> f64 y" if "x \<le> y" for x y
  proof (cases "0 < x")
    case True then show ?thesis using f64_mono_pos that by blast
  next
    case x: False
    show ?thesis
    proof (cases "0 \<le> y")
      case True
      have "0 \<le> f64 (- x)" using x by (intro f64_nonneg) simp
      then show ?thesis using f64_nonneg [OF True] by (simp add: f64_neg)
    next
      case False
      then show ?thesis using f64_mono_pos [of "- y" "- x"] that by (simp add: f64_neg)
    qed
  qed
  show "f64 (of_int n) = of_int n" if "\<bar>n\<bar> \<le> 2 ^ 53" for n
    using f64_exact_pos [of n] f64_exact_pos [of "- n"] that f64_neg [of "of_int n"]
    by (cases n "0 :: int" rule: linorder_cases) (auto simp: f64_def)
  show "f64 x \<le> x * (1 + 1 / 2 ^ 52)" if "0 \<le> x" for x
    using f64_close [of x] that by (cases "x = 0") (auto simp: f64_def)
qed

end
