(* ===== verification/Encode_Config.thy ===== *)
theory Encode_Config
  imports Float64
begin

text \<open>
  The encoding configuration of \<open>internal/encode/config.go\<close> and the argument list built from it in
  \<open>internal/encode/args.go\<close>. Each vocabulary is the association list of the source's map.
\<close>

section \<open>Configuration\<close>

record ColorConfig =
  cc_Primaries :: string
  cc_Transfer :: string
  cc_Matrix :: string
  cc_Range :: string

record VideoConfig =
  v_Codec :: string
  v_Profile :: string
  v_Level :: string
  v_Width :: int
  v_Height :: int
  v_FPSNum :: int
  v_FPSDen :: int
  v_RateControl :: string
  v_CRF :: "int option"
  v_BitrateBPS :: int
  v_MaxrateBPS :: int
  v_BufsizeBytes :: int
  v_Preset :: string
  v_Tune :: string
  v_PixelFormat :: string
  v_KeyframeIntervalSec :: rat
  v_BFrames :: "int option"
  v_RefFrames :: "int option"
  v_Color :: "ColorConfig option"

record AudioConfig =
  au_Codec :: string
  au_BitrateBPS :: int
  au_SampleRateHz :: int
  au_Channels :: int

record Config =
  c_Container :: string
  c_Video :: VideoConfig
  c_Audio :: "AudioConfig option"

section \<open>Vocabulary\<close>

definition videoEncoders :: "(string \<times> string) list" where
  "videoEncoders = [(''h264'', ''libx264''), (''h265'', ''libx265''), (''av1'', ''libsvtav1'')]"

definition audioEncoders :: "(string \<times> string) list" where
  "audioEncoders = [(''aac'', ''aac''), (''opus'', ''libopus'')]"

definition containers :: "(string \<times> string) list" where
  "containers = [(''mp4'', ''mp4''), (''fmp4'', ''mp4''), (''mkv'', ''matroska''), (''webm'', ''webm'')]"

definition speed_presets :: "string list" where
  "speed_presets = [''ultrafast'', ''superfast'', ''veryfast'', ''faster'', ''fast'', ''medium'',
     ''slow'', ''slower'', ''veryslow'']"

definition av1PresetNumbers :: "(string \<times> string) list" where
  "av1PresetNumbers = [(''ultrafast'', ''12''), (''superfast'', ''11''), (''veryfast'', ''10''),
     (''faster'', ''9''), (''fast'', ''8''), (''medium'', ''6''), (''slow'', ''4''),
     (''slower'', ''3''), (''veryslow'', ''2'')]"

definition profiles :: "(string \<times> string list) list" where
  "profiles = [(''h264'', [''baseline'', ''main'', ''high'', ''high10'']),
     (''h265'', [''main'', ''main10'']), (''av1'', [''main''])]"

definition tunes :: "(string \<times> string list) list" where
  "tunes = [(''h264'', [''film'', ''animation'', ''grain'', ''stillimage'', ''fastdecode'', ''zerolatency'']),
     (''h265'', [''grain'', ''fastdecode'', ''zerolatency'', ''animation'']), (''av1'', [])]"

definition pixelFormats :: "string list" where
  "pixelFormats = [''yuv420p'', ''yuv420p10le'', ''yuv422p'', ''yuv422p10le'', ''yuv444p'',
     ''yuv444p10le'', ''nv12'']"

definition rateControls :: "string list" where
  "rateControls = [''crf'', ''vbr'', ''cbr'']"

definition colorPrimaries :: "string list" where
  "colorPrimaries = [''bt709'', ''bt470bg'', ''smpte170m'', ''bt2020'']"

definition colorTransfers :: "string list" where
  "colorTransfers = [''bt709'', ''smpte170m'', ''smpte2084'', ''arib-std-b67'', ''bt2020-10'', ''bt2020-12'']"

definition colorMatrices :: "string list" where
  "colorMatrices = [''bt709'', ''bt470bg'', ''smpte170m'', ''bt2020nc'', ''bt2020c'']"

definition colorRanges :: "string list" where
  "colorRanges = [''tv'', ''pc'']"

text \<open>Reading a Go map: a missing key gives the zero value.\<close>

definition go_get :: "(string \<times> string) list \<Rightarrow> string \<Rightarrow> string" where
  "go_get m k = (case map_of m k of None \<Rightarrow> [] | Some v \<Rightarrow> v)"

definition go_get_set :: "(string \<times> string list) list \<Rightarrow> string \<Rightarrow> string \<Rightarrow> bool" where
  "go_get_set m k v \<longleftrightarrow> (case map_of m k of None \<Rightarrow> False | Some vs \<Rightarrow> List.member vs v)"

definition maxDimension :: int where "maxDimension = 7680"
definition maxBitrateBPS :: int where "maxBitrateBPS = 400000000"
definition maxFPS :: int where "maxFPS = 240"
definition maxCRF :: int where "maxCRF = 63"
definition maxBFrames :: int where "maxBFrames = 16"
definition maxRefFrames :: int where "maxRefFrames = 16"
definition maxKeyframeIntervalSec :: int where "maxKeyframeIntervalSec = 60"

lemmas max_defs = maxDimension_def maxBitrateBPS_def maxFPS_def maxCRF_def maxBFrames_def
  maxRefFrames_def maxKeyframeIntervalSec_def

section \<open>Validation\<close>

text \<open>\<open>ErrInvalidConfig\<close> wrapped with the branch that refused the configuration.\<close>

datatype config_error =
  BadContainer string | BadVideoCodec string | NoDimensions | TooLarge int int | OddDimensions int int
| BadFrameRate | FrameRateTooHigh rat | BadRateControl string | NoCRF | BadCRF int | NoBitrate string
| BitrateTooHigh | NegativeBitrate | BadPreset string | BadProfile string string | BadTune string string
| BadPixelFormat string | BadLevel string | BadKeyframeInterval | BadBFrames | BadRefFrames
| BadPrimaries string | BadTransfer string | BadMatrix string | BadRange string | BadAudioCodec string
| BadAudioBitrate int | BadChannels int | BadSampleRate int

fun level_loop :: "nat \<Rightarrow> string \<Rightarrow> bool" where
  "level_loop dots [] = True"
| "level_loop dots (r # rs) =
     (if is_digit r then level_loop dots rs
      else if r = CHR ''.'' then (if dots + 1 > 1 then False else level_loop (dots + 1) rs)
      else False)"

definition validLevel :: "string \<Rightarrow> bool" where
  "validLevel s \<longleftrightarrow>
     (if s = [] \<or> length s > 4 then False
      else if \<not> level_loop 0 s then False
      else \<not> HasPrefix s ''.'' \<and> \<not> HasSuffix s ''.'')"

definition color_validate :: "ColorConfig \<Rightarrow> config_error option" where
  "color_validate c =
     (if cc_Primaries c \<noteq> [] \<and> \<not> List.member colorPrimaries (cc_Primaries c)
      then Some (BadPrimaries (cc_Primaries c))
      else if cc_Transfer c \<noteq> [] \<and> \<not> List.member colorTransfers (cc_Transfer c)
      then Some (BadTransfer (cc_Transfer c))
      else if cc_Matrix c \<noteq> [] \<and> \<not> List.member colorMatrices (cc_Matrix c)
      then Some (BadMatrix (cc_Matrix c))
      else if cc_Range c \<noteq> [] \<and> \<not> List.member colorRanges (cc_Range c)
      then Some (BadRange (cc_Range c))
      else None)"

definition Supported :: "ColorConfig \<Rightarrow> bool" where
  "Supported c \<longleftrightarrow> color_validate c = None"

definition audio_validate :: "AudioConfig \<Rightarrow> config_error option" where
  "audio_validate a =
     (if map_of audioEncoders (au_Codec a) = None then Some (BadAudioCodec (au_Codec a))
      else if au_BitrateBPS a < 0 \<or> au_BitrateBPS a > 2000000 then Some (BadAudioBitrate (au_BitrateBPS a))
      else if au_Channels a < 0 \<or> au_Channels a > 16 then Some (BadChannels (au_Channels a))
      else if \<not> List.member [0, 8000, 16000, 22050, 24000, 32000, 44100, 48000, 96000] (au_SampleRateHz a)
      then Some (BadSampleRate (au_SampleRateHz a))
      else None)"

definition Encoder_of :: "VideoConfig \<Rightarrow> string" where
  "Encoder_of v = go_get videoEncoders (v_Codec v)"

text \<open>The checks of \<open>VideoConfig.validate\<close> in three groups, in the source's order.\<close>

definition validate_size :: "VideoConfig \<Rightarrow> config_error option" where
  "validate_size v =
     (if v_Width v \<le> 0 \<or> v_Height v \<le> 0 then Some NoDimensions
      else if v_Width v > maxDimension \<or> v_Height v > maxDimension then Some (TooLarge (v_Width v) (v_Height v))
      else if v_Width v mod 2 \<noteq> 0 \<or> v_Height v mod 2 \<noteq> 0 then Some (OddDimensions (v_Width v) (v_Height v))
      else if v_FPSNum v \<noteq> 0 \<or> v_FPSDen v \<noteq> 0
      then (if v_FPSNum v \<le> 0 \<or> v_FPSDen v \<le> 0 then Some BadFrameRate
            else let fps = f64 (f64 (of_int (v_FPSNum v)) / f64 (of_int (v_FPSDen v))) in
                 if fps > of_int maxFPS then Some (FrameRateTooHigh fps) else None)
      else None)"

definition validate_rate :: "VideoConfig \<Rightarrow> config_error option" where
  "validate_rate v =
     (if \<not> List.member rateControls (v_RateControl v) then Some (BadRateControl (v_RateControl v))
      else if v_RateControl v = ''crf'' \<and> v_CRF v = None then Some NoCRF
      else if v_RateControl v = ''crf'' \<and> (the (v_CRF v) < 0 \<or> the (v_CRF v) > maxCRF)
      then Some (BadCRF (the (v_CRF v)))
      else if v_RateControl v \<noteq> ''crf'' \<and> v_BitrateBPS v \<le> 0 then Some (NoBitrate (v_RateControl v))
      else if v_BitrateBPS v > maxBitrateBPS \<or> v_MaxrateBPS v > maxBitrateBPS then Some BitrateTooHigh
      else if v_BitrateBPS v < 0 \<or> v_MaxrateBPS v < 0 \<or> v_BufsizeBytes v < 0 then Some NegativeBitrate
      else None)"

definition validate_names :: "VideoConfig \<Rightarrow> config_error option" where
  "validate_names v =
     (if v_Preset v \<noteq> [] \<and> \<not> List.member speed_presets (v_Preset v) then Some (BadPreset (v_Preset v))
      else if v_Profile v \<noteq> [] \<and> \<not> go_get_set profiles (v_Codec v) (v_Profile v)
      then Some (BadProfile (v_Profile v) (v_Codec v))
      else if v_Tune v \<noteq> [] \<and> \<not> go_get_set tunes (v_Codec v) (v_Tune v)
      then Some (BadTune (v_Tune v) (v_Codec v))
      else if v_PixelFormat v \<noteq> [] \<and> \<not> List.member pixelFormats (v_PixelFormat v)
      then Some (BadPixelFormat (v_PixelFormat v))
      else if v_Level v \<noteq> [] \<and> \<not> validLevel (v_Level v) then Some (BadLevel (v_Level v))
      else if v_KeyframeIntervalSec v < 0 \<or> v_KeyframeIntervalSec v > of_int maxKeyframeIntervalSec
      then Some BadKeyframeInterval
      else if (case v_BFrames v of None \<Rightarrow> False | Some n \<Rightarrow> n < 0 \<or> n > maxBFrames) then Some BadBFrames
      else if (case v_RefFrames v of None \<Rightarrow> False | Some n \<Rightarrow> n < 1 \<or> n > maxRefFrames) then Some BadRefFrames
      else case v_Color v of None \<Rightarrow> None | Some c \<Rightarrow> color_validate c)"

definition video_validate :: "VideoConfig \<Rightarrow> config_error option" where
  "video_validate v =
     (if map_of videoEncoders (v_Codec v) = None then Some (BadVideoCodec (v_Codec v))
      else case validate_size v of
        Some e \<Rightarrow> Some e
      | None \<Rightarrow> (case validate_rate v of Some e \<Rightarrow> Some e | None \<Rightarrow> validate_names v))"

definition config_Validate :: "Config \<Rightarrow> config_error option" where
  "config_Validate c =
     (if map_of containers (c_Container c) = None then Some (BadContainer (c_Container c))
      else case video_validate (c_Video c) of
        Some e \<Rightarrow> Some e
      | None \<Rightarrow> (case c_Audio c of None \<Rightarrow> None | Some a \<Rightarrow> audio_validate a))"

section \<open>Arguments\<close>

definition crfFlag :: "string \<Rightarrow> string" where
  "crfFlag codec = (if codec = ''av1'' then ''-crf'' else ''-crf'')"

definition presetFor :: "string \<Rightarrow> string \<Rightarrow> string" where
  "presetFor codec preset = (if codec = ''av1'' then go_get av1PresetNumbers preset else preset)"

definition bufsize :: "VideoConfig \<Rightarrow> int" where
  "bufsize v =
     (if v_BufsizeBytes v > 0 then v_BufsizeBytes v
      else let rate = (if v_MaxrateBPS v = 0 then v_BitrateBPS v else v_MaxrateBPS v) in rate * 2)"

definition effectiveFPS :: "VideoConfig \<Rightarrow> rat" where
  "effectiveFPS v =
     (if v_FPSNum v > 0 \<and> v_FPSDen v > 0
      then f64 (f64 (of_int (v_FPSNum v)) / f64 (of_int (v_FPSDen v))) else 30)"

definition gop_of :: "VideoConfig \<Rightarrow> int" where
  "gop_of v = (let gop = go_trunc (f64 (v_KeyframeIntervalSec v * effectiveFPS v)) in
     if gop < 1 then 1 else gop)"

definition opt :: "string \<Rightarrow> string \<Rightarrow> string list" where
  "opt flag val = (if val \<noteq> [] then [flag, val] else [])"

definition color_params :: "string \<Rightarrow> ColorConfig \<Rightarrow> string" where
  "color_params codec c =
     (if codec = ''h264'' \<or> codec = ''h265''
      then (if cc_Primaries c \<noteq> [] then ''colorprim='' @ cc_Primaries c @ '':'' else []) @
           (if cc_Transfer c \<noteq> [] then ''transfer='' @ cc_Transfer c @ '':'' else []) @
           (if cc_Matrix c \<noteq> [] then ''colormatrix='' @ cc_Matrix c @ '':'' else [])
      else [])"

definition colorArgs :: "VideoConfig \<Rightarrow> string list" where
  "colorArgs v =
     (case v_Color v of
        None \<Rightarrow> []
      | Some c \<Rightarrow>
          let params = color_params (v_Codec v) c
          in opt ''-color_primaries'' (cc_Primaries c) @ opt ''-color_trc'' (cc_Transfer c) @
             opt ''-colorspace'' (cc_Matrix c) @ opt ''-color_range'' (cc_Range c) @
             (if params \<noteq> []
              then [if v_Codec v = ''h265'' then ''-x265-params'' else ''-x264-params'', butlast params]
              else []))"

definition rate_args :: "VideoConfig \<Rightarrow> string list" where
  "rate_args v =
     (let cap = (if v_MaxrateBPS v > 0
                 then [''-maxrate'', Itoa (v_MaxrateBPS v), ''-bufsize'', Itoa (bufsize v)] else [])
      in if v_RateControl v = ''crf'' then [crfFlag (v_Codec v), Itoa (the (v_CRF v))] @ cap
         else if v_RateControl v = ''vbr'' then [''-b:v'', Itoa (v_BitrateBPS v)] @ cap
         else if v_RateControl v = ''cbr''
         then let rate = Itoa (v_BitrateBPS v) in
              [''-b:v'', rate, ''-minrate'', rate, ''-maxrate'', rate, ''-bufsize'', Itoa (bufsize v)]
         else [])"

definition keyframe_args :: "VideoConfig \<Rightarrow> string list" where
  "keyframe_args v =
     (if v_KeyframeIntervalSec v > 0
      then [''-g'', Itoa (gop_of v), ''-keyint_min'', Itoa (gop_of v), ''-sc_threshold'', ''0'',
            ''-force_key_frames'', ''expr:gte(t,n_forced*'' @ fmt_g (v_KeyframeIntervalSec v) @ '')'']
      else [])"

definition video_args :: "VideoConfig \<Rightarrow> string list" where
  "video_args v =
     [''-c:v'', Encoder_of v, ''-vf'',
      ''scale='' @ Itoa (v_Width v) @ '':'' @ Itoa (v_Height v) @ '':flags=bicubic''] @
     (if v_FPSNum v > 0 \<and> v_FPSDen v > 0
      then [''-r'', Itoa (v_FPSNum v) @ ''/'' @ Itoa (v_FPSDen v)] else []) @
     opt ''-pix_fmt'' (v_PixelFormat v) @ opt ''-profile:v'' (v_Profile v) @ opt ''-level:v'' (v_Level v) @
     (if v_Preset v \<noteq> [] then [''-preset'', presetFor (v_Codec v) (v_Preset v)] else []) @
     opt ''-tune'' (v_Tune v) @
     rate_args v @
     (case v_BFrames v of None \<Rightarrow> [] | Some n \<Rightarrow> [''-bf'', Itoa n]) @
     (case v_RefFrames v of None \<Rightarrow> [] | Some n \<Rightarrow> [''-refs'', Itoa n]) @
     keyframe_args v @ colorArgs v"

definition audio_args :: "AudioConfig \<Rightarrow> string list" where
  "audio_args a =
     [''-c:a'', go_get audioEncoders (au_Codec a)] @
     (if au_BitrateBPS a > 0 then [''-b:a'', Itoa (au_BitrateBPS a)] else []) @
     (if au_SampleRateHz a > 0 then [''-ar'', Itoa (au_SampleRateHz a)] else []) @
     (if au_Channels a > 0 then [''-ac'', Itoa (au_Channels a)] else [])"

definition config_Args :: "Config \<Rightarrow> string \<Rightarrow> string \<Rightarrow> config_error + string list" where
  "config_Args c inputURL outputPath =
     (case config_Validate c of
        Some e \<Rightarrow> Inl e
      | None \<Rightarrow>
          Inr ([''-hide_banner'', ''-nostdin'', ''-loglevel'', ''error'', ''-y'', ''-progress'',
                ''pipe:1'', ''-nostats'', ''-i'', inputURL] @
               video_args (c_Video c) @
               (case c_Audio c of Some a \<Rightarrow> audio_args a | None \<Rightarrow> [''-an'']) @
               (if go_get containers (c_Container c) = ''mp4'' then [''-movflags'', ''+faststart''] else []) @
               [''-f'', go_get containers (c_Container c), outputPath]))"

end
