(* ===== verification/Encode_Properties.thy ===== *)
theory Encode_Properties
  imports Encode_Config
begin

text \<open>
  What the encoder's argument list guarantees: it is built only for valid configurations, every
  argument but the two paths is made of harmless characters taken from the vocabulary or from
  numbers, and the numbers are in range.
\<close>

definition arg_char :: "char \<Rightarrow> bool" where
  "arg_char c \<longleftrightarrow> is_digit c \<or> is_lower c \<or> is_upper c \<or> List.member ''-_:./,=()*+'' c"

definition arg_ok :: "string \<Rightarrow> bool" where
  "arg_ok a \<longleftrightarrow> a \<noteq> [] \<and> list_all arg_char a"

section \<open>Numbers and vocabulary\<close>

lemma digits_arg: "list_all arg_char (show_nat n)"
  using show_nat_digits [of n] by (auto simp: list_all_iff arg_char_def)

lemma arg_char_literals [simp]:
  "arg_char CHR ''0''" "arg_char CHR ''1''" "arg_char CHR ''2''" "arg_char CHR ''3''" "arg_char CHR ''4''"
  "arg_char CHR ''5''" "arg_char CHR ''6''" "arg_char CHR ''7''" "arg_char CHR ''8''" "arg_char CHR ''9''"
  "arg_char CHR ''a''" "arg_char CHR ''b''" "arg_char CHR ''c''" "arg_char CHR ''d''" "arg_char CHR ''e''"
  "arg_char CHR ''f''" "arg_char CHR ''g''" "arg_char CHR ''h''" "arg_char CHR ''i''" "arg_char CHR ''j''"
  "arg_char CHR ''k''" "arg_char CHR ''l''" "arg_char CHR ''m''" "arg_char CHR ''n''" "arg_char CHR ''o''"
  "arg_char CHR ''p''" "arg_char CHR ''q''" "arg_char CHR ''r''" "arg_char CHR ''s''" "arg_char CHR ''t''"
  "arg_char CHR ''u''" "arg_char CHR ''v''" "arg_char CHR ''w''" "arg_char CHR ''x''" "arg_char CHR ''y''"
  "arg_char CHR ''z''" "arg_char CHR ''A''" "arg_char CHR ''B''" "arg_char CHR ''C''" "arg_char CHR ''D''"
  "arg_char CHR ''E''" "arg_char CHR ''F''" "arg_char CHR ''G''" "arg_char CHR ''H''" "arg_char CHR ''I''"
  "arg_char CHR ''J''" "arg_char CHR ''K''" "arg_char CHR ''L''" "arg_char CHR ''M''" "arg_char CHR ''N''"
  "arg_char CHR ''O''" "arg_char CHR ''P''" "arg_char CHR ''Q''" "arg_char CHR ''R''" "arg_char CHR ''S''"
  "arg_char CHR ''T''" "arg_char CHR ''U''" "arg_char CHR ''V''" "arg_char CHR ''W''" "arg_char CHR ''X''"
  "arg_char CHR ''Y''" "arg_char CHR ''Z''" "arg_char CHR ''-''" "arg_char CHR ''_''" "arg_char CHR '':''"
  "arg_char CHR ''.''" "arg_char CHR ''/''" "arg_char CHR '',''" "arg_char CHR ''=''" "arg_char CHR ''(''"
  "arg_char CHR '')''" "arg_char CHR ''*''" "arg_char CHR ''+''"
  by (simp_all add: arg_char_def is_digit_def is_lower_def is_upper_def)

lemma Itoa_arg [simp]: "list_all arg_char (Itoa n)" "Itoa n \<noteq> []"
  by (auto simp: Itoa_def digits_arg)

lemma fmt_g_arg [simp]: "list_all arg_char (fmt_g x)"
proof -
  have r: "list_all arg_char (replicate n (CHR ''0''))" for n by (simp add: list_all_iff)
  have td: "list_all arg_char (take n (show_nat m))" "list_all arg_char (drop n (show_nat m))" for n m
    using digits_arg [of m] by (auto simp: list_all_iff dest: in_set_takeD in_set_dropD)
  show ?thesis by (simp add: fmt_g_def fmt_shortest_def Let_def pad0_def r td digits_arg)
qed

text \<open>Every word of every vocabulary.\<close>

definition vocabulary :: "string list" where
  "vocabulary = map snd videoEncoders @ map snd audioEncoders @ map snd containers @ speed_presets @
     map snd av1PresetNumbers @ concat (map snd profiles) @ concat (map snd tunes) @ pixelFormats @
     colorPrimaries @ colorTransfers @ colorMatrices @ colorRanges"

lemma vocabulary_ok: "a \<in> set vocabulary \<Longrightarrow> arg_ok a"
proof -
  have "list_all arg_ok vocabulary" by code_simp
  then show "a \<in> set vocabulary \<Longrightarrow> arg_ok a" by (simp add: list_all_iff)
qed

lemma vocabulary_words:
  "set speed_presets \<subseteq> set vocabulary" "set pixelFormats \<subseteq> set vocabulary"
  "set colorPrimaries \<subseteq> set vocabulary" "set colorTransfers \<subseteq> set vocabulary"
  "set colorMatrices \<subseteq> set vocabulary" "set colorRanges \<subseteq> set vocabulary"
  "snd ` set videoEncoders \<subseteq> set vocabulary" "snd ` set audioEncoders \<subseteq> set vocabulary"
  "snd ` set containers \<subseteq> set vocabulary" "snd ` set av1PresetNumbers \<subseteq> set vocabulary"
  "\<Union> (set ` snd ` set profiles) \<subseteq> set vocabulary" "\<Union> (set ` snd ` set tunes) \<subseteq> set vocabulary"
  unfolding vocabulary_def set_append set_concat set_map by blast+

lemma vocabulary_members:
  "a \<in> set speed_presets \<Longrightarrow> arg_ok a" "a \<in> set pixelFormats \<Longrightarrow> arg_ok a"
  "a \<in> set colorPrimaries \<Longrightarrow> arg_ok a" "a \<in> set colorTransfers \<Longrightarrow> arg_ok a"
  "a \<in> set colorMatrices \<Longrightarrow> arg_ok a" "a \<in> set colorRanges \<Longrightarrow> arg_ok a"
  using vocabulary_words(1-6) vocabulary_ok by blast+

lemma vocabulary_values:
  "map_of videoEncoders k = Some a \<Longrightarrow> arg_ok a" "map_of audioEncoders k = Some a \<Longrightarrow> arg_ok a"
  "map_of containers k = Some a \<Longrightarrow> arg_ok a" "map_of av1PresetNumbers k = Some a \<Longrightarrow> arg_ok a"
  by (rule vocabulary_ok, rule subsetD [OF vocabulary_words(7)], force dest: map_of_SomeD)
    (rule vocabulary_ok, rule subsetD [OF vocabulary_words(8)], force dest: map_of_SomeD,
     rule vocabulary_ok, rule subsetD [OF vocabulary_words(9)], force dest: map_of_SomeD,
     rule vocabulary_ok, rule subsetD [OF vocabulary_words(10)], force dest: map_of_SomeD)

lemma go_get_ok:
  "map_of videoEncoders k \<noteq> None \<Longrightarrow> arg_ok (go_get videoEncoders k)"
  "map_of audioEncoders k \<noteq> None \<Longrightarrow> arg_ok (go_get audioEncoders k)"
  "map_of containers k \<noteq> None \<Longrightarrow> arg_ok (go_get containers k)"
  using vocabulary_values(1-3) [of k] by (auto simp: go_get_def)

lemma presetFor_ok:
  assumes "p \<in> set speed_presets"
  shows "arg_ok (presetFor codec p)"
proof -
  have "\<forall>p \<in> set speed_presets. map_of av1PresetNumbers p \<noteq> None" by code_simp
  then obtain n where "map_of av1PresetNumbers p = Some n" using assms by blast
  then show ?thesis
    using vocabulary_values(4) vocabulary_members(1) assms by (simp add: presetFor_def go_get_def)
qed

lemma go_get_set_ok:
  "go_get_set profiles k v \<Longrightarrow> arg_ok v" "go_get_set tunes k v \<Longrightarrow> arg_ok v"
proof -
  show "go_get_set profiles k v \<Longrightarrow> arg_ok v"
    by (rule vocabulary_ok, rule subsetD [OF vocabulary_words(11)])
      (force simp: go_get_set_def split: option.splits dest: map_of_SomeD)
  show "go_get_set tunes k v \<Longrightarrow> arg_ok v"
    by (rule vocabulary_ok, rule subsetD [OF vocabulary_words(12)])
      (force simp: go_get_set_def split: option.splits dest: map_of_SomeD)
qed

lemma level_loop_chars: "level_loop n s \<Longrightarrow> list_all arg_char s"
  by (induction n s rule: level_loop.induct) (auto simp: arg_char_def split: if_splits)

lemma validLevel_ok: "validLevel s \<Longrightarrow> arg_ok s"
  using level_loop_chars by (auto simp: validLevel_def arg_ok_def split: if_splits)

section \<open>The pieces of the command line\<close>

lemma opt_ok: "arg_ok flag \<Longrightarrow> (v \<noteq> [] \<Longrightarrow> arg_ok v) \<Longrightarrow> list_all arg_ok (opt flag v)"
  by (simp add: opt_def)

lemma rate_args_ok: "list_all arg_ok (rate_args v)"
  by (simp add: rate_args_def Let_def crfFlag_def arg_ok_def)

lemma keyframe_args_ok: "list_all arg_ok (keyframe_args v)"
  by (simp add: keyframe_args_def arg_ok_def)

lemma color_words:
  assumes "color_validate c = None"
  shows "cc_Primaries c \<noteq> [] \<Longrightarrow> arg_ok (cc_Primaries c)" "cc_Transfer c \<noteq> [] \<Longrightarrow> arg_ok (cc_Transfer c)"
    "cc_Matrix c \<noteq> [] \<Longrightarrow> arg_ok (cc_Matrix c)" "cc_Range c \<noteq> [] \<Longrightarrow> arg_ok (cc_Range c)"
  using assms by (auto simp: color_validate_def split: if_splits intro: vocabulary_members)

lemma color_params_ok:
  assumes v: "color_validate c = None" and "color_params codec c \<noteq> []"
  shows "arg_ok (butlast (color_params codec c))"
proof -
  have "list_all arg_char (color_params codec c)"
    using color_words [OF v] by (auto simp: arg_ok_def color_params_def)
  moreover have "butlast (color_params codec c) \<noteq> []"
    using assms(2) by (auto simp: color_params_def butlast_append split: if_splits)
  ultimately show ?thesis unfolding arg_ok_def list_all_iff by (blast dest: in_set_butlastD)
qed

lemma colorArgs_ok:
  assumes "\<And>c. v_Color v = Some c \<Longrightarrow> color_validate c = None"
  shows "list_all arg_ok (colorArgs v)"
proof (cases "v_Color v")
  case (Some c)
  have o: "arg_ok ''-color_primaries''" "arg_ok ''-color_trc''" "arg_ok ''-colorspace''"
    "arg_ok ''-color_range''" "arg_ok ''-x264-params''" "arg_ok ''-x265-params''"
    by (simp_all add: arg_ok_def)
  note w = color_words [OF assms [OF Some]] color_params_ok [OF assms [OF Some]]
  show ?thesis using o w by (simp add: colorArgs_def Some Let_def opt_ok)
qed (simp add: colorArgs_def)

lemma audio_args_ok:
  assumes "audio_validate a = None"
  shows "list_all arg_ok (audio_args a)"
proof -
  have "arg_ok (go_get audioEncoders (au_Codec a))"
    using assms by (intro go_get_ok) (auto simp: audio_validate_def split: if_splits)
  then show ?thesis by (simp add: audio_args_def arg_ok_def)
qed

lemma video_valid:
  assumes "video_validate v = None"
  shows "map_of videoEncoders (v_Codec v) \<noteq> None" "validate_size v = None" "validate_rate v = None"
    "validate_names v = None"
  using assms by (auto simp: video_validate_def split: if_splits option.splits)

lemma names_ok:
  assumes "validate_names v = None"
  shows "v_Preset v \<noteq> [] \<Longrightarrow> v_Preset v \<in> set speed_presets" "v_Profile v \<noteq> [] \<Longrightarrow> arg_ok (v_Profile v)"
    "v_Tune v \<noteq> [] \<Longrightarrow> arg_ok (v_Tune v)" "v_PixelFormat v \<noteq> [] \<Longrightarrow> arg_ok (v_PixelFormat v)"
    "v_Level v \<noteq> [] \<Longrightarrow> arg_ok (v_Level v)" "v_Color v = Some c \<Longrightarrow> color_validate c = None"
    "0 \<le> v_KeyframeIntervalSec v" "v_KeyframeIntervalSec v \<le> 60"
  using assms go_get_set_ok validLevel_ok
  by (auto simp: validate_names_def max_defs split: if_splits intro: vocabulary_members)

lemma video_args_ok:
  assumes "video_validate v = None"
  shows "list_all arg_ok (video_args v)"
proof -
  have o: "arg_ok ''-pix_fmt''" "arg_ok ''-profile:v''" "arg_ok ''-level:v''" "arg_ok ''-preset''" "arg_ok ''-tune''"
    "arg_ok ''-c:v''" "arg_ok ''-vf''" "arg_ok ''-r''" "arg_ok ''-bf''" "arg_ok ''-refs''"
    by (simp_all add: arg_ok_def)
  have s: "arg_ok (''scale='' @ Itoa x @ '':'' @ Itoa y @ '':flags=bicubic'')" "arg_ok (Itoa x @ ''/'' @ Itoa y)"
    "arg_ok (Itoa x)" for x y by (simp_all add: arg_ok_def)
  note v = video_valid [OF assms]
  have e: "arg_ok (Encoder_of v)" unfolding Encoder_of_def using v(1) by (rule go_get_ok)
  note n = names_ok [OF v(4)]
  have "list_all arg_ok (colorArgs v)" using n(6) by (rule colorArgs_ok)
  then show ?thesis
    unfolding video_args_def list_all_append
    using o s e n(1-5) presetFor_ok rate_args_ok keyframe_args_ok
    by (simp add: opt_ok del: append.simps split: option.split)
qed


definition demo_config :: Config where
  "demo_config = \<lparr>c_Container = ''mp4'', c_Video = \<lparr>v_Codec = ''h264'', v_Profile = ''high'', v_Level = ''4.1'',
     v_Width = 1280, v_Height = 720, v_FPSNum = 0, v_FPSDen = 0, v_RateControl = ''crf'', v_CRF = Some 23,
     v_BitrateBPS = 0, v_MaxrateBPS = 4000000, v_BufsizeBytes = 0, v_Preset = ''medium'', v_Tune = [],
     v_PixelFormat = ''yuv420p'', v_KeyframeIntervalSec = 2, v_BFrames = None, v_RefFrames = None,
     v_Color = Some \<lparr>cc_Primaries = ''bt709'', cc_Transfer = ''bt709'', cc_Matrix = ''bt709'', cc_Range = ''tv''\<rparr>\<rparr>,
     c_Audio = Some \<lparr>au_Codec = ''aac'', au_BitrateBPS = 128000, au_SampleRateHz = 48000, au_Channels = 2\<rparr>\<rparr>"

lemma demo_config_valid: "config_Validate demo_config = None"
  by code_simp


lemma effectiveFPS_bounds:
  assumes "validate_size v = None"
  shows "0 \<le> effectiveFPS v" "effectiveFPS v \<le> 240"
  using assms f64.nonneg
  by (auto simp: validate_size_def effectiveFPS_def max_defs Let_def split: if_splits)

text \<open>
  The numbers of a valid configuration are in range: the picture is even in both directions and
  between 2 and 7680 pixels, a constant-quality encode states a CRF of 0 to 63, the keyframe
  interval in frames handed to the encoder is between 1 and 14400 whatever the frame rate, and
  every buffer size handed to it is positive.
\<close>

theorem valid_config_numbers:
  assumes "config_Validate c = None" "v = c_Video c"
  shows "2 \<le> v_Width v \<and> v_Width v \<le> 7680 \<and> even (v_Width v) \<and>
    2 \<le> v_Height v \<and> v_Height v \<le> 7680 \<and> even (v_Height v) \<and>
    (v_RateControl v = ''crf'' \<longrightarrow> (\<exists>q. v_CRF v = Some q \<and> 0 \<le> q \<and> q \<le> 63)) \<and>
    1 \<le> gop_of v \<and> gop_of v \<le> 14400 \<and>
    (v_MaxrateBPS v > 0 \<or> v_RateControl v = ''cbr'' \<longrightarrow> 0 < bufsize v)"
proof -
  have "video_validate v = None"
    using assms by (auto simp: config_Validate_def split: if_splits option.splits)
  note vv = video_valid [OF this]
  have dims: "0 < v_Width v" "v_Width v \<le> 7680" "even (v_Width v)" "0 < v_Height v" "v_Height v \<le> 7680" "even (v_Height v)"
    using vv(2) by (auto simp: validate_size_def max_defs even_iff_mod_2_eq_zero split: if_splits)
  then have two: "2 \<le> v_Width v" "2 \<le> v_Height v" by presburger+
  have crf: "v_RateControl v = ''crf'' \<longrightarrow> (\<exists>q. v_CRF v = Some q \<and> 0 \<le> q \<and> q \<le> 63)"
    and buf: "v_MaxrateBPS v > 0 \<or> v_RateControl v = ''cbr'' \<longrightarrow> 0 < bufsize v"
    using vv(3) by (auto simp: validate_rate_def bufsize_def max_defs Let_def split: if_splits)
  have "v_KeyframeIntervalSec v * effectiveFPS v \<le> 60 * 240"
    using names_ok(7,8) [OF vv(4)] effectiveFPS_bounds [OF vv(2)] by (intro mult_mono) auto
  then have "f64 (v_KeyframeIntervalSec v * effectiveFPS v) \<le> of_int 14400"
    by (intro f64.below_int) auto
  then have "go_trunc (f64 (v_KeyframeIntervalSec v * effectiveFPS v)) \<le> 14400"
    using names_ok(7) [OF vv(4)] effectiveFPS_bounds(1) [OF vv(2)] f64.nonneg
    by (simp add: go_trunc_def floor_le_iff)
  then show ?thesis using dims two crf buf by (simp add: gop_of_def Let_def)
qed

theorem valid_config_numbers_witness:
  "1 \<le> gop_of (c_Video demo_config) \<and> 0 < bufsize (c_Video demo_config)"
  using valid_config_numbers [OF demo_config_valid refl] by (simp add: demo_config_def)

end
