(* ===== verification/Go_Text.thy ===== *)
theory Go_Text
  imports Float64
begin

text \<open>
  Text the program reads and writes: \<open>strconv\<close>'s number parsers, the canonical form of a UUID, and
  the facts on splitting, joining and printing that make composed names unambiguous.
\<close>

section \<open>Parsing numbers\<close>

definition split_sign :: "string \<Rightarrow> bool \<times> string" where
  "split_sign s =
     (case s of
        [] \<Rightarrow> (False, [])
      | c # cs \<Rightarrow> if c = CHR ''-'' then (True, cs) else if c = CHR ''+'' then (False, cs) else (False, s))"

definition int_literal :: "string \<Rightarrow> int option" where
  "int_literal s =
     (let (neg, ds) = split_sign s in
      if ds \<noteq> [] \<and> list_all is_digit ds
      then Some (if neg then - int (nat_of_digits ds) else int (nat_of_digits ds)) else None)"

definition min_int64 :: int where "min_int64 = - (2 ^ 63)"
definition max_int64 :: int where "max_int64 = 2 ^ 63 - 1"

text \<open>\<open>strconv.ParseInt(s, 10, 64)\<close>: \<open>None\<close> for the syntax and the range error.\<close>

definition ParseInt64 :: "string \<Rightarrow> int option" where
  "ParseInt64 s =
     (case int_literal s of
        None \<Rightarrow> None
      | Some n \<Rightarrow> if min_int64 \<le> n \<and> n \<le> max_int64 then Some n else None)"

text \<open>
  \<open>n, _ := strconv.Atoi(s)\<close>: with the error ignored, a syntax error leaves 0 and a range error
  leaves the nearest representable value.
\<close>

definition Atoi_value :: "string \<Rightarrow> int" where
  "Atoi_value s = (case int_literal s of None \<Rightarrow> 0 | Some n \<Rightarrow> max min_int64 (min max_int64 n))"

datatype go_float = Finite rat | Infinity bool | NaN

definition exponent_literal :: "string \<Rightarrow> int option" where
  "exponent_literal s =
     (case s of
        [] \<Rightarrow> Some 0
      | c # cs \<Rightarrow> if to_lower c = CHR ''e'' then int_literal cs else None)"

definition decimal_literal :: "string \<Rightarrow> rat option" where
  "decimal_literal s =
     (let whole = takeWhile is_digit s; rest = dropWhile is_digit s;
          dot = (rest \<noteq> [] \<and> hd rest = CHR ''.'');
          frac = (if dot then takeWhile is_digit (tl rest) else []);
          tail = (if dot then dropWhile is_digit (tl rest) else rest)
      in if whole = [] \<and> frac = [] then None
         else map_option (\<lambda>e. of_nat (nat_of_digits (whole @ frac)) * pow10 (e - int (length frac)))
                (exponent_literal tail))"

text \<open>
  \<open>strconv.ParseFloat(s, 64)\<close> on decimal literals, infinities and NaN; \<open>None\<close> is its error, a value
  out of range included. Hexadecimal literals, which no tool of the system prints, are refused.
\<close>

definition ParseFloat :: "string \<Rightarrow> go_float option" where
  "ParseFloat s =
     (let (neg, r) = split_sign s in
      if List.member [''inf'', ''infinity''] (ToLower r) then Some (Infinity neg)
      else if ToLower s = ''nan'' then Some NaN
      else case decimal_literal r of
        None \<Rightarrow> None
      | Some v \<Rightarrow>
          let f = f64 v in
          if f \<ge> 2 ^ 1024 then None else Some (Finite (if neg then - f else f)))"

text \<open>
  \<open>int64(f)\<close>. What Go leaves to the implementation, a value that does not fit, is the minimum
  64-bit integer, as on amd64.
\<close>

definition int64_of_float :: "go_float \<Rightarrow> int" where
  "int64_of_float f =
     (case f of
        Finite v \<Rightarrow> if min_int64 \<le> go_trunc v \<and> go_trunc v \<le> max_int64 then go_trunc v else min_int64
      | _ \<Rightarrow> min_int64)"

section \<open>UUIDs\<close>

definition hex_char :: "nat \<Rightarrow> char" where
  "hex_char d = (if d < 10 then char_of (48 + d) else char_of (87 + d))"

fun hex_pad :: "nat \<Rightarrow> nat \<Rightarrow> string" where
  "hex_pad 0 u = []"
| "hex_pad (Suc n) u = hex_pad n (u div 16) @ [hex_char (u mod 16)]"

text \<open>\<open>uuid.UUID.String\<close>: 32 hexadecimal digits in groups of 8, 4, 4, 4 and 12.\<close>

definition uuid_String :: "uuid \<Rightarrow> string" where
  "uuid_String u =
     (let h = hex_pad 32 u in
      take 8 h @ ''-'' @ take 4 (drop 8 h) @ ''-'' @ take 4 (drop 12 h) @ ''-'' @
      take 4 (drop 16 h) @ ''-'' @ drop 20 h)"

section \<open>Splitting and joining\<close>

lemma split_on_not_Nil [simp]: "split_on d s \<noteq> []"
  by (induction s) (auto split: list.splits)

lemma split_on_free: "d \<notin> set w \<Longrightarrow> split_on d w = [w]"
  by (induction w) auto

lemma split_on_step: "d \<notin> set w \<Longrightarrow> split_on d (w @ d # s) = w # split_on d s"
  by (induction w) auto

lemma split_on_join [simp]:
  "ws \<noteq> [] \<Longrightarrow> \<forall>w \<in> set ws. d \<notin> set w \<Longrightarrow> split_on d (join_with d ws) = ws"
  by (induction d ws rule: join_with.induct) (auto simp: split_on_free split_on_step)

lemma split_on_parts: "w \<in> set (split_on d s) \<Longrightarrow> d \<notin> set w"
  by (induction s arbitrary: w) (auto split: if_splits list.splits)

lemma join_with_grow: "join_with d ((c # w) # ws) = c # join_with d (w # ws)"
  by (cases ws) auto

lemma join_split_on [simp]: "join_with d (split_on d s) = s"
proof (induction s)
  case (Cons c cs)
  obtain w ws where "split_on d cs = w # ws" using split_on_not_Nil by (metis neq_Nil_conv)
  then show ?case using Cons by (simp add: join_with_grow)
qed simp

section \<open>Printing is injective\<close>

lemma of_char_digit_char: "d < 10 \<Longrightarrow> (of_char (digit_char d) :: nat) = 48 + d"
  by (simp add: digit_char_def)

lemma nat_of_digits_snoc:
  "nat_of_digits (ds @ [c]) = nat_of_digits ds * 10 + ((of_char c :: nat) - 48)"
  by (simp add: nat_of_digits_def)

lemma nat_of_digits_show [simp]: "nat_of_digits (show_nat n) = n"
proof (induction n rule: show_nat.induct)
  case (1 n)
  then show ?case
    by (subst show_nat.simps) (auto simp: nat_of_digits_snoc of_char_digit_char nat_of_digits_def)
qed

lemma show_nat_inj [simp]: "show_nat m = show_nat n \<longleftrightarrow> m = n"
  by (metis nat_of_digits_show)

lemma show_nat_first: "\<not> is_digit c \<Longrightarrow> show_nat n \<noteq> c # cs"
  using show_nat_digits [of n] by auto

lemma Itoa_inj [simp]: "Itoa i = Itoa j \<longleftrightarrow> i = j"
proof -
  have "show_nat n \<noteq> CHR ''-'' # cs" "CHR ''-'' # cs \<noteq> show_nat n" for n cs
    using show_nat_first [of "CHR ''-''" n cs] by (auto simp: is_digit_def)
  then show ?thesis by (auto simp: Itoa_def)
qed

lemma Itoa_chars: "c \<in> set (Itoa i) \<Longrightarrow> is_digit c \<or> c = CHR ''-''"
  using show_nat_digits by (auto simp: Itoa_def list_all_iff split: if_splits)

lemma length_hex_pad [simp]: "length (hex_pad n u) = n"
  by (induction n arbitrary: u) auto

lemma of_char_hex_char: "d < 16 \<Longrightarrow> (of_char (hex_char d) :: nat) = (if d < 10 then 48 + d else 87 + d)"
  by (simp add: hex_char_def)

lemma hex_char_inj: "a < 16 \<Longrightarrow> b < 16 \<Longrightarrow> hex_char a = hex_char b \<Longrightarrow> a = b"
proof -
  assume ab: "a < 16" "b < 16" "hex_char a = hex_char b"
  have "(if a < 10 then 48 + a else 87 + a) = (if b < 10 then 48 + b else 87 + b)"
    using of_char_hex_char [OF ab(1)] of_char_hex_char [OF ab(2)] ab(3) by metis
  then show "a = b" using ab(1,2) by (auto split: if_splits)
qed

lemma hex_pad_inj: "u < 16 ^ n \<Longrightarrow> v < 16 ^ n \<Longrightarrow> hex_pad n u = hex_pad n v \<Longrightarrow> u = v"
proof (induction n arbitrary: u v)
  case (Suc n)
  have "u div 16 < 16 ^ n" "v div 16 < 16 ^ n" using Suc.prems(1,2) by auto
  moreover have "hex_pad n (u div 16) = hex_pad n (v div 16)" "hex_char (u mod 16) = hex_char (v mod 16)"
    using Suc.prems(3) by simp_all
  ultimately have "u div 16 = v div 16" "u mod 16 = v mod 16"
    using Suc.IH hex_char_inj [of "u mod 16" "v mod 16"] by auto
  then show ?case by (metis div_mult_mod_eq)
qed simp

lemma hex_char_cases: "d < 16 \<Longrightarrow> is_digit (hex_char d) \<or> is_lower (hex_char d)"
  by (auto simp: hex_char_def is_digit_def is_lower_def)

lemma hex_pad_chars: "c \<in> set (hex_pad n u) \<Longrightarrow> is_digit c \<or> is_lower c"
proof (induction n arbitrary: u)
  case (Suc n)
  then show ?case using hex_char_cases [of "u mod 16"] by auto
qed simp

lemma uuid_String_chars: "c \<in> set (uuid_String u) \<Longrightarrow> is_digit c \<or> is_lower c \<or> c = CHR ''-''"
  unfolding uuid_String_def Let_def
  by (auto dest!: in_set_takeD in_set_dropD dest: hex_pad_chars)

lemma uuid_String_inj:
  assumes "u < 2 ^ 128" "v < 2 ^ 128" "uuid_String u = uuid_String v"
  shows "u = v"
proof -
  have rebuild: "take 8 h @ take 4 (drop 8 h) @ take 4 (drop 12 h) @ take 4 (drop 16 h) @ drop 20 h = h"
    for h :: string
  proof -
    have "take 12 h = take 8 h @ take 4 (drop 8 h)" "take 16 h = take 12 h @ take 4 (drop 12 h)"
      "take 20 h = take 16 h @ take 4 (drop 16 h)"
      by (simp_all flip: take_add)
    then show ?thesis by (metis append.assoc append_take_drop_id)
  qed
  have "hex_pad 32 u = hex_pad 32 v"
  proof -
    let ?x = "hex_pad 32 u" and ?y = "hex_pad 32 v"
    have "take 8 ?x = take 8 ?y" "take 4 (drop 8 ?x) = take 4 (drop 8 ?y)"
      "take 4 (drop 12 ?x) = take 4 (drop 12 ?y)" "take 4 (drop 16 ?x) = take 4 (drop 16 ?y)"
      "drop 20 ?x = drop 20 ?y"
      using assms(3) by (simp_all add: uuid_String_def Let_def)
    then show ?thesis by (metis rebuild)
  qed
  then show ?thesis using hex_pad_inj [of u 32 v] assms(1,2) by simp
qed

end
