(* ===== verification/Go_Json.thy ===== *)
theory Go_Json
  imports Go_Text
begin

text \<open>
  The part of \<open>encoding/json\<close> the program relies on. A JSON document is the value it denotes; a
  \<open>json.RawMessage\<close> or a \<open>jsonb\<close> column holds such a value. Numbers are integers or the decimal text
  of anything else. \<open>json_text\<close> is \<open>json.Marshal\<close>'s output for a value whose members are already in
  the order the encoder writes them (a struct in field order, a map by key).

  Decoding follows \<open>json.Unmarshal\<close>: a member is matched by name without regard to case, the last
  occurrence wins, \<open>null\<close> leaves the zero value, and a value of another type is an error.
\<close>

datatype json = JNull | JBool bool | JInt int | JDec string | JStr string
  | JArr "json list" | JObj "(string \<times> json) list"

section \<open>Encoding\<close>

text \<open>
  String escapes: quotes, backslashes, control characters and the characters unsafe in HTML.
\<close>

definition json_escape :: "char \<Rightarrow> string" where
  "json_escape c =
     (let n = of_char c :: nat in
      if n = 34 then [CHR 0x5C, CHR 0x22]
      else if n = 92 then [CHR 0x5C, CHR 0x5C]
      else if n = 8 then CHR 0x5C # ''b''
      else if n = 9 then CHR 0x5C # ''t''
      else if n = 10 then CHR 0x5C # ''n''
      else if n = 12 then CHR 0x5C # ''f''
      else if n = 13 then CHR 0x5C # ''r''
      else if n < 32 \<or> n = 38 \<or> n = 60 \<or> n = 62 then CHR 0x5C # ''u'' @ hex_pad 4 n
      else [c])"

definition json_string :: "string \<Rightarrow> string" where
  "json_string s = CHR 0x22 # concat (map json_escape s) @ [CHR 0x22]"

fun json_text :: "json \<Rightarrow> string" where
  "json_text JNull = ''null''"
| "json_text (JBool b) = (if b then ''true'' else ''false'')"
| "json_text (JInt i) = Itoa i"
| "json_text (JDec d) = d"
| "json_text (JStr s) = json_string s"
| "json_text (JArr xs) = ''['' @ join_with (CHR '','') (map json_text xs) @ '']''"
| "json_text (JObj ms) = ''{'' @ join_with (CHR '','') (map (\<lambda>(k, v). json_string k @ '':'' @ json_text v) ms) @ ''}''"

text \<open>Struct members: always written, or left out when empty (\<open>omitempty\<close>).\<close>

definition member_str :: "string \<Rightarrow> string \<Rightarrow> (string \<times> json) list" where
  "member_str k v = [(k, JStr v)]"

definition omit_str :: "string \<Rightarrow> string \<Rightarrow> (string \<times> json) list" where
  "omit_str k v = (if v = [] then [] else [(k, JStr v)])"

definition omit_int :: "string \<Rightarrow> int \<Rightarrow> (string \<times> json) list" where
  "omit_int k v = (if v = 0 then [] else [(k, JInt v)])"

definition omit_ptr :: "string \<Rightarrow> json option \<Rightarrow> (string \<times> json) list" where
  "omit_ptr k v = (case v of None \<Rightarrow> [] | Some j \<Rightarrow> [(k, j)])"

section \<open>Decoding\<close>

definition json_field :: "string \<Rightarrow> (string \<times> json) list \<Rightarrow> json" where
  "json_field name ms =
     (case List.find (\<lambda>(k, v). ToLower k = name \<and> v \<noteq> JNull) (rev ms) of
        None \<Rightarrow> JNull | Some (k, v) \<Rightarrow> v)"

fun is_str :: "json \<Rightarrow> bool" where
  "is_str (JStr s) = True" | "is_str JNull = True" | "is_str _ = False"

fun is_int64 :: "json \<Rightarrow> bool" where
  "is_int64 (JInt i) = (min_int64 \<le> i \<and> i \<le> max_int64)" | "is_int64 JNull = True" | "is_int64 _ = False"

fun as_str :: "json \<Rightarrow> string" where
  "as_str (JStr s) = s" | "as_str _ = []"

fun as_int :: "json \<Rightarrow> int" where
  "as_int (JInt i) = i" | "as_int _ = 0"

fun is_obj :: "json \<Rightarrow> bool" where
  "is_obj (JObj ms) = True" | "is_obj JNull = True" | "is_obj _ = False"

fun members :: "json \<Rightarrow> (string \<times> json) list" where
  "members (JObj ms) = ms" | "members _ = []"

fun is_arr :: "json \<Rightarrow> bool" where
  "is_arr (JArr xs) = True" | "is_arr JNull = True" | "is_arr _ = False"

fun elements :: "json \<Rightarrow> json list" where
  "elements (JArr xs) = xs" | "elements _ = []"

text \<open>\<open>map[string]string\<close> and \<open>map[string]int\<close>: keys as they are, the last occurrence wins.\<close>

definition as_map :: "(json \<Rightarrow> 'a) \<Rightarrow> json \<Rightarrow> string \<Rightarrow> 'a option" where
  "as_map f j = map_of (rev (map (\<lambda>(k, v). (k, f v)) (members j)))"

end
