(* ===== verification/Media_Store.thy ===== *)
theory Media_Store
  imports Go_Json
begin

text \<open>
  The tables of \<open>0002_assets.sql\<close> and \<open>0006_probe.sql\<close>, and the asset store of
  \<open>internal/asset/asset.go\<close> over them. A primary key, a unique or a check constraint that an insert
  would violate is an error of the insert; \<open>isUniqueViolation\<close> reads the first two apart from the
  rest, as the SQL state does.
\<close>

section \<open>Tables\<close>

record asset_row =
  ar_id :: uuid
  ar_tenant :: uuid
  ar_external :: "string option"
  ar_name :: "string option"
  ar_status :: string
  ar_lifecycle :: string
  ar_created :: time
  ar_deleted :: "time option"

record version_row =
  vr_id :: uuid
  vr_tenant :: uuid
  vr_asset :: uuid
  vr_version :: int
  vr_status :: string
  vr_created :: time

record source_row =
  sr_id :: uuid
  sr_tenant :: uuid
  sr_version :: uuid
  sr_origin :: string
  sr_key :: "string option"
  sr_size :: "int option"
  sr_content_type :: "string option"
  sr_checksum_algo :: "string option"
  sr_checksum :: "string option"
  sr_verified :: "time option"

record upload_row =
  ur_id :: uuid
  ur_tenant :: uuid
  ur_version :: uuid
  ur_key :: string
  ur_upload_id :: string
  ur_size :: int
  ur_part_size :: int
  ur_part_count :: int
  ur_content_type :: "string option"
  ur_checksum_algo :: "string option"
  ur_checksum :: "string option"
  ur_status :: string
  ur_expires :: time
  ur_completed :: "time option"

record probe_row =
  pb_id :: uuid
  pb_tenant :: uuid
  pb_version :: uuid
  pb_container :: "string option"
  pb_duration :: "int option"
  pb_bitrate :: "int option"
  pb_size :: "int option"
  pb_raw :: json

record track_row =
  tk_id :: uuid
  tk_tenant :: uuid
  tk_version :: uuid
  tk_probe :: uuid
  tk_kind :: string
  tk_stream_index :: int
  tk_codec :: "string option"
  tk_duration :: "int option"
  tk_bitrate :: "int option"
  tk_language :: "string option"
  tk_title :: "string option"
  tk_default :: bool
  tk_forced :: bool
  tk_role :: "string option"
  tk_width :: "int option"
  tk_height :: "int option"
  tk_fps_num :: "int option"
  tk_fps_den :: "int option"
  tk_vfr :: bool
  tk_pixel_format :: "string option"
  tk_bit_depth :: "int option"
  tk_rotation :: int
  tk_primaries :: "string option"
  tk_transfer :: "string option"
  tk_matrix :: "string option"
  tk_range :: "string option"
  tk_hdr :: "string option"
  tk_mastering :: "json option"
  tk_light :: "json option"
  tk_channels :: "int option"
  tk_layout :: "string option"
  tk_sample_rate :: "int option"
  tk_subtitle :: "string option"

record media_db =
  m_assets :: "asset_row list"
  m_versions :: "version_row list"
  m_sources :: "source_row list"
  m_uploads :: "upload_row list"
  m_probes :: "probe_row list"
  m_tracks :: "track_row list"

definition media_empty :: media_db where
  "media_empty = \<lparr>m_assets = [], m_versions = [], m_sources = [], m_uploads = [], m_probes = [], m_tracks = []\<rparr>"

text \<open>Errors: a database error carries the violated constraint and whether it is a unique one.\<close>

datatype db_error = UniqueViolation string | OtherViolation string

definition isUniqueViolation :: "db_error \<Rightarrow> bool" where
  "isUniqueViolation e = (case e of UniqueViolation _ \<Rightarrow> True | OtherViolation _ \<Rightarrow> False)"

section \<open>Assets\<close>

record Asset =
  as_ID :: uuid
  as_ExternalID :: "string option"
  as_Name :: "string option"
  as_Status :: string
  as_Lifecycle :: string
  as_CreatedAt :: time

record Version =
  ve_ID :: uuid
  ve_AssetID :: uuid
  ve_Version :: int
  ve_Status :: string
  ve_CreatedAt :: time

record Source =
  so_ID :: uuid
  so_Origin :: string
  so_StorageKey :: "string option"
  so_SizeBytes :: "int option"
  so_ContentType :: "string option"
  so_VerifiedAt :: "time option"

datatype asset_error = AssetNotFound | AssetConflict | AssetDb db_error

definition scan_asset :: "asset_row \<Rightarrow> Asset" where
  "scan_asset r = \<lparr>as_ID = ar_id r, as_ExternalID = ar_external r, as_Name = ar_name r,
     as_Status = ar_status r, as_Lifecycle = ar_lifecycle r, as_CreatedAt = ar_created r\<rparr>"

definition scan_version :: "version_row \<Rightarrow> Version" where
  "scan_version r = \<lparr>ve_ID = vr_id r, ve_AssetID = vr_asset r, ve_Version = vr_version r,
     ve_Status = vr_status r, ve_CreatedAt = vr_created r\<rparr>"

definition scan_source :: "source_row \<Rightarrow> Source" where
  "scan_source r = \<lparr>so_ID = sr_id r, so_Origin = sr_origin r, so_StorageKey = sr_key r,
     so_SizeBytes = sr_size r, so_ContentType = sr_content_type r, so_VerifiedAt = sr_verified r\<rparr>"

definition insert_asset :: "asset_row \<Rightarrow> media_db \<Rightarrow> db_error + media_db" where
  "insert_asset r db =
     (if list_ex (\<lambda>a. ar_id a = ar_id r) (m_assets db) then Inl (UniqueViolation ''assets_pkey'')
      else if ar_external r \<noteq> None \<and>
        list_ex (\<lambda>a. ar_tenant a = ar_tenant r \<and> ar_external a = ar_external r) (m_assets db)
      then Inl (UniqueViolation ''assets_tenant_id_external_id_key'')
      else if \<not> List.member [''managed'', ''ephemeral''] (ar_lifecycle r)
      then Inl (OtherViolation ''assets_lifecycle_check'')
      else Inr (db\<lparr>m_assets := m_assets db @ [r]\<rparr>))"

definition insert_version :: "version_row \<Rightarrow> media_db \<Rightarrow> db_error + media_db" where
  "insert_version r db =
     (if list_ex (\<lambda>v. vr_id v = vr_id r) (m_versions db) then Inl (UniqueViolation ''asset_versions_pkey'')
      else if list_ex (\<lambda>v. vr_asset v = vr_asset r \<and> vr_version v = vr_version r) (m_versions db)
      then Inl (UniqueViolation ''asset_versions_asset_id_version_key'')
      else Inr (db\<lparr>m_versions := m_versions db @ [r]\<rparr>))"

text \<open>
  \<open>fresh 0\<close> and \<open>fresh 1\<close> are the two identifiers the call generates.
\<close>

definition asset_Create ::
  "time \<Rightarrow> (nat \<Rightarrow> uuid) \<Rightarrow> media_db \<Rightarrow> uuid \<Rightarrow> string option \<Rightarrow> string option \<Rightarrow> string \<Rightarrow>
   asset_error + (media_db \<times> Asset \<times> Version)" where
  "asset_Create now fresh db tenantID externalID name lifecycle =
     (let a = \<lparr>ar_id = fresh 0, ar_tenant = tenantID, ar_external = externalID, ar_name = name,
               ar_status = ''draft'', ar_lifecycle = lifecycle, ar_created = now, ar_deleted = None\<rparr>;
          v = \<lparr>vr_id = fresh 1, vr_tenant = tenantID, vr_asset = fresh 0, vr_version = 1,
               vr_status = ''pending_source'', vr_created = now\<rparr>
      in case insert_asset a db of
           Inl e \<Rightarrow> if isUniqueViolation e then Inl AssetConflict else Inl (AssetDb e)
         | Inr db1 \<Rightarrow>
             (case insert_version v db1 of
                Inl e \<Rightarrow> Inl (AssetDb e)
              | Inr db2 \<Rightarrow> Inr (db2, scan_asset a, scan_version v)))"

definition asset_Get :: "media_db \<Rightarrow> uuid \<Rightarrow> uuid \<Rightarrow> asset_error + Asset" where
  "asset_Get db tenantID assetID =
     (case sql_find (\<lambda>a. ar_id a = assetID \<and> ar_tenant a = tenantID \<and> ar_deleted a = None) (m_assets db) of
        None \<Rightarrow> Inl AssetNotFound
      | Some a \<Rightarrow> Inr (scan_asset a))"

definition asset_List :: "media_db \<Rightarrow> uuid \<Rightarrow> nat \<Rightarrow> Asset list" where
  "asset_List db tenantID limit =
     map scan_asset (sql_top (\<lambda>a. - ar_created a) limit
       (filter (\<lambda>a. ar_tenant a = tenantID \<and> ar_deleted a = None) (m_assets db)))"

definition asset_Versions :: "media_db \<Rightarrow> uuid \<Rightarrow> uuid \<Rightarrow> Version list" where
  "asset_Versions db tenantID assetID =
     map scan_version (sort_key vr_version
       (filter (\<lambda>v. vr_tenant v = tenantID \<and> vr_asset v = assetID) (m_versions db)))"

definition GetVersion :: "media_db \<Rightarrow> uuid \<Rightarrow> uuid \<Rightarrow> asset_error + Version" where
  "GetVersion db tenantID versionID =
     (case sql_find (\<lambda>v. vr_id v = versionID \<and> vr_tenant v = tenantID) (m_versions db) of
        None \<Rightarrow> Inl AssetNotFound
      | Some v \<Rightarrow> Inr (scan_version v))"

definition asset_Source :: "media_db \<Rightarrow> uuid \<Rightarrow> uuid \<Rightarrow> asset_error + Source" where
  "asset_Source db tenantID versionID =
     (case sql_find (\<lambda>s. sr_version s = versionID \<and> sr_tenant s = tenantID) (m_sources db) of
        None \<Rightarrow> Inl AssetNotFound
      | Some s \<Rightarrow> Inr (scan_source s))"

end
