(* ===== verification/Storage_Key.thy ===== *)
theory Storage_Key
  imports Go_Text
begin

text \<open>
  Object keys, \<open>internal/storage/key.go\<close>. Every key is a path of components: identifiers the control
  plane made, fixed words, and labels that passed \<open>Segment\<close>.
\<close>

section \<open>Keys\<close>

datatype key_error = BadLabelLength | BadLabelPath | BadLabelControl | BadLabelChar char
  | BadPathLength | BadPathDepth

definition label_char :: "char \<Rightarrow> bool" where
  "label_char r \<longleftrightarrow> is_lower r \<or> is_upper r \<or> is_digit r \<or> r = CHR ''-'' \<or> r = CHR ''_'' \<or> r = CHR ''.''"

definition IsControl :: "char \<Rightarrow> bool" where
  "IsControl r \<longleftrightarrow> (of_char r :: nat) < 32 \<or> (of_char r :: nat) = 127"

fun segment_loop :: "string \<Rightarrow> key_error option" where
  "segment_loop [] = None"
| "segment_loop (r # rs) =
     (if label_char r then segment_loop rs
      else if IsControl r then Some BadLabelControl else Some (BadLabelChar r))"

definition Segment :: "string \<Rightarrow> key_error + string" where
  "Segment s =
     (if s = [] \<or> length s > 128 then Inl BadLabelLength
      else if s = ''.'' \<or> s = ''..'' \<or> go_Contains s ''/'' \<or> go_Contains s [CHR 0x5C]
      then Inl BadLabelPath
      else case segment_loop s of Some e \<Rightarrow> Inl e | None \<Rightarrow> Inr s)"

definition SourceKey :: "uuid \<Rightarrow> uuid \<Rightarrow> uuid \<Rightarrow> string" where
  "SourceKey tenant asset version =
     ''t/'' @ uuid_String tenant @ ''/assets/'' @ uuid_String asset @ ''/versions/'' @
     uuid_String version @ ''/source''"

definition ArtifactKey :: "uuid \<Rightarrow> uuid \<Rightarrow> uuid \<Rightarrow> int \<Rightarrow> string \<Rightarrow> key_error + string" where
  "ArtifactKey tenant asset job setVersion label =
     (case Segment label of
        Inl e \<Rightarrow> Inl e
      | Inr safe \<Rightarrow> Inr (''t/'' @ uuid_String tenant @ ''/assets/'' @ uuid_String asset @ ''/jobs/'' @
          uuid_String job @ ''/v'' @ Itoa setVersion @ ''/'' @ safe))"

definition JobArtifactKey :: "uuid \<Rightarrow> uuid \<Rightarrow> int \<Rightarrow> string \<Rightarrow> key_error + string" where
  "JobArtifactKey tenant job setVersion label =
     (case Segment label of
        Inl e \<Rightarrow> Inl e
      | Inr safe \<Rightarrow> Inr (''t/'' @ uuid_String tenant @ ''/jobs/'' @ uuid_String job @ ''/v'' @
          Itoa setVersion @ ''/'' @ safe))"

fun check_parts :: "string list \<Rightarrow> key_error option" where
  "check_parts [] = None"
| "check_parts (part # parts) = (case Segment part of Inl e \<Rightarrow> Some e | Inr _ \<Rightarrow> check_parts parts)"

definition JobOutputKey :: "uuid \<Rightarrow> uuid \<Rightarrow> int \<Rightarrow> string \<Rightarrow> key_error + string" where
  "JobOutputKey tenant job setVersion relative =
     (if relative = [] \<or> length relative > 512 then Inl BadPathLength
      else let parts = split_on (CHR ''/'') relative in
        if length parts > 4 then Inl BadPathDepth
        else case check_parts parts of
          Some e \<Rightarrow> Inl e
        | None \<Rightarrow> Inr (''t/'' @ uuid_String tenant @ ''/jobs/'' @ uuid_String job @ ''/v'' @
            Itoa setVersion @ ''/'' @ join_with (CHR ''/'') parts))"

definition UploadKey :: "uuid \<Rightarrow> uuid \<Rightarrow> string" where
  "UploadKey tenant upload = ''t/'' @ uuid_String tenant @ ''/uploads/'' @ uuid_String upload"

section \<open>Components of a key\<close>

lemma slash_free [simp]:
  "CHR ''/'' \<notin> set (uuid_String u)" "CHR ''/'' \<notin> set (Itoa i)"
  using uuid_String_chars [of "CHR ''/''" u] Itoa_chars [of "CHR ''/''" i]
  by (auto simp: is_digit_def is_lower_def)

lemma segment_loop_None: "segment_loop s = None \<longleftrightarrow> list_all label_char s"
  by (induction s) auto

lemma segment_ok:
  "Segment s = Inr k \<longleftrightarrow> k = s \<and> s \<noteq> [] \<and> length s \<le> 128 \<and> s \<noteq> ''.'' \<and> s \<noteq> ''..'' \<and> list_all label_char s"
proof -
  have nc: "list_all label_char w \<Longrightarrow> \<not> label_char c \<Longrightarrow> \<not> go_Contains w [c]" for w c
    by (induction w) (auto simp: HasPrefix_def)
  have "\<not> label_char (CHR ''/'')" "\<not> label_char (CHR 0x5C)"
    by (simp_all add: label_char_def is_lower_def is_upper_def is_digit_def)
  then show ?thesis using nc [of s]
    by (auto simp: Segment_def segment_loop_None split: option.splits)
      (metis not_None_eq segment_loop_None)+
qed

lemma segment_no_slash: "list_all label_char s \<Longrightarrow> CHR ''/'' \<notin> set s"
  by (auto simp: list_all_iff label_char_def is_lower_def is_upper_def is_digit_def)

lemma check_parts_None: "check_parts ps = None \<longleftrightarrow> (\<forall>p \<in> set ps. \<exists>k. Segment p = Inr k)"
  by (induction ps) (auto split: sum.splits)

text \<open>A key is determined by its components.\<close>

definition path_parts :: "string \<Rightarrow> string list" where
  "path_parts k = split_on (CHR ''/'') k"

lemma SourceKey_parts:
  "path_parts (SourceKey t a v) =
     [''t'', uuid_String t, ''assets'', uuid_String a, ''versions'', uuid_String v, ''source'']"
  unfolding path_parts_def SourceKey_def by (simp add: split_on_step split_on_free)

lemma UploadKey_parts:
  "path_parts (UploadKey t u) = [''t'', uuid_String t, ''uploads'', uuid_String u]"
  unfolding path_parts_def UploadKey_def by (simp add: split_on_step split_on_free)

lemma job_prefix_parts:
  "path_parts (''t/'' @ uuid_String t @ ''/jobs/'' @ uuid_String j @ ''/v'' @ Itoa n @ ''/'' @ r) =
     [''t'', uuid_String t, ''jobs'', uuid_String j, ''v'' @ Itoa n] @ split_on (CHR ''/'') r"
  unfolding path_parts_def by (simp add: split_on_step)

lemma JobOutputKey_ok:
  "JobOutputKey t j n r = Inr k \<longleftrightarrow>
     r \<noteq> [] \<and> length r \<le> 512 \<and> length (split_on (CHR ''/'') r) \<le> 4 \<and>
     check_parts (split_on (CHR ''/'') r) = None \<and>
     k = ''t/'' @ uuid_String t @ ''/jobs/'' @ uuid_String j @ ''/v'' @ Itoa n @ ''/'' @ r"
  by (auto simp: JobOutputKey_def Let_def split: option.splits)

lemma JobOutputKey_parts:
  assumes "JobOutputKey t j n r = Inr k"
  shows "path_parts k = [''t'', uuid_String t, ''jobs'', uuid_String j, ''v'' @ Itoa n] @ split_on (CHR ''/'') r"
  using assms unfolding JobOutputKey_ok by (auto simp del: append.simps simp: job_prefix_parts)

lemma split_on_inj: "split_on d r = split_on d s \<longleftrightarrow> r = s"
  by (metis join_split_on)

section \<open>Properties\<close>

text \<open>
  A worker cannot name a file outside its job: whatever relative path it sends, a key that is
  handed out consists of the job's own five components followed by one to four components of the
  path, each of them 1 to 128 letters, digits, dots, dashes or underscores and neither \<open>.\<close> nor \<open>..\<close>,
  and no two relative paths of the job share a key.
\<close>

theorem output_key_confined:
  assumes "JobOutputKey t j n r = Inr k"
  shows "\<exists>segs. path_parts k = [''t'', uuid_String t, ''jobs'', uuid_String j, ''v'' @ Itoa n] @ segs \<and>
      1 \<le> length segs \<and> length segs \<le> 4 \<and> join_with (CHR ''/'') segs = r \<and>
      (\<forall>p \<in> set segs. 1 \<le> length p \<and> length p \<le> 128 \<and> p \<noteq> ''.'' \<and> p \<noteq> ''..'' \<and> list_all label_char p)"
proof -
  have "check_parts (split_on (CHR ''/'') r) = None" "length (split_on (CHR ''/'') r) \<le> 4"
    using assms by (auto simp: JobOutputKey_ok)
  then show ?thesis unfolding JobOutputKey_parts [OF assms] check_parts_None segment_ok
    by (intro exI [of _ "split_on (CHR ''/'') r"]) (auto simp: Suc_le_eq)
qed

theorem output_key_confined_witness:
  "\<exists>k segs. JobOutputKey 1 2 1 ''720p/seg_1.m4s'' = Inr k \<and>
     path_parts k = [''t'', uuid_String 1, ''jobs'', uuid_String 2, ''v1''] @ segs \<and> length segs \<le> 4"
proof -
  have "\<not> isl (JobOutputKey 1 2 1 ''720p/seg_1.m4s'')" by code_simp
  then have "\<exists>k. JobOutputKey 1 2 1 ''720p/seg_1.m4s'' = Inr k" by (metis sum.collapse(2))
  moreover have "Itoa 1 = ''1''" by code_simp
  ultimately show ?thesis using output_key_confined by (metis append_Cons append_Nil)
qed

text \<open>
  Keys do not collide: for identifiers of 128 bits, two job output keys are equal only when
  tenant, job, set version and path all agree, a job output is never the key of an upload or of a
  source, and an upload key is never that of another upload or of a source.
\<close>

theorem keys_do_not_collide:
  assumes "t < 2 ^ 128" "j < 2 ^ 128" "t' < 2 ^ 128" "j' < 2 ^ 128" "u < 2 ^ 128" "u' < 2 ^ 128"
    and "JobOutputKey t j n r = Inr k" "JobOutputKey t' j' n' r' = Inr k'"
  shows "(k = k' \<longleftrightarrow> t = t' \<and> j = j' \<and> n = n' \<and> r = r') \<and>
    (UploadKey t u = UploadKey t' u' \<longleftrightarrow> t = t' \<and> u = u') \<and>
    k \<noteq> UploadKey t' u \<and> k \<noteq> SourceKey t' a v \<and> UploadKey t u \<noteq> SourceKey t' a v"
proof -
  note parts = JobOutputKey_parts [OF assms(7)] JobOutputKey_parts [OF assms(8)] UploadKey_parts SourceKey_parts
  have "k = k' \<Longrightarrow> t = t' \<and> j = j' \<and> n = n' \<and> r = r'"
    using parts(1,2) assms(1-4) uuid_String_inj by (simp add: split_on_inj)
  moreover have "t = t' \<Longrightarrow> j = j' \<Longrightarrow> n = n' \<Longrightarrow> r = r' \<Longrightarrow> k = k'"
    using assms(7,8) by simp
  moreover have "UploadKey t u = UploadKey t' u' \<Longrightarrow> t = t' \<and> u = u'"
    using parts(3) [of t u] parts(3) [of t' u'] assms(1,3,5,6) uuid_String_inj by simp
  moreover have "k \<noteq> UploadKey t' u" "k \<noteq> SourceKey t' a v" "UploadKey t u \<noteq> SourceKey t' a v"
    using parts(1) parts(3) [of t' u] parts(3) [of t u] parts(4) [of t' a v] by auto
  ultimately show ?thesis by blast
qed

theorem keys_do_not_collide_witness:
  "\<exists>k k'. JobOutputKey 1 2 1 ''a'' = Inr k \<and> JobOutputKey 1 2 1 ''b'' = Inr k' \<and> k \<noteq> k'"
proof -
  obtain k k' where kk: "JobOutputKey 1 2 1 ''a'' = Inr k" "JobOutputKey 1 2 1 ''b'' = Inr k'"
  proof -
    have "\<not> isl (JobOutputKey 1 2 1 ''a'')" "\<not> isl (JobOutputKey 1 2 1 ''b'')" by code_simp+
    then show thesis using that by (metis sum.collapse(2))
  qed
  then show ?thesis using keys_do_not_collide [of 1 2 1 2 1 1, OF _ _ _ _ _ _ kk] by auto
qed

text \<open>
  C23. A worker cannot reach a file outside its job: whatever relative path it sends, the key it is handed
  consists of the job's own five components followed by one to four components of the path, each of them
  1 to 128 letters, digits, dots, dashes or underscores and neither \<open>.\<close> nor \<open>..\<close>. Two such keys are equal only
  when tenant, job, set version and path all agree, and none is the key of an upload or of a source.
\<close>

theorem job_keys_confined:
  assumes "t < 2 ^ 128" "j < 2 ^ 128" "t' < 2 ^ 128" "j' < 2 ^ 128" "u < 2 ^ 128"
    and "JobOutputKey t j n r = Inr k" "JobOutputKey t' j' n' r' = Inr k'"
  shows "(\<exists>segs. path_parts k = [''t'', uuid_String t, ''jobs'', uuid_String j, ''v'' @ Itoa n] @ segs \<and>
      1 \<le> length segs \<and> length segs \<le> 4 \<and> join_with (CHR ''/'') segs = r \<and>
      (\<forall>p \<in> set segs. 1 \<le> length p \<and> length p \<le> 128 \<and> p \<noteq> ''.'' \<and> p \<noteq> ''..'' \<and> list_all label_char p)) \<and>
    (k = k' \<longleftrightarrow> t = t' \<and> j = j' \<and> n = n' \<and> r = r') \<and> k \<noteq> UploadKey t' u \<and> k \<noteq> SourceKey t' a v"
  using output_key_confined [OF assms(6)] keys_do_not_collide [OF assms(1-5) assms(5) assms(6,7)] by blast

theorem job_keys_confined_witness:
  "\<exists>k k'. JobOutputKey 1 2 1 ''720p/seg_1.m4s'' = Inr k \<and> JobOutputKey 1 2 1 ''720p/seg_2.m4s'' = Inr k' \<and> k \<noteq> k'"
proof -
  have "\<not> isl (JobOutputKey 1 2 1 ''720p/seg_1.m4s'')" "\<not> isl (JobOutputKey 1 2 1 ''720p/seg_2.m4s'')" by code_simp+
  then obtain k k' where kk: "JobOutputKey 1 2 1 ''720p/seg_1.m4s'' = Inr k" "JobOutputKey 1 2 1 ''720p/seg_2.m4s'' = Inr k'"
    by (metis sum.collapse(2))
  then show ?thesis using job_keys_confined [of 1 2 1 2 1, OF _ _ _ _ _ kk] by auto
qed

end
