(* ===== verification/Upload_Service.thy ===== *)
theory Upload_Service
  imports Media_Store Storage_Key
begin

text \<open>
  Resumable uploads, \<open>internal/upload/upload.go\<close>, over the object store interface of
  \<open>internal/storage/storage.go\<close>. The store is a parameter: a record of the operations the service
  calls on a state of its own. The service works on the media tables and the store together; what an
  operation did to either before it failed is kept.
\<close>

section \<open>The object store\<close>

record Part =
  p_Number :: int
  p_ETag :: string
  p_Size :: int

record ObjectInfo =
  o_Key :: string
  o_Size :: int
  o_ETag :: string
  o_ContentType :: string

datatype storage_error = StorageNotFound | StorageOther string

record 'st Store =
  st_CreateMultipart :: "'st \<Rightarrow> string \<Rightarrow> string \<Rightarrow> 'st \<times> (storage_error + string)"
  st_PresignUploadPart :: "'st \<Rightarrow> string \<Rightarrow> string \<Rightarrow> int \<Rightarrow> duration \<Rightarrow> storage_error + string"
  st_ListParts :: "'st \<Rightarrow> string \<Rightarrow> string \<Rightarrow> storage_error + Part list"
  st_CompleteMultipart :: "'st \<Rightarrow> string \<Rightarrow> string \<Rightarrow> Part list \<Rightarrow> 'st \<times> (storage_error + ObjectInfo)"
  st_AbortMultipart :: "'st \<Rightarrow> string \<Rightarrow> string \<Rightarrow> 'st \<times> storage_error option"

section \<open>Limits and parts\<close>

definition minPartSize :: int where "minPartSize = 8 * 2 ^ 20"
definition maxParts :: int where "maxParts = 10000"
definition MaxUploadBytes :: int where "MaxUploadBytes = 5 * 2 ^ 40"
definition maxURLsPerResponse :: nat where "maxURLsPerResponse = 100"
definition urlTTL :: duration where "urlTTL = 3600 * 10 ^ 9"
definition uploadTTL :: duration where "uploadTTL = 24 * 3600 * 10 ^ 9"

datatype upload_error = UploadNotFound | ErrIncomplete "int list" | ErrSizeMismatch
  | ErrTooLarge | ErrBadSize | ErrNotOpen | UploadStorage storage_error | UploadDb db_error

text \<open>The loop of \<open>PartSizeFor\<close> after \<open>k\<close> doublings.\<close>

function part_loop :: "int \<Rightarrow> nat \<Rightarrow> int" where
  "part_loop size_bytes k =
     (let part = minPartSize * 2 ^ k in
      if go_quot (size_bytes + part - 1) part > maxParts then part_loop size_bytes (Suc k) else part)"
  by pat_completeness auto

lemma part_loop_decreases:
  assumes "go_quot (size_bytes + part - 1) part > maxParts" "0 < part"
  shows "part < size_bytes"
proof (rule ccontr)
  assume le: "\<not> part < size_bytes"
  let ?x = "size_bytes + part - 1"
  have "go_quot ?x part \<le> 1"
  proof (cases "?x \<le> 0")
    case True
    then have "sgn ?x \<le> 0" by (simp add: sgn_if)
    then show ?thesis using assms(2)
      by (simp add: go_quot_def mult_nonpos_nonneg pos_imp_zdiv_nonneg_iff order.trans [of _ 0 1])
  next
    case False
    have "?x < 2 * part" using le by simp
    moreover have "2 * part \<le> ?x" if "2 \<le> ?x div part"
      using mult_right_mono [OF that, of part] assms(2) pos_mod_sign [of part ?x]
        div_mult_mod_eq [of ?x part] by linarith
    ultimately have "?x div part < 2" by linarith
    then show ?thesis using False assms(2) by (simp add: go_quot_def)
  qed
  then show False using assms(1) by (simp add: maxParts_def)
qed

termination part_loop
proof (relation "measure (\<lambda>(n, k). nat (n - minPartSize * 2 ^ k))", goal_cases)
  case (2 size_bytes k part)
  then have "part < size_bytes" "0 < part"
    by (auto intro: part_loop_decreases simp: minPartSize_def)
  moreover have "minPartSize * 2 ^ Suc k = 2 * part" "minPartSize * 2 ^ k = part" using 2(1) by auto
  ultimately show ?case by (simp del: power_Suc)
qed simp

declare part_loop.simps [simp del]

definition PartSizeFor :: "int \<Rightarrow> int" where
  "PartSizeFor size_bytes = part_loop size_bytes 0"

definition allParts :: "int \<Rightarrow> int list" where
  "allParts n = [1..n]"

fun verify_loop ::
  "(int \<Rightarrow> Part option) \<Rightarrow> int \<Rightarrow> int \<Rightarrow> int \<Rightarrow> int list \<Rightarrow> Part list \<Rightarrow> int list \<Rightarrow> upload_error + (Part list \<times> int list)" where
  "verify_loop byNumber count partSize size_bytes [] parts missing = Inr (parts, missing)"
| "verify_loop byNumber count partSize size_bytes (n # ns) parts missing =
     (case byNumber n of
        None \<Rightarrow> verify_loop byNumber count partSize size_bytes ns parts (missing @ [n])
      | Some p \<Rightarrow>
          let want = (if n = count then size_bytes - partSize * (count - 1) else partSize) in
          if p_Size p \<noteq> want then Inl ErrSizeMismatch
          else verify_loop byNumber count partSize size_bytes ns (parts @ [p]) missing)"

definition by_number :: "Part list \<Rightarrow> int \<Rightarrow> Part option" where
  "by_number held = map_of (rev (map (\<lambda>p. (p_Number p, p)) held))"

definition verifyParts :: "Part list \<Rightarrow> int \<Rightarrow> int \<Rightarrow> int \<Rightarrow> upload_error + Part list" where
  "verifyParts held count partSize size_bytes =
     (case verify_loop (by_number held) count partSize size_bytes [1..count] [] [] of
        Inl e \<Rightarrow> Inl e
      | Inr (parts, missing) \<Rightarrow> if length missing > 0 then Inl (ErrIncomplete missing) else Inr parts)"

section \<open>Operations\<close>

record Upload =
  up_ID :: uuid
  up_AssetVersionID :: uuid
  up_SizeBytes :: int
  up_PartSize :: int
  up_PartCount :: int
  up_Status :: string
  up_ExpiresAt :: time
  up_storageKey :: string
  up_storageUploadID :: string

record PartURL =
  pu_Number :: int
  pu_URL :: string

record UploadStatus =
  us_Upload :: Upload
  us_Uploaded :: "int list"
  us_Missing :: "int list"
  us_Parts :: "PartURL list"

definition scan_upload :: "upload_row \<Rightarrow> Upload" where
  "scan_upload r = \<lparr>up_ID = ur_id r, up_AssetVersionID = ur_version r, up_SizeBytes = ur_size r,
     up_PartSize = ur_part_size r, up_PartCount = ur_part_count r, up_Status = ur_status r,
     up_ExpiresAt = ur_expires r, up_storageKey = ur_key r, up_storageUploadID = ur_upload_id r\<rparr>"

definition upload_get :: "media_db \<Rightarrow> uuid \<Rightarrow> uuid \<Rightarrow> upload_error + Upload" where
  "upload_get db tenantID uploadID =
     (case sql_find (\<lambda>r. ur_id r = uploadID \<and> ur_tenant r = tenantID) (m_uploads db) of
        None \<Rightarrow> Inl UploadNotFound
      | Some r \<Rightarrow> Inr (scan_upload r))"

fun presign_loop :: "'st Store \<Rightarrow> 'st \<Rightarrow> Upload \<Rightarrow> int list \<Rightarrow> PartURL list \<Rightarrow> upload_error + PartURL list" where
  "presign_loop store st u [] urls = Inr urls"
| "presign_loop store st u (n # ns) urls =
     (case st_PresignUploadPart store st (up_storageKey u) (up_storageUploadID u) n urlTTL of
        Inl e \<Rightarrow> Inl (UploadStorage e)
      | Inr url \<Rightarrow> presign_loop store st u ns (urls @ [\<lparr>pu_Number = n, pu_URL = url\<rparr>]))"

definition presign :: "'st Store \<Rightarrow> 'st \<Rightarrow> Upload \<Rightarrow> int list \<Rightarrow> upload_error + PartURL list" where
  "presign store st u numbers =
     presign_loop store st u
       (if length numbers > maxURLsPerResponse then take maxURLsPerResponse numbers else numbers) []"

definition upload_nullable :: "string \<Rightarrow> string option" where
  "upload_nullable s = (if s = [] then None else Some s)"

definition insert_upload :: "upload_row \<Rightarrow> media_db \<Rightarrow> db_error + media_db" where
  "insert_upload r db =
     (if list_ex (\<lambda>u. ur_id u = ur_id r) (m_uploads db) then Inl (UniqueViolation ''uploads_pkey'')
      else if \<not> list_ex (\<lambda>v. vr_id v = ur_version r) (m_versions db)
      then Inl (OtherViolation ''uploads_asset_version_id_fkey'')
      else Inr (db\<lparr>m_uploads := m_uploads db @ [r]\<rparr>))"

text \<open>
  \<open>Create\<close>: \<open>fresh 0\<close> is the upload's identifier and \<open>fresh 1\<close> the one in its storage key. A
  duration counts nanoseconds and a timestamp microseconds.
\<close>

definition upload_Create ::
  "time \<Rightarrow> (nat \<Rightarrow> uuid) \<Rightarrow> 'st Store \<Rightarrow> 'st \<Rightarrow> media_db \<Rightarrow> uuid \<Rightarrow> uuid \<Rightarrow> int \<Rightarrow> string \<Rightarrow> string \<Rightarrow>
   string option \<Rightarrow> 'st \<times> media_db \<times> (upload_error + (Upload \<times> PartURL list))" where
  "upload_Create now fresh store st db tenantID versionID size_bytes contentType checksumAlgo checksum =
     (if size_bytes \<le> 0 then (st, db, Inl ErrBadSize)
      else if size_bytes > MaxUploadBytes then (st, db, Inl ErrTooLarge)
      else let partSize = PartSizeFor size_bytes; storageKey = UploadKey tenantID (fresh 1) in
      (case st_CreateMultipart store st storageKey contentType of
        (st1, Inl e) \<Rightarrow> (st1, db, Inl (UploadStorage e))
      | (st1, Inr uploadID) \<Rightarrow>
          (let row = \<lparr>ur_id = fresh 0, ur_tenant = tenantID, ur_version = versionID, ur_key = storageKey,
                     ur_upload_id = uploadID, ur_size = size_bytes, ur_part_size = partSize,
                     ur_part_count = go_quot (size_bytes + partSize - 1) partSize,
                     ur_content_type = upload_nullable contentType,
                     ur_checksum_algo = upload_nullable checksumAlgo, ur_checksum = checksum,
                     ur_status = ''in_progress'', ur_expires = now + uploadTTL div 1000,
                     ur_completed = None\<rparr>;
              u = scan_upload row
          in (case insert_upload row db of
               Inl e \<Rightarrow> (fst (st_AbortMultipart store st1 storageKey uploadID), db, Inl (UploadDb e))
             | Inr db1 \<Rightarrow>
                 (st1, db1, (case presign store st1 u (allParts (up_PartCount u)) of
                    Inl e \<Rightarrow> Inl e
                  | Inr urls \<Rightarrow> Inr (u, urls)))))))"

definition upload_Status :: "'st Store \<Rightarrow> 'st \<Rightarrow> media_db \<Rightarrow> uuid \<Rightarrow> uuid \<Rightarrow> upload_error + UploadStatus" where
  "upload_Status store st db tenantID uploadID =
     (case upload_get db tenantID uploadID of
        Inl e \<Rightarrow> Inl e
      | Inr u \<Rightarrow>
          if up_Status u \<noteq> ''in_progress''
          then Inr \<lparr>us_Upload = u, us_Uploaded = [], us_Missing = [], us_Parts = []\<rparr>
          else (case st_ListParts store st (up_storageKey u) (up_storageUploadID u) of
            Inl e \<Rightarrow> Inl (UploadStorage e)
          | Inr held \<Rightarrow>
              (let missing = filter (\<lambda>n. \<not> list_ex (\<lambda>p. p_Number p = n) held) [1..up_PartCount u] in
               (case presign store st u missing of
                  Inl e \<Rightarrow> Inl e
                | Inr urls \<Rightarrow> Inr \<lparr>us_Upload = u, us_Uploaded = map p_Number held,
                                   us_Missing = missing, us_Parts = urls\<rparr>))))"

text \<open>The transaction at the end of \<open>Complete\<close>.\<close>

definition source_of :: "time \<Rightarrow> uuid \<Rightarrow> uuid \<Rightarrow> int \<Rightarrow> upload_row \<Rightarrow> source_row" where
  "source_of now sourceID tenantID size_bytes r = \<lparr>sr_id = sourceID, sr_tenant = tenantID, sr_version = ur_version r,
     sr_origin = ''managed'', sr_key = Some (ur_key r), sr_size = Some size_bytes,
     sr_content_type = ur_content_type r, sr_checksum_algo = ur_checksum_algo r,
     sr_checksum = ur_checksum r, sr_verified = Some now\<rparr>"

definition insert_source :: "source_row \<Rightarrow> media_db \<Rightarrow> db_error + media_db" where
  "insert_source r db =
     (if list_ex (\<lambda>s. sr_id s = sr_id r) (m_sources db) then Inl (UniqueViolation ''source_files_pkey'')
      else if list_ex (\<lambda>s. sr_version s = sr_version r) (m_sources db)
      then Inl (UniqueViolation ''source_files_asset_version_id_key'')
      else Inr (db\<lparr>m_sources := m_sources db @ [r]\<rparr>))"

definition promote :: "time \<Rightarrow> media_db \<Rightarrow> Upload \<Rightarrow> media_db" where
  "promote now db u =
     db\<lparr>m_uploads := sql_update (\<lambda>r. ur_id r = up_ID u)
          (\<lambda>r. r\<lparr>ur_status := ''completed'', ur_completed := Some now\<rparr>) (m_uploads db),
        m_versions := sql_update (\<lambda>v. vr_id v = up_AssetVersionID u)
          (\<lambda>v. v\<lparr>vr_status := ''source_ready''\<rparr>) (m_versions db),
        m_assets := sql_update
          (\<lambda>a. list_ex (\<lambda>v. vr_id v = up_AssetVersionID u \<and> vr_asset v = ar_id a) (m_versions db))
          (\<lambda>a. a\<lparr>ar_status := ''ready''\<rparr>) (m_assets db)\<rparr>"

definition promote_tx :: "time \<Rightarrow> uuid \<Rightarrow> media_db \<Rightarrow> uuid \<Rightarrow> Upload \<Rightarrow> int \<Rightarrow> db_error + media_db" where
  "promote_tx now sourceID db tenantID u size_bytes =
     (case sql_find (\<lambda>r. ur_id r = up_ID u) (m_uploads db) of
        None \<Rightarrow> Inr (promote now db u)
      | Some r \<Rightarrow>
          (case insert_source (source_of now sourceID tenantID size_bytes r) db of
             Inl e \<Rightarrow> Inl e
           | Inr db1 \<Rightarrow> Inr (promote now db1 u)))"

definition upload_Complete ::
  "time \<Rightarrow> uuid \<Rightarrow> 'st Store \<Rightarrow> 'st \<Rightarrow> media_db \<Rightarrow> uuid \<Rightarrow> uuid \<Rightarrow> 'st \<times> media_db \<times> (upload_error + Upload)" where
  "upload_Complete now sourceID store st db tenantID uploadID =
     (case upload_get db tenantID uploadID of
        Inl e \<Rightarrow> (st, db, Inl e)
      | Inr u \<Rightarrow>
          if up_Status u = ''completed'' then (st, db, Inr u)
          else if up_Status u \<noteq> ''in_progress'' then (st, db, Inl ErrNotOpen)
          else (case st_ListParts store st (up_storageKey u) (up_storageUploadID u) of
            Inl e \<Rightarrow> (st, db, Inl (UploadStorage e))
          | Inr held \<Rightarrow>
              (case verifyParts held (up_PartCount u) (up_PartSize u) (up_SizeBytes u) of
                 Inl e \<Rightarrow> (st, db, Inl e)
               | Inr parts \<Rightarrow>
                   (case st_CompleteMultipart store st (up_storageKey u) (up_storageUploadID u) parts of
                      (st1, Inl e) \<Rightarrow> (st1, db, Inl (UploadStorage e))
                    | (st1, Inr info) \<Rightarrow>
                        if o_Size info \<noteq> up_SizeBytes u then (st1, db, Inl ErrSizeMismatch)
                        else (case promote_tx now sourceID db tenantID u (o_Size info) of
                          Inl e \<Rightarrow> (st1, db, Inl (UploadDb e))
                        | Inr db1 \<Rightarrow> (st1, db1, Inr (u\<lparr>up_Status := ''completed''\<rparr>)))))))"

definition upload_Abort :: "'st Store \<Rightarrow> 'st \<Rightarrow> media_db \<Rightarrow> uuid \<Rightarrow> uuid \<Rightarrow> 'st \<times> media_db \<times> upload_error option" where
  "upload_Abort store st db tenantID uploadID =
     (case upload_get db tenantID uploadID of
        Inl e \<Rightarrow> (st, db, Some e)
      | Inr u \<Rightarrow>
          if up_Status u \<noteq> ''in_progress'' then (st, db, Some ErrNotOpen)
          else (case st_AbortMultipart store st (up_storageKey u) (up_storageUploadID u) of
            (st1, Some e) \<Rightarrow> (st1, db, Some (UploadStorage e))
          | (st1, None) \<Rightarrow>
              (st1, db\<lparr>m_uploads := sql_update (\<lambda>r. ur_id r = up_ID u)
                 (\<lambda>r. r\<lparr>ur_status := ''aborted''\<rparr>) (m_uploads db)\<rparr>, None)))"

end
