(* ===== verification/Upload_Parts.thy ===== *)
theory Upload_Parts
  imports Upload_Service
begin

text \<open>
  How an object is cut into parts: the part size stays within the provider's limits for every legal
  object, and parts that pass verification tile the object exactly.
\<close>

section \<open>Part size\<close>

lemma go_quot_pos:
  assumes "0 \<le> a" "0 < b"
  shows "go_quot a b = a div b"
proof (cases "a = 0")
  case False
  then show ?thesis using assms by (simp add: go_quot_def)
qed (simp add: go_quot_def)

lemma part_loop_spec:
  obtains j where "k \<le> j" "part_loop n k = minPartSize * 2 ^ j"
    "go_quot (n + minPartSize * 2 ^ j - 1) (minPartSize * 2 ^ j) \<le> maxParts"
    "\<forall>i. k \<le> i \<longrightarrow> i < j \<longrightarrow> maxParts < go_quot (n + minPartSize * 2 ^ i - 1) (minPartSize * 2 ^ i)"
proof (induction n k arbitrary: thesis rule: part_loop.induct)
  case (1 n k)
  let ?q = "\<lambda>i. go_quot (n + minPartSize * 2 ^ i - 1) (minPartSize * 2 ^ i)"
  show ?case
  proof (cases "maxParts < ?q k")
    case True
    obtain j where j: "Suc k \<le> j" "part_loop n (Suc k) = minPartSize * 2 ^ j" "?q j \<le> maxParts"
      "\<forall>i. Suc k \<le> i \<longrightarrow> i < j \<longrightarrow> maxParts < ?q i"
      using "1.IH" [OF refl True] by blast
    have "part_loop n k = minPartSize * 2 ^ j"
      using True j(2) by (subst part_loop.simps) (simp add: Let_def)
    moreover have "\<forall>i. k \<le> i \<longrightarrow> i < j \<longrightarrow> maxParts < ?q i"
      using j(4) True by (metis Suc_leI le_neq_implies_less)
    ultimately show ?thesis using "1.prems" [of j] j(1,3) by simp
  next
    case False
    then have "part_loop n k = minPartSize * 2 ^ k" by (subst part_loop.simps) (simp add: Let_def)
    then show ?thesis using "1.prems" [of k] False by simp
  qed
qed

lemma ceil_div:
  fixes n p :: int
  assumes "0 < n" "0 < p"
  defines "c \<equiv> (n + p - 1) div p"
  shows "1 \<le> c" "(c - 1) * p < n" "n \<le> c * p"
proof -
  have eq: "c * p + (n + p - 1) mod p = n + p - 1" unfolding c_def by (rule div_mult_mod_eq)
  have m: "0 \<le> (n + p - 1) mod p" "(n + p - 1) mod p < p" using assms(2) by simp_all
  show "(c - 1) * p < n" "n \<le> c * p" using eq m by (simp_all add: algebra_simps)
  have "1 * p \<le> n + p - 1" using assms(1) by simp
  then have "(1 * p) div p \<le> c" unfolding c_def using assms(2) by (intro zdiv_mono1) auto
  then show "1 \<le> c" using assms(2) by simp
qed

text \<open>
  An object of any legal size, from one byte to 5 TiB, is cut within the provider's limits: the
  search for the part size ends, parts are between 8 MiB and 1 GiB, there are 1 to 10000 of them, and
  the object ends inside the last one. The part size is the smallest the doubling reaches.
\<close>

theorem part_plan_within_limits:
  assumes "0 < n" "n \<le> MaxUploadBytes" "p = PartSizeFor n" "c = go_quot (n + p - 1) p"
  shows "minPartSize \<le> p \<and> p \<le> 2 ^ 30 \<and> 1 \<le> c \<and> c \<le> maxParts \<and> (c - 1) * p < n \<and> n \<le> c * p \<and>
    (p = minPartSize \<or> maxParts * (p div 2) < n)"
proof -
  let ?q = "\<lambda>i. go_quot (n + minPartSize * 2 ^ i - 1) (minPartSize * 2 ^ i)"
  have q: "?q i = (n + minPartSize * 2 ^ i - 1) div (minPartSize * 2 ^ i)" for i
    using assms(1) by (intro go_quot_pos) (simp_all add: minPartSize_def add_nonneg_pos)
  obtain j where j: "p = minPartSize * 2 ^ j" "?q j \<le> maxParts" "\<forall>i < j. maxParts < ?q i"
    using part_loop_spec [of 0 n] assms(3) unfolding PartSizeFor_def by (metis zero_le)
  have "?q 7 \<le> (MaxUploadBytes + minPartSize * 2 ^ 7 - 1) div (minPartSize * 2 ^ 7)"
    unfolding q using assms(2) by (intro zdiv_mono1) (simp_all add: minPartSize_def)
  also have "\<dots> \<le> maxParts" by (simp add: minPartSize_def maxParts_def MaxUploadBytes_def)
  finally have "j \<le> 7" using j(3) by (meson not_le)
  then have "(2::int) ^ j \<le> 2 ^ 7" by (intro power_increasing) auto
  then have p: "minPartSize \<le> p" "p \<le> 2 ^ 30" using j(1) by (simp_all add: minPartSize_def)
  have pos: "0 < p" using p(1) by (simp add: minPartSize_def)
  have c: "c = (n + p - 1) div p" "c \<le> maxParts"
    using assms(1,4) pos j(1,2) by (simp_all add: go_quot_pos)
  have "maxParts * (p div 2) < n" if nz: "j \<noteq> 0"
  proof -
    obtain i where i: "j = Suc i" using nz by (cases j) auto
    let ?h = "minPartSize * 2 ^ i"
    have h: "0 < ?h" "p div 2 = ?h" using j(1) i by (simp_all add: minPartSize_def)
    have "maxParts \<le> ?q i - 1" using j(3) i by simp
    then have "maxParts * ?h \<le> (?q i - 1) * ?h" using h(1) by (intro mult_right_mono) auto
    also have "\<dots> < n" unfolding q using ceil_div(2) [OF assms(1) h(1)] .
    finally show ?thesis using h(2) by simp
  qed
  moreover have "p = minPartSize" if "j = 0" using that j(1) by simp
  ultimately show ?thesis using p c(2) ceil_div [OF assms(1) pos] c(1) by blast
qed

theorem part_plan_within_limits_witness:
  "PartSizeFor 1 \<le> 2 ^ 30 \<and> go_quot (1 + PartSizeFor 1 - 1) (PartSizeFor 1) \<le> maxParts"
  using part_plan_within_limits [of 1 "PartSizeFor 1", OF _ _ refl refl] by (simp add: MaxUploadBytes_def)

section \<open>Verification of the parts\<close>

definition wanted :: "int \<Rightarrow> int \<Rightarrow> int \<Rightarrow> int \<Rightarrow> int" where
  "wanted count partSize n i = (if i = count then n - partSize * (count - 1) else partSize)"

text \<open>The loop accepts a run of part numbers exactly when each is held with the wanted size.\<close>

lemma verify_loop_ok:
  "verify_loop held count partSize n is parts missing = Inr (parts', missing') \<Longrightarrow>
     missing' = missing @ filter (\<lambda>i. held i = None) is \<and>
     parts' = parts @ map (\<lambda>i. the (held i)) (filter (\<lambda>i. held i \<noteq> None) is) \<and>
     (\<forall>i \<in> set is. \<forall>p. held i = Some p \<longrightarrow> p_Size p = wanted count partSize n i)"
proof (induction "is" arbitrary: parts missing)
  case (Cons i "is")
  show ?case
  proof (cases "held i")
    case None
    then have "verify_loop held count partSize n is parts (missing @ [i]) = Inr (parts', missing')"
      using Cons.prems by simp
    from Cons.IH [OF this] show ?thesis using None by simp
  next
    case (Some p)
    then have "verify_loop held count partSize n is (parts @ [p]) missing = Inr (parts', missing')"
      and "p_Size p = wanted count partSize n i"
      using Cons.prems by (auto simp: Let_def wanted_def split: if_splits)
    with Cons.IH [OF this(1)] show ?thesis using Some by simp
  qed
qed simp

lemma verify_loop_accepts:
  assumes "\<forall>i \<in> set is. \<exists>p. held i = Some p \<and> p_Size p = wanted count partSize n i"
  shows "\<exists>ps. verify_loop held count partSize n is parts missing = Inr (ps, missing)"
  using assms
proof (induction "is" arbitrary: parts)
  case (Cons i "is")
  then obtain p where "held i = Some p" "p_Size p = wanted count partSize n i" by auto
  then show ?case using Cons by (simp add: Let_def wanted_def)
qed simp

lemma by_number_Some:
  assumes "by_number held i = Some p"
  shows "p \<in> set held" "p_Number p = i"
  using map_of_SomeD [OF assms [unfolded by_number_def]] by auto

lemma sum_wanted:
  assumes "1 \<le> count"
  shows "sum_list (map (wanted count partSize n) [1..count]) = n"
proof -
  have "[1..count] = [1..count - 1] @ [count]" using assms by (simp add: upto_rec2)
  moreover have "map (wanted count partSize n) [1..count - 1] = map (\<lambda>_. partSize) [1..count - 1]"
    by (simp add: wanted_def)
  ultimately have "sum_list (map (wanted count partSize n) [1..count]) =
      sum_list (map (\<lambda>_. partSize) [1..count - 1]) + wanted count partSize n count"
    by (metis (no_types, lifting) map_append sum_list.append list.map sum_list_simps(2) sum_list.Nil add.right_neutral)
  then show ?thesis using assms by (simp add: wanted_def sum_list_triv)
qed

text \<open>
  Parts that pass verification tile the object: they are the parts numbered 1 to the count, in
  order, each one the store really holds; all but the last are exactly one part size long, and
  together they are exactly as long as the object was declared. A set of parts that has every number
  with its wanted size is never refused.
\<close>

theorem verified_parts_tile:
  assumes "1 \<le> count"
  shows "(verifyParts held count partSize n = Inr parts \<longrightarrow>
      map p_Number parts = [1..count] \<and> set parts \<subseteq> set held \<and>
      (\<forall>p \<in> set parts. p_Number p < count \<longrightarrow> p_Size p = partSize) \<and>
      sum_list (map p_Size parts) = n) \<and>
    ((\<forall>i \<in> {1..count}. \<exists>p. by_number held i = Some p \<and> p_Size p = wanted count partSize n i) \<longrightarrow>
      (\<exists>ps. verifyParts held count partSize n = Inr ps))"
proof (intro conjI impI)
  assume v: "verifyParts held count partSize n = Inr parts"
  then obtain missing where
    l: "verify_loop (by_number held) count partSize n [1..count] [] [] = Inr (parts, missing)" "missing = []"
    by (auto simp: verifyParts_def split: sum.splits if_splits)
  note ok = verify_loop_ok [OF l(1)]
  have all: "\<exists>p. by_number held i = Some p" if "i \<in> set [1..count]" for i
  proof -
    have "filter (\<lambda>i. by_number held i = None) [1..count] = []" using ok l(2) by simp
    then show ?thesis using that by (simp add: filter_empty_conv)
  qed
  have parts: "parts = map (\<lambda>i. the (by_number held i)) [1..count]"
  proof -
    have "filter (\<lambda>i. by_number held i \<noteq> None) [1..count] = [1..count]"
      using all by (intro filter_True) auto
    then show ?thesis using ok by simp
  qed
  have num: "p_Number (the (by_number held i)) = i"
    and sz: "p_Size (the (by_number held i)) = wanted count partSize n i"
    and mem: "the (by_number held i) \<in> set held" if i: "i \<in> set [1..count]" for i
  proof -
    obtain p where p: "by_number held i = Some p" using all [OF i] by blast
    show "p_Number (the (by_number held i)) = i" "the (by_number held i) \<in> set held"
      using by_number_Some [OF p] p by simp_all
    show "p_Size (the (by_number held i)) = wanted count partSize n i" using ok i p by simp
  qed
  show "map p_Number parts = [1..count]" unfolding parts using num by (auto intro!: map_idI)
  show "set parts \<subseteq> set held" unfolding parts using mem by auto
  show "\<forall>p \<in> set parts. p_Number p < count \<longrightarrow> p_Size p = partSize"
    unfolding parts using num sz by (auto simp: wanted_def)
  have "map p_Size parts = map (wanted count partSize n) [1..count]" unfolding parts using sz by simp
  then show "sum_list (map p_Size parts) = n" using sum_wanted [OF assms] by simp
next
  assume "\<forall>i \<in> {1..count}. \<exists>p. by_number held i = Some p \<and> p_Size p = wanted count partSize n i"
  then show "\<exists>ps. verifyParts held count partSize n = Inr ps"
    using verify_loop_accepts [of "[1..count]" "by_number held" count partSize n "[]" "[]"]
    by (auto simp: verifyParts_def)
qed

theorem verified_parts_tile_witness:
  "sum_list (map p_Size [\<lparr>p_Number = 1, p_ETag = ''a'', p_Size = 8\<rparr>, \<lparr>p_Number = 2, p_ETag = ''b'', p_Size = 3\<rparr>]) = 11"
proof -
  have "verifyParts [\<lparr>p_Number = 2, p_ETag = ''b'', p_Size = 3\<rparr>, \<lparr>p_Number = 1, p_ETag = ''a'', p_Size = 8\<rparr>] 2 8 11
    = Inr [\<lparr>p_Number = 1, p_ETag = ''a'', p_Size = 8\<rparr>, \<lparr>p_Number = 2, p_ETag = ''b'', p_Size = 3\<rparr>]"
    by code_simp
  then show ?thesis using verified_parts_tile by (metis one_le_numeral)
qed

text \<open>
  C25. Uploads arrive whole. An object of any legal size, from one byte to 5 TiB, is cut within the
  provider's limits: the search for the part size ends, parts are between 8 MiB and 1 GiB, there are 1 to
  10000 of them and the object ends inside the last one. Parts that pass verification against that plan
  tile the object: they are the parts numbered 1 to the count, in order, each one held by the store, all
  but the last exactly one part size long, and together as long as declared. A store that holds every
  part with its wanted size is never refused.
\<close>

theorem upload_parts_whole:
  assumes "0 < n" "n \<le> MaxUploadBytes" "p = PartSizeFor n" "c = go_quot (n + p - 1) p"
  shows "minPartSize \<le> p \<and> p \<le> 2 ^ 30 \<and> 1 \<le> c \<and> c \<le> maxParts \<and> (c - 1) * p < n \<and> n \<le> c * p \<and>
    (\<forall>held parts. verifyParts held c p n = Inr parts \<longrightarrow>
      map p_Number parts = [1..c] \<and> set parts \<subseteq> set held \<and>
      (\<forall>x \<in> set parts. p_Number x < c \<longrightarrow> p_Size x = p) \<and> sum_list (map p_Size parts) = n) \<and>
    (\<forall>held. (\<forall>i \<in> {1..c}. \<exists>x. by_number held i = Some x \<and> p_Size x = wanted c p n i) \<longrightarrow>
      (\<exists>ps. verifyParts held c p n = Inr ps))"
  using part_plan_within_limits [OF assms] verified_parts_tile [of c] by blast

theorem upload_parts_whole_witness:
  "sum_list (map p_Size [\<lparr>p_Number = 1, p_ETag = ''a'', p_Size = 11\<rparr>]) = 11 \<and> PartSizeFor 11 \<le> 2 ^ 30"
proof -
  have "PartSizeFor 11 = minPartSize" by (simp add: PartSizeFor_def part_loop.simps minPartSize_def maxParts_def go_quot_def)
  moreover have "go_quot (11 + minPartSize - 1) minPartSize = 1" by (simp add: minPartSize_def go_quot_def)
  moreover have "verifyParts [\<lparr>p_Number = 1, p_ETag = ''a'', p_Size = 11\<rparr>] 1 minPartSize 11 = Inr [\<lparr>p_Number = 1, p_ETag = ''a'', p_Size = 11\<rparr>]"
    by (simp add: verifyParts_def by_number_def wanted_def)
  ultimately show ?thesis using upload_parts_whole [of 11 minPartSize 1] by (simp add: MaxUploadBytes_def)
qed

end
