(* ===== verification/Probe_Parse.thy ===== *)
theory Probe_Parse
  imports Go_Json
begin

text \<open>
  Reading the inspection tool's output, \<open>internal/probe/parse.go\<close>: the tool's JSON, decoded with the
  rules of \<open>json.Unmarshal\<close>, becomes the media tracks the rest of the system plans with.
\<close>

section \<open>Vocabulary\<close>

definition KindVideo :: string where "KindVideo = ''video''"
definition KindAudio :: string where "KindAudio = ''audio''"
definition KindSubtitle :: string where "KindSubtitle = ''subtitle''"
definition KindData :: string where "KindData = ''data''"

definition HDRNone :: string where "HDRNone = ''sdr''"
definition HDR10 :: string where "HDR10 = ''hdr10''"
definition HLG :: string where "HLG = ''hlg''"
definition HDR10Plus :: string where "HDR10Plus = ''hdr10plus''"
definition DolbyVision :: string where "DolbyVision = ''dolby_vision''"

lemmas kind_defs = KindVideo_def KindAudio_def KindSubtitle_def KindData_def
lemmas hdr_defs = HDRNone_def HDR10_def HLG_def HDR10Plus_def DolbyVision_def

record Track =
  tr_Kind :: string
  tr_StreamIndex :: int
  tr_Codec :: string
  tr_DurationMS :: int
  tr_BitrateBPS :: int
  tr_Language :: string
  tr_Title :: string
  tr_IsDefault :: bool
  tr_IsForced :: bool
  tr_Role :: string
  tr_Width :: int
  tr_Height :: int
  tr_FPSNum :: int
  tr_FPSDen :: int
  tr_IsVFR :: bool
  tr_PixelFmt :: string
  tr_BitDepth :: int
  tr_Rotation :: int
  tr_ColorPrimaries :: string
  tr_ColorTransfer :: string
  tr_ColorMatrix :: string
  tr_ColorRange :: string
  tr_HDRFormat :: string
  tr_MasteringDisplay :: "json option"
  tr_ContentLight :: "json option"
  tr_Channels :: int
  tr_ChannelLayout :: string
  tr_SampleRateHz :: int
  tr_SubtitleFormat :: string

record ProbeResult =
  pr_Container :: string
  pr_DurationMS :: int
  pr_BitrateBPS :: int
  pr_SizeBytes :: int
  pr_Tracks :: "Track list"

record ffprobeStream =
  fs_Index :: int
  fs_CodecType :: string
  fs_CodecName :: string
  fs_Duration :: string
  fs_BitRate :: string
  fs_Width :: int
  fs_Height :: int
  fs_RFrameRate :: string
  fs_AvgFrameRate :: string
  fs_PixFmt :: string
  fs_BitsPerRawSample :: string
  fs_ColorPrimaries :: string
  fs_ColorTransfer :: string
  fs_ColorSpace :: string
  fs_ColorRange :: string
  fs_Channels :: int
  fs_ChannelLayout :: string
  fs_SampleRate :: string
  fs_Disposition :: "string \<Rightarrow> int option"
  fs_Tags :: "string \<Rightarrow> string option"
  fs_SideDataList :: "json list"

record ffprobeOutput =
  fo_FormatName :: string
  fo_Duration :: string
  fo_BitRate :: string
  fo_Size :: string
  fo_Streams :: "ffprobeStream list"

section \<open>Decoding the tool's JSON\<close>

definition stream_strings :: "string list" where
  "stream_strings = [''codec_type'', ''codec_name'', ''duration'', ''bit_rate'', ''r_frame_rate'',
     ''avg_frame_rate'', ''pix_fmt'', ''bits_per_raw_sample'', ''color_primaries'', ''color_transfer'',
     ''color_space'', ''color_range'', ''channel_layout'', ''sample_rate'']"

definition stream_typed :: "json \<Rightarrow> bool" where
  "stream_typed j \<longleftrightarrow> is_obj j \<and>
     list_all (\<lambda>k. is_str (json_field k (members j))) stream_strings \<and>
     list_all (\<lambda>k. is_int64 (json_field k (members j))) [''index'', ''width'', ''height'', ''channels''] \<and>
     is_obj (json_field ''disposition'' (members j)) \<and>
     list_all (\<lambda>(k, v). is_int64 v) (members (json_field ''disposition'' (members j))) \<and>
     is_obj (json_field ''tags'' (members j)) \<and>
     list_all (\<lambda>(k, v). is_str v) (members (json_field ''tags'' (members j))) \<and>
     is_arr (json_field ''side_data_list'' (members j))"

definition stream_of_json :: "json \<Rightarrow> ffprobeStream" where
  "stream_of_json j =
     (let str = (\<lambda>k. as_str (json_field k (members j))); num = (\<lambda>k. as_int (json_field k (members j))) in
      \<lparr>fs_Index = num ''index'', fs_CodecType = str ''codec_type'', fs_CodecName = str ''codec_name'',
       fs_Duration = str ''duration'', fs_BitRate = str ''bit_rate'', fs_Width = num ''width'',
       fs_Height = num ''height'', fs_RFrameRate = str ''r_frame_rate'',
       fs_AvgFrameRate = str ''avg_frame_rate'', fs_PixFmt = str ''pix_fmt'',
       fs_BitsPerRawSample = str ''bits_per_raw_sample'', fs_ColorPrimaries = str ''color_primaries'',
       fs_ColorTransfer = str ''color_transfer'', fs_ColorSpace = str ''color_space'',
       fs_ColorRange = str ''color_range'', fs_Channels = num ''channels'',
       fs_ChannelLayout = str ''channel_layout'', fs_SampleRate = str ''sample_rate'',
       fs_Disposition = as_map as_int (json_field ''disposition'' (members j)),
       fs_Tags = as_map as_str (json_field ''tags'' (members j)),
       fs_SideDataList = elements (json_field ''side_data_list'' (members j))\<rparr>)"

definition output_typed :: "json \<Rightarrow> bool" where
  "output_typed j \<longleftrightarrow> is_obj j \<and> is_obj (json_field ''format'' (members j)) \<and>
     list_all (\<lambda>k. is_str (json_field k (members (json_field ''format'' (members j)))))
       [''format_name'', ''duration'', ''bit_rate'', ''size''] \<and>
     is_arr (json_field ''streams'' (members j)) \<and>
     list_all stream_typed (elements (json_field ''streams'' (members j)))"

definition output_of_json :: "json \<Rightarrow> ffprobeOutput" where
  "output_of_json j =
     (let str = (\<lambda>k. as_str (json_field k (members (json_field ''format'' (members j))))) in
      \<lparr>fo_FormatName = str ''format_name'', fo_Duration = str ''duration'', fo_BitRate = str ''bit_rate'',
       fo_Size = str ''size'',
       fo_Streams = map stream_of_json (elements (json_field ''streams'' (members j)))\<rparr>)"

section \<open>Fields\<close>

definition probe_get :: "(string \<Rightarrow> string option) \<Rightarrow> string \<Rightarrow> string" where
  "probe_get m k = (case m k of None \<Rightarrow> [] | Some v \<Rightarrow> v)"

definition probe_flag :: "(string \<Rightarrow> int option) \<Rightarrow> string \<Rightarrow> bool" where
  "probe_flag m k \<longleftrightarrow> m k = Some 1"

definition parseInt :: "string \<Rightarrow> int" where
  "parseInt s = (case ParseInt64 (TrimSpace s) of None \<Rightarrow> 0 | Some n \<Rightarrow> n)"

definition secondsToMS :: "string \<Rightarrow> int" where
  "secondsToMS s =
     (case ParseFloat (TrimSpace s) of
        None \<Rightarrow> 0
      | Some (Finite f) \<Rightarrow> if f < 0 then 0 else int64_of_float (Finite (f64 (f * 1000)))
      | Some (Infinity True) \<Rightarrow> 0
      | Some f \<Rightarrow> int64_of_float f)"

definition parseRational :: "string \<Rightarrow> int \<times> int" where
  "parseRational s =
     (case go_Cut s ''/'' of
        (n, d, found) \<Rightarrow>
          if \<not> found then (0, 0)
          else if Atoi_value d = 0 then (0, 0)
          else (Atoi_value n, Atoi_value d))"

definition isVFR :: "string \<Rightarrow> string \<Rightarrow> bool" where
  "isVFR nominal average =
     (let (nn, nd) = parseRational nominal; (an, ad) = parseRational average in
      if nd = 0 \<or> ad = 0 \<or> an = 0 then False
      else let nominalFPS = f64 (f64 (of_int nn) / f64 (of_int nd));
               averageFPS = f64 (f64 (of_int an) / f64 (of_int ad)) in
      if nominalFPS = 0 then False
      else let diff = f64 (f64 (nominalFPS - averageFPS) / nominalFPS) in
        diff > f64 (2 / 100) \<or> diff < - f64 (2 / 100))"

definition normaliseLanguage :: "string \<Rightarrow> string" where
  "normaliseLanguage s =
     (let s' = TrimSpace (ToLower s) in
      if s' = ''und'' \<or> s' = ''unknown'' \<or> s' = ''none'' then [] else s')"

definition rotationOf :: "(string \<Rightarrow> string option) \<Rightarrow> int" where
  "rotationOf tags = Atoi_value (TrimSpace (probe_get tags ''rotate''))"

definition bitDepth :: "ffprobeStream \<Rightarrow> int" where
  "bitDepth s =
     (let n = parseInt (fs_BitsPerRawSample s) in
      if n > 0 then n
      else if go_Contains (fs_PixFmt s) ''12le'' \<or> go_Contains (fs_PixFmt s) ''12be'' then 12
      else if go_Contains (fs_PixFmt s) ''10le'' \<or> go_Contains (fs_PixFmt s) ''10be'' then 10
      else if fs_PixFmt s \<noteq> [] then 8
      else 0)"

definition roleOf :: "(string \<Rightarrow> int option) \<Rightarrow> string" where
  "roleOf d =
     (if probe_flag d ''comment'' then ''commentary''
      else if probe_flag d ''visual_impaired'' \<or> probe_flag d ''descriptions'' then ''description''
      else if probe_flag d ''hearing_impaired'' then ''captions''
      else if probe_flag d ''dub'' then ''dub''
      else [])"

definition kindOf :: "string \<Rightarrow> string" where
  "kindOf codecType =
     (if codecType = ''video'' then KindVideo
      else if codecType = ''audio'' then KindAudio
      else if codecType = ''subtitle'' then KindSubtitle
      else KindData)"

definition normaliseSideData :: "string \<Rightarrow> string" where
  "normaliseSideData s = ToLower (TrimSpace s)"

section \<open>High dynamic range\<close>

text \<open>
  The type of a side-data entry; \<open>None\<close> is the entry that does not decode and is skipped.
\<close>

definition side_data_type :: "json \<Rightarrow> string option" where
  "side_data_type sd =
     (if is_obj sd \<and> is_str (json_field ''side_data_type'' (members sd))
      then Some (as_str (json_field ''side_data_type'' (members sd))) else None)"

definition hdr_step :: "string \<times> json option \<times> json option \<Rightarrow> json \<Rightarrow> string \<times> json option \<times> json option" where
  "hdr_step acc sd =
     (case acc of (format, mastering, contentLight) \<Rightarrow>
        (case side_data_type sd of
          None \<Rightarrow> acc
        | Some ty \<Rightarrow>
            let kind = normaliseSideData ty in
            if kind = ''mastering display metadata''
            then (if format = HDRNone then HDR10 else format, Some sd, contentLight)
            else if kind = ''content light level metadata''
            then (if format = HDRNone then HDR10 else format, mastering, Some sd)
            else if kind = ''hdr dynamic metadata smpte2094-40'' then (HDR10Plus, mastering, contentLight)
            else if kind = ''dovi configuration record'' then (DolbyVision, mastering, contentLight)
            else acc))"

definition hdr_of_transfer :: "string \<Rightarrow> string" where
  "hdr_of_transfer transfer =
     (let t = ToLower transfer in
      if t = ''smpte2084'' \<or> t = ''smpte st 2084'' then HDR10
      else if t = ''arib-std-b67'' then HLG else HDRNone)"

definition detectHDR :: "ffprobeStream \<Rightarrow> string \<times> json option \<times> json option" where
  "detectHDR s = foldl hdr_step (hdr_of_transfer (fs_ColorTransfer s), None, None) (fs_SideDataList s)"

section \<open>Tracks\<close>

definition base_track :: "ffprobeStream \<Rightarrow> Track" where
  "base_track s =
     \<lparr>tr_Kind = kindOf (fs_CodecType s), tr_StreamIndex = fs_Index s, tr_Codec = fs_CodecName s,
      tr_DurationMS = secondsToMS (fs_Duration s), tr_BitrateBPS = parseInt (fs_BitRate s),
      tr_Language = normaliseLanguage (probe_get (fs_Tags s) ''language''),
      tr_Title = probe_get (fs_Tags s) ''title'',
      tr_IsDefault = probe_flag (fs_Disposition s) ''default'',
      tr_IsForced = probe_flag (fs_Disposition s) ''forced'', tr_Role = roleOf (fs_Disposition s),
      tr_Width = 0, tr_Height = 0, tr_FPSNum = 0, tr_FPSDen = 0, tr_IsVFR = False, tr_PixelFmt = [],
      tr_BitDepth = 0, tr_Rotation = 0, tr_ColorPrimaries = [], tr_ColorTransfer = [],
      tr_ColorMatrix = [], tr_ColorRange = [], tr_HDRFormat = [], tr_MasteringDisplay = None,
      tr_ContentLight = None, tr_Channels = 0, tr_ChannelLayout = [], tr_SampleRateHz = 0,
      tr_SubtitleFormat = []\<rparr>"

definition parseStream :: "ffprobeStream \<Rightarrow> Track" where
  "parseStream s =
     (let t = base_track s in
      if tr_Kind t = KindVideo
      then (case detectHDR s of (hdr, mastering, light) \<Rightarrow>
        t\<lparr>tr_Width := fs_Width s, tr_Height := fs_Height s, tr_PixelFmt := fs_PixFmt s,
          tr_BitDepth := bitDepth s, tr_FPSNum := fst (parseRational (fs_RFrameRate s)),
          tr_FPSDen := snd (parseRational (fs_RFrameRate s)),
          tr_IsVFR := isVFR (fs_RFrameRate s) (fs_AvgFrameRate s), tr_Rotation := rotationOf (fs_Tags s),
          tr_ColorPrimaries := fs_ColorPrimaries s, tr_ColorTransfer := fs_ColorTransfer s,
          tr_ColorMatrix := fs_ColorSpace s, tr_ColorRange := fs_ColorRange s,
          tr_HDRFormat := hdr, tr_MasteringDisplay := mastering, tr_ContentLight := light\<rparr>)
      else if tr_Kind t = KindAudio
      then t\<lparr>tr_Channels := fs_Channels s, tr_ChannelLayout := fs_ChannelLayout s,
             tr_SampleRateHz := parseInt (fs_SampleRate s)\<rparr>
      else if tr_Kind t = KindSubtitle then t\<lparr>tr_SubtitleFormat := fs_CodecName s\<rparr>
      else t)"

text \<open>\<open>raw\<close> is the decoded text, \<open>None\<close> when it is not JSON at all.\<close>

definition probe_Parse :: "json option \<Rightarrow> ProbeResult option" where
  "probe_Parse raw =
     (case raw of
        None \<Rightarrow> None
      | Some j \<Rightarrow>
          if \<not> output_typed j then None
          else let out = output_of_json j in
            Some \<lparr>pr_Container = fo_FormatName out, pr_DurationMS = secondsToMS (fo_Duration out),
                  pr_BitrateBPS = parseInt (fo_BitRate out), pr_SizeBytes = parseInt (fo_Size out),
                  pr_Tracks = map parseStream (fo_Streams out)\<rparr>)"

end
