(* ===== verification/Probe_Store.thy ===== *)
theory Probe_Store
  imports Media_Store Probe_Parse
begin

text \<open>
  Storing what the probe found, \<open>internal/probe/store.go\<close>. The numeric columns of \<open>tracks\<close> other
  than durations and bitrates are 32 bits wide, so a value that does not fit fails the insert.
\<close>

section \<open>Nullable columns\<close>

definition probe_nullable :: "string \<Rightarrow> string option" where
  "probe_nullable s = (if s = [] then None else Some s)"

definition nullZero :: "int \<Rightarrow> int option" where
  "nullZero n = (if n = 0 then None else Some n)"

definition deref :: "string option \<Rightarrow> string" where
  "deref s = (case s of None \<Rightarrow> [] | Some v \<Rightarrow> v)"

definition derefInt :: "int option \<Rightarrow> int" where
  "derefInt n = (case n of None \<Rightarrow> 0 | Some v \<Rightarrow> v)"

lemma deref_nullable [simp]: "deref (probe_nullable s) = s"
  by (simp add: deref_def probe_nullable_def)

lemma deref_nullZero [simp]: "derefInt (nullZero n) = n"
  by (simp add: derefInt_def nullZero_def)

section \<open>Writing\<close>

datatype probe_error = ProbeNotFound | ProbeParseError | ProbeRangeError int | ProbeDb db_error

definition int4 :: "int \<Rightarrow> bool" where
  "int4 n \<longleftrightarrow> - (2 ^ 31) \<le> n \<and> n < 2 ^ 31"

definition track_fits :: "Track \<Rightarrow> bool" where
  "track_fits t \<longleftrightarrow> list_all int4 [tr_StreamIndex t, tr_Width t, tr_Height t, tr_FPSNum t, tr_FPSDen t,
     tr_BitDepth t, tr_Rotation t, tr_Channels t, tr_SampleRateHz t]"

definition track_row_of :: "uuid \<Rightarrow> uuid \<Rightarrow> uuid \<Rightarrow> uuid \<Rightarrow> Track \<Rightarrow> track_row" where
  "track_row_of rowID tenantID versionID probeID t =
     \<lparr>tk_id = rowID, tk_tenant = tenantID, tk_version = versionID, tk_probe = probeID,
      tk_kind = tr_Kind t, tk_stream_index = tr_StreamIndex t, tk_codec = probe_nullable (tr_Codec t),
      tk_duration = nullZero (tr_DurationMS t), tk_bitrate = nullZero (tr_BitrateBPS t),
      tk_language = probe_nullable (tr_Language t), tk_title = probe_nullable (tr_Title t),
      tk_default = tr_IsDefault t, tk_forced = tr_IsForced t, tk_role = probe_nullable (tr_Role t),
      tk_width = nullZero (tr_Width t), tk_height = nullZero (tr_Height t),
      tk_fps_num = nullZero (tr_FPSNum t), tk_fps_den = nullZero (tr_FPSDen t), tk_vfr = tr_IsVFR t,
      tk_pixel_format = probe_nullable (tr_PixelFmt t), tk_bit_depth = nullZero (tr_BitDepth t),
      tk_rotation = tr_Rotation t, tk_primaries = probe_nullable (tr_ColorPrimaries t),
      tk_transfer = probe_nullable (tr_ColorTransfer t), tk_matrix = probe_nullable (tr_ColorMatrix t),
      tk_range = probe_nullable (tr_ColorRange t), tk_hdr = probe_nullable (tr_HDRFormat t),
      tk_mastering = tr_MasteringDisplay t, tk_light = tr_ContentLight t,
      tk_channels = nullZero (tr_Channels t), tk_layout = probe_nullable (tr_ChannelLayout t),
      tk_sample_rate = nullZero (tr_SampleRateHz t), tk_subtitle = probe_nullable (tr_SubtitleFormat t)\<rparr>"

definition hdr_formats :: "string list" where
  "hdr_formats = [HDRNone, HDR10, HLG, HDR10Plus, DolbyVision]"

definition insert_track :: "track_row \<Rightarrow> media_db \<Rightarrow> db_error + media_db" where
  "insert_track r db =
     (if list_ex (\<lambda>t. tk_id t = tk_id r) (m_tracks db) then Inl (UniqueViolation ''tracks_pkey'')
      else if list_ex (\<lambda>t. tk_version t = tk_version r \<and> tk_stream_index t = tk_stream_index r) (m_tracks db)
      then Inl (UniqueViolation ''tracks_asset_version_id_stream_index_key'')
      else if \<not> List.member [KindVideo, KindAudio, KindSubtitle, KindData] (tk_kind r)
      then Inl (OtherViolation ''tracks_kind_check'')
      else if (case tk_hdr r of None \<Rightarrow> False | Some h \<Rightarrow> \<not> List.member hdr_formats h)
      then Inl (OtherViolation ''tracks_hdr_format_check'')
      else Inr (db\<lparr>m_tracks := m_tracks db @ [r]\<rparr>))"

fun record_tracks ::
  "(nat \<Rightarrow> uuid) \<Rightarrow> uuid \<Rightarrow> uuid \<Rightarrow> uuid \<Rightarrow> nat \<Rightarrow> Track list \<Rightarrow> media_db \<Rightarrow> probe_error + media_db" where
  "record_tracks fresh tenantID versionID probeID i [] db = Inr db"
| "record_tracks fresh tenantID versionID probeID i (t # ts) db =
     (if \<not> track_fits t then Inl (ProbeRangeError (tr_StreamIndex t))
      else case insert_track (track_row_of (fresh i) tenantID versionID probeID t) db of
        Inl e \<Rightarrow> Inl (ProbeDb e)
      | Inr db1 \<Rightarrow> record_tracks fresh tenantID versionID probeID (Suc i) ts db1)"

definition insert_probe :: "probe_row \<Rightarrow> media_db \<Rightarrow> db_error + media_db" where
  "insert_probe r db =
     (if list_ex (\<lambda>p. pb_id p = pb_id r) (m_probes db) then Inl (UniqueViolation ''probes_pkey'')
      else if list_ex (\<lambda>p. pb_version p = pb_version r) (m_probes db)
      then Inl (UniqueViolation ''probes_asset_version_id_key'')
      else if \<not> list_ex (\<lambda>v. vr_id v = pb_version r) (m_versions db)
      then Inl (OtherViolation ''probes_asset_version_id_fkey'')
      else Inr (db\<lparr>m_probes := m_probes db @ [r]\<rparr>))"

text \<open>Deleting a probe deletes its tracks (\<open>on delete cascade\<close>).\<close>

definition delete_probe :: "uuid \<Rightarrow> uuid \<Rightarrow> media_db \<Rightarrow> media_db" where
  "delete_probe tenantID versionID db =
     (let gone = (\<lambda>p. pb_version p = versionID \<and> pb_tenant p = tenantID) in
      db\<lparr>m_probes := filter (\<lambda>p. \<not> gone p) (m_probes db),
         m_tracks := filter (\<lambda>t. \<not> list_ex (\<lambda>p. gone p \<and> pb_id p = tk_probe t) (m_probes db)) (m_tracks db)\<rparr>)"

definition probe_row_of :: "uuid \<Rightarrow> uuid \<Rightarrow> uuid \<Rightarrow> json \<Rightarrow> ProbeResult \<Rightarrow> probe_row" where
  "probe_row_of probeID tenantID versionID raw res =
     \<lparr>pb_id = probeID, pb_tenant = tenantID, pb_version = versionID,
      pb_container = probe_nullable (pr_Container res), pb_duration = nullZero (pr_DurationMS res),
      pb_bitrate = nullZero (pr_BitrateBPS res), pb_size = nullZero (pr_SizeBytes res), pb_raw = raw\<rparr>"

definition mark_version_ready :: "uuid \<Rightarrow> uuid \<Rightarrow> media_db \<Rightarrow> media_db" where
  "mark_version_ready tenantID versionID db =
     db\<lparr>m_versions := sql_update (\<lambda>v. vr_id v = versionID \<and> vr_tenant v = tenantID)
          (\<lambda>v. v\<lparr>vr_status := ''ready''\<rparr>) (m_versions db)\<rparr>"

text \<open>
  \<open>Record\<close>: \<open>fresh 0\<close> is the probe's identifier, \<open>fresh 1\<close> onwards those of its tracks. \<open>raw\<close> is the
  decoded text, \<open>None\<close> when it is not JSON.
\<close>

definition probe_Record ::
  "(nat \<Rightarrow> uuid) \<Rightarrow> media_db \<Rightarrow> uuid \<Rightarrow> uuid \<Rightarrow> json option \<Rightarrow> probe_error + (media_db \<times> ProbeResult)" where
  "probe_Record fresh db tenantID versionID raw =
     (case probe_Parse raw of
        None \<Rightarrow> Inl ProbeParseError
      | Some res \<Rightarrow>
          (case insert_probe (probe_row_of (fresh 0) tenantID versionID (the raw) res)
                  (delete_probe tenantID versionID db) of
             Inl e \<Rightarrow> Inl (ProbeDb e)
           | Inr db1 \<Rightarrow>
               (case record_tracks fresh tenantID versionID (fresh 0) 1 (pr_Tracks res) db1 of
                  Inl e \<Rightarrow> Inl e
                | Inr db2 \<Rightarrow> Inr (mark_version_ready tenantID versionID db2, res))))"

section \<open>Reading\<close>

definition scan_track :: "track_row \<Rightarrow> Track" where
  "scan_track r =
     \<lparr>tr_Kind = tk_kind r, tr_StreamIndex = tk_stream_index r, tr_Codec = deref (tk_codec r),
      tr_DurationMS = derefInt (tk_duration r), tr_BitrateBPS = derefInt (tk_bitrate r),
      tr_Language = deref (tk_language r), tr_Title = deref (tk_title r),
      tr_IsDefault = tk_default r, tr_IsForced = tk_forced r, tr_Role = deref (tk_role r),
      tr_Width = derefInt (tk_width r), tr_Height = derefInt (tk_height r),
      tr_FPSNum = derefInt (tk_fps_num r), tr_FPSDen = derefInt (tk_fps_den r), tr_IsVFR = tk_vfr r,
      tr_PixelFmt = deref (tk_pixel_format r), tr_BitDepth = derefInt (tk_bit_depth r),
      tr_Rotation = tk_rotation r, tr_ColorPrimaries = deref (tk_primaries r),
      tr_ColorTransfer = deref (tk_transfer r), tr_ColorMatrix = deref (tk_matrix r),
      tr_ColorRange = deref (tk_range r), tr_HDRFormat = deref (tk_hdr r),
      tr_MasteringDisplay = None, tr_ContentLight = None, tr_Channels = derefInt (tk_channels r),
      tr_ChannelLayout = deref (tk_layout r), tr_SampleRateHz = derefInt (tk_sample_rate r),
      tr_SubtitleFormat = deref (tk_subtitle r)\<rparr>"

definition probe_Tracks :: "media_db \<Rightarrow> uuid \<Rightarrow> uuid \<Rightarrow> Track list" where
  "probe_Tracks db tenantID versionID =
     map scan_track (sort_key tk_stream_index
       (filter (\<lambda>t. tk_version t = versionID \<and> tk_tenant t = tenantID) (m_tracks db)))"

definition probe_Get :: "media_db \<Rightarrow> uuid \<Rightarrow> uuid \<Rightarrow> probe_error + ProbeResult" where
  "probe_Get db tenantID versionID =
     (case sql_find (\<lambda>p. pb_version p = versionID \<and> pb_tenant p = tenantID) (m_probes db) of
        None \<Rightarrow> Inl ProbeNotFound
      | Some p \<Rightarrow> Inr \<lparr>pr_Container = deref (pb_container p), pr_DurationMS = derefInt (pb_duration p),
          pr_BitrateBPS = derefInt (pb_bitrate p), pr_SizeBytes = derefInt (pb_size p),
          pr_Tracks = probe_Tracks db tenantID versionID\<rparr>)"

end
