(* ===== verification/Media_Invariant.thy ===== *)
theory Media_Invariant
  imports Upload_Parts Probe_Store
begin

text \<open>
  The media tables as a transition system: assets are created, uploads opened, completed and
  aborted, probes recorded, while the object store changes on its own between two steps. The
  invariant ties every source to the completed upload it came from.
\<close>

section \<open>The invariant\<close>

definition media_ids_ok :: "media_db \<Rightarrow> bool" where
  "media_ids_ok db \<longleftrightarrow> distinct (map ar_id (m_assets db)) \<and> distinct (map vr_id (m_versions db)) \<and>
     distinct (map sr_id (m_sources db)) \<and> distinct (map sr_version (m_sources db)) \<and>
     distinct (map ur_id (m_uploads db)) \<and> distinct (map pb_id (m_probes db)) \<and>
     distinct (map pb_version (m_probes db)) \<and> distinct (map tk_id (m_tracks db))"

definition upload_shape :: "upload_row \<Rightarrow> bool" where
  "upload_shape u \<longleftrightarrow> 0 < ur_size u \<and> ur_size u \<le> MaxUploadBytes \<and> ur_part_size u = PartSizeFor (ur_size u) \<and>
     ur_part_count u = go_quot (ur_size u + ur_part_size u - 1) (ur_part_size u) \<and>
     ur_status u \<in> {''in_progress'', ''completed'', ''aborted''}"

definition source_from :: "source_row \<Rightarrow> upload_row \<Rightarrow> bool" where
  "source_from s u \<longleftrightarrow> ur_status u = ''completed'' \<and> ur_version u = sr_version s \<and> ur_tenant u = sr_tenant s \<and>
     sr_key s = Some (ur_key u) \<and> sr_size s = Some (ur_size u) \<and> sr_origin s = ''managed'' \<and>
     sr_verified s \<noteq> None"

definition media_inv :: "media_db \<Rightarrow> bool" where
  "media_inv db \<longleftrightarrow> media_ids_ok db \<and> (\<forall>u \<in> set (m_uploads db). upload_shape u) \<and>
     (\<forall>s \<in> set (m_sources db). \<exists>u \<in> set (m_uploads db). source_from s u) \<and>
     (\<forall>u \<in> set (m_uploads db). ur_status u = ''completed'' \<longrightarrow> (\<exists>s \<in> set (m_sources db). source_from s u)) \<and>
     (\<forall>t \<in> set (m_tracks db). \<exists>p \<in> set (m_probes db).
        pb_id p = tk_probe t \<and> pb_version p = tk_version t \<and> pb_tenant p = tk_tenant t)"

section \<open>Assets and probes keep it\<close>

lemma asset_Create_inv:
  assumes "media_inv db" "asset_Create now fresh db t e n l = Inr (db', a, v)"
  shows "media_inv db'"
  using assms
  by (auto simp: asset_Create_def insert_asset_def insert_version_def media_inv_def media_ids_ok_def Let_def
      key_present split: sum.splits if_splits)

lemma delete_probe_inv: "media_inv db \<Longrightarrow> media_inv (delete_probe t v db)"
proof -
  assume inv: "media_inv db"
  have "media_ids_ok (delete_probe t v db)"
    using inv by (auto simp: media_inv_def media_ids_ok_def delete_probe_def Let_def distinct_map_filter)
  moreover have "\<exists>p \<in> set (m_probes (delete_probe t v db)).
      pb_id p = tk_probe k \<and> pb_version p = tk_version k \<and> pb_tenant p = tk_tenant k"
    if k: "k \<in> set (m_tracks (delete_probe t v db))" for k
  proof -
    have "k \<in> set (m_tracks db)" using k by (simp add: delete_probe_def Let_def)
    then obtain p where "p \<in> set (m_probes db)" "pb_id p = tk_probe k" "pb_version p = tk_version k" "pb_tenant p = tk_tenant k"
      using inv by (auto simp: media_inv_def)
    then show ?thesis using k by (auto simp: delete_probe_def Let_def list_ex_iff)
  qed
  ultimately show ?thesis using inv by (auto simp: media_inv_def delete_probe_def Let_def)
qed

lemma insert_probe_inv:
  assumes "media_inv db" "insert_probe r db = Inr db'"
  shows "media_inv db'"
  using assms by (auto simp: insert_probe_def media_inv_def media_ids_ok_def key_present split: if_splits)

lemma insert_track_inv:
  assumes "media_inv db" "insert_track r db = Inr db'"
    and "\<exists>p \<in> set (m_probes db). pb_id p = tk_probe r \<and> pb_version p = tk_version r \<and> pb_tenant p = tk_tenant r"
  shows "media_inv db' \<and> m_probes db' = m_probes db"
  using assms by (auto simp: insert_track_def media_inv_def media_ids_ok_def key_present split: if_splits)

lemma record_tracks_inv:
  assumes "record_tracks fresh t v pid i ts db = Inr db'" "media_inv db"
    and "\<exists>p \<in> set (m_probes db). pb_id p = pid \<and> pb_version p = v \<and> pb_tenant p = t"
  shows "media_inv db'"
  using assms
proof (induction ts arbitrary: i db)
  case (Cons x ts)
  then obtain db1 where db1: "insert_track (track_row_of (fresh i) t v pid x) db = Inr db1"
    "record_tracks fresh t v pid (Suc i) ts db1 = Inr db'"
    by (auto split: if_splits sum.splits)
  have "\<exists>p \<in> set (m_probes db). pb_id p = tk_probe (track_row_of (fresh i) t v pid x) \<and>
      pb_version p = tk_version (track_row_of (fresh i) t v pid x) \<and>
      pb_tenant p = tk_tenant (track_row_of (fresh i) t v pid x)"
    using Cons.prems(3) by (simp add: track_row_of_def)
  from insert_track_inv [OF Cons.prems(2) db1(1) this]
  show ?case using Cons.IH [OF db1(2)] Cons.prems(3) by simp
qed simp

lemma mark_version_ready_inv: "media_inv db \<Longrightarrow> media_inv (mark_version_ready t v db)"
  by (simp add: mark_version_ready_def media_inv_def media_ids_ok_def map_sql_update_same)

lemma probe_Record_inv:
  assumes "media_inv db" "probe_Record fresh db t v raw = Inr (db', res)"
  shows "media_inv db'"
proof -
  obtain r db1 db2 where
    r: "insert_probe (probe_row_of (fresh 0) t v (the raw) r) (delete_probe t v db) = Inr db1"
      "record_tracks fresh t v (fresh 0) 1 (pr_Tracks r) db1 = Inr db2" "db' = mark_version_ready t v db2"
    using assms(2) by (auto simp: probe_Record_def split: option.splits sum.splits)
  have "\<exists>p \<in> set (m_probes db1). pb_id p = fresh 0 \<and> pb_version p = v \<and> pb_tenant p = t"
    using r(1) by (auto simp: insert_probe_def probe_row_of_def split: if_splits)
  then show ?thesis
    using record_tracks_inv [OF r(2)] insert_probe_inv [OF delete_probe_inv [OF assms(1)] r(1)] r(3)
      mark_version_ready_inv by blast
qed

section \<open>Uploads keep it\<close>

lemma upload_Create_row:
  assumes "upload_Create now fresh store st db t v n ct algo chk = (st', db', r)"
  obtains "db' = db" | row where "insert_upload row db = Inr db'" "upload_shape row" "ur_status row = ''in_progress''"
proof (cases "n \<le> 0 \<or> n > MaxUploadBytes")
  case True
  then show thesis using assms that(1) by (auto simp: upload_Create_def split: if_splits)
next
  case False
  obtain st1 c where c: "st_CreateMultipart store st (UploadKey t (fresh 1)) ct = (st1, c)" by fastforce
  show thesis
  proof (cases c)
    case (Inl e)
    then show thesis using assms that(1) c False by (simp add: upload_Create_def Let_def)
  next
    case (Inr uid)
    define row where "row = \<lparr>ur_id = fresh 0, ur_tenant = t, ur_version = v, ur_key = UploadKey t (fresh 1),
      ur_upload_id = uid, ur_size = n, ur_part_size = PartSizeFor n,
      ur_part_count = go_quot (n + PartSizeFor n - 1) (PartSizeFor n),
      ur_content_type = upload_nullable ct, ur_checksum_algo = upload_nullable algo, ur_checksum = chk,
      ur_status = ''in_progress'', ur_expires = now + uploadTTL div 1000, ur_completed = None\<rparr>"
    have row: "upload_shape row" "ur_status row = ''in_progress''"
      using False by (simp_all add: row_def upload_shape_def)
    show thesis
    proof (cases "insert_upload row db")
      case (Inl e)
      then show thesis using assms that(1) c \<open>c = Inr uid\<close> False by (simp add: upload_Create_def Let_def row_def)
    next
      case (Inr db1)
      then have "db' = db1" using assms c \<open>c = Inr uid\<close> False by (simp add: upload_Create_def Let_def row_def)
      then show thesis using that(2) Inr row by blast
    qed
  qed
qed

lemma upload_Create_inv:
  assumes inv: "media_inv db"
    and run: "upload_Create now fresh store st db t v n ct algo chk = (st', db', r)"
  shows "media_inv db'"
  using run
proof (cases rule: upload_Create_row)
  case (2 row)
  then have "db' = db\<lparr>m_uploads := m_uploads db @ [row]\<rparr>" "ur_id row \<notin> ur_id ` set (m_uploads db)"
    by (auto simp: insert_upload_def key_present split: if_splits)
  then show ?thesis using inv 2(2,3) by (auto simp: media_inv_def media_ids_ok_def)
qed (use inv in simp)

text \<open>What a call that promotes an upload did.\<close>

lemma upload_get_row:
  assumes "upload_get db t uid = Inr u"
  obtains r where "r \<in> set (m_uploads db)" "ur_id r = uid" "ur_tenant r = t" "u = scan_upload r"
proof -
  obtain r where r: "sql_find (\<lambda>r. ur_id r = uid \<and> ur_tenant r = t) (m_uploads db) = Some r" "u = scan_upload r"
    using assms by (auto simp: upload_get_def split: option.splits)
  then show thesis using that sql_find_SomeD [OF r(1)] by blast
qed

lemma upload_Complete_cases:
  assumes "upload_Complete now sid store st db t uid = (st', db', r)"
  obtains "db' = db" "\<forall>u. r = Inr u \<longrightarrow> upload_get db t uid = Inr u \<and> up_Status u = ''completed''"
  | u where "upload_get db t uid = Inr u" "up_Status u = ''in_progress''"
      "promote_tx now sid db t u (up_SizeBytes u) = Inr db'" "r = Inr (u\<lparr>up_Status := ''completed''\<rparr>)"
proof (cases "upload_get db t uid")
  case (Inl e)
  then have "db' = db" "r = Inl e" using assms by (simp_all add: upload_Complete_def)
  then show thesis by (intro that(1)) simp_all
next
  case (Inr u)
  then show thesis
  proof (cases "up_Status u = ''in_progress''")
    case False
    then have "db' = db \<and> (r = Inr u \<and> up_Status u = ''completed'' \<or> r = Inl ErrNotOpen)"
      using assms Inr by (auto simp: upload_Complete_def split: if_splits)
    then show thesis using Inr by (intro that(1)) auto
  next
    case True
    then show thesis using assms that Inr unfolding upload_Complete_def
      by (auto split: sum.splits if_splits prod.splits)
  qed
qed


text \<open>A status change of one open upload leaves every source's upload in place.\<close>

lemma upload_update_other:
  assumes "distinct (map ur_id us)" "r \<in> set us" "ur_status r = ''in_progress''"
    and "u \<in> set us" "ur_status u = ''completed''"
  shows "u \<in> set (sql_update (\<lambda>x. ur_id x = ur_id r) f us)"
proof -
  have "u \<noteq> r" using assms(3,5) by auto
  then have "ur_id u \<noteq> ur_id r" using assms(1,2,4) by (auto simp: distinct_map inj_on_def)
  then show ?thesis using sql_updateI [OF assms(4), of "\<lambda>x. ur_id x = ur_id r" f] by simp
qed

lemma promote_tx_found:
  assumes "media_ids_ok db" "r \<in> set (m_uploads db)" "up_ID u = ur_id r"
  shows "promote_tx now sid db t u n =
    (case insert_source (source_of now sid t n r) db of Inl e \<Rightarrow> Inl e | Inr db1 \<Rightarrow> Inr (promote now db1 u))"
proof -
  have "sql_find (\<lambda>x. ur_id x = up_ID u) (m_uploads db) = Some r"
    using assms by (intro sql_find_key [where k = ur_id]) (auto simp: media_ids_ok_def)
  then show ?thesis by (simp add: promote_tx_def)
qed

lemma promote_inv:
  assumes inv: "media_inv db" and get: "upload_get db t uid = Inr u" "up_Status u = ''in_progress''"
    and tx: "promote_tx now sid db t u (up_SizeBytes u) = Inr db'"
  shows "media_inv db'"
proof -
  obtain r where r: "r \<in> set (m_uploads db)" "ur_id r = uid" "ur_tenant r = t" "u = scan_upload r"
    using get(1) by (rule upload_get_row)
  have ids: "media_ids_ok db" using inv by (simp add: media_inv_def)
  let ?src = "source_of now sid t (ur_size r) r"
  let ?done = "r\<lparr>ur_status := ''completed'', ur_completed := Some now\<rparr>"
  let ?up = "sql_update (\<lambda>x. ur_id x = ur_id r) (\<lambda>x. x\<lparr>ur_status := ''completed'', ur_completed := Some now\<rparr>)"
  have st: "ur_status r = ''in_progress''" using get(2) r(4) by (simp add: scan_upload_def)
  obtain db1 where db1: "insert_source ?src db = Inr db1" "db' = promote now db1 u"
    using tx promote_tx_found [OF ids r(1)] r(4) by (auto simp: scan_upload_def split: sum.splits)
  then have ins: "db1 = db\<lparr>m_sources := m_sources db @ [?src]\<rparr>"
    "sr_id ?src \<notin> sr_id ` set (m_sources db)" "sr_version ?src \<notin> sr_version ` set (m_sources db)"
    by (auto simp: insert_source_def list_ex_iff split: if_splits)
  have db': "m_sources db' = m_sources db @ [?src]" "m_uploads db' = ?up (m_uploads db)"
    "m_probes db' = m_probes db" "m_tracks db' = m_tracks db"
    using db1(2) ins(1) r(4) by (simp_all add: promote_def scan_upload_def)
  have ids': "media_ids_ok db'"
    using ids ins(2,3) db1(2) ins(1)
    by (simp add: media_ids_ok_def promote_def map_sql_update_same)
  have fin: "?done \<in> set (m_uploads db')" "source_from ?src ?done"
    using sql_updateI [OF r(1), of "\<lambda>x. ur_id x = ur_id r"] db'(2) r(3)
    by (auto simp: source_from_def source_of_def)
  have shape: "upload_shape x" if xm: "x \<in> set (m_uploads db')" for x
  proof -
    obtain y where "y \<in> set (m_uploads db)"
      "x = (if ur_id y = ur_id r then y\<lparr>ur_status := ''completed'', ur_completed := Some now\<rparr> else y)"
      using xm unfolding db'(2) by (rule sql_updateE)
    then show ?thesis using inv by (auto simp: media_inv_def upload_shape_def)
  qed
  have src: "\<exists>x \<in> set (m_uploads db'). source_from s x" if "s \<in> set (m_sources db')" for s
  proof (cases "s = ?src")
    case False
    then have "s \<in> set (m_sources db)" using that db'(1) by simp
    then obtain x where x: "x \<in> set (m_uploads db)" "source_from s x"
      using inv by (auto simp: media_inv_def)
    then have "x \<in> set (m_uploads db')"
      unfolding db'(2) using ids r(1) st
      by (intro upload_update_other) (auto simp: media_ids_ok_def source_from_def)
    then show ?thesis using x(2) by blast
  qed (use fin in blast)
  have comp: "\<exists>s \<in> set (m_sources db'). source_from s x"
    if x: "x \<in> set (m_uploads db')" "ur_status x = ''completed''" for x
  proof -
    obtain y where y: "y \<in> set (m_uploads db)"
      "x = (if ur_id y = ur_id r then y\<lparr>ur_status := ''completed'', ur_completed := Some now\<rparr> else y)"
      using x(1) unfolding db'(2) by (rule sql_updateE)
    show ?thesis
    proof (cases "ur_id y = ur_id r")
      case True
      then have "y = r" using y(1) r(1) ids by (auto simp: media_ids_ok_def distinct_map inj_on_def)
      then show ?thesis using y(2) fin(2) db'(1) by auto
    next
      case False
      then have "\<exists>s \<in> set (m_sources db). source_from s x" using x(2) y inv by (auto simp: media_inv_def)
      then show ?thesis using db'(1) by auto
    qed
  qed
  show ?thesis using ids' shape src comp db'(3,4) inv by (auto simp: media_inv_def)
qed

lemma upload_Complete_inv:
  assumes "media_inv db" "upload_Complete now sid store st db t uid = (st', db', r)"
  shows "media_inv db'"
  using assms(2)
proof (cases rule: upload_Complete_cases)
  case (2 u)
  then show ?thesis using promote_inv [OF assms(1)] by blast
qed (use assms(1) in simp)

lemma upload_Abort_inv:
  assumes inv: "media_inv db" and run: "upload_Abort store st db t uid = (st', db', r)"
  shows "media_inv db'"
proof (cases "db' = db")
  case False
  then obtain u where u: "upload_get db t uid = Inr u" "up_Status u = ''in_progress''"
    and db': "db' = db\<lparr>m_uploads := sql_update (\<lambda>x. ur_id x = up_ID u) (\<lambda>x. x\<lparr>ur_status := ''aborted''\<rparr>) (m_uploads db)\<rparr>"
    using run by (auto simp: upload_Abort_def split: sum.splits if_splits prod.splits option.splits)
  obtain r where r: "r \<in> set (m_uploads db)" "up_ID u = ur_id r" "ur_status r = ''in_progress''"
    using upload_get_row [OF u(1)] u(2) by (metis scan_upload_def Upload.select_convs(1,6))
  have ids: "media_ids_ok db" using inv by (simp add: media_inv_def)
  have "media_ids_ok db'" using ids db' by (simp add: media_ids_ok_def map_sql_update_same)
  moreover have "\<exists>x \<in> set (m_uploads db'). source_from s x" if s: "s \<in> set (m_sources db)" for s
  proof -
    obtain x where x: "x \<in> set (m_uploads db)" "source_from s x" using s inv by (auto simp: media_inv_def)
    then have "x \<in> set (m_uploads db')"
      using upload_update_other [OF _ r(1,3) x(1)] ids db' r(2) by (simp add: media_ids_ok_def source_from_def)
    then show ?thesis using x(2) by blast
  qed
  moreover have "upload_shape x \<and> (ur_status x = ''completed'' \<longrightarrow> x \<in> set (m_uploads db))"
    if x: "x \<in> set (m_uploads db')" for x
  proof -
    obtain y where "y \<in> set (m_uploads db)" "x = (if ur_id y = up_ID u then y\<lparr>ur_status := ''aborted''\<rparr> else y)"
      using x db' by (auto elim: sql_updateE)
    then show ?thesis using inv by (auto simp: media_inv_def upload_shape_def)
  qed
  ultimately show ?thesis using inv db' by (auto simp: media_inv_def)
qed (use inv in simp)

section \<open>The transition system\<close>

inductive media_step :: "'st Store \<Rightarrow> 'st \<times> media_db \<Rightarrow> 'st \<times> media_db \<Rightarrow> bool" for store where
  step_store: "media_step store (st, db) (st', db)"
| step_asset: "asset_Create now fresh db t e n l = Inr (db', a, v) \<Longrightarrow> media_step store (st, db) (st, db')"
| step_create: "upload_Create now fresh store st db t v n ct algo chk = (st', db', r) \<Longrightarrow>
    media_step store (st, db) (st', db')"
| step_complete: "upload_Complete now sid store st db t uid = (st', db', r') \<Longrightarrow> media_step store (st, db) (st', db')"
| step_abort: "upload_Abort store st db t uid = (st', db', r'') \<Longrightarrow> media_step store (st, db) (st', db')"
| step_probe: "probe_Record fresh db t v raw = Inr (db', res) \<Longrightarrow> media_step store (st, db) (st, db')"

interpretation media_sys: transition_system "\<lambda>(st, db). db = media_empty" "media_step store" "\<lambda>(st, db). media_inv db"
  for store :: "'st Store"
proof (unfold_locales, goal_cases)
  case (1 s)
  then show ?case by (auto simp: media_empty_def media_inv_def media_ids_ok_def)
next
  case (2 s t)
  from 2(2,1) show ?case
    by (cases rule: media_step.cases)
      (auto dest: asset_Create_inv upload_Create_inv upload_Complete_inv upload_Abort_inv probe_Record_inv)
qed

definition media_reachable :: "'st Store \<Rightarrow> media_db \<Rightarrow> bool" where
  "media_reachable store db \<longleftrightarrow> (\<exists>st0 st. (media_step store)\<^sup>*\<^sup>* (st0, media_empty) (st, db))"

lemma media_reachable_inv: "media_reachable store db \<Longrightarrow> media_inv db"
  unfolding media_reachable_def using media_sys.reachable_inv [of "(_, media_empty)" store] by fastforce

end
