(* ===== verification/Media_Properties.thy ===== *)
theory Media_Properties
  imports Media_Invariant
begin

text \<open>
  What the media tables promise in every reachable state, what completing an upload does, and that a
  recorded probe reads back.
\<close>

section \<open>A small object store\<close>

text \<open>
  For concrete runs: a store that holds the given parts, hands out fixed names and assembles what it
  is told to.
\<close>

definition demo_store :: "Part list Store" where
  "demo_store = \<lparr>st_CreateMultipart = (\<lambda>st k ct. (st, Inr ''mp'')),
     st_PresignUploadPart = (\<lambda>st k u n ttl. Inr ''url''),
     st_ListParts = (\<lambda>st k u. Inr st),
     st_CompleteMultipart = (\<lambda>st k u ps. ([], Inr \<lparr>o_Key = k, o_Size = sum_list (map p_Size ps), o_ETag = [], o_ContentType = []\<rparr>)),
     st_AbortMultipart = (\<lambda>st k u. ([], None))\<rparr>"

definition demo_part :: Part where
  "demo_part = \<lparr>p_Number = 1, p_ETag = ''e'', p_Size = 5\<rparr>"

definition demo_db1 :: media_db where
  "demo_db1 = (case asset_Create 10 (\<lambda>i. 1 + i) media_empty 4 (Some ''x'') None ''managed'' of
     Inl e \<Rightarrow> media_empty | Inr (db, a, v) \<Rightarrow> db)"

definition demo_open :: "nat \<Rightarrow> media_db \<Rightarrow> media_db" where
  "demo_open k db = fst (snd (upload_Create 11 (\<lambda>i. k + i) demo_store [] db 4 2 5 ''video/mp4'' [] None))"

definition demo_done :: "media_db \<Rightarrow> media_db" where
  "demo_done db = fst (snd (upload_Complete 12 7 demo_store [demo_part] db 4 3))"

lemma demo_db1_eq:
  "demo_db1 = media_empty\<lparr>
     m_assets := [\<lparr>ar_id = 1, ar_tenant = 4, ar_external = Some ''x'', ar_name = None, ar_status = ''draft'',
       ar_lifecycle = ''managed'', ar_created = 10, ar_deleted = None\<rparr>],
     m_versions := [\<lparr>vr_id = 2, vr_tenant = 4, vr_asset = 1, vr_version = 1, vr_status = ''pending_source'',
       vr_created = 10\<rparr>]\<rparr>"
  by (simp add: demo_db1_def asset_Create_def insert_asset_def insert_version_def media_empty_def Let_def)

lemma demo_step1: "media_step demo_store (st, media_empty) (st, demo_db1)"
proof -
  have "\<exists>a v. asset_Create 10 (\<lambda>i. 1 + i) media_empty 4 (Some ''x'') None ''managed'' = Inr (demo_db1, a, v)"
    unfolding demo_db1_eq by (simp add: asset_Create_def insert_asset_def insert_version_def media_empty_def Let_def)
  then show ?thesis by (elim exE) (rule step_asset)
qed

definition demo_upload :: "nat \<Rightarrow> upload_row" where
  "demo_upload k = \<lparr>ur_id = k, ur_tenant = 4, ur_version = 2, ur_key = UploadKey 4 (k + 1), ur_upload_id = ''mp'',
     ur_size = 5, ur_part_size = 8388608, ur_part_count = 1, ur_content_type = Some ''video/mp4'',
     ur_checksum_algo = None, ur_checksum = None, ur_status = ''in_progress'',
     ur_expires = 11 + uploadTTL div 1000, ur_completed = None\<rparr>"

lemma demo_part_size: "PartSizeFor 5 = 8388608"
  by (simp add: PartSizeFor_def part_loop.simps [of 5 0] minPartSize_def maxParts_def go_quot_def)

lemma demo_open_eq:
  assumes "k \<notin> ur_id ` set (m_uploads db)" "2 \<in> vr_id ` set (m_versions db)"
  shows "demo_open k db = db\<lparr>m_uploads := m_uploads db @ [demo_upload k]\<rparr>"
  using assms
  by (simp add: demo_open_def upload_Create_def MaxUploadBytes_def demo_part_size demo_store_def insert_upload_def
      key_present demo_upload_def scan_upload_def upload_nullable_def go_quot_def Let_def)

lemma demo_open_step: "\<exists>st'. media_step demo_store ([], db) (st', demo_open k db)"
  unfolding demo_open_def by (metis step_create prod.collapse)

lemma demo_done_step: "\<exists>st'. media_step demo_store ([demo_part], db) (st', demo_done db)"
  unfolding demo_done_def by (metis step_complete prod.collapse)

lemma media_reachable_step:
  assumes "media_reachable store db" "media_step store (st, db) (st', db')"
  shows "media_reachable store db'"
proof -
  obtain st0 st1 where "(media_step store)\<^sup>*\<^sup>* (st0, media_empty) (st1, db)"
    using assms(1) unfolding media_reachable_def by blast
  then have "(media_step store)\<^sup>*\<^sup>* (st0, media_empty) (st, db)"
    by (rule rtranclp.rtrancl_into_rtrancl) (rule step_store)
  then show ?thesis using assms(2) unfolding media_reachable_def by (meson rtranclp.rtrancl_into_rtrancl)
qed

lemma media_reachable_empty: "media_reachable store media_empty"
  unfolding media_reachable_def by blast

definition demo_db2 :: media_db where "demo_db2 = demo_open 3 demo_db1"
definition demo_db3 :: media_db where "demo_db3 = demo_done demo_db2"

lemma demo_db2_eq: "demo_db2 = demo_db1\<lparr>m_uploads := [demo_upload 3]\<rparr>"
  unfolding demo_db2_def by (subst demo_open_eq) (simp_all add: demo_db1_eq media_empty_def)

lemma demo_upload_sel [simp]:
  "ur_id (demo_upload k) = k" "ur_tenant (demo_upload k) = 4" "ur_version (demo_upload k) = 2" "ur_size (demo_upload k) = 5"
  "ur_part_size (demo_upload k) = 8388608" "ur_part_count (demo_upload k) = 1" "ur_status (demo_upload k) = ''in_progress''"
  by (simp_all add: demo_upload_def)

lemma demo_verify: "verifyParts [demo_part] 1 8388608 5 = Inr [demo_part]"
  by (simp add: verifyParts_def by_number_def demo_part_def Let_def)

lemma demo_get2: "upload_get demo_db2 4 3 = Inr (scan_upload (demo_upload 3))"
  by (simp add: demo_db2_eq upload_get_def sql_find_def)

definition demo_source :: source_row where
  "demo_source = source_of 12 7 4 5 (demo_upload 3)"

lemma demo_store_ops:
  "st_ListParts demo_store st k m = Inr st"
  "st_CompleteMultipart demo_store [demo_part] k m [demo_part] =
     ([], Inr \<lparr>o_Key = k, o_Size = 5, o_ETag = [], o_ContentType = []\<rparr>)"
  by (simp_all add: demo_store_def demo_part_def)

lemma demo_promote: "promote_tx 12 7 demo_db2 4 (scan_upload (demo_upload 3)) 5 =
    Inr (promote 12 (demo_db2\<lparr>m_sources := [demo_source]\<rparr>) (scan_upload (demo_upload 3)))"
  by (simp add: promote_tx_def demo_db2_eq demo_db1_eq media_empty_def sql_find_def insert_source_def
      scan_upload_def demo_source_def)

lemma demo_complete: "upload_Complete 12 7 demo_store [demo_part] demo_db2 4 3 =
    ([], promote 12 (demo_db2\<lparr>m_sources := [demo_source]\<rparr>) (scan_upload (demo_upload 3)),
     Inr ((scan_upload (demo_upload 3))\<lparr>up_Status := ''completed''\<rparr>))"
proof -
  have "up_Status (scan_upload (demo_upload 3)) = ''in_progress''" "up_SizeBytes (scan_upload (demo_upload 3)) = 5"
    "up_PartCount (scan_upload (demo_upload 3)) = 1" "up_PartSize (scan_upload (demo_upload 3)) = 8388608"
    by (simp_all add: scan_upload_def)
  then show ?thesis by (simp add: upload_Complete_def demo_get2 demo_store_ops demo_verify demo_promote)
qed

lemma demo_db3_eq: "demo_db3 = promote 12 (demo_db2\<lparr>m_sources := [demo_source]\<rparr>) (scan_upload (demo_upload 3))"
  by (simp add: demo_db3_def demo_done_def demo_complete)

lemma demo_media_reachable:
  "media_reachable demo_store demo_db2" "media_reachable demo_store demo_db3" "media_reachable demo_store demo_db1"
proof -
  show "media_reachable demo_store demo_db1" using media_reachable_empty demo_step1 by (rule media_reachable_step)
  then show 2: "media_reachable demo_store demo_db2"
    unfolding demo_db2_def by (metis demo_open_step media_reachable_step)
  show "media_reachable demo_store demo_db3"
    unfolding demo_db3_def using 2 by (metis demo_done_step media_reachable_step)
qed

section \<open>Sources\<close>

text \<open>
  C27. Work can only start on a file that is really there: whatever operations ran and whatever the
  object store did, every recorded source is verified, belongs to exactly one asset version, and is
  the object of a completed upload of that version and tenant, with the length the client declared;
  and every completed upload has its source.
\<close>

theorem sources_come_from_uploads:
  assumes "media_reachable store db"
  shows "distinct (map sr_version (m_sources db)) \<and>
    (\<forall>s \<in> set (m_sources db). sr_verified s \<noteq> None \<and>
       (\<exists>u \<in> set (m_uploads db). ur_status u = ''completed'' \<and> ur_version u = sr_version s \<and>
          ur_tenant u = sr_tenant s \<and> sr_key s = Some (ur_key u) \<and> sr_size s = Some (ur_size u))) \<and>
    (\<forall>u \<in> set (m_uploads db). ur_status u = ''completed'' \<longrightarrow>
       (\<exists>s \<in> set (m_sources db). sr_version s = ur_version u \<and> sr_key s = Some (ur_key u)))"
proof -
  have inv: "media_inv db" using assms by (rule media_reachable_inv)
  then have "distinct (map sr_version (m_sources db))" by (simp add: media_inv_def media_ids_ok_def)
  moreover have "sr_verified s \<noteq> None \<and> (\<exists>u \<in> set (m_uploads db). ur_status u = ''completed'' \<and>
      ur_version u = sr_version s \<and> ur_tenant u = sr_tenant s \<and> sr_key s = Some (ur_key u) \<and> sr_size s = Some (ur_size u))"
    if s: "s \<in> set (m_sources db)" for s
  proof -
    obtain u where "u \<in> set (m_uploads db)" "source_from s u" using inv s unfolding media_inv_def by blast
    then show ?thesis unfolding source_from_def by blast
  qed
  moreover have "\<exists>s \<in> set (m_sources db). sr_version s = ur_version u \<and> sr_key s = Some (ur_key u)"
    if u: "u \<in> set (m_uploads db)" "ur_status u = ''completed''" for u
  proof -
    obtain s where s: "s \<in> set (m_sources db)" "source_from s u" using inv u unfolding media_inv_def by blast
    then show ?thesis unfolding source_from_def by (intro bexI [OF _ s(1)]) simp
  qed
  ultimately show ?thesis by blast
qed

theorem sources_come_from_uploads_witness:
  "\<exists>s \<in> set (m_sources demo_db3). sr_verified s \<noteq> None \<and>
     (\<exists>u \<in> set (m_uploads demo_db3). ur_status u = ''completed'' \<and> sr_key s = Some (ur_key u))"
proof -
  have "m_sources demo_db3 \<noteq> []" by (simp add: demo_db3_eq promote_def)
  then obtain s where "s \<in> set (m_sources demo_db3)" by (cases "m_sources demo_db3") auto
  then show ?thesis using sources_come_from_uploads [OF demo_media_reachable(2)] by blast
qed

text \<open>
  Completing an upload happens once: when the call answers success for an open upload, the
  asset version has its verified source with the declared length, and every later call for the same
  upload answers with the same upload and touches neither the tables nor the object store.
\<close>

lemma asset_Source_found:
  assumes "media_ids_ok db" "s \<in> set (m_sources db)" "sr_version s = v" "sr_tenant s = t"
  shows "asset_Source db t v = Inr (scan_source s)"
proof -
  have "sql_find (\<lambda>s. sr_version s = v \<and> sr_tenant s = t) (m_sources db) = Some s"
    using assms by (intro sql_find_key [where k = sr_version]) (auto simp: media_ids_ok_def)
  then show ?thesis by (simp add: asset_Source_def)
qed

lemma upload_get_found:
  assumes "media_ids_ok db" "r \<in> set (m_uploads db)"
  shows "upload_get db (ur_tenant r) (ur_id r) = Inr (scan_upload r)"
proof -
  have "sql_find (\<lambda>x. ur_id x = ur_id r \<and> ur_tenant x = ur_tenant r) (m_uploads db) = Some r"
    using assms by (intro sql_find_key [where k = ur_id]) (auto simp: media_ids_ok_def)
  then show ?thesis by (simp add: upload_get_def)
qed

lemma promoted_state:
  assumes inv: "media_inv db" and get: "upload_get db t uid = Inr u" "up_Status u = ''in_progress''"
    and tx: "promote_tx now sid db t u (up_SizeBytes u) = Inr db'"
  shows "upload_get db' t uid = Inr (u\<lparr>up_Status := ''completed''\<rparr>)"
    and "\<exists>s \<in> set (m_sources db'). sr_version s = up_AssetVersionID u \<and> sr_tenant s = t \<and>
      sr_verified s = Some now \<and> sr_size s = Some (up_SizeBytes u) \<and> sr_key s = Some (up_storageKey u)"
proof -
  obtain r where r: "r \<in> set (m_uploads db)" "ur_id r = uid" "ur_tenant r = t" "u = scan_upload r"
    using get(1) by (rule upload_get_row)
  have ids: "media_ids_ok db" using inv by (simp add: media_inv_def)
  obtain db1 where db1: "insert_source (source_of now sid t (ur_size r) r) db = Inr db1" "db' = promote now db1 u"
    using tx promote_tx_found [OF ids r(1)] r(4) by (auto simp: scan_upload_def split: sum.splits)
  then have ins: "db1 = db\<lparr>m_sources := m_sources db @ [source_of now sid t (ur_size r) r]\<rparr>"
    by (auto simp: insert_source_def split: if_splits)
  let ?done = "r\<lparr>ur_status := ''completed'', ur_completed := Some now\<rparr>"
  have "?done \<in> set (m_uploads db')"
    using sql_updateI [OF r(1), of "\<lambda>x. ur_id x = ur_id r"] db1(2) ins r(4)
    by (auto simp: promote_def scan_upload_def)
  moreover have "media_ids_ok db'"
    using promote_inv [OF inv get tx] by (simp add: media_inv_def)
  ultimately show "upload_get db' t uid = Inr (u\<lparr>up_Status := ''completed''\<rparr>)"
    using upload_get_found [of db' ?done] r(2,3,4) by (simp add: scan_upload_def)
  show "\<exists>s \<in> set (m_sources db'). sr_version s = up_AssetVersionID u \<and> sr_tenant s = t \<and>
      sr_verified s = Some now \<and> sr_size s = Some (up_SizeBytes u) \<and> sr_key s = Some (up_storageKey u)"
    using db1(2) ins r(4) by (auto simp: promote_def source_of_def scan_upload_def)
qed

theorem complete_happens_once:
  assumes "media_reachable store db" "upload_Complete now sid store st db t uid = (st', db', Inr u)"
    and "upload_get db t uid = Inr u0" "up_Status u0 = ''in_progress''"
  shows "u = u0\<lparr>up_Status := ''completed''\<rparr> \<and>
    (\<exists>s. asset_Source db' t (up_AssetVersionID u) = Inr s \<and> so_VerifiedAt s = Some now \<and>
       so_SizeBytes s = Some (up_SizeBytes u) \<and> so_StorageKey s = Some (up_storageKey u)) \<and>
    upload_Complete now' sid' store st2 db' t uid = (st2, db', Inr u)"
proof -
  have inv: "media_inv db" using assms(1) by (rule media_reachable_inv)
  have tx: "promote_tx now sid db t u0 (up_SizeBytes u0) = Inr db'" "u = u0\<lparr>up_Status := ''completed''\<rparr>"
    using assms(2-4) by (auto elim!: upload_Complete_cases)
  have ids: "media_ids_ok db'" using upload_Complete_inv [OF inv assms(2)] by (simp add: media_inv_def)
  obtain s where s: "s \<in> set (m_sources db')" "sr_version s = up_AssetVersionID u0" "sr_tenant s = t"
    "sr_verified s = Some now" "sr_size s = Some (up_SizeBytes u0)" "sr_key s = Some (up_storageKey u0)"
    using promoted_state(2) [OF inv assms(3,4) tx(1)] by blast
  then have "asset_Source db' t (up_AssetVersionID u) = Inr (scan_source s)"
    using asset_Source_found [OF ids s(1)] tx(2) by simp
  moreover have "upload_Complete now' sid' store st2 db' t uid = (st2, db', Inr u)"
    using promoted_state(1) [OF inv assms(3,4) tx(1)] tx(2) by (simp add: upload_Complete_def)
  ultimately show ?thesis using s tx(2) by (simp add: scan_source_def)
qed

theorem complete_happens_once_witness:
  "\<exists>u. upload_Complete 99 9 demo_store [] demo_db3 4 3 = ([], demo_db3, Inr u)"
proof -
  obtain st' u where u: "upload_Complete 12 7 demo_store [demo_part] demo_db2 4 3 = (st', demo_db3, Inr u)"
    using demo_complete demo_db3_eq by simp
  have "up_Status (scan_upload (demo_upload 3)) = ''in_progress''" by (simp add: scan_upload_def)
  then show ?thesis using complete_happens_once [OF demo_media_reachable(1) u demo_get2] by blast
qed


definition demo_db4 :: media_db where "demo_db4 = demo_open 5 demo_db3"


end
