(* ===== verification/Probe_Properties.thy ===== *)
theory Probe_Properties
  imports Media_Properties
begin

text \<open>
  What the probe promises: parsed tracks always fit the vocabulary of the schema, high dynamic range
  is never dropped, and what was recorded reads back.
\<close>

section \<open>Vocabulary and dynamic range\<close>

definition hdr_kinds :: "string list" where
  "hdr_kinds = [''mastering display metadata'', ''content light level metadata'',
     ''hdr dynamic metadata smpte2094-40'', ''dovi configuration record'']"

definition hdr_signal :: "json \<Rightarrow> bool" where
  "hdr_signal sd \<longleftrightarrow> (\<exists>ty. side_data_type sd = Some ty \<and> normaliseSideData ty \<in> set hdr_kinds)"

lemma hdr_step_format:
  "fst (hdr_step acc sd) \<in> {fst acc, HDR10, HDR10Plus, DolbyVision}"
  "hdr_signal sd \<or> fst acc \<noteq> HDRNone \<Longrightarrow> fst (hdr_step acc sd) \<noteq> HDRNone"
  by (auto simp: hdr_step_def hdr_signal_def hdr_kinds_def hdr_defs Let_def split: prod.splits option.splits)

lemma hdr_fold_vocabulary:
  "fst acc \<in> set hdr_formats \<Longrightarrow> fst (foldl hdr_step acc sds) \<in> set hdr_formats"
proof (induction sds arbitrary: acc)
  case (Cons sd sds)
  have "fst (hdr_step acc sd) \<in> set hdr_formats"
    using hdr_step_format(1) [of acc sd] Cons.prems by (auto simp: hdr_formats_def)
  then show ?case using Cons.IH by simp
qed simp

lemma hdr_fold_signal:
  "fst acc \<noteq> HDRNone \<or> list_ex hdr_signal sds \<Longrightarrow> fst (foldl hdr_step acc sds) \<noteq> HDRNone"
proof (induction sds arbitrary: acc)
  case (Cons sd sds)
  have "fst (hdr_step acc sd) \<noteq> HDRNone \<or> list_ex hdr_signal sds"
    using Cons.prems hdr_step_format(2) [of sd acc] by auto
  then show ?case using Cons.IH by simp
qed simp

lemma detectHDR_vocabulary: "fst (detectHDR s) \<in> set hdr_formats"
  unfolding detectHDR_def
  by (rule hdr_fold_vocabulary) (simp add: hdr_of_transfer_def hdr_formats_def Let_def)

lemma parseStream_kind: "tr_Kind (parseStream s) = kindOf (fs_CodecType s)"
  by (auto simp: parseStream_def base_track_def Let_def split: prod.splits)

lemma kindOf_video: "kindOf c = KindVideo \<longleftrightarrow> c = ''video''"
  by (simp add: kindOf_def kind_defs)

lemma parseStream_hdr:
  "tr_HDRFormat (parseStream s) = (if kindOf (fs_CodecType s) = KindVideo then fst (detectHDR s) else [])"
  by (auto simp: parseStream_def base_track_def Let_def split: prod.splits)


definition demo_stream :: ffprobeStream where
  "demo_stream = (stream_of_json (JObj [(''codec_type'', JStr ''video''), (''width'', JInt 1920),
     (''height'', JInt 1080), (''color_transfer'', JStr ''SMPTE2084'')]))"


section \<open>Reading back what was recorded\<close>

text \<open>What a stored track shows when it is read: the two metadata blobs are written but not read.\<close>

definition visible :: "Track \<Rightarrow> Track" where
  "visible t = t\<lparr>tr_MasteringDisplay := None, tr_ContentLight := None\<rparr>"

lemma scan_track_row: "scan_track (track_row_of i t v p x) = visible x"
  by (simp add: scan_track_def track_row_of_def visible_def)

lemma track_row_keys [simp]:
  "tk_version (track_row_of i t v p x) = v" "tk_tenant (track_row_of i t v p x) = t"
  "tk_stream_index (track_row_of i t v p x) = tr_StreamIndex x"
  by (simp_all add: track_row_of_def)

lemma record_tracks_rows:
  assumes "record_tracks fresh t v pid i ts db = Inr db'"
  shows "\<exists>rows. m_tracks db' = m_tracks db @ rows \<and> map scan_track rows = map visible ts \<and>
    map tk_stream_index rows = map tr_StreamIndex ts \<and>
    (\<forall>r \<in> set rows. tk_version r = v \<and> tk_tenant r = t) \<and> m_probes db' = m_probes db"
  using assms
proof (induction ts arbitrary: i db)
  case (Cons x ts)
  let ?r = "track_row_of (fresh i) t v pid x"
  obtain db1 where db1: "insert_track ?r db = Inr db1" "record_tracks fresh t v pid (Suc i) ts db1 = Inr db'"
    using Cons.prems by (auto split: if_splits sum.splits)
  then have "db1 = db\<lparr>m_tracks := m_tracks db @ [?r]\<rparr>" by (auto simp: insert_track_def split: if_splits)
  moreover obtain rows where "m_tracks db' = m_tracks db1 @ rows" "map scan_track rows = map visible ts"
    "map tk_stream_index rows = map tr_StreamIndex ts" "\<forall>r \<in> set rows. tk_version r = v \<and> tk_tenant r = t"
    "m_probes db' = m_probes db1"
    using Cons.IH [OF db1(2)] by blast
  ultimately show ?case
    by (intro exI [of _ "?r # rows"]) (simp add: scan_track_row)
qed simp

lemma map_insort_pair:
  "map (\<lambda>x. (f x, k x)) (insort_key k x zs) = insort_key snd (f x, k x) (map (\<lambda>x. (f x, k x)) zs)"
  by (induction zs) auto

lemma map_sort_pair: "map (\<lambda>x. (f x, k x)) (sort_key k xs) = sort_key snd (map (\<lambda>x. (f x, k x)) xs)"
  by (induction xs) (auto simp: map_insort_pair)

lemma sort_key_transfer:
  assumes "map f xs = map g ys" "map k xs = map l ys"
  shows "map f (sort_key k xs) = map g (sort_key l ys)"
proof -
  have "map (\<lambda>x. (f x, k x)) xs = map (\<lambda>y. (g y, l y)) ys"
    using arg_cong2 [OF assms, of zip] by (simp add: zip_map_map zip_same_conv_map case_prod_beta comp_def)
  then have "map (\<lambda>x. (f x, k x)) (sort_key k xs) = map (\<lambda>y. (g y, l y)) (sort_key l ys)"
    by (simp add: map_sort_pair)
  then have "map fst (map (\<lambda>x. (f x, k x)) (sort_key k xs)) = map fst (map (\<lambda>y. (g y, l y)) (sort_key l ys))"
    by (rule arg_cong)
  then show ?thesis by (simp add: comp_def)
qed



definition demo_raw :: json where
  "demo_raw = JObj [(''format'', JObj [(''format_name'', JStr ''mov'')]),
     (''streams'', JArr [JObj [(''index'', JInt 1), (''codec_type'', JStr ''audio''), (''channels'', JInt 2)],
                        JObj [(''index'', JInt 0), (''codec_type'', JStr ''video''), (''width'', JInt 640)]])]"


end
