(* ===== verification/Validation.thy ===== *)
theory Validation
  imports Probe_Parse
begin

text \<open>
  Checking an output against what was asked for: the comparison of \<open>internal/validate/validate.go\<close>
  and the validation task of \<open>internal/agent/validate.go\<close>. Fetching a file and running the inspection
  tool are parameters of the task: \<open>download url\<close> gives the size and checksum of the bytes that
  arrived, \<open>probe_file url\<close> what the tool printed about them.
\<close>

section \<open>Reports\<close>

definition Pass :: string where "Pass = ''pass''"
definition Warn :: string where "Warn = ''warn''"
definition Fail_status :: string where "Fail_status = ''fail''"
definition Technical :: string where "Technical = ''technical''"

lemmas status_defs = Pass_def Warn_def Fail_status_def

record Expectation =
  ex_Label :: string
  ex_Codec :: string
  ex_Width :: int
  ex_Height :: int
  ex_DurationMS :: int
  ex_AudioCodec :: string
  ex_HDRFormat :: string

record Check =
  ck_Label :: string
  ck_Category :: string
  ck_Name :: string
  ck_Status :: string
  ck_Detail :: "(string \<times> json) list"

definition report_Failed :: "Check list \<Rightarrow> bool" where
  "report_Failed checks \<longleftrightarrow> list_ex (\<lambda>c. ck_Status c = Fail_status) checks"

fun report_Summary :: "Check list \<Rightarrow> nat \<times> nat \<times> nat" where
  "report_Summary [] = (0, 0, 0)"
| "report_Summary (c # cs) =
     (case report_Summary cs of (p, w, f) \<Rightarrow>
        if ck_Status c = Pass then (p + 1, w, f)
        else if ck_Status c = Warn then (p, w + 1, f)
        else if ck_Status c = Fail_status then (p, w, f + 1)
        else (p, w, f))"

section \<open>Comparison\<close>

definition DurationToleranceMS :: int where "DurationToleranceMS = 500"

definition trackOf :: "ProbeResult \<Rightarrow> string \<Rightarrow> Track option" where
  "trackOf r kind = List.find (\<lambda>t. tr_Kind t = kind) (pr_Tracks r)"

text \<open>The zero value of a track, what the code reads when there is none.\<close>

definition zero_track :: Track where
  "zero_track = \<lparr>tr_Kind = [], tr_StreamIndex = 0, tr_Codec = [], tr_DurationMS = 0, tr_BitrateBPS = 0,
     tr_Language = [], tr_Title = [], tr_IsDefault = False, tr_IsForced = False, tr_Role = [],
     tr_Width = 0, tr_Height = 0, tr_FPSNum = 0, tr_FPSDen = 0, tr_IsVFR = False, tr_PixelFmt = [],
     tr_BitDepth = 0, tr_Rotation = 0, tr_ColorPrimaries = [], tr_ColorTransfer = [],
     tr_ColorMatrix = [], tr_ColorRange = [], tr_HDRFormat = [], tr_MasteringDisplay = None,
     tr_ContentLight = None, tr_Channels = 0, tr_ChannelLayout = [], tr_SampleRateHz = 0,
     tr_SubtitleFormat = []\<rparr>"

definition track_or_zero :: "Track option \<Rightarrow> Track" where
  "track_or_zero t = (case t of None \<Rightarrow> zero_track | Some x \<Rightarrow> x)"

definition check :: "string \<Rightarrow> string \<Rightarrow> string \<Rightarrow> (string \<times> json) list \<Rightarrow> Check" where
  "check label name status detail =
     \<lparr>ck_Label = label, ck_Category = Technical, ck_Name = name, ck_Status = status, ck_Detail = detail\<rparr>"

definition verdict :: "bool \<Rightarrow> string" where
  "verdict ok = (if ok then Pass else Fail_status)"

definition dims :: "int \<Rightarrow> int \<Rightarrow> string" where
  "dims w h = Itoa w @ ''x'' @ Itoa h"

definition Compare :: "Expectation \<Rightarrow> ProbeResult \<Rightarrow> Check list" where
  "Compare e actual =
     (let hasVideo = trackOf actual KindVideo \<noteq> None; hasAudio = trackOf actual KindAudio \<noteq> None;
          video = track_or_zero (trackOf actual KindVideo); audio = track_or_zero (trackOf actual KindAudio);
          add = check (ex_Label e)
      in if (ex_Codec e \<noteq> [] \<or> ex_Width e > 0) \<and> \<not> hasVideo
         then [add ''video_present'' Fail_status [(''reason'', JStr ''the output has no video track'')]]
         else
           (if ex_Codec e \<noteq> [] \<or> ex_Width e > 0 then [add ''video_present'' Pass []] else []) @
           (if ex_Codec e \<noteq> []
            then [add ''codec'' (verdict (tr_Codec video = ex_Codec e))
                   [(''expected'', JStr (ex_Codec e)), (''actual'', JStr (tr_Codec video))]] else []) @
           (if ex_Width e > 0 \<and> ex_Height e > 0
            then [add ''resolution'' (verdict (tr_Width video = ex_Width e \<and> tr_Height video = ex_Height e))
                   [(''expected'', JStr (dims (ex_Width e) (ex_Height e))),
                    (''actual'', JStr (dims (tr_Width video) (tr_Height video)))]] else []) @
           (if ex_DurationMS e > 0
            then let diff = \<bar>pr_DurationMS actual - ex_DurationMS e\<bar> in
              [add ''duration'' (verdict (diff \<le> DurationToleranceMS))
                 [(''expected_ms'', JInt (ex_DurationMS e)), (''actual_ms'', JInt (pr_DurationMS actual)),
                  (''difference_ms'', JInt diff), (''tolerance_ms'', JInt DurationToleranceMS)]] else []) @
           (if ex_AudioCodec e \<noteq> []
            then [if \<not> hasAudio
                  then add ''audio_present'' Fail_status
                         [(''reason'', JStr ''audio was requested but the output has none'')]
                  else if tr_Codec audio \<noteq> ex_AudioCodec e
                  then add ''audio_codec'' Fail_status
                         [(''expected'', JStr (ex_AudioCodec e)), (''actual'', JStr (tr_Codec audio))]
                  else add ''audio_codec'' Pass [(''actual'', JStr (tr_Codec audio))]] else []) @
           (if ex_HDRFormat e \<noteq> []
            then [add ''hdr_format'' (verdict (tr_HDRFormat video = ex_HDRFormat e))
                   [(''expected'', JStr (ex_HDRFormat e)), (''actual'', JStr (tr_HDRFormat video))]] else []))"

fun equal_loop :: "string \<Rightarrow> string \<Rightarrow> bool" where
  "equal_loop [] b = True"
| "equal_loop (x # a) [] = False"
| "equal_loop (x # a) (y # b) = (if x \<noteq> y then False else equal_loop a b)"

definition equalBytes :: "string \<Rightarrow> string \<Rightarrow> bool" where
  "equalBytes a b = (if length a \<noteq> length b then False else equal_loop a b)"

definition hex_bytes :: "string \<Rightarrow> string" where
  "hex_bytes s = concat (map (\<lambda>c. hex_pad 2 (of_char c)) s)"

definition CheckIntegrity :: "string \<Rightarrow> int \<Rightarrow> int \<Rightarrow> string \<Rightarrow> string \<Rightarrow> Check list" where
  "CheckIntegrity label wantSize gotSize wantSum gotSum =
     (if wantSize > 0
      then [check label ''size'' (verdict (gotSize = wantSize))
              [(''expected'', JInt wantSize), (''actual'', JInt gotSize)]] else []) @
     (if length wantSum > 0
      then [check label ''checksum'' (verdict (equalBytes wantSum gotSum))
              [(''expected'', JStr (hex_bytes wantSum)), (''actual'', JStr (hex_bytes gotSum))]] else [])"

definition CheckArtifactCount :: "int \<Rightarrow> int \<Rightarrow> Check" where
  "CheckArtifactCount expected found =
     check [] ''artifact_count'' (verdict (found = expected))
       [(''expected'', JInt expected), (''found'', JInt found)]"

section \<open>The validation task\<close>

record ValidateArtifact =
  va_Label :: string
  va_Kind :: string
  va_URL :: string
  va_SizeBytes :: int
  va_ChecksumAlgo :: string
  va_Checksum :: string
  va_Width :: int
  va_Height :: int

record ValidateSpec =
  vs_Expect :: "Expectation list"
  vs_Artifacts :: "ValidateArtifact list"

text \<open>
  The result of the task: a failure to fetch is transient, a failed check is permanent for the input.
\<close>

datatype outcome = FetchFailed string | ReportFailed "Check list" "nat \<times> nat \<times> nat" | ReportPassed "Check list"

definition by_label :: "ValidateArtifact list \<Rightarrow> string \<Rightarrow> ValidateArtifact option" where
  "by_label arts = map_of (rev (map (\<lambda>a. (va_Label a, a)) arts))"

definition checks_for ::
  "Expectation \<Rightarrow> ValidateArtifact \<Rightarrow> int \<times> string \<Rightarrow> (string + ProbeResult) \<Rightarrow> Check list" where
  "checks_for e a got media =
     [check (ex_Label e) ''exists'' Pass []] @
     CheckIntegrity (ex_Label e) (va_SizeBytes a) (fst got) (va_Checksum a) (snd got) @
     (case media of
        Inl err \<Rightarrow> [check (ex_Label e) ''playable'' Fail_status [(''reason'', JStr err)]]
      | Inr m \<Rightarrow> check (ex_Label e) ''playable'' Pass [] # Compare e m)"

fun validate_loop ::
  "(string \<Rightarrow> (int \<times> string) option) \<Rightarrow> (string \<Rightarrow> string + ProbeResult) \<Rightarrow> (string \<Rightarrow> ValidateArtifact option) \<Rightarrow>
   Expectation list \<Rightarrow> Check list \<Rightarrow> string + Check list" where
  "validate_loop download probe_file arts [] checks = Inr checks"
| "validate_loop download probe_file arts (e # es) checks =
     (case arts (ex_Label e) of
        None \<Rightarrow> validate_loop download probe_file arts es
          (checks @ [check (ex_Label e) ''exists'' Fail_status
                       [(''reason'', JStr ''no artifact was registered with this label'')]])
      | Some a \<Rightarrow>
          (case download (va_URL a) of
             None \<Rightarrow> Inl (ex_Label e)
           | Some got \<Rightarrow> validate_loop download probe_file arts es
               (checks @ checks_for e a got (probe_file (va_URL a)))))"

definition validateTask ::
  "(string \<Rightarrow> (int \<times> string) option) \<Rightarrow> (string \<Rightarrow> string + ProbeResult) \<Rightarrow> ValidateSpec \<Rightarrow> outcome" where
  "validateTask download probe_file spec =
     (let arts = by_label (vs_Artifacts spec);
          found = length (filter (\<lambda>e. arts (ex_Label e) \<noteq> None) (vs_Expect spec))
      in case validate_loop download probe_file arts (vs_Expect spec)
                [CheckArtifactCount (int (length (vs_Expect spec))) (int found)] of
           Inl label \<Rightarrow> FetchFailed label
         | Inr checks \<Rightarrow>
             if report_Failed checks then ReportFailed checks (report_Summary checks)
             else ReportPassed checks)"

end
