(* ===== verification/Pipeline.thy ===== *)
theory Pipeline
  imports Job_Store Encode_Config Validation
begin

text \<open>
  Named presets and the task graph planned from one source: \<open>internal/pipeline/pipeline.go\<close> and
  \<open>internal/pipeline/plan.go\<close>. A task's specification is the JSON text \<open>json.Marshal\<close> writes.
\<close>

section \<open>Presets\<close>

record Rung =
  rg_Label :: string
  rg_Width :: int
  rg_Height :: int
  rg_CRF :: int
  rg_MaxrateBPS :: int

record Preset =
  ps_Name :: string
  ps_Description :: string
  ps_Tasks :: "NewTask list"
  ps_Ladder :: "Rung list"
  ps_Package :: bool
  ps_Thumbnails :: bool

definition NeedsProbe :: "Preset \<Rightarrow> bool" where
  "NeedsProbe p \<longleftrightarrow> length (ps_Ladder p) > 0"

definition zero_task :: NewTask where
  "zero_task = \<lparr>nt_Key = [], nt_Operation = [], nt_Spec = [], nt_Requirements = None, nt_DependsOn = [],
     nt_Priority = 0, nt_MaxAttempts = 0\<rparr>"

definition rung :: "string \<Rightarrow> int \<Rightarrow> int \<Rightarrow> int \<Rightarrow> int \<Rightarrow> Rung" where
  "rung label w h crf rate =
     \<lparr>rg_Label = label, rg_Width = w, rg_Height = h, rg_CRF = crf, rg_MaxrateBPS = rate\<rparr>"

definition ladder_h264 :: "Rung list" where
  "ladder_h264 = [rung ''1080p_h264'' 1920 1080 22 8000000, rung ''720p_h264'' 1280 720 23 4000000,
     rung ''480p_h264'' 854 480 24 1800000, rung ''360p_h264'' 640 360 25 900000]"

definition presets :: "(string \<times> Preset) list" where
  "presets =
     [(''probe'', \<lparr>ps_Name = ''probe'', ps_Description = ''Look inside and record what it contains.'',
        ps_Tasks = [zero_task\<lparr>nt_Key := ''probe'', nt_Operation := ''probe''\<rparr>], ps_Ladder = [],
        ps_Package = False, ps_Thumbnails = False\<rparr>),
      (''transcode-h264'', \<lparr>ps_Name = ''transcode-h264'',
        ps_Description = ''Make a single 720p version with AAC audio.'', ps_Tasks = [],
        ps_Ladder = [rung ''720p_h264'' 1280 720 23 4000000], ps_Package = False, ps_Thumbnails = False\<rparr>),
      (''ladder-h264'', \<lparr>ps_Name = ''ladder-h264'',
        ps_Description = ''Make several sizes so playback can adapt to the connection.'', ps_Tasks = [],
        ps_Ladder = ladder_h264, ps_Package = False, ps_Thumbnails = False\<rparr>),
      (''stream-h264'', \<lparr>ps_Name = ''stream-h264'',
        ps_Description = ''Make several sizes and prepare them for streaming.'', ps_Tasks = [],
        ps_Ladder = ladder_h264, ps_Package = True, ps_Thumbnails = True\<rparr>)]"

definition taskNames :: "Preset \<Rightarrow> string list" where
  "taskNames p = map nt_Operation (ps_Tasks p) @ map (\<lambda>r. ''encode:'' @ rg_Label r) (ps_Ladder p)"

section \<open>Resolving a preset\<close>

record pipeline_row =
  pl_id :: uuid
  pl_tenant :: uuid
  pl_name :: string

record pipeline_version_row =
  pv_id :: uuid
  pv_tenant :: uuid
  pv_pipeline :: uuid
  pv_version :: int
  pv_definition :: json

record pipeline_db =
  pipelines :: "pipeline_row list"
  pipeline_versions :: "pipeline_version_row list"

datatype pipeline_error = ErrUnknownPreset string | PipelineConstraint string

definition find_pipeline :: "uuid \<Rightarrow> pipeline_db \<Rightarrow> uuid \<Rightarrow> string \<Rightarrow> pipeline_error + (pipeline_db \<times> uuid)" where
  "find_pipeline newID db tenantID name =
     (case sql_find (\<lambda>p. pl_tenant p = tenantID \<and> pl_name p = name) (pipelines db) of
        Some p \<Rightarrow> Inr (db, pl_id p)
      | None \<Rightarrow>
          if list_ex (\<lambda>p. pl_id p = newID) (pipelines db) then Inl (PipelineConstraint ''pipelines_pkey'')
          else Inr (db\<lparr>pipelines := pipelines db @ [\<lparr>pl_id = newID, pl_tenant = tenantID, pl_name = name\<rparr>]\<rparr>, newID))"

definition newest_version :: "pipeline_db \<Rightarrow> uuid \<Rightarrow> pipeline_version_row option" where
  "newest_version db pipelineID =
     (case sql_top (\<lambda>v. - pv_version v) 1 (filter (\<lambda>v. pv_pipeline v = pipelineID) (pipeline_versions db)) of
        [] \<Rightarrow> None | v # vs \<Rightarrow> Some v)"

definition Resolve ::
  "(nat \<Rightarrow> uuid) \<Rightarrow> pipeline_db \<Rightarrow> uuid \<Rightarrow> string \<Rightarrow> pipeline_error + (pipeline_db \<times> uuid \<times> Preset)" where
  "Resolve fresh db tenantID name =
     (case map_of presets name of
        None \<Rightarrow> Inl (ErrUnknownPreset name)
      | Some preset \<Rightarrow>
          (case find_pipeline (fresh 0) db tenantID name of
             Inl e \<Rightarrow> Inl e
           | Inr (db1, pipelineID) \<Rightarrow>
               (case newest_version db1 pipelineID of
                  Some v \<Rightarrow> Inr (db1, pv_id v, preset)
                | None \<Rightarrow>
                    if list_ex (\<lambda>v. pv_id v = fresh 1) (pipeline_versions db1)
                    then Inl (PipelineConstraint ''pipeline_versions_pkey'')
                    else Inr (db1\<lparr>pipeline_versions := pipeline_versions db1 @
                           [\<lparr>pv_id = fresh 1, pv_tenant = tenantID, pv_pipeline = pipelineID, pv_version = 1,
                             pv_definition = JObj [(''description'', JStr (ps_Description preset)),
                               (''preset'', JStr (ps_Name preset)),
                               (''tasks'', JArr (map JStr (taskNames preset)))]\<rparr>]\<rparr>, fresh 1, preset))))"

section \<open>Sizes\<close>

definition even_dim :: "rat \<Rightarrow> int" where
  "even_dim v = (let n = \<lceil>f64 (f64 (v / 2) - 1 / 2)\<rceil> * 2 in if n < 2 then 2 else n)"

definition fit :: "int \<Rightarrow> int \<Rightarrow> int \<Rightarrow> int \<Rightarrow> int \<times> int" where
  "fit rungW rungH sourceW sourceH =
     (if sourceW \<le> 0 \<or> sourceH \<le> 0 then (even_dim (f64 (of_int rungW)), even_dim (f64 (of_int rungH)))
      else if sourceW \<le> rungW \<and> sourceH \<le> rungH
      then (even_dim (f64 (of_int sourceW)), even_dim (f64 (of_int sourceH)))
      else let scale = min (f64 (f64 (of_int rungW) / f64 (of_int sourceW)))
                           (f64 (f64 (of_int rungH) / f64 (of_int sourceH)))
        in (even_dim (f64 (f64 (of_int sourceW) * scale)), even_dim (f64 (f64 (of_int sourceH) * scale))))"

definition rungsFor :: "Rung list \<Rightarrow> Track \<Rightarrow> Rung list" where
  "rungsFor ladder video =
     (let out = filter (\<lambda>r. \<not> (tr_Height video > 0 \<and> rg_Height r > tr_Height video)) ladder in
      if length out = 0 \<and> length ladder > 0
      then [(last ladder)\<lparr>rg_Width := tr_Width video, rg_Height := tr_Height video\<rparr>]
      else out)"

section \<open>The plan\<close>

definition segmentSeconds :: int where "segmentSeconds = 2"

definition videoTrack :: "ProbeResult \<Rightarrow> Track option" where
  "videoTrack m = List.find (\<lambda>t. tr_Kind t = KindVideo) (pr_Tracks m)"

definition audioTrack :: "ProbeResult \<Rightarrow> Track option" where
  "audioTrack m = List.find (\<lambda>t. tr_Kind t = KindAudio) (pr_Tracks m)"

definition colorOf :: "Track \<Rightarrow> ColorConfig option" where
  "colorOf t =
     (let c = \<lparr>cc_Primaries = tr_ColorPrimaries t, cc_Transfer = tr_ColorTransfer t,
               cc_Matrix = tr_ColorMatrix t, cc_Range = tr_ColorRange t\<rparr>
      in if Supported c then Some c else None)"

definition audioCodecOf :: "Config \<Rightarrow> string" where
  "audioCodecOf cfg = (case c_Audio cfg of None \<Rightarrow> [] | Some a \<Rightarrow> au_Codec a)"

definition rung_config :: "Rung \<Rightarrow> Track \<Rightarrow> Track option \<Rightarrow> Config" where
  "rung_config r video audio =
     (let (width, height) = fit (rg_Width r) (rg_Height r) (tr_Width video) (tr_Height video);
          rated = (tr_FPSNum video > 0 \<and> tr_FPSDen video > 0)
      in \<lparr>c_Container = ''mp4'',
          c_Video = \<lparr>v_Codec = ''h264'', v_Profile = ''high'', v_Level = [], v_Width = width, v_Height = height,
            v_FPSNum = (if rated then tr_FPSNum video else 0), v_FPSDen = (if rated then tr_FPSDen video else 0),
            v_RateControl = ''crf'', v_CRF = Some (rg_CRF r), v_BitrateBPS = 0,
            v_MaxrateBPS = rg_MaxrateBPS r, v_BufsizeBytes = 0, v_Preset = ''medium'', v_Tune = [],
            v_PixelFormat = ''yuv420p'', v_KeyframeIntervalSec = of_int segmentSeconds, v_BFrames = None,
            v_RefFrames = None, v_Color = colorOf video\<rparr>,
          c_Audio = map_option (\<lambda>a. \<lparr>au_Codec = ''aac'', au_BitrateBPS = 128000, au_SampleRateHz = 48000,
                                     au_Channels = min (tr_Channels a) 2\<rparr>) audio\<rparr>)"

text \<open>The JSON of a configuration and of an expectation, members in struct order.\<close>

definition color_json :: "ColorConfig \<Rightarrow> json" where
  "color_json c = JObj (omit_str ''primaries'' (cc_Primaries c) @ omit_str ''transfer'' (cc_Transfer c) @
     omit_str ''matrix'' (cc_Matrix c) @ omit_str ''range'' (cc_Range c))"

definition video_json :: "VideoConfig \<Rightarrow> json" where
  "video_json v = JObj (
     [(''codec'', JStr (v_Codec v))] @ omit_str ''profile'' (v_Profile v) @ omit_str ''level'' (v_Level v) @
     [(''width'', JInt (v_Width v)), (''height'', JInt (v_Height v))] @
     omit_int ''fps_num'' (v_FPSNum v) @ omit_int ''fps_den'' (v_FPSDen v) @
     [(''rate_control'', JStr (v_RateControl v))] @ omit_ptr ''crf'' (map_option JInt (v_CRF v)) @
     omit_int ''bitrate_bps'' (v_BitrateBPS v) @ omit_int ''maxrate_bps'' (v_MaxrateBPS v) @
     omit_int ''bufsize_bytes'' (v_BufsizeBytes v) @ omit_str ''preset'' (v_Preset v) @
     omit_str ''tune'' (v_Tune v) @ omit_str ''pixel_format'' (v_PixelFormat v) @
     (if v_KeyframeIntervalSec v = 0 then []
      else [(''keyframe_interval_seconds'', JDec (json_float (v_KeyframeIntervalSec v)))]) @
     omit_ptr ''b_frames'' (map_option JInt (v_BFrames v)) @
     omit_ptr ''ref_frames'' (map_option JInt (v_RefFrames v)) @
     omit_ptr ''color'' (map_option color_json (v_Color v)))"

definition audio_json :: "AudioConfig \<Rightarrow> json" where
  "audio_json a = JObj ([(''codec'', JStr (au_Codec a))] @ omit_int ''bitrate_bps'' (au_BitrateBPS a) @
     omit_int ''sample_rate_hz'' (au_SampleRateHz a) @ omit_int ''channels'' (au_Channels a))"

definition config_json :: "Config \<Rightarrow> json" where
  "config_json c = JObj ([(''container'', JStr (c_Container c)), (''video'', video_json (c_Video c))] @
     omit_ptr ''audio'' (map_option audio_json (c_Audio c)))"

definition expectation_json :: "Expectation \<Rightarrow> json" where
  "expectation_json e = JObj ([(''label'', JStr (ex_Label e))] @ omit_str ''codec'' (ex_Codec e) @
     omit_int ''width'' (ex_Width e) @ omit_int ''height'' (ex_Height e) @
     omit_int ''duration_ms'' (ex_DurationMS e) @ omit_str ''audio_codec'' (ex_AudioCodec e) @
     omit_str ''hdr_format'' (ex_HDRFormat e))"

datatype plan_error = NoVideoTrack | PlanInvalid config_error

definition encode_task :: "string \<Rightarrow> ProbeResult \<Rightarrow> Rung \<Rightarrow> Config \<Rightarrow> NewTask" where
  "encode_task sourceKey media r cfg = zero_task\<lparr>nt_Key := ''encode-'' @ rg_Label r, nt_Operation := ''encode'',
     nt_Spec := json_text (JObj [(''duration_ms'', JInt (pr_DurationMS media)), (''encode'', config_json cfg),
       (''output_label'', JStr (rg_Label r)), (''source_key'', JStr sourceKey)]),
     nt_Requirements := Some (no_requirements\<lparr>Encoder := Encoder_of (c_Video cfg), SlotClass := ''encode''\<rparr>)\<rparr>"

definition expectation_of :: "ProbeResult \<Rightarrow> Track \<Rightarrow> Rung \<Rightarrow> Config \<Rightarrow> Expectation" where
  "expectation_of media video r cfg = \<lparr>ex_Label = rg_Label r, ex_Codec = v_Codec (c_Video cfg),
     ex_Width = v_Width (c_Video cfg), ex_Height = v_Height (c_Video cfg),
     ex_DurationMS = pr_DurationMS media, ex_AudioCodec = audioCodecOf cfg, ex_HDRFormat = tr_HDRFormat video\<rparr>"

fun plan_rungs ::
  "string \<Rightarrow> ProbeResult \<Rightarrow> Track \<Rightarrow> Rung list \<Rightarrow> NewTask list \<Rightarrow> Expectation list \<Rightarrow>
   plan_error + (NewTask list \<times> Expectation list)" where
  "plan_rungs sourceKey media video [] built expects = Inr (built, expects)"
| "plan_rungs sourceKey media video (r # rs) built expects =
     (let cfg = rung_config r video (audioTrack media) in
      case config_Validate cfg of
        Some e \<Rightarrow> Inl (PlanInvalid e)
      | None \<Rightarrow> plan_rungs sourceKey media video rs (built @ [encode_task sourceKey media r cfg])
          (expects @ [expectation_of media video r cfg]))"

definition thumbnail_tasks :: "Preset \<Rightarrow> string \<Rightarrow> ProbeResult \<Rightarrow> NewTask list" where
  "thumbnail_tasks p sourceKey media =
     (if ps_Thumbnails p
      then [zero_task\<lparr>nt_Key := ''thumbnails'', nt_Operation := ''thumbnail'',
              nt_Spec := json_text (JObj [(''duration_ms'', JInt (pr_DurationMS media)), (''source_key'', JStr sourceKey)]),
              nt_Requirements := Some (no_requirements\<lparr>SlotClass := ''thumbnail''\<rparr>)\<rparr>]
      else [])"

definition validate_task :: "Expectation list \<Rightarrow> string list \<Rightarrow> NewTask" where
  "validate_task expects encodeKeys = zero_task\<lparr>nt_Key := ''validate'', nt_Operation := ''validate'',
     nt_Spec := json_text (JObj [(''expect'', JArr (map expectation_json expects)), (''needs_artifacts'', JBool True)]),
     nt_DependsOn := encodeKeys, nt_MaxAttempts := 3\<rparr>"

definition package_tasks :: "Preset \<Rightarrow> string list \<Rightarrow> NewTask list" where
  "package_tasks p encodeKeys =
     (if ps_Package p
      then [zero_task\<lparr>nt_Key := ''package'', nt_Operation := ''package'',
              nt_Spec := json_text (JObj [(''needs_artifacts'', JBool True), (''segment_seconds'', JInt segmentSeconds)]),
              nt_DependsOn := encodeKeys @ [''validate''], nt_MaxAttempts := 3\<rparr>]
      else [])"

definition Plan :: "Preset \<Rightarrow> string \<Rightarrow> ProbeResult \<Rightarrow> plan_error + NewTask list" where
  "Plan p sourceKey media =
     (if \<not> NeedsProbe p
      then Inr (map (\<lambda>t. t\<lparr>nt_Spec := json_text (JObj [(''source_key'', JStr sourceKey)])\<rparr>) (ps_Tasks p))
      else case videoTrack media of
        None \<Rightarrow> Inl NoVideoTrack
      | Some video \<Rightarrow>
          (case plan_rungs sourceKey media video (rungsFor (ps_Ladder p) video) [] [] of
             Inl e \<Rightarrow> Inl e
           | Inr (built, expects) \<Rightarrow>
               let encodeKeys = map (\<lambda>r. ''encode-'' @ rg_Label r) (rungsFor (ps_Ladder p) video) in
               Inr (built @ thumbnail_tasks p sourceKey media @ [validate_task expects encodeKeys] @
                    package_tasks p encodeKeys)))"

end
