(* ===== verification/Pipeline_Properties.thy ===== *)
theory Pipeline_Properties
  imports Pipeline Job_Properties
begin

text \<open>
  What planning promises: sizes that never upscale, a plan for every ordinary source, and a task
  graph the job store accepts and can run to its end.
\<close>

section \<open>Sizes\<close>

lemma even_dim_range: "2 \<le> even_dim v" "even (even_dim v)"
  by (auto simp: even_dim_def Let_def)

lemma even_dim_le:
  assumes "v \<le> of_int s" "\<bar>s\<bar> \<le> 2 ^ 52" "2 \<le> s"
  shows "even_dim v \<le> 2 * (s div 2)"
proof -
  have "f64 (f64 (v / 2) - 1 / 2) \<le> of_int (s - 1) / 2" using assms(1,2) by (rule f64.half_below)
  also have "\<dots> \<le> of_int (s div 2)"
  proof -
    have "s - 1 \<le> 2 * (s div 2)" by presburger
    then have "(of_int (s - 1) :: rat) \<le> of_int (2 * (s div 2))" by (simp only: of_int_le_iff)
    then show ?thesis by simp
  qed
  finally have "\<lceil>f64 (f64 (v / 2) - 1 / 2)\<rceil> \<le> s div 2" by (simp add: ceiling_le_iff)
  moreover have "1 \<le> s div 2" using assms(3) by simp
  ultimately show ?thesis by (simp add: even_dim_def Let_def)
qed

lemma f64_int: "\<bar>n\<bar> \<le> 2 ^ 53 \<Longrightarrow> f64 (of_int n) = of_int n"
  by (rule f64.exact)

text \<open>The scaled case: both dimensions are multiplied by one factor of at most one.\<close>

lemma fit_scaled:
  assumes "1 \<le> rw" "rw \<le> 2 ^ 31" "1 \<le> rh" "rh \<le> 2 ^ 31" "1 \<le> sw" "sw \<le> 2 ^ 31" "1 \<le> sh" "sh \<le> 2 ^ 31"
    and "\<not> (sw \<le> rw \<and> sh \<le> rh)"
  obtains c where "fit rw rh sw sh = (even_dim (f64 (of_int sw * c)), even_dim (f64 (of_int sh * c)))"
    "0 \<le> c" "c \<le> 1" "c \<le> f64 (of_int rw / of_int sw)" "c \<le> f64 (of_int rh / of_int sh)"
proof
  let ?c = "min (f64 (of_int rw / of_int sw)) (f64 (of_int rh / of_int sh))"
  have x: "f64 (of_int rw) = of_int rw" "f64 (of_int rh) = of_int rh" "f64 (of_int sw) = of_int sw" "f64 (of_int sh) = of_int sh"
    using assms(1-8) by (simp_all add: f64_int)
  show "fit rw rh sw sh = (even_dim (f64 (of_int sw * ?c)), even_dim (f64 (of_int sh * ?c)))"
    unfolding fit_def x Let_def using assms(5,7,9) by auto
  show "0 \<le> ?c" using f64.nonneg assms by simp
  have one: "f64 (of_int a / of_int b) \<le> 1" if "a < b" "0 < b" for a b :: int
    using f64.below_int [of "of_int a / of_int b" 1] that by simp
  show "?c \<le> 1" using assms(5,7,9) one [of rw sw] one [of rh sh] by (auto simp: min_le_iff_disj not_le)
qed simp_all

lemma scaled_dim:
  assumes "c \<le> f64 (of_int r / of_int s)" "0 \<le> c" "1 \<le> s" "2 \<le> r" "r \<le> 2 ^ 31"
  shows "even_dim (f64 (of_int s * c)) \<le> 2 * ((r + 1) div 2)"
proof -
  have "f64 (of_int s * c) \<le> of_int (r + 1)" using f64.scaled_near [of s r c] assms by simp
  then show ?thesis using assms by (intro even_dim_le) auto
qed

text \<open>
  C32. A rung is fitted without upscaling: for a source and a rung of at least 2 pixels either way,
  both output dimensions are even and at least 2, neither exceeds the source's, and neither exceeds
  the rung's rounded up to even.
\<close>

theorem fit_never_upscales:
  assumes "2 \<le> rw" "rw \<le> 2 ^ 31" "2 \<le> rh" "rh \<le> 2 ^ 31" "2 \<le> sw" "sw \<le> 2 ^ 31" "2 \<le> sh" "sh \<le> 2 ^ 31"
    and "fit rw rh sw sh = (w, h)"
  shows "even w \<and> even h \<and> 2 \<le> w \<and> 2 \<le> h \<and> w \<le> sw \<and> h \<le> sh \<and>
    w \<le> 2 * ((rw + 1) div 2) \<and> h \<le> 2 * ((rh + 1) div 2)"
proof (cases "sw \<le> rw \<and> sh \<le> rh")
  case True
  then have wh: "w = even_dim (of_int sw)" "h = even_dim (of_int sh)"
    using assms by (simp_all add: fit_def f64_int)
  have "w \<le> 2 * (sw div 2)" "h \<le> 2 * (sh div 2)" unfolding wh using assms by (simp_all add: even_dim_le)
  then have "w \<le> sw" "h \<le> sh" "w \<le> 2 * ((rw + 1) div 2)" "h \<le> 2 * ((rh + 1) div 2)"
    using True by presburger+
  then show ?thesis using wh even_dim_range by blast
next
  case False
  obtain c where c: "fit rw rh sw sh = (even_dim (f64 (of_int sw * c)), even_dim (f64 (of_int sh * c)))"
    "0 \<le> c" "c \<le> 1" "c \<le> f64 (of_int rw / of_int sw)" "c \<le> f64 (of_int rh / of_int sh)"
    using fit_scaled [of rw rh sw sh] assms False by auto
  have "even_dim (f64 (of_int s * c)) \<le> 2 * (s div 2)" if "2 \<le> s" "s \<le> 2 ^ 31" for s
    using f64.scaled_below [of s c] that c(3) by (intro even_dim_le) auto
  then have "w \<le> 2 * (sw div 2)" "h \<le> 2 * (sh div 2)" using c(1) assms by auto
  moreover have "w \<le> 2 * ((rw + 1) div 2)" "h \<le> 2 * ((rh + 1) div 2)"
    using scaled_dim [OF c(4,2)] scaled_dim [OF c(5,2)] c(1) assms by auto
  moreover have "w \<le> sw" "h \<le> sh" using calculation(1,2) by presburger+
  ultimately show ?thesis using c(1) assms(9) even_dim_range by auto
qed

theorem fit_never_upscales_witness:
  "fst (fit 1920 1080 1080 1920) \<le> 1080 \<and> snd (fit 1920 1080 1080 1920) \<le> 1080"
  using fit_never_upscales [of 1920 1080 1080 1920 "fst (fit 1920 1080 1080 1920)" "snd (fit 1920 1080 1080 1920)"]
  by simp


section \<open>Configurations of a plan\<close>

definition rung_ok :: "Rung \<Rightarrow> bool" where
  "rung_ok r \<longleftrightarrow> 2 \<le> rg_Width r \<and> rg_Width r \<le> 7680 \<and> 2 \<le> rg_Height r \<and> rg_Height r \<le> 7680 \<and>
     0 \<le> rg_CRF r \<and> rg_CRF r \<le> 63 \<and> 0 < rg_MaxrateBPS r \<and> rg_MaxrateBPS r \<le> 400000000"

lemma presets_rungs: "(name, p) \<in> set presets \<Longrightarrow> r \<in> set (ps_Ladder p) \<Longrightarrow> rung_ok r"
  by (auto simp: presets_def ladder_h264_def rung_def rung_ok_def)

text \<open>A source the vocabulary can express: at most 8K either way and at most 240 frames per second.\<close>

definition ordinary :: "Track \<Rightarrow> bool" where
  "ordinary v \<longleftrightarrow> tr_Width v \<le> 7680 \<and> tr_Height v \<le> 7680 \<and>
     (tr_FPSNum v > 0 \<and> tr_FPSDen v > 0 \<longrightarrow> f64 (f64 (of_int (tr_FPSNum v)) / f64 (of_int (tr_FPSDen v))) \<le> 240)"

lemma even_dim_8k:
  assumes "n \<le> 7680" "- (2 ^ 52) \<le> n"
  shows "even_dim (f64 (of_int n)) \<le> 7680"
proof -
  have "f64 (of_int n) \<le> of_int 7680" using assms by (intro f64.below_int) auto
  then show ?thesis using even_dim_le [of _ 7680] by simp
qed

lemma even_dim_small: "n \<le> 0 \<Longrightarrow> even_dim (f64 (of_int n)) = 2"
proof -
  assume "n \<le> 0"
  then have "f64 (of_int n) \<le> of_int 2" by (intro f64.below_int) auto
  then show ?thesis using even_dim_le [of "f64 (of_int n)" 2] even_dim_range(1) [of "f64 (of_int n)"] by simp
qed

lemma fit_8k:
  assumes "rw \<le> 7680" "rh \<le> 7680" "sw \<le> 7680" "sh \<le> 7680" "2 \<le> rw \<and> 2 \<le> rh \<or> rw = sw \<and> rh = sh"
    and "fit rw rh sw sh = (w, h)"
  shows "2 \<le> w" "w \<le> 7680" "even w" "2 \<le> h" "h \<le> 7680" "even h"
proof -
  have small: "even_dim (f64 (of_int n)) \<le> 7680" if "n \<le> 7680" for n
    using even_dim_8k [of n] even_dim_small [of n] that by (cases "n \<le> 0") auto
  have "w \<le> 7680 \<and> h \<le> 7680"
  proof (cases "sw \<le> 0 \<or> sh \<le> 0 \<or> sw \<le> rw \<and> sh \<le> rh")
    case True
    then have "(w, h) = (even_dim (f64 (of_int rw)), even_dim (f64 (of_int rh))) \<or>
        (w, h) = (even_dim (f64 (of_int sw)), even_dim (f64 (of_int sh)))"
      using assms(6) by (auto simp: fit_def split: if_splits)
    then show ?thesis using small assms(1-4) by auto
  next
    case False
    then have pos: "2 \<le> rw" "2 \<le> rh" "1 \<le> sw" "1 \<le> sh" using assms(5) by auto
    obtain c where c: "fit rw rh sw sh = (even_dim (f64 (of_int sw * c)), even_dim (f64 (of_int sh * c)))"
      "0 \<le> c" "c \<le> 1" "c \<le> f64 (of_int rw / of_int sw)" "c \<le> f64 (of_int rh / of_int sh)"
      using fit_scaled [of rw rh sw sh] assms(1-4) pos False by auto
    then have "w \<le> 2 * ((rw + 1) div 2)" "h \<le> 2 * ((rh + 1) div 2)"
      using scaled_dim [OF c(4,2)] scaled_dim [OF c(5,2)] pos assms(1,2,6) by auto
    then show ?thesis using assms(1,2) by presburger
  qed
  moreover have "2 \<le> w" "even w" "2 \<le> h" "even h"
    using assms(6) even_dim_range by (auto simp: fit_def Let_def split: if_splits)
  ultimately show "2 \<le> w" "w \<le> 7680" "even w" "2 \<le> h" "h \<le> 7680" "even h" by blast+
qed

lemma rungsFor_cases:
  assumes "r \<in> set (rungsFor ladder video)"
  shows "r \<in> set ladder \<and> (tr_Height video > 0 \<longrightarrow> rg_Height r \<le> tr_Height video) \<or>
    r = (last ladder)\<lparr>rg_Width := tr_Width video, rg_Height := tr_Height video\<rparr> \<and> ladder \<noteq> []"
  using assms by (auto simp: rungsFor_def Let_def split: if_splits)

lemma rung_config_valid:
  assumes r: "r \<in> set (rungsFor ladder video)" and ok: "\<forall>x \<in> set ladder. rung_ok x" and o: "ordinary video"
    and ch: "\<forall>a. audio = Some a \<longrightarrow> 0 \<le> tr_Channels a"
  shows "config_Validate (rung_config r video audio) = None"
proof -
  obtain w h where wh: "fit (rg_Width r) (rg_Height r) (tr_Width video) (tr_Height video) = (w, h)" by fastforce
  have k: "rg_Width r \<le> 7680" "rg_Height r \<le> 7680"
    "2 \<le> rg_Width r \<and> 2 \<le> rg_Height r \<or> rg_Width r = tr_Width video \<and> rg_Height r = tr_Height video"
    and q: "0 \<le> rg_CRF r" "rg_CRF r \<le> 63" "0 < rg_MaxrateBPS r" "rg_MaxrateBPS r \<le> 400000000"
    using rungsFor_cases [OF r] ok o last_in_set by (auto simp: rung_ok_def ordinary_def)
  note dims = fit_8k [OF k(1,2) _ _ k(3) wh]
  have sz: "validate_size (c_Video (rung_config r video audio)) = None"
    using dims o by (cases "tr_FPSNum video > 0 \<and> tr_FPSDen video > 0")
      (simp_all add: validate_size_def rung_config_def wh ordinary_def max_defs even_iff_mod_2_eq_zero not_less Let_def)
  have rate: "validate_rate (c_Video (rung_config r video audio)) = None"
    using q by (simp add: validate_rate_def rung_config_def wh rateControls_def max_defs Let_def)
  have "case colorOf video of None \<Rightarrow> True | Some c \<Rightarrow> color_validate c = None"
    by (simp add: colorOf_def Supported_def Let_def)
  then have names: "validate_names (c_Video (rung_config r video audio)) = None"
    by (auto simp: validate_names_def rung_config_def wh speed_presets_def profiles_def go_get_set_def
        pixelFormats_def segmentSeconds_def max_defs Let_def split: option.splits)
  have "case c_Audio (rung_config r video audio) of None \<Rightarrow> True | Some a \<Rightarrow> audio_validate a = None"
    using ch by (auto simp: rung_config_def wh audio_validate_def audioEncoders_def Let_def split: option.splits)
  moreover have "video_validate (c_Video (rung_config r video audio)) = None"
    using sz rate names by (simp add: video_validate_def rung_config_def wh videoEncoders_def Let_def)
  ultimately show ?thesis
    by (auto simp: config_Validate_def rung_config_def wh containers_def Let_def split: option.splits)
qed

lemma plan_rungs_all:
  assumes "\<forall>r \<in> set rs. config_Validate (rung_config r video (audioTrack media)) = None"
  shows "plan_rungs key media video rs built expects =
    Inr (built @ map (\<lambda>r. encode_task key media r (rung_config r video (audioTrack media))) rs,
         expects @ map (\<lambda>r. expectation_of media video r (rung_config r video (audioTrack media))) rs)"
  using assms by (induction rs arbitrary: built expects) (auto simp: Let_def)


lemma plan_rungs_Inr:
  "plan_rungs key media video rs built expects = Inr x \<Longrightarrow>
     \<forall>r \<in> set rs. config_Validate (rung_config r video (audioTrack media)) = None"
  by (induction rs arbitrary: built expects) (auto simp: Let_def split: option.splits)

section \<open>The task graph\<close>

definition plan_layer :: "NewTask \<Rightarrow> nat" where
  "plan_layer t = (if nt_Operation t = ''package'' then 2 else if nt_Operation t = ''validate'' then 1 else 0)"

definition runnable_graph :: "NewTask list \<Rightarrow> bool" where
  "runnable_graph ts \<longleftrightarrow> ts \<noteq> [] \<and> distinct (map nt_Key ts) \<and>
     (\<forall>t \<in> set ts. nt_Operation t \<in> set task_operations \<and>
        (\<forall>d \<in> set (nt_DependsOn t). \<exists>u \<in> set ts. nt_Key u = d \<and> plan_layer u < plan_layer t))"

lemma encode_task_sel [simp]:
  "nt_Key (encode_task k m r c) = ''encode-'' @ rg_Label r" "nt_Operation (encode_task k m r c) = ''encode''"
  "nt_DependsOn (encode_task k m r c) = []"
  by (simp_all add: encode_task_def zero_task_def)

lemma validate_task_sel [simp]:
  "nt_Key (validate_task es ks) = ''validate''" "nt_Operation (validate_task es ks) = ''validate''"
  "nt_DependsOn (validate_task es ks) = ks"
  by (simp_all add: validate_task_def)

lemma rungsFor_labels:
  assumes "distinct (map rg_Label ladder)" "ladder \<noteq> []"
  shows "distinct (map rg_Label (rungsFor ladder v))" "rungsFor ladder v \<noteq> []"
  using assms by (auto simp: rungsFor_def Let_def distinct_map_filter)

text \<open>The tasks planned for a ladder.\<close>

definition ladder_tasks :: "Preset \<Rightarrow> string \<Rightarrow> ProbeResult \<Rightarrow> Track \<Rightarrow> NewTask list" where
  "ladder_tasks p key media video =
     (let rs = rungsFor (ps_Ladder p) video; keys = map (\<lambda>r. ''encode-'' @ rg_Label r) rs in
      map (\<lambda>r. encode_task key media r (rung_config r video (audioTrack media))) rs @
      thumbnail_tasks p key media @
      [validate_task (map (\<lambda>r. expectation_of media video r (rung_config r video (audioTrack media))) rs) keys] @
      package_tasks p keys)"

lemma Plan_ladder:
  assumes "NeedsProbe p" "videoTrack media = Some video"
    and "\<forall>r \<in> set (rungsFor (ps_Ladder p) video). config_Validate (rung_config r video (audioTrack media)) = None"
  shows "Plan p key media = Inr (ladder_tasks p key media video)"
  using assms plan_rungs_all [OF assms(3)] by (simp add: Plan_def ladder_tasks_def Let_def)

lemma ladder_tasks_runnable:
  assumes "distinct (map rg_Label (ps_Ladder p))" "ps_Ladder p \<noteq> []"
  shows "runnable_graph (ladder_tasks p key media video)"
proof -
  let ?rs = "rungsFor (ps_Ladder p) video"
  have d: "distinct (map (\<lambda>r. ''encode-'' @ rg_Label r) ?rs)"
    using rungsFor_labels(1) [OF assms] by (simp add: distinct_map inj_on_def)
  show ?thesis
    unfolding runnable_graph_def ladder_tasks_def thumbnail_tasks_def package_tasks_def Let_def
    using d by (auto simp: comp_def task_operations_def plan_layer_def zero_task_def)
qed

lemma presets_labels: "(name, p) \<in> set presets \<Longrightarrow> distinct (map rg_Label (ps_Ladder p))"
  by (auto simp: presets_def ladder_h264_def rung_def)

lemma preset_runnable:
  assumes "(name, p) \<in> set presets" "Plan p key media = Inr ts"
  shows "runnable_graph ts"
proof (cases "NeedsProbe p")
  case True
  obtain video x where v: "videoTrack media = Some video"
      "plan_rungs key media video (rungsFor (ps_Ladder p) video) [] [] = Inr x"
    using assms(2) True by (auto simp: Plan_def split: option.splits sum.splits)
  then have "ts = ladder_tasks p key media video"
    using Plan_ladder [OF True v(1) plan_rungs_Inr [OF v(2)]] assms(2) by simp
  then show ?thesis using ladder_tasks_runnable presets_labels [OF assms(1)] True by (simp add: NeedsProbe_def)
next
  case False
  then show ?thesis using assms
    by (auto simp: presets_def Plan_def NeedsProbe_def ladder_h264_def runnable_graph_def zero_task_def task_operations_def)
qed


section \<open>Creating the job\<close>

lemma insert_tasks_ok:
  assumes "distinct (map t_id (tasks db @ rs))" "\<forall>r \<in> set rs. t_operation r \<in> set task_operations"
  shows "insert_tasks rs db = Inr (db\<lparr>tasks := tasks db @ rs\<rparr>)"
  using assms
proof (induction rs arbitrary: db)
  case (Cons r rs)
  then have "insert_task r db = Inr (db\<lparr>tasks := tasks db @ [r]\<rparr>)"
    by (auto simp: insert_task_def key_present)
  then show ?case using Cons.IH [of "db\<lparr>tasks := tasks db @ [r]\<rparr>"] Cons.prems by simp
qed simp

lemma task_ids_nth:
  assumes "distinct (map nt_Key ts)" "i < length ts"
  shows "task_ids fresh ts (nt_Key (ts ! i)) = Some (fresh i)"
proof -
  let ?z = "zip (map nt_Key ts) (map fresh [0..<length ts])"
  have "(nt_Key (ts ! i), fresh i) \<in> set ?z"
    using assms(2) by (auto simp: in_set_zip intro!: exI [of _ i])
  moreover have "distinct (map fst (rev ?z))" using assms(1) by (simp add: rev_map [symmetric])
  ultimately show ?thesis unfolding task_ids_def by (subst map_of_eq_Some_iff) simp_all
qed

lemma graph_ids:
  assumes "distinct (map nt_Key ts)"
  shows "map t_id (graph_rows now fresh ten jid prio ts) = map fresh [0..<length ts]"
  using task_ids_nth [OF assms]
  by (intro nth_equalityI) (simp_all add: graph_rows_def new_task_row_def Let_def)

lemma graph_acyclic:
  assumes ts: "runnable_graph ts" and inj: "inj_on fresh {0..<length ts}"
  defines "rank \<equiv> \<lambda>u. plan_layer (ts ! inv_into {0..<length ts} fresh u)"
  assumes r: "r \<in> set (graph_rows now fresh ten jid prio ts)" and d: "d \<in> set (t_depends_on r)"
  shows "rank d < rank (t_id r)"
proof -
  have dist: "distinct (map nt_Key ts)" using ts by (simp add: runnable_graph_def)
  have rank: "rank (fresh i) = plan_layer (ts ! i)" if "i < length ts" for i
    unfolding rank_def using that inv_into_f_f [OF inj, of i] by simp
  obtain i where i: "i < length ts" "r = new_task_row now (task_ids fresh ts) ten jid prio (ts ! i)"
    using r by (auto simp: graph_rows_def in_set_conv_nth)
  obtain k where k: "k \<in> set (nt_DependsOn (ts ! i))" "d = the (task_ids fresh ts k)"
    using d i(2) by (auto simp: new_task_row_def Let_def)
  obtain u where u: "u \<in> set ts" "nt_Key u = k" "plan_layer u < plan_layer (ts ! i)"
    using ts k(1) i(1) unfolding runnable_graph_def by (meson nth_mem)
  obtain l where l: "l < length ts" "u = ts ! l" using u(1) by (auto simp: in_set_conv_nth)
  have "d = fresh l" using k(2) u(2) l task_ids_nth [OF dist l(1)] by simp
  moreover have "t_id r = fresh i" using i task_ids_nth [OF dist i(1)] by (simp add: new_task_row_def Let_def)
  ultimately show ?thesis using rank i(1) l u(3) by simp
qed



section \<open>A concrete source\<close>

definition demo_video :: Track where
  "demo_video = zero_track\<lparr>tr_Kind := KindVideo, tr_Width := 1280, tr_Height := 720\<rparr>"

definition demo_media :: ProbeResult where
  "demo_media = \<lparr>pr_Container = ''mov'', pr_DurationMS = 10000, pr_BitrateBPS = 0, pr_SizeBytes = 0, pr_Tracks = [demo_video]\<rparr>"

definition demo_preset :: Preset where
  "demo_preset = the (map_of presets ''stream-h264'')"

lemma demo_preset_in: "(''stream-h264'', demo_preset) \<in> set presets"
  by (simp add: demo_preset_def presets_def)

lemma demo_video_track: "videoTrack demo_media = Some demo_video" "audioTrack demo_media = None"
  by (simp_all add: videoTrack_def audioTrack_def demo_media_def demo_video_def kind_defs)



end
