(* ===== verification/Validation_Properties.thy ===== *)
theory Validation_Properties
  imports Validation
begin

text \<open>
  What a passed validation means: every expected output is there, its bytes are the registered ones,
  and it is what was asked for.
\<close>

lemma report_Failed_append [simp]: "report_Failed (xs @ ys) \<longleftrightarrow> report_Failed xs \<or> report_Failed ys"
  by (simp add: report_Failed_def)

lemma report_Failed_Cons [simp]: "report_Failed (c # cs) \<longleftrightarrow> ck_Status c = Fail_status \<or> report_Failed cs"
  by (simp add: report_Failed_def)

lemma report_Failed_Nil [simp]: "\<not> report_Failed []"
  by (simp add: report_Failed_def)

lemma check_status [simp]: "ck_Status (check l n s d) = s"
  by (simp add: check_def)

lemma verdict_fail [simp]: "verdict ok = Fail_status \<longleftrightarrow> \<not> ok" "Pass \<noteq> Fail_status"
  by (simp_all add: verdict_def status_defs)

lemma equal_loop_iff: "length a = length b \<Longrightarrow> equal_loop a b \<longleftrightarrow> a = b"
  by (induction a b rule: equal_loop.induct) auto

lemma equalBytes_iff [simp]: "equalBytes a b \<longleftrightarrow> a = b"
  by (auto simp: equalBytes_def equal_loop_iff)

text \<open>What an expectation asks of a probed file.\<close>

definition as_asked :: "Expectation \<Rightarrow> ProbeResult \<Rightarrow> bool" where
  "as_asked e m \<longleftrightarrow>
     (ex_Codec e \<noteq> [] \<longrightarrow> (\<exists>v. trackOf m KindVideo = Some v \<and> tr_Codec v = ex_Codec e)) \<and>
     (ex_Width e > 0 \<longrightarrow> trackOf m KindVideo \<noteq> None) \<and>
     (ex_Width e > 0 \<and> ex_Height e > 0 \<longrightarrow>
        (\<exists>v. trackOf m KindVideo = Some v \<and> tr_Width v = ex_Width e \<and> tr_Height v = ex_Height e)) \<and>
     (ex_DurationMS e > 0 \<longrightarrow> \<bar>pr_DurationMS m - ex_DurationMS e\<bar> \<le> 500) \<and>
     (ex_AudioCodec e \<noteq> [] \<longrightarrow> (\<exists>a. trackOf m KindAudio = Some a \<and> tr_Codec a = ex_AudioCodec e)) \<and>
     (ex_HDRFormat e \<noteq> [] \<longrightarrow> (\<exists>v. trackOf m KindVideo = Some v \<and> tr_HDRFormat v = ex_HDRFormat e))"

lemma Compare_ok: "\<not> report_Failed (Compare e m) \<longleftrightarrow> as_asked e m"
proof (cases "trackOf m KindVideo")
  case None
  then show ?thesis
    by (auto simp: Compare_def as_asked_def Let_def track_or_zero_def zero_track_def DurationToleranceMS_def
        split: option.splits)
next
  case (Some v)
  then show ?thesis
    by (cases "trackOf m KindAudio")
      (auto simp: Compare_def as_asked_def Let_def track_or_zero_def DurationToleranceMS_def)
qed

definition output_ok ::
  "(string \<Rightarrow> (int \<times> string) option) \<Rightarrow> (string \<Rightarrow> string + ProbeResult) \<Rightarrow> (string \<Rightarrow> ValidateArtifact option) \<Rightarrow>
   Expectation \<Rightarrow> bool" where
  "output_ok download probe_file arts e \<longleftrightarrow>
     (\<exists>a n sum m. arts (ex_Label e) = Some a \<and> download (va_URL a) = Some (n, sum) \<and> probe_file (va_URL a) = Inr m \<and>
        (va_SizeBytes a > 0 \<longrightarrow> n = va_SizeBytes a) \<and> (va_Checksum a \<noteq> [] \<longrightarrow> sum = va_Checksum a) \<and> as_asked e m)"

lemma checks_for_ok:
  "\<not> report_Failed (checks_for e a got media) \<longleftrightarrow>
     (va_SizeBytes a > 0 \<longrightarrow> fst got = va_SizeBytes a) \<and> (va_Checksum a \<noteq> [] \<longrightarrow> snd got = va_Checksum a) \<and>
     (\<exists>m. media = Inr m \<and> as_asked e m)"
  using Compare_ok [of e] by (cases media) (auto simp: checks_for_def CheckIntegrity_def)

lemma output_ok_iff:
  assumes "arts (ex_Label e) = Some a" "download (va_URL a) = Some got"
  shows "output_ok download probe_file arts e \<longleftrightarrow> \<not> report_Failed (checks_for e a got (probe_file (va_URL a)))"
  unfolding checks_for_ok output_ok_def using assms by (cases got) (simp, blast)

lemma validate_loop_ok:
  "validate_loop download probe_file arts es checks = Inr cs \<Longrightarrow>
     \<not> report_Failed cs \<longleftrightarrow> \<not> report_Failed checks \<and> list_all (output_ok download probe_file arts) es"
proof (induction es arbitrary: checks)
  case (Cons e es)
  show ?case
  proof (cases "arts (ex_Label e)")
    case None
    then show ?thesis using Cons.IH Cons.prems by (auto simp: output_ok_def)
  next
    case (Some a)
    then obtain got where got: "download (va_URL a) = Some got"
      using Cons.prems by (auto split: option.splits)
    then have "\<not> report_Failed cs \<longleftrightarrow> \<not> report_Failed (checks @ checks_for e a got (probe_file (va_URL a))) \<and>
        list_all (output_ok download probe_file arts) es"
      using Cons.IH Cons.prems Some by simp
    then show ?thesis using output_ok_iff [where arts = arts and download = download, OF Some got, of probe_file] by simp
  qed
qed simp

lemma validate_loop_returns:
  "list_all (output_ok download probe_file arts) es \<Longrightarrow> \<exists>cs. validate_loop download probe_file arts es checks = Inr cs"
  by (induction es arbitrary: checks) (auto simp: output_ok_def)

lemma filter_full: "length (filter P es) = length es \<longleftrightarrow> list_all P es"
  by (metis filter_True filter_id_conv length_filter_less less_irrefl list_all_iff)

lemma count_ok:
  "\<not> report_Failed [CheckArtifactCount (int (length es)) (int (length (filter P es)))] \<longleftrightarrow> list_all P es"
  using filter_full [of P es] by (simp add: CheckArtifactCount_def)

text \<open>
  C35. Validation passes exactly when every output is what was asked for: for each expectation an
  artifact with its label is registered, the file could be fetched, its size and checksum are the
  registered ones when these are known, the tool can read it, and codec, picture size, duration
  within half a second, audio codec and dynamic range are the expected ones wherever the
  expectation states them.
\<close>

theorem validation_passes_iff:
  "(\<exists>checks. validateTask download probe_file spec = ReportPassed checks) \<longleftrightarrow>
   (\<forall>e \<in> set (vs_Expect spec). \<exists>a n sum m.
      by_label (vs_Artifacts spec) (ex_Label e) = Some a \<and> download (va_URL a) = Some (n, sum) \<and>
      probe_file (va_URL a) = Inr m \<and> (va_SizeBytes a > 0 \<longrightarrow> n = va_SizeBytes a) \<and>
      (va_Checksum a \<noteq> [] \<longrightarrow> sum = va_Checksum a) \<and> as_asked e m)"
proof -
  let ?arts = "by_label (vs_Artifacts spec)"
  let ?P = "\<lambda>e. ?arts (ex_Label e) \<noteq> None"
  let ?c = "[CheckArtifactCount (int (length (vs_Expect spec))) (int (length (filter ?P (vs_Expect spec))))]"
  let ?ok = "list_all (output_ok download probe_file ?arts) (vs_Expect spec)"
  have "?ok \<Longrightarrow> list_all ?P (vs_Expect spec)" by (auto simp: list_all_iff output_ok_def)
  then have c: "?ok \<Longrightarrow> \<not> report_Failed ?c" using count_ok [of "vs_Expect spec" ?P] by simp
  have "(\<exists>checks. validateTask download probe_file spec = ReportPassed checks) \<longleftrightarrow> ?ok"
  proof
    assume "\<exists>checks. validateTask download probe_file spec = ReportPassed checks"
    then obtain cs where "validate_loop download probe_file ?arts (vs_Expect spec) ?c = Inr cs" "\<not> report_Failed cs"
      by (auto simp: validateTask_def Let_def split: sum.splits if_splits)
    then show ?ok using validate_loop_ok by blast
  next
    assume ok: ?ok
    then obtain cs where cs: "validate_loop download probe_file ?arts (vs_Expect spec) ?c = Inr cs"
      using validate_loop_returns by blast
    then have "\<not> report_Failed cs" using validate_loop_ok [OF cs] ok c by blast
    then show "\<exists>checks. validateTask download probe_file spec = ReportPassed checks"
      using cs by (simp add: validateTask_def Let_def)
  qed
  then show ?thesis by (simp add: list_all_iff output_ok_def)
qed

definition demo_expect :: Expectation where
  "demo_expect = \<lparr>ex_Label = ''720p'', ex_Codec = ''h264'', ex_Width = 1280, ex_Height = 720, ex_DurationMS = 10000,
     ex_AudioCodec = [], ex_HDRFormat = ''sdr''\<rparr>"

definition demo_spec :: ValidateSpec where
  "demo_spec = \<lparr>vs_Expect = [demo_expect],
     vs_Artifacts = [\<lparr>va_Label = ''720p'', va_Kind = ''rendition'', va_URL = ''u'', va_SizeBytes = 5,
       va_ChecksumAlgo = ''sha256'', va_Checksum = ''c'', va_Width = 1280, va_Height = 720\<rparr>]\<rparr>"

definition demo_probed :: "string \<Rightarrow> string + ProbeResult" where
  "demo_probed u = Inr \<lparr>pr_Container = ''mov'', pr_DurationMS = 10100, pr_BitrateBPS = 0, pr_SizeBytes = 0,
     pr_Tracks = [zero_track\<lparr>tr_Kind := KindVideo, tr_Codec := ''h264'', tr_Width := 1280, tr_Height := 720,
       tr_HDRFormat := ''sdr''\<rparr>]\<rparr>"

theorem validation_passes_iff_witness:
  "(\<exists>checks. validateTask (\<lambda>u. Some (5, ''c'')) demo_probed demo_spec = ReportPassed checks) \<and>
   \<not> (\<exists>checks. validateTask (\<lambda>u. Some (5, ''d'')) demo_probed demo_spec = ReportPassed checks)"
  unfolding validation_passes_iff
  by (simp add: demo_spec_def demo_expect_def demo_probed_def by_label_def as_asked_def trackOf_def zero_track_def)

end
