(* ===== verification/Artifact_Store.thy ===== *)
theory Artifact_Store
  imports Validation Storage_Key "HOL-Library.List_Lexorder" "HOL-Library.Char_ord" "HOL-Library.Product_Lexorder"
begin

text \<open>
  The outputs of a job: \<open>internal/artifact/artifact.go\<close> over the tables of \<open>0007_artifacts.sql\<close>, and the
  validation results of \<open>internal/validate/store.go\<close>. The size storage reports for an object is a
  parameter, \<open>head\<close>. Text columns are ordered byte by byte.
\<close>

section \<open>Tables\<close>

record set_row =
  s_id :: uuid
  s_tenant :: uuid
  s_job :: uuid
  s_version :: int
  s_state :: string
  s_prefix :: string
  s_created :: time
  s_completed :: "time option"

record artifact_row =
  af_id :: uuid
  af_tenant :: uuid
  af_set :: uuid
  af_attempt :: uuid
  af_kind :: string
  af_label :: string
  af_key :: string
  af_size :: int
  af_algo :: "string option"
  af_checksum :: "string option"
  af_media :: "json option"
  af_created :: time

record result_row =
  vl_id :: uuid
  vl_tenant :: uuid
  vl_set :: uuid
  vl_label :: "string option"
  vl_category :: string
  vl_name :: string
  vl_status :: string
  vl_detail :: "(string \<times> json) list"

record artifact_db =
  a_sets :: "set_row list"
  a_artifacts :: "artifact_row list"
  a_results :: "result_row list"

record Artifact =
  art_ID :: uuid
  art_SetID :: uuid
  art_Kind :: string
  art_Label :: string
  art_StorageKey :: string
  art_SizeBytes :: int
  art_ChecksumAlgo :: string
  art_Checksum :: "string option"
  art_Media :: "json option"
  art_CreatedAt :: time

record ArtifactSet =
  set_ID :: uuid
  set_JobID :: uuid
  set_Version :: int
  set_State :: string
  set_Prefix :: string
  set_CreatedAt :: time
  set_CompletedAt :: "time option"
  set_Artifacts :: "Artifact list"

record Registration =
  reg_Kind :: string
  reg_Label :: string
  reg_StorageKey :: string
  reg_SizeBytes :: int
  reg_ChecksumAlgo :: string
  reg_Checksum :: "string option"
  reg_Media :: "json option"

datatype artifact_error = ArtifactNotFound | ArtifactConflict string | ErrMissingObject | ArtifactSizeMismatch
  | ArtifactBadKey string | ArtifactStorage string | ArtifactConstraint string | NullChecksumAlgo | ErrNoSet

datatype head_error = HeadNotFound | HeadOther string

section \<open>Registering\<close>

definition artifact_nullable :: "string \<Rightarrow> string option" where
  "artifact_nullable s = (if s = [] then None else Some s)"

definition scan_artifact :: "artifact_row \<Rightarrow> Artifact" where
  "scan_artifact r = \<lparr>art_ID = af_id r, art_SetID = af_set r, art_Kind = af_kind r, art_Label = af_label r,
     art_StorageKey = af_key r, art_SizeBytes = af_size r,
     art_ChecksumAlgo = (case af_algo r of None \<Rightarrow> [] | Some s \<Rightarrow> s), art_Checksum = af_checksum r,
     art_Media = af_media r, art_CreatedAt = af_created r\<rparr>"

definition newest_set :: "artifact_db \<Rightarrow> uuid \<Rightarrow> uuid \<Rightarrow> set_row option" where
  "newest_set db tenantID jobID =
     (case sql_top (\<lambda>s. - s_version s) 1 (filter (\<lambda>s. s_job s = jobID \<and> s_tenant s = tenantID) (a_sets db)) of
        [] \<Rightarrow> None | s # ss \<Rightarrow> Some s)"

definition currentSet :: "time \<Rightarrow> uuid \<Rightarrow> artifact_db \<Rightarrow> uuid \<Rightarrow> uuid \<Rightarrow> artifact_error + (artifact_db \<times> set_row)" where
  "currentSet now setID db tenantID jobID =
     (case newest_set db tenantID jobID of
        Some s \<Rightarrow> Inr (db, s)
      | None \<Rightarrow>
          let row = \<lparr>s_id = setID, s_tenant = tenantID, s_job = jobID, s_version = 1, s_state = ''building'',
                     s_prefix = ''t/'' @ uuid_String tenantID @ ''/jobs/'' @ uuid_String jobID @ ''/v'' @ Itoa 1,
                     s_created = now, s_completed = None\<rparr>
          in if list_ex (\<lambda>s. s_id s = setID) (a_sets db) then Inl (ArtifactConstraint ''artifact_sets_pkey'')
             else if list_ex (\<lambda>s. s_job s = jobID \<and> s_version s = 1) (a_sets db)
             then Inl (ArtifactConstraint ''artifact_sets_job_id_version_key'')
             else Inr (db\<lparr>a_sets := a_sets db @ [row]\<rparr>, row))"

definition artifact_kinds :: "string list" where
  "artifact_kinds = [''rendition'', ''segment_set'', ''manifest'', ''thumbnail'', ''sprite'', ''sprite_index'',
     ''poster'', ''subtitle'', ''transcript'', ''clip'', ''drm_metadata'', ''log'']"

definition insert_artifact :: "artifact_row \<Rightarrow> artifact_db \<Rightarrow> artifact_error + artifact_db" where
  "insert_artifact r db =
     (if list_ex (\<lambda>a. af_id a = af_id r) (a_artifacts db) then Inl (ArtifactConstraint ''artifacts_pkey'')
      else if \<not> List.member artifact_kinds (af_kind r) then Inl (ArtifactConstraint ''artifacts_kind_check'')
      else if list_ex (\<lambda>a. af_set a = af_set r \<and> af_label a = af_label r) (a_artifacts db)
      then Inl (ArtifactConstraint ''artifacts_artifact_set_id_label_key'')
      else if list_ex (\<lambda>a. af_key a = af_key r) (a_artifacts db)
      then Inl (ArtifactConstraint ''artifacts_storage_key'')
      else Inr (db\<lparr>a_artifacts := a_artifacts db @ [r]\<rparr>))"

text \<open>
  \<open>Register\<close>: \<open>fresh 0\<close> identifies a new set, \<open>fresh 1\<close> the artifact. Reading an existing row puts its
  nullable algorithm column into a plain string, which fails on NULL.
\<close>

definition Register ::
  "time \<Rightarrow> (nat \<Rightarrow> uuid) \<Rightarrow> (string \<Rightarrow> head_error + int) \<Rightarrow> artifact_db \<Rightarrow> uuid \<Rightarrow> uuid \<Rightarrow> uuid \<Rightarrow> Registration \<Rightarrow>
   artifact_error + (artifact_db \<times> Artifact)" where
  "Register now fresh head db tenantID jobID attemptID reg =
     (case Segment (reg_Label reg) of
        Inl e \<Rightarrow> Inl (ArtifactBadKey (reg_Label reg))
      | Inr _ \<Rightarrow>
      (case head (reg_StorageKey reg) of
        Inl HeadNotFound \<Rightarrow> Inl ErrMissingObject
      | Inl (HeadOther e) \<Rightarrow> Inl (ArtifactStorage e)
      | Inr stored \<Rightarrow>
          if reg_SizeBytes reg > 0 \<and> stored \<noteq> reg_SizeBytes reg then Inl ArtifactSizeMismatch
          else
          (case currentSet now (fresh 0) db tenantID jobID of
             Inl e \<Rightarrow> Inl e
           | Inr (db1, s) \<Rightarrow>
               (case sql_find (\<lambda>a. af_set a = s_id s \<and> af_label a = reg_Label reg) (a_artifacts db1) of
                  Some old \<Rightarrow>
                    if af_algo old = None then Inl NullChecksumAlgo
                    else if af_key old = reg_StorageKey reg then Inr (db, scan_artifact old)
                    else Inl (ArtifactConflict (reg_Label reg))
                | None \<Rightarrow>
                    let row = \<lparr>af_id = fresh 1, af_tenant = tenantID, af_set = s_id s, af_attempt = attemptID,
                               af_kind = reg_Kind reg, af_label = reg_Label reg, af_key = reg_StorageKey reg,
                               af_size = stored, af_algo = artifact_nullable (reg_ChecksumAlgo reg),
                               af_checksum = reg_Checksum reg, af_media = reg_Media reg, af_created = now\<rparr>
                    in (case insert_artifact row db1 of
                          Inl e \<Rightarrow> Inl e
                        | Inr db2 \<Rightarrow> Inr (db2, scan_artifact row))))))"

section \<open>Closing a set\<close>

definition set_open :: "uuid \<Rightarrow> uuid \<Rightarrow> set_row \<Rightarrow> bool" where
  "set_open tenantID jobID s \<longleftrightarrow> s_job s = jobID \<and> s_tenant s = tenantID \<and>
     List.member [''building'', ''validating''] (s_state s)"

definition MarkComplete :: "time \<Rightarrow> artifact_db \<Rightarrow> uuid \<Rightarrow> uuid \<Rightarrow> artifact_db" where
  "MarkComplete now db tenantID jobID =
     db\<lparr>a_sets := sql_update (set_open tenantID jobID)
          (\<lambda>s. s\<lparr>s_state := ''complete'', s_completed := Some now\<rparr>) (a_sets db)\<rparr>"

definition MarkFailed :: "artifact_db \<Rightarrow> uuid \<Rightarrow> uuid \<Rightarrow> artifact_db" where
  "MarkFailed db tenantID jobID =
     db\<lparr>a_sets := sql_update (set_open tenantID jobID) (\<lambda>s. s\<lparr>s_state := ''failed''\<rparr>) (a_sets db)\<rparr>"

section \<open>Reading\<close>

definition set_artifacts_of :: "artifact_db \<Rightarrow> uuid \<Rightarrow> uuid \<Rightarrow> Artifact list" where
  "set_artifacts_of db tenantID setID =
     map scan_artifact (sort_key af_label
       (filter (\<lambda>a. af_set a = setID \<and> af_tenant a = tenantID) (a_artifacts db)))"

definition scan_set :: "set_row \<Rightarrow> Artifact list \<Rightarrow> ArtifactSet" where
  "scan_set s arts = \<lparr>set_ID = s_id s, set_JobID = s_job s, set_Version = s_version s, set_State = s_state s,
     set_Prefix = s_prefix s, set_CreatedAt = s_created s, set_CompletedAt = s_completed s, set_Artifacts = arts\<rparr>"

definition artifact_Sets :: "artifact_db \<Rightarrow> uuid \<Rightarrow> uuid \<Rightarrow> ArtifactSet list" where
  "artifact_Sets db tenantID jobID =
     map (\<lambda>s. scan_set s (set_artifacts_of db tenantID (s_id s)))
       (sort_key (\<lambda>s. - s_version s) (filter (\<lambda>s. s_job s = jobID \<and> s_tenant s = tenantID) (a_sets db)))"

definition artifact_ForJob :: "artifact_db \<Rightarrow> uuid \<Rightarrow> uuid \<Rightarrow> Artifact list" where
  "artifact_ForJob db tenantID jobID =
     (case newest_set db tenantID jobID of None \<Rightarrow> [] | Some s \<Rightarrow> set_artifacts_of db tenantID (s_id s))"

definition artifact_Set :: "artifact_db \<Rightarrow> uuid \<Rightarrow> uuid \<Rightarrow> artifact_error + ArtifactSet" where
  "artifact_Set db tenantID setID =
     (case sql_find (\<lambda>s. s_id s = setID \<and> s_tenant s = tenantID) (a_sets db) of
        None \<Rightarrow> Inl ArtifactNotFound | Some s \<Rightarrow> Inr (scan_set s []))"

definition artifact_Get :: "artifact_db \<Rightarrow> uuid \<Rightarrow> uuid \<Rightarrow> artifact_error + Artifact" where
  "artifact_Get db tenantID artID =
     (case sql_find (\<lambda>a. af_id a = artID \<and> af_tenant a = tenantID) (a_artifacts db) of
        None \<Rightarrow> Inl ArtifactNotFound | Some a \<Rightarrow> Inr (scan_artifact a))"

section \<open>Validation results\<close>

definition result_row_of :: "uuid \<Rightarrow> uuid \<Rightarrow> uuid \<Rightarrow> Check \<Rightarrow> result_row" where
  "result_row_of rowID tenantID setID c = \<lparr>vl_id = rowID, vl_tenant = tenantID, vl_set = setID,
     vl_label = artifact_nullable (ck_Label c), vl_category = ck_Category c, vl_name = ck_Name c,
     vl_status = ck_Status c, vl_detail = ck_Detail c\<rparr>"

definition insert_result :: "result_row \<Rightarrow> artifact_db \<Rightarrow> artifact_error + artifact_db" where
  "insert_result r db =
     (if list_ex (\<lambda>v. vl_id v = vl_id r) (a_results db) then Inl (ArtifactConstraint ''validation_results_pkey'')
      else if \<not> List.member [''technical'', ''quality''] (vl_category r)
      then Inl (ArtifactConstraint ''validation_results_category_check'')
      else if \<not> List.member [''pass'', ''warn'', ''fail''] (vl_status r)
      then Inl (ArtifactConstraint ''validation_results_status_check'')
      else Inr (db\<lparr>a_results := a_results db @ [r]\<rparr>))"

fun record_checks :: "(nat \<Rightarrow> uuid) \<Rightarrow> uuid \<Rightarrow> uuid \<Rightarrow> nat \<Rightarrow> Check list \<Rightarrow> artifact_db \<Rightarrow> artifact_error + artifact_db" where
  "record_checks fresh tenantID setID i [] db = Inr db"
| "record_checks fresh tenantID setID i (c # cs) db =
     (case insert_result (result_row_of (fresh i) tenantID setID c) db of
        Inl e \<Rightarrow> Inl e
      | Inr db1 \<Rightarrow> record_checks fresh tenantID setID (Suc i) cs db1)"

definition validate_Record :: "(nat \<Rightarrow> uuid) \<Rightarrow> artifact_db \<Rightarrow> uuid \<Rightarrow> uuid \<Rightarrow> Check list \<Rightarrow> artifact_error + artifact_db" where
  "validate_Record fresh db tenantID jobID checks =
     (case newest_set db tenantID jobID of
        None \<Rightarrow> Inl ErrNoSet
      | Some s \<Rightarrow> record_checks fresh tenantID (s_id s) 0 checks
          (db\<lparr>a_results := filter (\<lambda>v. vl_set v \<noteq> s_id s) (a_results db)\<rparr>))"

definition scan_result :: "result_row \<Rightarrow> Check" where
  "scan_result v = \<lparr>ck_Label = (case vl_label v of None \<Rightarrow> [] | Some l \<Rightarrow> l), ck_Category = vl_category v,
     ck_Name = vl_name v, ck_Status = vl_status v, ck_Detail = vl_detail v\<rparr>"

text \<open>\<open>order by artifact_label, check_name\<close>, NULL labels last; every set of the job is read.\<close>

definition validate_ForJob :: "artifact_db \<Rightarrow> uuid \<Rightarrow> uuid \<Rightarrow> Check list" where
  "validate_ForJob db tenantID jobID =
     map scan_result (sort_key (\<lambda>v. (vl_label v = None, ck_Label (scan_result v), vl_name v))
       (filter (\<lambda>v. list_ex (\<lambda>s. s_id s = vl_set v \<and> s_job s = jobID \<and> s_tenant s = tenantID) (a_sets db))
         (a_results db)))"

end
