(* ===== verification/Artifact_Properties.thy ===== *)
theory Artifact_Properties
  imports Artifact_Store
begin

text \<open>
  What the artifact tables promise: the operations of \<open>Artifact_Store\<close> as steps of a transition system,
  its invariant, and how a state evolves. An artifact that was once registered resolves to the same
  record for ever, and a worker's retry is answered with it.
\<close>

section \<open>The invariant\<close>

definition artifact_empty :: artifact_db where
  "artifact_empty = \<lparr>a_sets = [], a_artifacts = [], a_results = []\<rparr>"

definition set_row_ok :: "set_row \<Rightarrow> bool" where
  "set_row_ok s \<longleftrightarrow> s_version s = 1 \<and> s_state s \<in> {''building'', ''complete'', ''failed''} \<and>
     s_prefix s = ''t/'' @ uuid_String (s_tenant s) @ ''/jobs/'' @ uuid_String (s_job s) @ ''/v1'' \<and>
     (s_state s = ''complete'' \<longleftrightarrow> s_completed s \<noteq> None)"

definition sets_ok :: "artifact_db \<Rightarrow> bool" where
  "sets_ok db \<longleftrightarrow> distinct (map s_id (a_sets db)) \<and> distinct (map s_job (a_sets db)) \<and>
     (\<forall>s \<in> set (a_sets db). set_row_ok s)"

definition artifacts_ok :: "artifact_db \<Rightarrow> bool" where
  "artifacts_ok db \<longleftrightarrow> distinct (map af_id (a_artifacts db)) \<and> distinct (map af_key (a_artifacts db)) \<and>
     distinct (map (\<lambda>a. (af_set a, af_label a)) (a_artifacts db)) \<and>
     (\<forall>a \<in> set (a_artifacts db). af_algo a \<noteq> Some [] \<and> \<not> isl (Segment (af_label a)) \<and>
        (\<exists>s \<in> set (a_sets db). s_id s = af_set a \<and> s_tenant s = af_tenant a))"

definition artifact_inv :: "artifact_db \<Rightarrow> bool" where
  "artifact_inv db \<longleftrightarrow> sets_ok db \<and> artifacts_ok db"

lemma newest_set_Some: "newest_set db t j = Some s \<Longrightarrow> s \<in> set (a_sets db) \<and> s_job s = j \<and> s_tenant s = t"
  using set_sql_top [of "\<lambda>s. - s_version s" 1 "filter (\<lambda>s. s_job s = j \<and> s_tenant s = t) (a_sets db)"]
  by (auto simp: newest_set_def split: list.splits)

lemma sort_key_empty: "sort_key f xs = [] \<longleftrightarrow> xs = []"
  by (simp flip: set_empty)

lemma newest_set_None: "newest_set db t j = None \<longleftrightarrow> (\<forall>s \<in> set (a_sets db). s_job s = j \<longrightarrow> s_tenant s \<noteq> t)"
proof -
  have "newest_set db t j = None \<longleftrightarrow>
      sort_key (\<lambda>s. - s_version s) (filter (\<lambda>s. s_job s = j \<and> s_tenant s = t) (a_sets db)) = []"
    by (cases "sort_key (\<lambda>s. - s_version s) (filter (\<lambda>s. s_job s = j \<and> s_tenant s = t) (a_sets db))")
      (simp_all add: newest_set_def sql_top_def)
  also have "\<dots> \<longleftrightarrow> filter (\<lambda>s. s_job s = j \<and> s_tenant s = t) (a_sets db) = []"
    by (rule sort_key_empty)
  finally show ?thesis by (simp add: filter_empty_conv)
qed

lemma newest_set_iff:
  assumes "sets_ok db"
  shows "newest_set db t j = Some s \<longleftrightarrow> s \<in> set (a_sets db) \<and> s_job s = j \<and> s_tenant s = t"
proof
  assume s: "s \<in> set (a_sets db) \<and> s_job s = j \<and> s_tenant s = t"
  then obtain s' where s': "newest_set db t j = Some s'" using newest_set_None [of db t j] by fastforce
  then have "s' \<in> set (a_sets db)" "s_job s' = s_job s" using newest_set_Some s by blast+
  then have "s' = s" using assms s by (metis distinct_map inj_onD sets_ok_def)
  then show "newest_set db t j = Some s" using s' by simp
qed (rule newest_set_Some)

lemma currentSet_inv:
  assumes "artifact_inv db" "currentSet now sid db t j = Inr (db', s)"
  shows "artifact_inv db' \<and> newest_set db' t j = Some s \<and> a_artifacts db' = a_artifacts db \<and>
    (db' = db \<or> a_sets db' = a_sets db @ [s])"
proof (cases "newest_set db t j")
  case None
  then have db': "db' = db\<lparr>a_sets := a_sets db @ [s]\<rparr>" and s: "s_id s = sid" "s_tenant s = t" "s_job s = j" "s_version s = 1"
      "s_state s = ''building''" "s_completed s = None"
      "s_prefix s = ''t/'' @ uuid_String t @ ''/jobs/'' @ uuid_String j @ ''/v'' @ Itoa 1"
    and new: "\<forall>r \<in> set (a_sets db). s_id r \<noteq> sid" "\<forall>r \<in> set (a_sets db). \<not> (s_job r = j \<and> s_version r = 1)"
    using assms(2) by (auto simp: currentSet_def Let_def list_ex_iff split: if_splits)
  have "Itoa 1 = ''1''" by code_simp
  then have "set_row_ok s" using s by (simp add: set_row_ok_def)
  moreover have "\<forall>r \<in> set (a_sets db). s_job r \<noteq> j"
    using new(2) assms(1) by (auto simp: artifact_inv_def sets_ok_def set_row_ok_def)
  ultimately have "sets_ok db'" using assms(1) s new(1) by (auto simp: artifact_inv_def sets_ok_def db')
  moreover have "artifacts_ok db'" using assms(1) by (auto simp: artifact_inv_def artifacts_ok_def db')
  ultimately show ?thesis using newest_set_iff [of db' t j s] s(2,3) by (simp add: artifact_inv_def db')
qed (use assms in \<open>auto simp: currentSet_def\<close>)

section \<open>Registering\<close>

lemma Register_cases:
  assumes inv: "artifact_inv db" and ok: "Register now fresh head db t j att reg = Inr (db', a)"
  obtains (again) s r where "db' = db" "newest_set db t j = Some s" "r \<in> set (a_artifacts db)" "af_set r = s_id s"
      "af_label r = reg_Label reg" "af_key r = reg_StorageKey reg" "af_algo r \<noteq> None" "a = scan_artifact r"
  | (added) db1 s r where "currentSet now (fresh 0) db t j = Inr (db1, s)" "insert_artifact r db1 = Inr db'"
      "af_set r = s_id s" "af_tenant r = t" "af_label r = reg_Label reg" "af_key r = reg_StorageKey reg"
      "af_algo r = artifact_nullable (reg_ChecksumAlgo reg)" "a = scan_artifact r" "\<not> isl (Segment (reg_Label reg))"
proof -
  obtain seg stored db1 s where seg: "Segment (reg_Label reg) = Inr seg" and hd: "head (reg_StorageKey reg) = Inr stored"
    and cur: "currentSet now (fresh 0) db t j = Inr (db1, s)"
    using ok by (auto simp: Register_def split: sum.splits head_error.splits if_splits)
  have inv1: "artifact_inv db1" "newest_set db1 t j = Some s" "a_artifacts db1 = a_artifacts db" "db1 = db \<or> a_sets db1 = a_sets db @ [s]"
    using currentSet_inv [OF inv cur] by auto
  show thesis
  proof (cases "sql_find (\<lambda>a. af_set a = s_id s \<and> af_label a = reg_Label reg) (a_artifacts db1)")
    case None
    then show thesis using ok seg hd cur
      by (auto simp: Register_def Let_def split: if_splits sum.splits intro!: added)
  next
    case (Some r)
    then have r: "r \<in> set (a_artifacts db)" "af_set r = s_id s" "af_label r = reg_Label reg"
      using sql_find_SomeD [OF Some] inv1(3) by auto
    have "db1 = db"
    proof (rule ccontr)
      assume "db1 \<noteq> db"
      then have "distinct (map s_id (a_sets db @ [s]))" using inv1(1,4) by (auto simp: artifact_inv_def sets_ok_def)
      moreover obtain s' where "s' \<in> set (a_sets db)" "s_id s' = s_id s"
        using inv r(1,2) unfolding artifact_inv_def artifacts_ok_def by metis
      ultimately show False by (auto simp: image_iff)
    qed
    then show thesis using ok seg hd cur Some r inv1(2)
      by (auto simp: Register_def split: if_splits intro!: again)
  qed
qed

lemma insert_artifact_inv:
  assumes "artifact_inv db" "insert_artifact r db = Inr db'" "s \<in> set (a_sets db)" "s_id s = af_set r" "s_tenant s = af_tenant r"
    "af_algo r \<noteq> Some []" "\<not> isl (Segment (af_label r))"
  shows "artifact_inv db' \<and> db' = db\<lparr>a_artifacts := a_artifacts db @ [r]\<rparr>"
proof -
  have db': "db' = db\<lparr>a_artifacts := a_artifacts db @ [r]\<rparr>"
    and "\<forall>a \<in> set (a_artifacts db). af_id a \<noteq> af_id r \<and> \<not> (af_set a = af_set r \<and> af_label a = af_label r) \<and> af_key a \<noteq> af_key r"
    using assms(2) by (auto simp: insert_artifact_def list_ex_iff split: if_splits)
  then have "artifacts_ok db'" using assms unfolding artifacts_ok_def artifact_inv_def by fastforce
  then show ?thesis using assms(1) db' by (simp add: artifact_inv_def sets_ok_def)
qed

lemma nullable_not_empty: "artifact_nullable x \<noteq> Some []"
  by (simp add: artifact_nullable_def)

text \<open>A state after: artifacts are only added, and a set keeps its identity and, once closed, everything.\<close>

definition artifact_evolves :: "artifact_db \<Rightarrow> artifact_db \<Rightarrow> bool" where
  "artifact_evolves db db' \<longleftrightarrow> (\<exists>new. a_artifacts db' = a_artifacts db @ new) \<and>
     (\<forall>s \<in> set (a_sets db). \<exists>s' \<in> set (a_sets db'). s_id s' = s_id s \<and> s_job s' = s_job s \<and> s_tenant s' = s_tenant s \<and>
        s_prefix s' = s_prefix s \<and> (s_state s \<in> {''complete'', ''failed''} \<longrightarrow> s' = s))"

lemma Register_inv:
  assumes inv: "artifact_inv db" and ok: "Register now fresh head db t j att reg = Inr (db', a)"
  shows "artifact_inv db' \<and> artifact_evolves db db' \<and>
    (\<exists>s r. newest_set db' t j = Some s \<and> r \<in> set (a_artifacts db') \<and> af_set r = s_id s \<and> af_tenant r = t \<and>
       af_label r = reg_Label reg \<and> af_key r = reg_StorageKey reg \<and> a = scan_artifact r)"
  using inv ok
proof (cases rule: Register_cases)
  case (again s r)
  obtain s' where "s' \<in> set (a_sets db)" "s_id s' = af_set r" "s_tenant s' = af_tenant r"
    using inv again(3) by (auto simp: artifact_inv_def artifacts_ok_def)
  moreover have "s \<in> set (a_sets db)" "s_tenant s = t" using newest_set_Some [OF again(2)] by auto
  ultimately have "af_tenant r = t" using inv again(4) by (metis artifact_inv_def distinct_map inj_onD sets_ok_def)
  then show ?thesis using inv again by (auto simp: artifact_evolves_def)
next
  case (added db1 s r)
  have 1: "artifact_inv db1" "newest_set db1 t j = Some s" "a_artifacts db1 = a_artifacts db" "db1 = db \<or> a_sets db1 = a_sets db @ [s]"
    using currentSet_inv [OF inv added(1)] by auto
  have s: "s \<in> set (a_sets db1)" "s_tenant s = t" using newest_set_Some [OF 1(2)] by auto
  then have 2: "artifact_inv db'" "db' = db1\<lparr>a_artifacts := a_artifacts db1 @ [r]\<rparr>"
    using insert_artifact_inv [OF 1(1) added(2) s(1)] added(3,4,5,7,9) nullable_not_empty by auto
  have "newest_set db' t j = Some s" using 1(2) 2(2) by (simp add: newest_set_def)
  moreover have "artifact_evolves db db'" using 1(3,4) 2(2) by (auto simp: artifact_evolves_def)
  moreover have "r \<in> set (a_artifacts db')" using 2(2) by simp
  ultimately show ?thesis using 2(1) added(3-8) by blast
qed

section \<open>Closing and validating\<close>

lemma close_inv:
  assumes inv: "artifact_inv db"
    and f: "\<And>s. s_id (f s) = s_id s \<and> s_job (f s) = s_job s \<and> s_tenant (f s) = s_tenant s \<and> s_version (f s) = s_version s \<and>
      s_prefix (f s) = s_prefix s \<and> s_state (f s) \<in> {''complete'', ''failed''} \<and>
      (s_completed s = None \<longrightarrow> (s_state (f s) = ''complete'' \<longleftrightarrow> s_completed (f s) \<noteq> None))"
    and db': "db' = db\<lparr>a_sets := sql_update (set_open t j) f (a_sets db)\<rparr>"
  shows "artifact_inv db' \<and> artifact_evolves db db'"
proof -
  have open_state: "set_open t j s \<Longrightarrow> s_state s \<notin> {''complete'', ''failed''}" for s
    by (auto simp: set_open_def)
  have keys: "map s_id (a_sets db') = map s_id (a_sets db)" "map s_job (a_sets db') = map s_job (a_sets db)"
    using f by (simp_all add: db' map_sql_update_same)
  have row: "\<exists>s' \<in> set (a_sets db'). s_id s' = s_id s \<and> s_job s' = s_job s \<and> s_tenant s' = s_tenant s \<and>
      s_prefix s' = s_prefix s \<and> (s_state s \<in> {''complete'', ''failed''} \<longrightarrow> s' = s)" if s: "s \<in> set (a_sets db)" for s
    using sql_updateI [OF s, of "set_open t j" f] open_state [of s] f [of s] by (intro bexI) (auto simp: db')
  have "set_row_ok s" if s: "s \<in> set (a_sets db')" for s
  proof -
    obtain r where r: "r \<in> set (a_sets db)" "s = (if set_open t j r then f r else r)"
      using s unfolding db' by (auto elim: sql_updateE)
    then have "set_row_ok r" using inv by (auto simp: artifact_inv_def sets_ok_def)
    then show ?thesis using r(2) f [of r] open_state [of r] unfolding set_row_ok_def by auto
  qed
  then have "sets_ok db'" using inv unfolding sets_ok_def keys by (simp add: artifact_inv_def sets_ok_def)
  moreover have "artifacts_ok db'" unfolding artifacts_ok_def
    using inv row by (auto simp: artifact_inv_def artifacts_ok_def db' simp del: isl_def) metis
  ultimately show ?thesis using row by (auto simp: artifact_inv_def artifact_evolves_def db')
qed

lemma record_checks_only:
  "record_checks fresh t sid i cs db = Inr db' \<Longrightarrow> a_sets db' = a_sets db \<and> a_artifacts db' = a_artifacts db"
proof (induction cs arbitrary: i db)
  case (Cons c cs)
  then obtain db1 where "insert_result (result_row_of (fresh i) t sid c) db = Inr db1" "record_checks fresh t sid (Suc i) cs db1 = Inr db'"
    by (auto split: sum.splits)
  then show ?case using Cons.IH [of "Suc i" db1] by (auto simp: insert_result_def split: if_splits)
qed simp

section \<open>The transition system\<close>

inductive artifact_step :: "artifact_db \<Rightarrow> artifact_db \<Rightarrow> bool" where
  step_register: "Register now fresh head db t j att reg = Inr (db', a) \<Longrightarrow> artifact_step db db'"
| step_mark_complete: "artifact_step db (MarkComplete now db t j)"
| step_mark_failed: "artifact_step db (MarkFailed db t j)"
| step_validation: "validate_Record fresh db t j checks = Inr db' \<Longrightarrow> artifact_step db db'"

inductive_simps artifact_step_iff: "artifact_step db db'"

lemma artifact_step_inv:
  assumes "artifact_inv db" "artifact_step db db'"
  shows "artifact_inv db' \<and> artifact_evolves db db'"
  using assms(2)
proof cases
  case step_register
  then show ?thesis using Register_inv [OF assms(1)] by blast
next
  case step_mark_complete
  then show ?thesis by (intro close_inv [OF assms(1)]) (auto simp: MarkComplete_def)
next
  case step_mark_failed
  then show ?thesis by (intro close_inv [OF assms(1)]) (auto simp: MarkFailed_def)
next
  case (step_validation fresh t j checks)
  then have "a_sets db' = a_sets db \<and> a_artifacts db' = a_artifacts db"
    by (auto simp: validate_Record_def dest!: record_checks_only split: option.splits)
  then show ?thesis using assms(1) by (auto simp: artifact_inv_def sets_ok_def artifacts_ok_def artifact_evolves_def)
qed

interpretation artifact_sys: evolving_system "\<lambda>db. db = artifact_empty" artifact_step artifact_inv artifact_evolves
proof (unfold_locales, goal_cases)
  case 1
  then show ?case by (simp add: artifact_empty_def artifact_inv_def sets_ok_def artifacts_ok_def)
next
  case (4 s t u)
  then show ?case unfolding artifact_evolves_def by (metis append.assoc)
qed (auto simp: artifact_evolves_def dest: artifact_step_inv)

definition artifact_reachable :: "artifact_db \<Rightarrow> bool" where
  "artifact_reachable db \<longleftrightarrow> artifact_step\<^sup>*\<^sup>* artifact_empty db"

lemma artifact_reachable_inv: "artifact_reachable db \<Longrightarrow> artifact_inv db"
  unfolding artifact_reachable_def by (rule artifact_sys.reachable_inv [OF refl])

lemma artifact_later:
  assumes "artifact_reachable db" "artifact_step\<^sup>*\<^sup>* db db'"
  shows "artifact_inv db'" "artifact_evolves db db'"
  using assms artifact_reachable_inv artifact_sys.steps_inv artifact_sys.steps_evolve by blast+

section \<open>Looking an artifact up\<close>

lemma artifact_Get_iff:
  assumes "artifact_inv db"
  shows "artifact_Get db t i = Inr a \<longleftrightarrow> (\<exists>r \<in> set (a_artifacts db). af_id r = i \<and> af_tenant r = t \<and> a = scan_artifact r)"
proof
  assume "artifact_Get db t i = Inr a"
  then show "\<exists>r \<in> set (a_artifacts db). af_id r = i \<and> af_tenant r = t \<and> a = scan_artifact r"
    by (auto simp: artifact_Get_def dest!: sql_find_SomeD split: option.splits)
next
  assume "\<exists>r \<in> set (a_artifacts db). af_id r = i \<and> af_tenant r = t \<and> a = scan_artifact r"
  then obtain r where r: "r \<in> set (a_artifacts db)" "af_id r = i" "af_tenant r = t" "a = scan_artifact r" by blast
  then have "sql_find (\<lambda>a. af_id a = i \<and> af_tenant a = t) (a_artifacts db) = Some r"
    using assms by (intro sql_find_key [where k = af_id]) (auto simp: artifact_inv_def artifacts_ok_def)
  then show "artifact_Get db t i = Inr a" using r(4) by (simp add: artifact_Get_def)
qed

lemma scan_artifact_sel [simp]:
  "art_ID (scan_artifact r) = af_id r" "art_SetID (scan_artifact r) = af_set r" "art_Label (scan_artifact r) = af_label r"
  "art_StorageKey (scan_artifact r) = af_key r"
  by (simp_all add: scan_artifact_def)

lemma same_artifact:
  assumes "artifact_inv db" "r \<in> set (a_artifacts db)" "q \<in> set (a_artifacts db)"
    and "af_key q = af_key r \<or> (af_set q = af_set r \<and> af_label q = af_label r)"
  shows "q = r"
proof -
  have "inj_on af_key (set (a_artifacts db))" "inj_on (\<lambda>a. (af_set a, af_label a)) (set (a_artifacts db))"
    using assms(1) by (auto simp: artifact_inv_def artifacts_ok_def distinct_map)
  then show ?thesis using assms(2-4) by (auto dest: inj_onD)
qed

lemma artifact_Set_found:
  assumes "artifact_inv db" "s \<in> set (a_sets db)"
  shows "artifact_Set db (s_tenant s) (s_id s) = Inr (scan_set s [])"
proof -
  have "sql_find (\<lambda>x. s_id x = s_id s \<and> s_tenant x = s_tenant s) (a_sets db) = Some s"
    using assms by (intro sql_find_key [where k = s_id]) (auto simp: artifact_inv_def sets_ok_def)
  then show ?thesis by (simp add: artifact_Set_def)
qed


text \<open>
  C37. A worker that repeats a registration because the answer was lost gets the same artifact and
  changes nothing, however much later and whatever happened to the tables since, provided the object
  is still there and the artifact has a checksum algorithm; when it has none, every repetition fails.
\<close>

theorem register_retry:
  assumes "artifact_reachable db" "Register now fresh head db t j att reg = Inr (db1, a)" "artifact_step\<^sup>*\<^sup>* db1 db2"
    and "head' (reg_StorageKey reg) = Inr n" "reg_SizeBytes reg > 0 \<longrightarrow> n = reg_SizeBytes reg"
  shows "Register now' fresh' head' db2 t j att' reg =
    (if art_ChecksumAlgo a = [] then Inl NullChecksumAlgo else Inr (db2, a))"
proof -
  have 1: "artifact_reachable db1"
    using assms(1,2) unfolding artifact_reachable_def by (meson rtranclp.rtrancl_into_rtrancl step_register)
  obtain s r where r: "newest_set db1 t j = Some s" "r \<in> set (a_artifacts db1)" "af_set r = s_id s" "af_label r = reg_Label reg"
      "af_key r = reg_StorageKey reg" "a = scan_artifact r"
    using Register_inv [OF artifact_reachable_inv [OF assms(1)] assms(2)] by blast
  have inv: "artifact_inv db2" and ev: "artifact_evolves db1 db2" using artifact_later [OF 1 assms(3)] by auto
  obtain s' where s': "newest_set db2 t j = Some s'" "s_id s' = s_id s"
    using ev newest_set_Some [OF r(1)] newest_set_iff [of db2 t j] inv unfolding artifact_evolves_def artifact_inv_def by metis
  have r2: "r \<in> set (a_artifacts db2)" using ev r(2) by (auto simp: artifact_evolves_def)
  then have seg: "\<not> isl (Segment (reg_Label reg))" and algo: "af_algo r \<noteq> Some []"
    using inv r(4) by (auto simp: artifact_inv_def artifacts_ok_def)
  have "sql_find (\<lambda>a. af_set a = s_id s \<and> af_label a = reg_Label reg) (a_artifacts db2) = Some r"
    using inv r(3,4) r2 by (intro sql_find_key [where k = "\<lambda>a. (af_set a, af_label a)"])
      (auto simp: artifact_inv_def artifacts_ok_def)
  moreover have "art_ChecksumAlgo a = [] \<longleftrightarrow> af_algo r = None"
    using algo r(6) by (cases "af_algo r") (auto simp: scan_artifact_def)
  moreover have "\<not> (reg_SizeBytes reg > 0 \<and> n \<noteq> reg_SizeBytes reg)" using assms(5) by blast
  ultimately show ?thesis using seg s' r(5,6) assms(4)
    by (cases "Segment (reg_Label reg)") (simp_all add: Register_def currentSet_def del: de_Morgan_conj)
qed

section \<open>A concrete history\<close>

definition demo_registration :: "string \<Rightarrow> string \<Rightarrow> Registration" where
  "demo_registration label algo = \<lparr>reg_Kind = ''rendition'', reg_Label = label, reg_StorageKey = label, reg_SizeBytes = 5,
     reg_ChecksumAlgo = algo, reg_Checksum = Some ''c'', reg_Media = None\<rparr>"

definition demo_head :: "string \<Rightarrow> head_error + int" where
  "demo_head k = Inr 5"

definition demo_artifact :: "string \<Rightarrow> artifact_row" where
  "demo_artifact algo = \<lparr>af_id = 21, af_tenant = 4, af_set = 20, af_attempt = 9, af_kind = ''rendition'', af_label = ''720p'',
     af_key = ''720p'', af_size = 5, af_algo = artifact_nullable algo, af_checksum = Some ''c'', af_media = None, af_created = 7\<rparr>"

definition demo_set :: set_row where
  "demo_set = \<lparr>s_id = 20, s_tenant = 4, s_job = 2, s_version = 1, s_state = ''building'',
     s_prefix = ''t/'' @ uuid_String 4 @ ''/jobs/'' @ uuid_String 2 @ ''/v'' @ Itoa 1, s_created = 7, s_completed = None\<rparr>"

definition demo_registered :: "string \<Rightarrow> artifact_db" where
  "demo_registered algo = \<lparr>a_sets = [demo_set], a_artifacts = [demo_artifact algo], a_results = []\<rparr>"

lemma demo_registered_ok:
  "Register 7 (\<lambda>i. 20 + i) demo_head artifact_empty 4 2 9 (demo_registration ''720p'' algo) =
     Inr (demo_registered algo, scan_artifact (demo_artifact algo))"
proof -
  have "Segment ''720p'' = Inr ''720p''" by code_simp
  then show ?thesis
    by (simp add: Register_def demo_registration_def demo_head_def demo_registered_def currentSet_def newest_set_def sql_top_def
        artifact_empty_def sql_find_def insert_artifact_def artifact_kinds_def demo_artifact_def demo_set_def Let_def)
qed

lemma artifact_empty_reachable: "artifact_reachable artifact_empty"
  by (simp add: artifact_reachable_def)

lemma demo_registered_reachable: "artifact_reachable (demo_registered algo)"
  unfolding artifact_reachable_def by (rule r_into_rtranclp, rule step_register, rule demo_registered_ok)

lemma demo_algo: "art_ChecksumAlgo (scan_artifact (demo_artifact algo)) = algo"
  by (simp add: scan_artifact_def demo_artifact_def artifact_nullable_def)


theorem register_retry_witness:
  "Register 9 (\<lambda>i. 30 + i) demo_head (demo_registered ''sha256'') 4 2 9 (demo_registration ''720p'' ''sha256'') =
     Inr (demo_registered ''sha256'', scan_artifact (demo_artifact ''sha256'')) \<and>
   Register 9 (\<lambda>i. 30 + i) demo_head (demo_registered []) 4 2 9 (demo_registration ''720p'' []) = Inl NullChecksumAlgo"
proof -
  have "demo_head (reg_StorageKey (demo_registration ''720p'' x)) = Inr 5"
    "reg_SizeBytes (demo_registration ''720p'' x) > 0 \<longrightarrow> 5 = reg_SizeBytes (demo_registration ''720p'' x)" for x
    by (simp_all add: demo_head_def demo_registration_def)
  then have "Register 9 (\<lambda>i. 30 + i) demo_head (demo_registered x) 4 2 9 (demo_registration ''720p'' x) =
      (if x = [] then Inl NullChecksumAlgo else Inr (demo_registered x, scan_artifact (demo_artifact x)))" for x
    using register_retry [OF artifact_empty_reachable demo_registered_ok rtranclp.rtrancl_refl, of demo_head x 5] by (simp add: demo_algo)
  then show ?thesis by simp
qed

end
