(* ===== verification/Go_Crypto.thy ===== *)
theory Go_Crypto
  imports Go_Text
begin

text \<open>
  The parts of the standard library the credentials are built on: \<open>crypto/sha256\<close> (FIPS 180-4),
  \<open>crypto/hmac\<close> (RFC 2104) and \<open>encoding/base64\<close>'s \<open>RawURLEncoding\<close>. Byte slices are strings.
\<close>

unbundle bit_operations_syntax

section \<open>SHA-256\<close>

type_synonym word32 = "32 word"

definition sha_K :: "word32 list" where
  "sha_K = [
     0x428a2f98, 0x71374491, 0xb5c0fbcf, 0xe9b5dba5, 0x3956c25b, 0x59f111f1, 0x923f82a4, 0xab1c5ed5,
     0xd807aa98, 0x12835b01, 0x243185be, 0x550c7dc3, 0x72be5d74, 0x80deb1fe, 0x9bdc06a7, 0xc19bf174,
     0xe49b69c1, 0xefbe4786, 0x0fc19dc6, 0x240ca1cc, 0x2de92c6f, 0x4a7484aa, 0x5cb0a9dc, 0x76f988da,
     0x983e5152, 0xa831c66d, 0xb00327c8, 0xbf597fc7, 0xc6e00bf3, 0xd5a79147, 0x06ca6351, 0x14292967,
     0x27b70a85, 0x2e1b2138, 0x4d2c6dfc, 0x53380d13, 0x650a7354, 0x766a0abb, 0x81c2c92e, 0x92722c85,
     0xa2bfe8a1, 0xa81a664b, 0xc24b8b70, 0xc76c51a3, 0xd192e819, 0xd6990624, 0xf40e3585, 0x106aa070,
     0x19a4c116, 0x1e376c08, 0x2748774c, 0x34b0bcb5, 0x391c0cb3, 0x4ed8aa4a, 0x5b9cca4f, 0x682e6ff3,
     0x748f82ee, 0x78a5636f, 0x84c87814, 0x8cc70208, 0x90befffa, 0xa4506ceb, 0xbef9a3f7, 0xc67178f2]"

definition sha_H0 :: "word32 list" where
  "sha_H0 = [0x6a09e667, 0xbb67ae85, 0x3c6ef372, 0xa54ff53a, 0x510e527f, 0x9b05688c, 0x1f83d9ab, 0x5be0cd19]"

definition rotr :: "nat \<Rightarrow> word32 \<Rightarrow> word32" where
  "rotr n w = drop_bit n w OR push_bit (32 - n) w"

definition Ch :: "word32 \<Rightarrow> word32 \<Rightarrow> word32 \<Rightarrow> word32" where
  "Ch x y z = (x AND y) XOR (NOT x AND z)"

definition Maj :: "word32 \<Rightarrow> word32 \<Rightarrow> word32 \<Rightarrow> word32" where
  "Maj x y z = (x AND y) XOR (x AND z) XOR (y AND z)"

definition big_sigma0 :: "word32 \<Rightarrow> word32" where
  "big_sigma0 x = rotr 2 x XOR rotr 13 x XOR rotr 22 x"

definition big_sigma1 :: "word32 \<Rightarrow> word32" where
  "big_sigma1 x = rotr 6 x XOR rotr 11 x XOR rotr 25 x"

definition small_sigma0 :: "word32 \<Rightarrow> word32" where
  "small_sigma0 x = rotr 7 x XOR rotr 18 x XOR drop_bit 3 x"

definition small_sigma1 :: "word32 \<Rightarrow> word32" where
  "small_sigma1 x = rotr 17 x XOR rotr 19 x XOR drop_bit 10 x"

text \<open>The message schedule, extended one word at a time from the last sixteen.\<close>

fun sha_schedule :: "nat \<Rightarrow> word32 list \<Rightarrow> word32 list" where
  "sha_schedule 0 w = w"
| "sha_schedule (Suc n) w =
     (let t = length w in
      sha_schedule n (w @ [small_sigma1 (w ! (t - 2)) + w ! (t - 7) + small_sigma0 (w ! (t - 15)) + w ! (t - 16)]))"

definition sha_round :: "word32 list \<Rightarrow> word32 \<times> word32 \<Rightarrow> word32 list" where
  "sha_round st kw =
     (case st of
        [a, b, c, d, e, f, g, h] \<Rightarrow>
          let t1 = h + big_sigma1 e + Ch e f g + fst kw + snd kw;
              t2 = big_sigma0 a + Maj a b c
          in [t1 + t2, a, b, c, d + t1, e, f, g]
      | _ \<Rightarrow> st)"

definition sha_block :: "word32 list \<Rightarrow> word32 list \<Rightarrow> word32 list" where
  "sha_block h w = map2 (+) h (foldl sha_round h (zip sha_K (sha_schedule 48 w)))"

fun be_words :: "string \<Rightarrow> word32 list" where
  "be_words (a # b # c # d # s) =
     word_of_int (((of_char a * 256 + of_char b) * 256 + of_char c) * 256 + of_char d) # be_words s"
| "be_words _ = []"

fun be_bytes :: "nat \<Rightarrow> int \<Rightarrow> string" where
  "be_bytes 0 v = []"
| "be_bytes (Suc n) v = be_bytes n (v div 256) @ [char_of (v mod 256)]"

definition sha_pad :: "string \<Rightarrow> string" where
  "sha_pad s = s @ [char_of (128 :: nat)] @ replicate ((119 - length s mod 64) mod 64) (char_of (0 :: nat)) @
     be_bytes 8 (8 * int (length s))"

fun sha_blocks :: "nat \<Rightarrow> word32 list \<Rightarrow> word32 list \<Rightarrow> word32 list" where
  "sha_blocks 0 h w = h"
| "sha_blocks (Suc n) h w = sha_blocks n (sha_block h (take 16 w)) (drop 16 w)"

definition sha256 :: "string \<Rightarrow> string" where
  "sha256 s =
     (let w = be_words (sha_pad s) in
      concat (map (\<lambda>x. be_bytes 4 (uint x)) (sha_blocks (length w div 16) sha_H0 w)))"

section \<open>HMAC-SHA256\<close>

definition xor_byte :: "nat \<Rightarrow> char \<Rightarrow> char" where
  "xor_byte k c = char_of (of_char c XOR k)"

definition hmac_key :: "string \<Rightarrow> string" where
  "hmac_key key = (let k = (if length key > 64 then sha256 key else key) in k @ replicate (64 - length k) (char_of (0 :: nat)))"

definition hmac_sha256 :: "string \<Rightarrow> string \<Rightarrow> string" where
  "hmac_sha256 key msg =
     sha256 (map (xor_byte 0x5C) (hmac_key key) @ sha256 (map (xor_byte 0x36) (hmac_key key) @ msg))"

section \<open>Base64, URL alphabet, no padding\<close>

definition b64_char :: "nat \<Rightarrow> char" where
  "b64_char n =
     (if n < 26 then char_of (65 + n) else if n < 52 then char_of (71 + n) else if n < 62 then char_of (n - 4)
      else if n = 62 then CHR ''-'' else CHR ''_'')"

definition b64_value :: "char \<Rightarrow> nat option" where
  "b64_value c =
     (if is_upper c then Some (of_char c - 65) else if is_lower c then Some (of_char c - 71)
      else if is_digit c then Some (of_char c + 4) else if c = CHR ''-'' then Some 62
      else if c = CHR ''_'' then Some 63 else None)"

fun b64_encode :: "string \<Rightarrow> string" where
  "b64_encode [] = []"
| "b64_encode [a] = [b64_char (of_char a div 4), b64_char (of_char a mod 4 * 16)]"
| "b64_encode [a, b] =
     [b64_char (of_char a div 4), b64_char (of_char a mod 4 * 16 + of_char b div 16), b64_char (of_char b mod 16 * 4)]"
| "b64_encode (a # b # c # s) =
     b64_char (of_char a div 4) # b64_char (of_char a mod 4 * 16 + of_char b div 16) #
     b64_char (of_char b mod 16 * 4 + of_char c div 64) # b64_char (of_char c mod 64) # b64_encode s"

fun sextets_bytes :: "nat list \<Rightarrow> string option" where
  "sextets_bytes [] = Some []"
| "sextets_bytes [p] = None"
| "sextets_bytes [p, q] = Some [char_of (p * 4 + q div 16)]"
| "sextets_bytes [p, q, r] = Some [char_of (p * 4 + q div 16), char_of (q mod 16 * 16 + r div 4)]"
| "sextets_bytes (p # q # r # u # s) =
     map_option (\<lambda>t. char_of (p * 4 + q div 16) # char_of (q mod 16 * 16 + r div 4) # char_of (r mod 4 * 64 + u) # t)
       (sextets_bytes s)"

text \<open>
  \<open>DecodeString\<close>: line breaks are skipped, any other character outside the alphabet is an error, a
  single character at the end is an error, and bits left over at the end are dropped.
\<close>

definition b64_decode :: "string \<Rightarrow> string option" where
  "b64_decode s =
     (let body = filter (\<lambda>c. \<not> List.member [10, 13] (of_char c :: nat)) s in
      if list_ex (\<lambda>c. b64_value c = None) body then None
      else sextets_bytes (map (\<lambda>c. the (b64_value c)) body))"

section \<open>Facts\<close>

lemma b64_value_char: "n < 64 \<Longrightarrow> b64_value (b64_char n) = Some n"
  by (auto simp: b64_char_def b64_value_def is_upper_def is_lower_def is_digit_def)

lemma of_char_less [simp]: "of_char (c :: char) < (256 :: nat)"
  by (metis mod_less_divisor of_char_mod_256 zero_less_numeral)

text \<open>The characters of an encoding, and that it determines the bytes.\<close>

definition url_char :: "char \<Rightarrow> bool" where
  "url_char c \<longleftrightarrow> is_upper c \<or> is_lower c \<or> is_digit c \<or> c = CHR ''-'' \<or> c = CHR ''_''"

lemma b64_char_url: "n < 64 \<Longrightarrow> url_char (b64_char n)"
  by (auto simp: b64_char_def url_char_def is_upper_def is_lower_def is_digit_def)

lemma b64_value_iff: "b64_value c = None \<longleftrightarrow> \<not> url_char c"
  by (auto simp: b64_value_def url_char_def)

lemma url_char_break: "url_char c \<Longrightarrow> (of_char c :: nat) \<noteq> 10 \<and> (of_char c :: nat) \<noteq> 13"
  by (auto simp: url_char_def is_upper_def is_lower_def is_digit_def)

fun sextets :: "string \<Rightarrow> nat list" where
  "sextets [] = []"
| "sextets [a] = [of_char a div 4, of_char a mod 4 * 16]"
| "sextets [a, b] = [of_char a div 4, of_char a mod 4 * 16 + of_char b div 16, of_char b mod 16 * 4]"
| "sextets (a # b # c # s) =
     [of_char a div 4, of_char a mod 4 * 16 + of_char b div 16, of_char b mod 16 * 4 + of_char c div 64, of_char c mod 64] @ sextets s"

lemma b64_encode_sextets: "b64_encode s = map b64_char (sextets s)"
  by (induction s rule: sextets.induct) simp_all

lemma sextet_parts:
  "(of_char (a :: char) :: nat) div 4 < 64" "(of_char a :: nat) mod 4 * 16 + (of_char (b :: char) :: nat) div 16 < 64"
  "(of_char a :: nat) mod 16 * 4 + (of_char b :: nat) div 64 < 64" "(of_char a :: nat) mod 4 * 16 < 64" "(of_char a :: nat) mod 16 * 4 < 64"
  using of_char_less [of a] of_char_less [of b] by (simp_all add: less_mult_imp_div_less, linarith+)

lemma sextets_small: "list_all (\<lambda>n. n < 64) (sextets s)"
  by (induction s rule: sextets.induct) (simp_all add: sextet_parts)

lemma byte_bits [simp]:
  "(of_char (c :: char) :: nat) div 16 div 16 = 0" "(of_char c :: nat) div 64 div 4 = 0"
  "(of_char c :: nat) div 16 mod 16 = of_char c div 16" "(of_char c :: nat) div 64 mod 4 = of_char c div 64"
  by (simp_all add: div_mult2_eq [symmetric] less_mult_imp_div_less)

lemma sextets_bytes_sextets: "sextets_bytes (sextets s) = Some s"
  by (induction s rule: sextets.induct) simp_all

lemma b64_encode_url: "list_all url_char (b64_encode s)"
  using sextets_small [of s] by (auto simp: b64_encode_sextets list_all_iff b64_char_url)

lemma b64_round_trip: "b64_decode (b64_encode s) = Some s"
proof -
  have url: "\<forall>c \<in> set (b64_encode s). url_char c" using b64_encode_url by (simp add: list_all_iff)
  then have "filter (\<lambda>c. \<not> List.member [10, 13] (of_char c :: nat)) (b64_encode s) = b64_encode s"
    using url_char_break by (auto intro!: filter_True)
  moreover have "\<not> list_ex (\<lambda>c. b64_value c = None) (b64_encode s)" using url by (auto simp: list_ex_iff b64_value_iff)
  moreover have "map (\<lambda>c. the (b64_value c)) (b64_encode s) = sextets s"
    using sextets_small [of s] by (auto simp: b64_encode_sextets list_all_iff b64_value_char intro!: map_idI)
  ultimately show ?thesis by (simp add: b64_decode_def sextets_bytes_sextets)
qed

lemma b64_encode_empty [simp]: "b64_encode s = [] \<longleftrightarrow> s = []"
  by (cases s rule: b64_encode.cases) simp_all

lemma length_b64_encode: "length (b64_encode s) = (4 * length s + 2) div 3"
  by (induction s rule: b64_encode.induct) simp_all

text \<open>A digest has 32 bytes.\<close>

lemma length_sha_round: "length (sha_round st kw) = length st"
  by (auto simp: sha_round_def Let_def split: list.splits)

lemma length_foldl_sha: "length (foldl sha_round h kws) = length h"
  by (induction kws arbitrary: h) (simp_all add: length_sha_round)

lemma length_sha_blocks: "length (sha_blocks n h w) = length h"
  by (induction n h w rule: sha_blocks.induct) (simp_all add: sha_block_def length_foldl_sha)

lemma length_be_bytes [simp]: "length (be_bytes n v) = n"
  by (induction n arbitrary: v) simp_all

lemma length_sha256: "length (sha256 s) = 32"
  by (simp add: sha256_def Let_def length_concat comp_def sum_list_triv length_sha_blocks sha_H0_def)

lemma sha256_not_empty [simp]: "sha256 s \<noteq> []"
  using length_sha256 [of s] by auto

end
