(* ===== verification/Json_Text.thy ===== *)
theory Json_Text
  imports Go_Json
begin

text \<open>
  Reading JSON text, the syntax \<open>json.Unmarshal\<close> accepts: a lexer that takes one byte at a time, as the
  decoder's scanner does, and a pushdown parser over its tokens with the decoder's nesting limit.
  Both are structural, so no fuel is needed. The last section shows that what \<open>json_text\<close> prints is
  read back.
\<close>

section \<open>Strings\<close>

text \<open>The contents of a string literal: bytes as they stand, and \<open>\u\<close> escapes.\<close>

datatype item = Raw char | Uni nat

definition utf8 :: "nat \<Rightarrow> string" where
  "utf8 u =
     (if u < 0x80 then [char_of u]
      else if u < 0x800 then [char_of (0xC0 + u div 64), char_of (0x80 + u mod 64)]
      else if u < 0x10000
      then [char_of (0xE0 + u div 4096), char_of (0x80 + u div 64 mod 64), char_of (0x80 + u mod 64)]
      else [char_of (0xF0 + u div 262144), char_of (0x80 + u div 4096 mod 64), char_of (0x80 + u div 64 mod 64),
            char_of (0x80 + u mod 64)])"

definition RuneError :: string where
  "RuneError = utf8 0xFFFD"

fun raw_byte :: "item \<Rightarrow> nat" where
  "raw_byte (Raw c) = of_char c" | "raw_byte (Uni u) = 0"

text \<open>How many items the well-formed UTF-8 sequence at the front has; 0 when it is not well formed.\<close>

definition utf8_len :: "nat list \<Rightarrow> nat" where
  "utf8_len bs =
     (let in_range = (\<lambda>i lo hi. i < length bs \<and> lo \<le> bs ! i \<and> bs ! i \<le> hi); cont = (\<lambda>i. in_range i 0x80 0xBF)
      in if in_range 0 0xC2 0xDF \<and> cont 1 then 2
         else if cont 2 \<and> (in_range 0 0xE0 0xE0 \<and> in_range 1 0xA0 0xBF \<or> in_range 0 0xE1 0xEC \<and> cont 1 \<or>
           in_range 0 0xED 0xED \<and> in_range 1 0x80 0x9F \<or> in_range 0 0xEE 0xEF \<and> cont 1) then 3
         else if cont 2 \<and> cont 3 \<and> (in_range 0 0xF0 0xF0 \<and> in_range 1 0x90 0xBF \<or>
           in_range 0 0xF1 0xF3 \<and> cont 1 \<or> in_range 0 0xF4 0xF4 \<and> in_range 1 0x80 0x8F) then 4
         else 0)"

definition is_surrogate :: "nat \<Rightarrow> bool" where
  "is_surrogate u \<longleftrightarrow> 0xD800 \<le> u \<and> u < 0xE000"

definition surrogate_pair :: "nat \<Rightarrow> item \<Rightarrow> nat option" where
  "surrogate_pair u i =
     (case i of
        Raw c \<Rightarrow> None
      | Uni v \<Rightarrow> if u < 0xDC00 \<and> 0xDC00 \<le> v \<and> v < 0xE000 then Some ((u - 0xD800) * 1024 + (v - 0xDC00) + 0x10000) else None)"

function unquote :: "item list \<Rightarrow> string" where
  "unquote [] = []"
| "unquote (Uni u # is) =
     (if is_surrogate u
      then case is of
             [] \<Rightarrow> RuneError
           | i # is' \<Rightarrow> (case surrogate_pair u i of Some r \<Rightarrow> utf8 r @ unquote is' | None \<Rightarrow> RuneError @ unquote is)
      else utf8 u @ unquote is)"
| "unquote (Raw c # is) =
     (if (of_char c :: nat) < 0x80 then c # unquote is
      else let n = utf8_len (map raw_byte (Raw c # is)) in
        if n = 0 then RuneError @ unquote is
        else c # map (\<lambda>i. char_of (raw_byte i)) (take (n - 1) is) @ unquote (drop (n - 1) is))"
  by pat_completeness auto
termination by (relation "measure length") auto

section \<open>Tokens\<close>

datatype tok = TPunct char | TStr string | TNum string | TWord string

datatype lex = Idle | InStr "item list" | InEsc "item list" | InHex "item list" nat nat | InNum string | InWord string

definition json_space :: "char \<Rightarrow> bool" where
  "json_space c \<longleftrightarrow> c = CHR '' '' \<or> List.member [9, 10, 13] (of_char c :: nat)"

definition json_punct :: "char \<Rightarrow> bool" where
  "json_punct c \<longleftrightarrow> List.member ''[]{},:'' c"

definition num_char :: "char \<Rightarrow> bool" where
  "num_char c \<longleftrightarrow> is_digit c \<or> List.member ''+-.eE'' c"

text \<open>The grammar of numbers: no leading zeros, digits on both sides of a point.\<close>

definition exponent_ok :: "string \<Rightarrow> bool" where
  "exponent_ok s =
     (case s of
        [] \<Rightarrow> True
      | c # cs \<Rightarrow> List.member ''eE'' c \<and>
          (let ds = (if cs \<noteq> [] \<and> List.member ''+-'' (hd cs) then tl cs else cs) in ds \<noteq> [] \<and> list_all is_digit ds))"

definition number_ok :: "string \<Rightarrow> bool" where
  "number_ok s =
     (let r = (if s \<noteq> [] \<and> hd s = CHR ''-'' then tl s else s);
          whole = takeWhile is_digit r; rest = dropWhile is_digit r
      in whole \<noteq> [] \<and> (hd whole = CHR ''0'' \<longrightarrow> length whole = 1) \<and>
         (if rest \<noteq> [] \<and> hd rest = CHR ''.''
          then takeWhile is_digit (tl rest) \<noteq> [] \<and> exponent_ok (dropWhile is_digit (tl rest))
          else exponent_ok rest))"

definition number_value :: "string \<Rightarrow> json" where
  "number_value s =
     (if list_ex (\<lambda>c. List.member ''.eE'' c) s then JDec s
      else case int_literal s of Some i \<Rightarrow> JInt i | None \<Rightarrow> JDec s)"

definition lex_idle :: "char \<Rightarrow> (lex \<times> tok list) option" where
  "lex_idle c =
     (if json_space c then Some (Idle, [])
      else if json_punct c then Some (Idle, [TPunct c])
      else if c = CHR 0x22 then Some (InStr [], [])
      else if c = CHR ''-'' \<or> is_digit c then Some (InNum [c], [])
      else if is_lower c then Some (InWord [c], [])
      else None)"

definition hex_value :: "char \<Rightarrow> nat option" where
  "hex_value c =
     (if is_digit c then Some (of_char c - 48)
      else if 97 \<le> (of_char c :: nat) \<and> (of_char c :: nat) \<le> 102 then Some (of_char c - 87)
      else if 65 \<le> (of_char c :: nat) \<and> (of_char c :: nat) \<le> 70 then Some (of_char c - 55)
      else None)"

definition simple_escape :: "char \<Rightarrow> char option" where
  "simple_escape c =
     (if c = CHR ''b'' then Some (char_of (8 :: nat)) else if c = CHR ''f'' then Some (char_of (12 :: nat))
      else if c = CHR ''n'' then Some (char_of (10 :: nat)) else if c = CHR ''r'' then Some (char_of (13 :: nat))
      else if c = CHR ''t'' then Some (char_of (9 :: nat))
      else if c = CHR 0x5C \<or> c = CHR ''/'' \<or> c = CHR 0x22 then Some c else None)"

fun lex_step :: "lex \<Rightarrow> char \<Rightarrow> (lex \<times> tok list) option" where
  "lex_step Idle c = lex_idle c"
| "lex_step (InStr items) c =
     (if c = CHR 0x22 then Some (Idle, [TStr (unquote items)])
      else if c = CHR 0x5C then Some (InEsc items, [])
      else if (of_char c :: nat) < 32 then None
      else Some (InStr (items @ [Raw c]), []))"
| "lex_step (InEsc items) c =
     (if c = CHR ''u'' then Some (InHex items 4 0, [])
      else map_option (\<lambda>d. (InStr (items @ [Raw d]), [])) (simple_escape c))"
| "lex_step (InHex items k v) c =
     (case hex_value c of
        None \<Rightarrow> None
      | Some d \<Rightarrow> if k \<le> 1 then Some (InStr (items @ [Uni (v * 16 + d)]), []) else Some (InHex items (k - 1) (v * 16 + d), []))"
| "lex_step (InNum w) c =
     (if num_char c then Some (InNum (w @ [c]), [])
      else if number_ok w then map_option (\<lambda>(l, ts). (l, TNum w # ts)) (lex_idle c) else None)"
| "lex_step (InWord w) c =
     (if is_lower c then Some (InWord (w @ [c]), [])
      else map_option (\<lambda>(l, ts). (l, TWord w # ts)) (lex_idle c))"

fun lex_end :: "lex \<Rightarrow> tok list option" where
  "lex_end Idle = Some []"
| "lex_end (InNum w) = (if number_ok w then Some [TNum w] else None)"
| "lex_end (InWord w) = Some [TWord w]"
| "lex_end _ = None"

fun tokens :: "lex \<Rightarrow> string \<Rightarrow> tok list option" where
  "tokens l [] = lex_end l"
| "tokens l (c # cs) =
     (case lex_step l c of None \<Rightarrow> None | Some (l', ts) \<Rightarrow> map_option (\<lambda>us. ts @ us) (tokens l' cs))"

section \<open>Parsing\<close>

definition maxNestingDepth :: nat where "maxNestingDepth = 10000"

datatype frame = FArr "json list" | FObj "(string \<times> json) list" string

datatype pstate = PVal bool | PKey bool | PColon | PEnd json

definition word_value :: "string \<Rightarrow> json option" where
  "word_value w = (if w = ''true'' then Some (JBool True) else if w = ''false'' then Some (JBool False)
     else if w = ''null'' then Some JNull else None)"

text \<open>
  \<open>PVal e\<close> waits for a value, or for the end of an empty array when \<open>e\<close>; \<open>PKey e\<close> for a member name, or
  the end of an empty object when \<open>e\<close>; \<open>PEnd v\<close> has just finished the value \<open>v\<close>.
\<close>

fun parse_step :: "pstate \<Rightarrow> frame list \<Rightarrow> tok \<Rightarrow> (pstate \<times> frame list) option" where
  "parse_step (PVal e) st (TStr s) = Some (PEnd (JStr s), st)"
| "parse_step (PVal e) st (TNum w) = Some (PEnd (number_value w), st)"
| "parse_step (PVal e) st (TWord w) = map_option (\<lambda>v. (PEnd v, st)) (word_value w)"
| "parse_step (PVal e) st (TPunct c) =
     (if c = CHR ''['' then if length st < maxNestingDepth then Some (PVal True, FArr [] # st) else None
      else if c = CHR ''{'' then if length st < maxNestingDepth then Some (PKey True, FObj [] [] # st) else None
      else if c = CHR '']'' \<and> e then Some (PEnd (JArr []), tl st)
      else None)"
| "parse_step (PKey e) (FObj ms k # st) (TStr s) = Some (PColon, FObj ms s # st)"
| "parse_step (PKey e) st (TPunct c) = (if c = CHR ''}'' \<and> e then Some (PEnd (JObj []), tl st) else None)"
| "parse_step PColon st (TPunct c) = (if c = CHR '':'' then Some (PVal False, st) else None)"
| "parse_step (PEnd v) (FArr xs # st) (TPunct c) =
     (if c = CHR '','' then Some (PVal False, FArr (xs @ [v]) # st)
      else if c = CHR '']'' then Some (PEnd (JArr (xs @ [v])), st) else None)"
| "parse_step (PEnd v) (FObj ms k # st) (TPunct c) =
     (if c = CHR '','' then Some (PKey False, FObj (ms @ [(k, v)]) [] # st)
      else if c = CHR ''}'' then Some (PEnd (JObj (ms @ [(k, v)])), st) else None)"
| "parse_step _ _ _ = None"

fun parse_end :: "pstate \<Rightarrow> frame list \<Rightarrow> json option" where
  "parse_end (PEnd v) [] = Some v"
| "parse_end _ _ = None"

fun parse :: "pstate \<Rightarrow> frame list \<Rightarrow> tok list \<Rightarrow> json option" where
  "parse p st [] = parse_end p st"
| "parse p st (t # ts) = (case parse_step p st t of None \<Rightarrow> None | Some (p', st') \<Rightarrow> parse p' st' ts)"

definition json_parse :: "string \<Rightarrow> json option" where
  "json_parse s = (case tokens Idle s of None \<Rightarrow> None | Some ts \<Rightarrow> parse (PVal False) [] ts)"

section \<open>Printed text is read back\<close>

text \<open>Values \<open>json_text\<close> prints faithfully: ASCII strings, and decimals in the grammar of numbers.\<close>

definition ascii :: "string \<Rightarrow> bool" where
  "ascii s \<longleftrightarrow> list_all (\<lambda>c. (of_char c :: nat) < 128) s"

fun printable :: "json \<Rightarrow> bool" where
  "printable JNull = True"
| "printable (JBool b) = True"
| "printable (JInt i) = True"
| "printable (JDec d) = (number_ok d \<and> list_all num_char d \<and> list_ex (\<lambda>c. List.member ''.eE'' c) d)"
| "printable (JStr s) = ascii s"
| "printable (JArr xs) = list_all printable xs"
| "printable (JObj ms) = list_all (\<lambda>(k, v). ascii k \<and> printable v) ms"

fun json_depth :: "json \<Rightarrow> nat" where
  "json_depth (JArr xs) = Suc (fold max (map json_depth xs) 0)"
| "json_depth (JObj ms) = Suc (fold max (map (\<lambda>(k, v). json_depth v) ms) 0)"
| "json_depth _ = 0"

fun comma_toks :: "tok list list \<Rightarrow> tok list" where
  "comma_toks [] = []"
| "comma_toks [t] = t"
| "comma_toks (t # u # ts) = t @ TPunct (CHR '','') # comma_toks (u # ts)"

fun toks :: "json \<Rightarrow> tok list" where
  "toks JNull = [TWord ''null'']"
| "toks (JBool b) = [TWord (if b then ''true'' else ''false'')]"
| "toks (JInt i) = [TNum (Itoa i)]"
| "toks (JDec d) = [TNum d]"
| "toks (JStr s) = [TStr s]"
| "toks (JArr xs) = TPunct (CHR ''['') # comma_toks (map toks xs) @ [TPunct (CHR '']'')]"
| "toks (JObj ms) = TPunct (CHR ''{'') # comma_toks (map (\<lambda>(k, v). TStr k # TPunct (CHR '':'') # toks v) ms) @ [TPunct (CHR ''}'')]"

lemma map_option_append [simp]:
  "map_option ((@) []) x = x" "map_option ((@) [t]) x = map_option ((#) t) x" "map_option ((@) (t # ts)) x = map_option ((#) t) (map_option ((@) ts) x)"
  by (cases x; simp)+

subsection \<open>String literals\<close>

definition item_of :: "char \<Rightarrow> item" where
  "item_of c = (let n = of_char c :: nat in
     if n < 32 \<and> \<not> List.member [8, 9, 10, 12, 13] n \<or> List.member [38, 60, 62] n then Uni n else Raw c)"

lemma item_of_sel: "item_of c = Uni u \<Longrightarrow> u = of_char c" "item_of c = Raw d \<Longrightarrow> d = c"
  by (auto simp: item_of_def Let_def split: if_splits)

lemma unquote_items: "ascii s \<Longrightarrow> unquote (map item_of s) = s"
proof (induction s)
  case (Cons c s)
  then show ?case
    by (cases "item_of c") (auto simp: ascii_def is_surrogate_def utf8_def dest: item_of_sel)
qed simp

lemma char_codes: "char_of (48 :: nat) = CHR ''0''" "char_of (34 :: nat) = CHR 0x22" "char_of (92 :: nat) = CHR 0x5C"
  by code_simp+

lemma hex_pad4: "n < 256 \<Longrightarrow> hex_pad 4 n = [CHR ''0'', CHR ''0'', hex_char (n div 16), hex_char (n mod 16)]"
proof -
  assume "n < 256"
  then have "n div 16 < 16" by simp
  then have "n div 16 mod 16 = n div 16" "n div 16 div 16 = 0" by simp_all
  moreover have "4 = Suc (Suc (Suc (Suc 0)))" by simp
  ultimately show ?thesis by (simp only: hex_pad.simps) (simp add: hex_char_def char_codes)
qed

lemma hex_value_char: "d < 16 \<Longrightarrow> hex_value (hex_char d) = Some d"
  by (auto simp: hex_value_def hex_char_def is_digit_def)

lemma tokens_char:
  assumes "(of_char c :: nat) < 128"
  shows "tokens (InStr items) (json_escape c @ rest) = tokens (InStr (items @ [item_of c])) rest"
proof -
  let ?n = "of_char c :: nat"
  consider (esc) "List.member [34, 92, 8, 9, 10, 12, 13] ?n" | (uni) "\<not> List.member [34, 92, 8, 9, 10, 12, 13] ?n" "?n < 32 \<or> List.member [38, 60, 62] ?n"
    | (raw) "\<not> List.member [34, 92, 8, 9, 10, 12, 13] ?n" "\<not> ?n < 32" "\<not> List.member [38, 60, 62] ?n" by blast
  then show ?thesis
  proof cases
    case esc
    then have "c \<in> char_of ` {34 :: nat, 92, 8, 9, 10, 12, 13}" by (auto simp: image_iff) (metis char_of_char)+
    then show ?thesis by (auto simp: json_escape_def item_of_def simple_escape_def char_codes)
  next
    case uni
    then have "json_escape c = CHR 0x5C # CHR ''u'' # hex_pad 4 ?n" by (auto simp: json_escape_def Let_def)
    moreover have "?n div 16 < 16" "?n mod 16 < 16" "?n div 16 * 16 + ?n mod 16 = ?n" using assms by simp_all
    moreover have "item_of c = Uni ?n" using uni by (auto simp: item_of_def Let_def)
    moreover have "hex_value (CHR ''0'') = Some 0" by code_simp
    ultimately show ?thesis using assms by (simp add: hex_pad4 hex_value_char)
  next
    case raw
    then have "json_escape c = [c]" "item_of c = Raw c" "c \<noteq> CHR 0x22" "c \<noteq> CHR 0x5C"
      by (auto simp: json_escape_def item_of_def Let_def)
    then show ?thesis using raw by simp
  qed
qed

lemma tokens_string:
  assumes "ascii s"
  shows "tokens Idle (json_string s @ rest) = map_option (\<lambda>ts. TStr s # ts) (tokens Idle rest)"
proof -
  have step: "tokens (InStr items) (concat (map json_escape s) @ rest') = tokens (InStr (items @ map item_of s)) rest'" for items rest'
    using assms by (induction s arbitrary: items) (simp_all add: ascii_def tokens_char)
  have "lex_idle (CHR 0x22) = Some (InStr [], [])" by code_simp
  then show ?thesis using step [of "[]" "CHR 0x22 # rest"] unquote_items [OF assms] by (simp add: json_string_def)
qed

subsection \<open>Numbers and words\<close>

text \<open>What follows a value in printed text: nothing, or a closing or separating character.\<close>

definition delimited :: "string \<Rightarrow> bool" where
  "delimited rest \<longleftrightarrow> rest = [] \<or> json_punct (hd rest)"

lemma punct_not: "json_punct c \<Longrightarrow> \<not> num_char c \<and> \<not> is_lower c \<and> \<not> json_space c"
  by (auto simp: json_punct_def num_char_def is_lower_def is_digit_def json_space_def)

lemma tokens_num:
  assumes "delimited rest" "list_all num_char v" "number_ok (w @ v)"
  shows "tokens (InNum w) (v @ rest) = map_option (\<lambda>ts. TNum (w @ v) # ts) (tokens Idle rest)"
  using assms(2,3)
proof (induction v arbitrary: w)
  case Nil
  then show ?case using assms(1) punct_not [of "hd rest"] by (cases rest) (auto simp: delimited_def lex_idle_def)
next
  case (Cons c v)
  then show ?case using Cons.IH [of "w @ [c]"] by simp
qed

lemma tokens_word:
  assumes "delimited rest" "list_all is_lower v"
  shows "tokens (InWord w) (v @ rest) = map_option (\<lambda>ts. TWord (w @ v) # ts) (tokens Idle rest)"
  using assms(2)
proof (induction v arbitrary: w)
  case Nil
  then show ?case using assms(1) punct_not [of "hd rest"] by (cases rest) (auto simp: delimited_def lex_idle_def)
next
  case (Cons c v)
  then show ?case using Cons.IH [of "w @ [c]"] by simp
qed

lemma number_start: "number_ok d \<Longrightarrow> \<exists>c v. d = c # v \<and> (c = CHR ''-'' \<or> is_digit c)"
  by (cases d) (auto simp: number_ok_def Let_def split: if_splits)

lemma lower_not: "is_lower c \<Longrightarrow> \<not> json_space c \<and> \<not> json_punct c \<and> c \<noteq> CHR 0x22 \<and> c \<noteq> CHR ''-'' \<and> \<not> is_digit c"
  by (auto simp: json_punct_def is_lower_def is_digit_def json_space_def)

lemma digit_not: "is_digit c \<Longrightarrow> \<not> json_space c \<and> \<not> json_punct c \<and> c \<noteq> CHR 0x22 \<and> c \<noteq> CHR ''-'' \<and> c \<noteq> CHR ''+'' \<and> c \<noteq> CHR ''.'' \<and> c \<noteq> CHR ''e'' \<and> c \<noteq> CHR ''E''"
  by (auto simp: json_punct_def is_digit_def json_space_def)

lemma lex_idle_digit: "is_digit c \<Longrightarrow> lex_idle c = Some (InNum [c], [])"
  unfolding lex_idle_def by (simp add: digit_not)

lemma lex_idle_lower: "is_lower c \<Longrightarrow> lex_idle c = Some (InWord [c], [])"
  unfolding lex_idle_def by (simp add: lower_not)

lemma lex_idle_punct: "json_punct c \<Longrightarrow> lex_idle c = Some (Idle, [TPunct c])"
  unfolding lex_idle_def by (simp add: punct_not)

lemma lex_idle_minus: "lex_idle (CHR ''-'') = Some (InNum ''-'', [])"
  by code_simp

lemmas lex_idle_start = lex_idle_digit lex_idle_lower lex_idle_punct lex_idle_minus

lemma tokens_number:
  assumes "delimited rest" "list_all num_char d" "number_ok d"
  shows "tokens Idle (d @ rest) = map_option (\<lambda>ts. TNum d # ts) (tokens Idle rest)"
proof -
  obtain c v where "d = c # v" "c = CHR ''-'' \<or> is_digit c" using number_start [OF assms(3)] by blast
  then show ?thesis using assms tokens_num [of rest v "[c]"] by (auto simp: lex_idle_start)
qed

lemma tokens_keyword:
  assumes "delimited rest" "list_all is_lower d" "d \<noteq> []"
  shows "tokens Idle (d @ rest) = map_option (\<lambda>ts. TWord d # ts) (tokens Idle rest)"
proof (cases d)
  case (Cons c v)
  then show ?thesis using assms tokens_word [of rest v "[c]"] by (simp add: lex_idle_start)
qed (use assms in simp)

lemma tokens_punct: "json_punct c \<Longrightarrow> tokens Idle (c # rest) = map_option (\<lambda>ts. TPunct c # ts) (tokens Idle rest)"
  by (simp add: lex_idle_start)

lemma show_nat_no_zero: "show_nat n = ''0'' \<or> hd (show_nat n) \<noteq> CHR ''0''"
proof (induction n rule: show_nat.induct)
  case (1 n)
  show ?case
  proof (cases "n < 10")
    case True
    then have "show_nat n = [digit_char n]" by (subst show_nat.simps) simp
    moreover have "digit_char n = CHR ''0'' \<Longrightarrow> n = 0" using of_char_digit_char [OF True] by simp
    ultimately show ?thesis by auto
  next
    case False
    then have "show_nat n = show_nat (n div 10) @ [digit_char (n mod 10)]" by (subst show_nat.simps) simp
    moreover have "show_nat (n div 10) \<noteq> ''0''"
    proof
      assume "show_nat (n div 10) = ''0''"
      then have "n div 10 = 0" using show_nat_inj [of "n div 10" 0] by (simp add: show_nat.simps [of 0] digit_char_def char_codes)
      then show False using False by simp
    qed
    ultimately show ?thesis using 1 False by simp
  qed
qed

lemma number_ok_digits:
  assumes "ds \<noteq> []" "\<forall>c \<in> set ds. is_digit c" "ds = ''0'' \<or> hd ds \<noteq> CHR ''0''"
  shows "number_ok ds" "number_ok (CHR ''-'' # ds)"
proof -
  have w: "takeWhile is_digit ds = ds" "dropWhile is_digit ds = []" using assms(2) by simp_all
  have "hd ds \<noteq> CHR ''-''" using assms(1,2) digit_not [of "hd ds"] by simp
  then show "number_ok ds" "number_ok (CHR ''-'' # ds)"
    using assms by (auto simp add: number_ok_def exponent_ok_def Let_def w)
qed

lemma number_ok_Itoa: "number_ok (Itoa i) \<and> list_all num_char (Itoa i) \<and> number_value (Itoa i) = JInt i"
proof -
  let ?d = "show_nat (nat \<bar>i\<bar>)"
  have digits: "\<forall>c \<in> set ?d. is_digit c" using show_nat_digits [of "nat \<bar>i\<bar>"] by (simp add: list_all_iff)
  then have minus: "hd ?d \<noteq> CHR ''-''" "hd ?d \<noteq> CHR ''+''"
    using hd_in_set [of ?d] digit_not [of "hd ?d"] by simp_all
  have I: "Itoa i = (if i < 0 then CHR ''-'' # ?d else ?d)" by (simp add: Itoa_def)
  have "\<not> list_ex (\<lambda>c. List.member ''.eE'' c) (Itoa i)"
    using digits digit_not by (auto simp: I list_ex_iff)
  moreover have "split_sign (Itoa i) = (i < 0, ?d)"
    using minus by (cases ?d) (auto simp: I split_sign_def)
  then have "int_literal (Itoa i) = Some i"
    using digits by (auto simp: int_literal_def list_all_iff nat_of_digits_show)
  moreover have "number_ok (Itoa i)"
    using number_ok_digits [of ?d] show_nat_no_zero [of "nat \<bar>i\<bar>"] digits by (auto simp: I)
  moreover have "list_all num_char (Itoa i)" using digits by (auto simp: I list_all_iff num_char_def)
  ultimately show ?thesis by (simp add: number_value_def)
qed

subsection \<open>Values\<close>

lemma tokens_list:
  assumes "delimited rest"
    and "\<And>x rest. x \<in> set xs \<Longrightarrow> delimited rest \<Longrightarrow> tokens Idle (text x @ rest) = map_option (\<lambda>ts. tk x @ ts) (tokens Idle rest)"
  shows "tokens Idle (join_with (CHR '','') (map text xs) @ rest) = map_option (\<lambda>ts. comma_toks (map tk xs) @ ts) (tokens Idle rest)"
  using assms(2)
proof (induction xs rule: induct_list012)
  case (3 x y xs)
  have comma: "json_punct (CHR '','')" by code_simp
  then have "delimited (CHR '','' # join_with (CHR '','') (map text (y # xs)) @ rest)" by (simp add: delimited_def)
  then show ?case using 3 comma by (simp add: tokens_punct option.map_comp comp_def del: tokens.simps)
qed (use assms(1) in \<open>auto simp: option.map_id0 id_def\<close>)

lemma tokens_json:
  assumes "printable j" "delimited rest"
  shows "tokens Idle (json_text j @ rest) = map_option (\<lambda>ts. toks j @ ts) (tokens Idle rest)"
  using assms
proof (induction j arbitrary: rest)
  case (JBool b)
  have "list_all is_lower ''true''" "list_all is_lower ''false''" by code_simp+
  then show ?case using JBool tokens_keyword [of rest "if b then ''true'' else ''false''"] by (simp del: tokens.simps)
next
  case JNull
  have "list_all is_lower ''null''" by code_simp
  then show ?case using JNull tokens_keyword [of rest "''null''"] by (simp del: tokens.simps)
next
  case (JInt i)
  then show ?case using tokens_number [of rest "Itoa i"] number_ok_Itoa [of i] by simp
next
  case (JDec d)
  then show ?case using tokens_number [of rest d] by simp
next
  case (JStr s)
  then show ?case using tokens_string [of s rest] by simp
next
  case (JArr xs)
  have p: "json_punct (CHR ''['')" "json_punct (CHR '']'')" by code_simp+
  then have "tokens Idle (join_with (CHR '','') (map json_text xs) @ '']'' @ rest) =
      map_option (\<lambda>ts. comma_toks (map toks xs) @ ts) (tokens Idle ('']'' @ rest))"
    using JArr by (intro tokens_list) (auto simp: delimited_def list_all_iff)
  then show ?case using p by (simp add: tokens_punct option.map_comp comp_def del: tokens.simps)
next
  case (JObj ms)
  have p: "json_punct (CHR ''{'')" "json_punct (CHR ''}'')" "json_punct (CHR '':'')" by code_simp+
  have "tokens Idle ((\<lambda>(k, v). json_string k @ '':'' @ json_text v) m @ r) =
      map_option (\<lambda>ts. (\<lambda>(k, v). TStr k # TPunct (CHR '':'') # toks v) m @ ts) (tokens Idle r)"
    if "m \<in> set ms" "delimited r" for m r
    using JObj that p by (cases m) (auto simp: list_all_iff tokens_punct tokens_string option.map_comp comp_def simp del: tokens.simps)
  then have "tokens Idle (join_with (CHR '','') (map (\<lambda>(k, v). json_string k @ '':'' @ json_text v) ms) @ ''}'' @ rest) =
      map_option (\<lambda>ts. comma_toks (map (\<lambda>(k, v). TStr k # TPunct (CHR '':'') # toks v) ms) @ ts) (tokens Idle (''}'' @ rest))"
    using p by (intro tokens_list) (auto simp: delimited_def simp del: tokens.simps)
  then show ?case using p by (simp add: tokens_punct option.map_comp comp_def del: tokens.simps)
qed

lemma fold_max_le: "fold max ns (a :: nat) \<le> b \<longleftrightarrow> a \<le> b \<and> (\<forall>n \<in> set ns. n \<le> b)"
  by (induction ns arbitrary: a) auto

text \<open>A value is read at nesting level \<open>d\<close>, whatever the frames.\<close>

definition reads :: "nat \<Rightarrow> json \<Rightarrow> bool" where
  "reads d x \<longleftrightarrow> (\<forall>e st ts. length st = d \<longrightarrow> parse (PVal e) st (toks x @ ts) = parse (PEnd x) st ts)"

lemma parse_array:
  assumes "xs \<noteq> []" "list_all (reads (Suc (length st))) xs"
  shows "parse (PVal e) (FArr ys # st) (comma_toks (map toks xs) @ TPunct (CHR '']'') # ts) = parse (PEnd (JArr (ys @ xs))) st ts"
  using assms by (induction xs arbitrary: ys e rule: induct_list012) (simp_all add: reads_def)

lemma parse_object:
  assumes "ms \<noteq> []" "list_all (\<lambda>(k, v). reads (Suc (length st)) v) ms"
  shows "parse (PKey e) (FObj ns k0 # st)
      (comma_toks (map (\<lambda>(k, v). TStr k # TPunct (CHR '':'') # toks v) ms) @ TPunct (CHR ''}'') # ts) =
    parse (PEnd (JObj (ns @ ms))) st ts"
  using assms
proof (induction ms arbitrary: ns k0 e rule: induct_list012)
  case (2 m)
  then show ?case by (cases m) (simp add: reads_def)
next
  case (3 m n ms)
  then show ?case by (cases m; cases n) (simp add: reads_def)
qed simp

lemma parse_toks: "printable j \<Longrightarrow> json_depth j + d \<le> maxNestingDepth \<Longrightarrow> reads d j"
proof (induction j arbitrary: d)
  case (JInt i)
  then show ?case using number_ok_Itoa [of i] by (simp add: reads_def)
next
  case (JDec n)
  then have "number_value n = JDec n" by (simp only: number_value_def printable.simps simp_thms if_True)
  then show ?case by (simp add: reads_def)
next
  case (JArr xs)
  have "reads (Suc d) x" if x: "x \<in> set xs" for x
    using JArr.prems x fold_max_le [of "map json_depth xs" 0 "fold max (map json_depth xs) 0"]
    by (intro JArr.IH [OF x]) (auto simp: list_all_iff)
  then have "list_all (reads (Suc d)) xs" by (simp add: list_all_iff)
  then show ?case using parse_array [of xs _ True "[]"] JArr.prems(2) by (cases "xs = []") (auto simp: reads_def)
next
  case (JObj ms)
  have "reads (Suc d) v" if v: "(k, v) \<in> set ms" for k v
    using JObj.prems v fold_max_le [of "map (\<lambda>(k, v). json_depth v) ms" 0 "fold max (map (\<lambda>(k, v). json_depth v) ms) 0"]
    by (intro JObj.IH [OF v]) (auto simp: list_all_iff)
  then have "list_all (\<lambda>(k, v). reads (Suc d) v) ms" by (auto simp: list_all_iff)
  then show ?case using parse_object [of ms _ True "[]" "[]"] JObj.prems(2) by (cases "ms = []") (auto simp: reads_def)
qed (simp_all add: reads_def word_value_def)

lemma json_round_trip:
  assumes "printable j" "json_depth j \<le> maxNestingDepth"
  shows "json_parse (json_text j) = Some j"
proof -
  have "parse (PVal False) [] (toks j @ []) = parse (PEnd j) [] []" using parse_toks [of j 0] assms unfolding reads_def by (metis add_0_right list.size(3))
  then show ?thesis using tokens_json [of j "[]"] assms(1) by (simp add: json_parse_def delimited_def)
qed

end
