(* ===== verification/Playback.thy ===== *)
theory Playback
  imports Go_Crypto Json_Text Artifact_Store
begin

text \<open>
  Watching a package: the signed links of \<open>internal/playback/token.go\<close>, the rewriting of manifests of
  \<open>internal/playback/manifest.go\<close> and the two handlers of \<open>internal/api/playback.go\<close>.

  The clock of the process counts nanoseconds. Parsing a textual UUID belongs to another package and
  is a parameter, \<open>parseUUID\<close>; so are storage's answers, \<open>get\<close> for an object and \<open>sign\<close> for a URL.
\<close>

section \<open>Links\<close>

record Claims =
  cl_ArtifactSetID :: uuid
  cl_TenantID :: uuid
  cl_ExpiresAt :: int

datatype token_error = ErrInvalidToken | ErrExpired

definition second :: int where "second = 1000000000"

definition NewSigner :: "string \<Rightarrow> string" where
  "NewSigner secret = sha256 secret"

definition token_sign :: "string \<Rightarrow> string \<Rightarrow> string" where
  "token_sign key body = b64_encode (hmac_sha256 key body)"

definition claims_json :: "Claims \<Rightarrow> json" where
  "claims_json c = JObj [(''s'', JStr (uuid_String (cl_ArtifactSetID c))), (''t'', JStr (uuid_String (cl_TenantID c))),
     (''e'', JInt (cl_ExpiresAt c))]"

definition Mint :: "int \<Rightarrow> string \<Rightarrow> uuid \<Rightarrow> uuid \<Rightarrow> duration \<Rightarrow> string \<times> int" where
  "Mint now key setID tenantID ttl =
     (let expires = now + ttl;
          body = b64_encode (json_text (claims_json
            \<lparr>cl_ArtifactSetID = setID, cl_TenantID = tenantID, cl_ExpiresAt = expires div second\<rparr>))
      in (body @ ''.'' @ token_sign key body, expires))"

text \<open>\<open>json.Unmarshal\<close> into \<open>Claims\<close>: an identifier is a string its package can parse, or null.\<close>

fun is_uuid :: "(string \<Rightarrow> uuid option) \<Rightarrow> json \<Rightarrow> bool" where
  "is_uuid parseUUID (JStr s) = (parseUUID s \<noteq> None)" | "is_uuid parseUUID JNull = True" | "is_uuid parseUUID _ = False"

fun as_uuid :: "(string \<Rightarrow> uuid option) \<Rightarrow> json \<Rightarrow> uuid" where
  "as_uuid parseUUID (JStr s) = (case parseUUID s of None \<Rightarrow> uuid_Nil | Some u \<Rightarrow> u)" | "as_uuid parseUUID _ = uuid_Nil"

definition claims_typed :: "(string \<Rightarrow> uuid option) \<Rightarrow> (string \<times> json) list \<Rightarrow> bool" where
  "claims_typed parseUUID ms \<longleftrightarrow> list_all (\<lambda>(k, v).
     (ToLower k = ''s'' \<longrightarrow> is_uuid parseUUID v) \<and> (ToLower k = ''t'' \<longrightarrow> is_uuid parseUUID v) \<and>
     (ToLower k = ''e'' \<longrightarrow> is_int64 v)) ms"

definition claims_of_text :: "(string \<Rightarrow> uuid option) \<Rightarrow> string \<Rightarrow> Claims option" where
  "claims_of_text parseUUID payload =
     (case json_parse payload of
        None \<Rightarrow> None
      | Some j \<Rightarrow>
          if is_obj j \<and> claims_typed parseUUID (members j)
          then Some \<lparr>cl_ArtifactSetID = as_uuid parseUUID (json_field ''s'' (members j)),
                     cl_TenantID = as_uuid parseUUID (json_field ''t'' (members j)),
                     cl_ExpiresAt = as_int (json_field ''e'' (members j))\<rparr>
          else None)"

definition Verify :: "(string \<Rightarrow> uuid option) \<Rightarrow> int \<Rightarrow> string \<Rightarrow> string \<Rightarrow> token_error + Claims" where
  "Verify parseUUID now key token =
     (let (body, signature, found) = go_Cut token ''.'' in
      if \<not> found \<or> body = [] \<or> signature = [] then Inl ErrInvalidToken
      else if signature \<noteq> token_sign key body then Inl ErrInvalidToken
      else case b64_decode body of
        None \<Rightarrow> Inl ErrInvalidToken
      | Some payload \<Rightarrow>
          (case claims_of_text parseUUID payload of
             None \<Rightarrow> Inl ErrInvalidToken
           | Some claims \<Rightarrow>
               if cl_ArtifactSetID claims = uuid_Nil \<or> cl_TenantID claims = uuid_Nil then Inl ErrInvalidToken
               else if now > cl_ExpiresAt claims * second then Inl ErrExpired
               else Inr claims))"

definition playback_Path :: "string \<Rightarrow> string \<Rightarrow> string" where
  "playback_Path token file = ''/playback/'' @ token @ ''/'' @ file"

section \<open>Manifests\<close>

datatype 'e rewrite_error = SignError 'e | UnsafeReference string | LineTooLong

definition SafeFile :: "string \<Rightarrow> bool" where
  "SafeFile name =
     (if name = [] \<or> length name > 128 then False
      else if list_ex (\<lambda>c. c = CHR ''/'' \<or> c = CHR 0x5C) name \<or> go_Contains name ''..'' then False
      else list_all label_char name)"

text \<open>
  \<open>bufio.Scanner\<close> over lines: the text up to each line feed, without a carriage return before it; a last
  line without line feed counts when it is not empty. A line that does not fit the buffer is an error.
\<close>

definition max_line :: nat where "max_line = 4 * 1024 * 1024"

definition scan_lines :: "string \<Rightarrow> string list" where
  "scan_lines body = (let ls = split_on (CHR 0x0A) body in if last ls = [] then butlast ls else ls)"

definition drop_cr :: "string \<Rightarrow> string" where
  "drop_cr line = (if line \<noteq> [] \<and> last line = CHR 0x0D then butlast line else line)"

definition resolve ::
  "(string \<Rightarrow> duration \<Rightarrow> 'e + string) \<Rightarrow> duration \<Rightarrow> string \<Rightarrow> string \<Rightarrow> string \<Rightarrow> 'e rewrite_error + string" where
  "resolve sign ttl token prefix name =
     (if HasPrefix name ''http://'' \<or> HasPrefix name ''https://'' then Inr name
      else if \<not> SafeFile name then Inl (UnsafeReference name)
      else if HasSuffix name ''.m3u8'' then Inr (playback_Path token name)
      else case sign (prefix @ ''/'' @ name) ttl of Inl e \<Rightarrow> Inl (SignError e) | Inr url \<Rightarrow> Inr url)"

definition uri_marker :: string where
  "uri_marker = ''URI='' @ [CHR 0x22]"

definition rewriteURIAttribute ::
  "(string \<Rightarrow> duration \<Rightarrow> 'e + string) \<Rightarrow> duration \<Rightarrow> string \<Rightarrow> string \<Rightarrow> string \<Rightarrow> 'e rewrite_error + string" where
  "rewriteURIAttribute sign ttl token prefix line =
     (case go_Cut line uri_marker of
        (before, rest, False) \<Rightarrow> Inr line
      | (before, rest, True) \<Rightarrow>
          (case go_Cut rest [CHR 0x22] of
             (name, after, False) \<Rightarrow> Inr line
           | (name, after, True) \<Rightarrow>
               (case resolve sign ttl token prefix name of
                  Inl e \<Rightarrow> Inl e
                | Inr target \<Rightarrow> Inr (before @ uri_marker @ target @ [CHR 0x22] @ after))))"

fun hls_loop ::
  "(string \<Rightarrow> duration \<Rightarrow> 'e + string) \<Rightarrow> duration \<Rightarrow> string \<Rightarrow> string \<Rightarrow> string list \<Rightarrow> string \<Rightarrow> 'e rewrite_error + string" where
  "hls_loop sign ttl token prefix [] out = Inr out"
| "hls_loop sign ttl token prefix (raw # ls) out =
     (if length raw \<ge> max_line then Inl LineTooLong
      else let trimmed = TrimSpace (drop_cr raw) in
        if trimmed = [] then hls_loop sign ttl token prefix ls (out @ newline)
        else case (if HasPrefix trimmed ''#'' then rewriteURIAttribute sign ttl token prefix trimmed
                   else resolve sign ttl token prefix trimmed) of
          Inl e \<Rightarrow> Inl e
        | Inr text \<Rightarrow> hls_loop sign ttl token prefix ls (out @ text @ newline))"

definition RewriteHLS ::
  "(string \<Rightarrow> duration \<Rightarrow> 'e + string) \<Rightarrow> duration \<Rightarrow> string \<Rightarrow> string \<Rightarrow> string \<Rightarrow> 'e rewrite_error + string" where
  "RewriteHLS sign ttl token prefix body = hls_loop sign ttl token prefix (scan_lines body) []"

fun vtt_loop ::
  "(string \<Rightarrow> duration \<Rightarrow> 'e + string) \<Rightarrow> duration \<Rightarrow> string \<Rightarrow> (string \<rightharpoonup> string) \<Rightarrow> string list \<Rightarrow> string \<Rightarrow>
   'e rewrite_error + string" where
  "vtt_loop sign ttl prefix cache [] out = Inr out"
| "vtt_loop sign ttl prefix cache (raw # ls) out =
     (if length raw \<ge> max_line then Inl LineTooLong
      else let line = drop_cr raw; (name, fragment, isRegion) = go_Cut (TrimSpace line) ''#xywh='' in
        if \<not> isRegion \<or> \<not> SafeFile name then vtt_loop sign ttl prefix cache ls (out @ line @ newline)
        else case cache name of
          Some url \<Rightarrow> vtt_loop sign ttl prefix cache ls (out @ url @ ''#xywh='' @ fragment @ newline)
        | None \<Rightarrow>
            (case sign (prefix @ ''/'' @ name) ttl of
               Inl e \<Rightarrow> Inl (SignError e)
             | Inr url \<Rightarrow> vtt_loop sign ttl prefix (cache(name \<mapsto> url)) ls (out @ url @ ''#xywh='' @ fragment @ newline)))"

definition RewriteVTT ::
  "(string \<Rightarrow> duration \<Rightarrow> 'e + string) \<Rightarrow> duration \<Rightarrow> string \<Rightarrow> string \<Rightarrow> 'e rewrite_error + string" where
  "RewriteVTT sign ttl prefix body = vtt_loop sign ttl prefix (\<lambda>n. None) (scan_lines body) []"

section \<open>Handlers\<close>

text \<open>What the caller of the API sees: an error with its code, or the answer.\<close>

datatype 'a response = Refused int string | Answer int 'a

definition readObject :: "(string \<Rightarrow> head_error + string) \<Rightarrow> string \<Rightarrow> head_error + string" where
  "readObject get key = (case get key of Inl e \<Rightarrow> Inl e | Inr body \<Rightarrow> Inr (take max_line body))"

definition handleCreatePlaybackLink ::
  "int \<Rightarrow> string \<Rightarrow> duration \<Rightarrow> artifact_db \<Rightarrow> uuid \<Rightarrow> uuid option \<Rightarrow> (string \<times> int) response" where
  "handleCreatePlaybackLink now key ttl db tenantID pathID =
     (case pathID of
        None \<Rightarrow> Refused 404 ''not_found''
      | Some artID \<Rightarrow>
          (case artifact_Get db tenantID artID of
             Inl ArtifactNotFound \<Rightarrow> Refused 404 ''not_found''
           | Inl e \<Rightarrow> Refused 500 ''internal_error''
           | Inr art \<Rightarrow>
               if \<not> ((art_Kind art = ''manifest'' \<and> HasSuffix (art_StorageKey art) ''.m3u8'') \<or> art_Kind art = ''sprite_index'')
               then Refused 409 ''not_playable''
               else let (token, expires) = Mint now key (art_SetID art) tenantID ttl;
                        file = (if art_Kind art = ''sprite_index'' then ''sprite.vtt'' else ''master.m3u8'')
                    in Answer 200 (playback_Path token file, expires)))"

definition handlePlayback ::
  "(string \<Rightarrow> uuid option) \<Rightarrow> int \<Rightarrow> string \<Rightarrow> duration \<Rightarrow> artifact_db \<Rightarrow> (string \<Rightarrow> head_error + string) \<Rightarrow>
   (string \<Rightarrow> duration \<Rightarrow> 'e + string) \<Rightarrow> string \<Rightarrow> string \<Rightarrow> (string \<times> string) response" where
  "handlePlayback parseUUID now key ttl db get sign token file =
     (case Verify parseUUID now key token of
        Inl ErrExpired \<Rightarrow> Refused 410 ''link_expired''
      | Inl ErrInvalidToken \<Rightarrow> Refused 403 ''link_invalid''
      | Inr claims \<Rightarrow>
          let playlist = HasSuffix file ''.m3u8''; index = HasSuffix file ''.vtt'' in
          if \<not> SafeFile file \<or> (\<not> playlist \<and> \<not> index) then Refused 404 ''not_found''
          else case artifact_Set db (cl_TenantID claims) (cl_ArtifactSetID claims) of
            Inl ArtifactNotFound \<Rightarrow> Refused 404 ''not_found''
          | Inl e \<Rightarrow> Refused 500 ''internal_error''
          | Inr s \<Rightarrow>
              if set_State s \<noteq> ''complete'' then Refused 409 ''not_ready''
              else (case readObject get (set_Prefix s @ ''/'' @ file) of
                Inl HeadNotFound \<Rightarrow> Refused 404 ''not_found''
              | Inl (HeadOther e) \<Rightarrow> Refused 500 ''internal_error''
              | Inr body \<Rightarrow>
                  (case (if playlist then RewriteHLS sign ttl token (set_Prefix s) body
                         else RewriteVTT sign ttl (set_Prefix s) body) of
                     Inl e \<Rightarrow> Refused 500 ''internal_error''
                   | Inr rewritten \<Rightarrow>
                       Answer 200 (if index then ''text/vtt'' else ''application/vnd.apple.mpegurl'', rewritten))))"

end
