(* ===== verification/Worker_Registry.thy ===== *)
theory Worker_Registry
  imports Job_Schedule Go_Crypto "HOL-Library.List_Lexorder" "HOL-Library.Char_ord"
begin

text \<open>
  The worker registry, \<open>internal/worker/worker.go\<close> and \<open>sweeper.go\<close>, over the table \<open>workers\<close> of
  \<open>0003_jobs.sql\<close> and the additions of \<open>0004_worker_registry.sql\<close>. The capability document and the slot
  map are kept as the values their \<open>jsonb\<close> columns hold. The bytes of the random generator are a
  parameter of registration, \<open>None\<close> when it fails.
\<close>

section \<open>Data\<close>

record Capabilities =
  cap_Operations :: "string list"
  cap_Encoders :: "string list"
  cap_Decoders :: "string list"
  cap_Containers :: "string list"
  cap_PixelFmts :: "string list"
  cap_Packagers :: "string list"
  cap_Encryption :: "string list"
  cap_ASRModels :: "string list"

record WorkerRegistration =
  wg_Name :: string
  wg_Hostname :: string
  wg_OS :: string
  wg_Arch :: string
  wg_CPUCores :: int
  wg_MemoryBytes :: int
  wg_DiskBytes :: int
  wg_GPUModel :: string
  wg_GPUMemoryBytes :: int
  wg_FFmpegVersion :: string
  wg_ProtocolVersion :: int
  wg_Capabilities :: Capabilities
  wg_SlotCapacity :: "(string \<times> int) list"

record Worker =
  wk_ID :: uuid
  wk_Name :: string
  wk_Hostname :: string
  wk_OS :: string
  wk_Arch :: string
  wk_CPUCores :: int
  wk_MemoryBytes :: int
  wk_DiskBytes :: int
  wk_GPUModel :: "string option"
  wk_FFmpegVersion :: string
  wk_ProtocolVersion :: int
  wk_Capabilities :: Capabilities
  wk_SlotCapacity :: "(string \<times> int) list"
  wk_State :: string
  wk_LastHeartbeatAt :: time
  wk_RegisteredAt :: time

record WorkerReport =
  rp_CPUPct :: rat
  rp_MemoryUsedBytes :: int
  rp_DiskFreeBytes :: int
  rp_GPUPct :: rat
  rp_SlotsInUse :: "(string \<times> int) list"
  rp_Healthy :: bool

record worker_row =
  wr_id :: uuid
  wr_name :: string
  wr_hostname :: string
  wr_os :: string
  wr_arch :: string
  wr_cpu_cores :: int
  wr_memory :: int
  wr_disk :: int
  wr_gpu_model :: "string option"
  wr_gpu_memory :: "int option"
  wr_ffmpeg :: string
  wr_protocol :: int
  wr_capabilities :: Capabilities
  wr_slots :: "(string \<times> int) list"
  wr_state :: string
  wr_hash :: string
  wr_heartbeat :: time
  wr_registered :: time

record resource_row =
  rs_worker :: uuid
  rs_cpu :: "rat option"
  rs_memory :: "int option"
  rs_disk_free :: "int option"
  rs_gpu :: "rat option"
  rs_slots :: "(string \<times> int) list"
  rs_healthy :: bool
  rs_updated :: time

record worker_db =
  workers :: "worker_row list"
  resources :: "resource_row list"

datatype worker_error = WorkerNotFound | WorkerUnauthorized | ErrBadProtocol int | WorkerNameRequired | RandomFailed
  | BadWorkerState string | WorkerConstraint string

definition ProtocolVersion :: int where "ProtocolVersion = 1"
definition MinProtocolVersion :: int where "MinProtocolVersion = 1"
definition credentialPrefix :: string where "credentialPrefix = ''tfw_''"
definition StateOnline :: string where "StateOnline = ''online''"
definition StateDraining :: string where "StateDraining = ''draining''"
definition StateOffline :: string where "StateOffline = ''offline''"
definition StateUnhealthy :: string where "StateUnhealthy = ''unhealthy''"

lemmas worker_state_defs = StateOnline_def StateDraining_def StateOffline_def StateUnhealthy_def

section \<open>Registration\<close>

definition worker_nullable :: "string \<Rightarrow> string option" where
  "worker_nullable s = (if s = [] then None else Some s)"

definition nullableInt :: "int \<Rightarrow> int option" where
  "nullableInt v = (if v = 0 then None else Some v)"

definition newCredential :: "string option \<Rightarrow> worker_error + (string \<times> string)" where
  "newCredential random =
     (case random of
        None \<Rightarrow> Inl RandomFailed
      | Some buf \<Rightarrow> let secret = credentialPrefix @ b64_encode buf in Inr (secret, sha256 secret))"

definition checkBootstrap :: "string \<Rightarrow> string \<Rightarrow> bool" where
  "checkBootstrap bootstrapHash token \<longleftrightarrow> sha256 token = bootstrapHash"

definition int4_fits :: "int \<Rightarrow> bool" where
  "int4_fits v \<longleftrightarrow> - (2 ^ 31) \<le> v \<and> v < 2 ^ 31"

text \<open>What a registration writes over a row, the row of the same name or a new one.\<close>

definition registered_row :: "time \<Rightarrow> string \<Rightarrow> WorkerRegistration \<Rightarrow> worker_row \<Rightarrow> worker_row" where
  "registered_row now credHash r row =
     row\<lparr>wr_hostname := wg_Hostname r, wr_os := wg_OS r, wr_arch := wg_Arch r, wr_cpu_cores := wg_CPUCores r,
         wr_memory := wg_MemoryBytes r, wr_disk := wg_DiskBytes r, wr_gpu_model := worker_nullable (wg_GPUModel r),
         wr_gpu_memory := nullableInt (wg_GPUMemoryBytes r), wr_ffmpeg := wg_FFmpegVersion r,
         wr_protocol := wg_ProtocolVersion r, wr_capabilities := wg_Capabilities r, wr_slots := wg_SlotCapacity r,
         wr_state := ''online'', wr_hash := credHash, wr_heartbeat := now\<rparr>"

definition new_worker_row :: "time \<Rightarrow> uuid \<Rightarrow> string \<Rightarrow> WorkerRegistration \<Rightarrow> worker_row" where
  "new_worker_row now workerID credHash r = registered_row now credHash r
     \<lparr>wr_id = workerID, wr_name = wg_Name r, wr_hostname = [], wr_os = [], wr_arch = [], wr_cpu_cores = 0, wr_memory = 0,
      wr_disk = 0, wr_gpu_model = None, wr_gpu_memory = None, wr_ffmpeg = [], wr_protocol = 0,
      wr_capabilities = wg_Capabilities r, wr_slots = [], wr_state = [], wr_hash = [], wr_heartbeat = now,
      wr_registered = now\<rparr>"

text \<open>\<open>insert ... on conflict (name) do update\<close>, with the unique index on the credential.\<close>

definition upsert_worker ::
  "time \<Rightarrow> uuid \<Rightarrow> string \<Rightarrow> WorkerRegistration \<Rightarrow> worker_row list \<Rightarrow> worker_error + (worker_row list \<times> worker_row)" where
  "upsert_worker now newID credHash r rows =
     (case sql_find (\<lambda>w. wr_name w = wg_Name r) rows of
        Some old \<Rightarrow>
          if list_ex (\<lambda>w. wr_id w \<noteq> wr_id old \<and> wr_hash w = credHash) rows then Inl (WorkerConstraint ''workers_credential'')
          else Inr (sql_update (\<lambda>w. wr_name w = wg_Name r) (registered_row now credHash r) rows, registered_row now credHash r old)
      | None \<Rightarrow>
          if list_ex (\<lambda>w. wr_id w = newID) rows then Inl (WorkerConstraint ''workers_pkey'')
          else if list_ex (\<lambda>w. wr_hash w = credHash) rows then Inl (WorkerConstraint ''workers_credential'')
          else Inr (rows @ [new_worker_row now newID credHash r], new_worker_row now newID credHash r))"

definition blank_resource :: "time \<Rightarrow> uuid \<Rightarrow> resource_row" where
  "blank_resource now w = \<lparr>rs_worker = w, rs_cpu = None, rs_memory = None, rs_disk_free = None, rs_gpu = None,
     rs_slots = [], rs_healthy = True, rs_updated = now\<rparr>"

definition upsert_resource :: "resource_row \<Rightarrow> (resource_row \<Rightarrow> resource_row) \<Rightarrow> resource_row list \<Rightarrow> resource_row list" where
  "upsert_resource row f rows =
     (if list_ex (\<lambda>x. rs_worker x = rs_worker row) rows
      then sql_update (\<lambda>x. rs_worker x = rs_worker row) f rows else rows @ [row])"

definition worker_Register ::
  "time \<Rightarrow> uuid \<Rightarrow> string option \<Rightarrow> string \<Rightarrow> worker_db \<Rightarrow> string \<Rightarrow> WorkerRegistration \<Rightarrow>
   worker_error + (worker_db \<times> Worker \<times> string)" where
  "worker_Register now newID random bootstrapHash db bootstrapToken r =
     (if \<not> checkBootstrap bootstrapHash bootstrapToken then Inl WorkerUnauthorized
      else if wg_ProtocolVersion r < MinProtocolVersion \<or> wg_ProtocolVersion r > ProtocolVersion
      then Inl (ErrBadProtocol (wg_ProtocolVersion r))
      else if TrimSpace (wg_Name r) = [] then Inl WorkerNameRequired
      else case newCredential random of
        Inl e \<Rightarrow> Inl e
      | Inr (secret, credHash) \<Rightarrow>
          if \<not> int4_fits (wg_CPUCores r) then Inl (WorkerConstraint ''cpu_cores'')
          else (case upsert_worker now newID credHash r (workers db) of
             Inl e \<Rightarrow> Inl e
           | Inr (rows, row) \<Rightarrow>
               Inr (db\<lparr>workers := rows,
                       resources := upsert_resource (blank_resource now (wr_id row))
                         (\<lambda>x. x\<lparr>rs_updated := now, rs_healthy := True\<rparr>) (resources db)\<rparr>,
                    \<lparr>wk_ID = wr_id row, wk_Name = wr_name row, wk_Hostname = [], wk_OS = [], wk_Arch = [], wk_CPUCores = 0,
                     wk_MemoryBytes = 0, wk_DiskBytes = 0, wk_GPUModel = None, wk_FFmpegVersion = [],
                     wk_ProtocolVersion = wg_ProtocolVersion r, wk_Capabilities = wg_Capabilities r,
                     wk_SlotCapacity = wg_SlotCapacity r, wk_State = wr_state row,
                     wk_LastHeartbeatAt = wr_heartbeat row, wk_RegisteredAt = wr_registered row\<rparr>,
                    secret)))"

section \<open>Authentication\<close>

definition no_capabilities :: Capabilities where
  "no_capabilities = \<lparr>cap_Operations = [], cap_Encoders = [], cap_Decoders = [], cap_Containers = [], cap_PixelFmts = [],
     cap_Packagers = [], cap_Encryption = [], cap_ASRModels = []\<rparr>"

text \<open>Only who is calling and in which state: the other fields keep their zero values.\<close>

definition authenticated_worker :: "worker_row \<Rightarrow> Worker" where
  "authenticated_worker w = \<lparr>wk_ID = wr_id w, wk_Name = wr_name w, wk_Hostname = [], wk_OS = [], wk_Arch = [], wk_CPUCores = 0,
     wk_MemoryBytes = 0, wk_DiskBytes = 0, wk_GPUModel = None, wk_FFmpegVersion = [], wk_ProtocolVersion = 0,
     wk_Capabilities = no_capabilities, wk_SlotCapacity = [], wk_State = wr_state w,
     wk_LastHeartbeatAt = wr_heartbeat w, wk_RegisteredAt = 0\<rparr>"

lemma authenticated_worker_sel [simp]:
  "wk_ID (authenticated_worker w) = wr_id w" "wk_Name (authenticated_worker w) = wr_name w"
  "wk_State (authenticated_worker w) = wr_state w"
  by (simp_all add: authenticated_worker_def)

definition worker_Authenticate :: "worker_db \<Rightarrow> string \<Rightarrow> worker_error + Worker" where
  "worker_Authenticate db secret =
     (if \<not> HasPrefix secret credentialPrefix then Inl WorkerUnauthorized
      else case sql_find (\<lambda>w. wr_hash w = sha256 secret) (workers db) of
        None \<Rightarrow> Inl WorkerUnauthorized
      | Some w \<Rightarrow>
          if sha256 secret \<noteq> wr_hash w then Inl WorkerUnauthorized
          else Inr (authenticated_worker w))"

section \<open>Liveness\<close>

definition heartbeat_state :: "bool \<Rightarrow> string \<Rightarrow> string" where
  "heartbeat_state healthy st =
     (if st = ''draining'' then ''draining'' else if healthy then ''online'' else ''unhealthy'')"

definition report_row :: "time \<Rightarrow> uuid \<Rightarrow> WorkerReport \<Rightarrow> resource_row" where
  "report_row now workerID rep = \<lparr>rs_worker = workerID, rs_cpu = Some (rp_CPUPct rep), rs_memory = Some (rp_MemoryUsedBytes rep),
     rs_disk_free = Some (rp_DiskFreeBytes rep), rs_gpu = Some (rp_GPUPct rep), rs_slots = rp_SlotsInUse rep,
     rs_healthy = rp_Healthy rep, rs_updated = now\<rparr>"

definition worker_Heartbeat :: "time \<Rightarrow> worker_db \<Rightarrow> uuid \<Rightarrow> WorkerReport \<Rightarrow> worker_error + (worker_db \<times> string)" where
  "worker_Heartbeat now db workerID rep =
     (case sql_find (\<lambda>w. wr_id w = workerID) (workers db) of
        None \<Rightarrow> Inl WorkerNotFound
      | Some w \<Rightarrow>
          Inr (db\<lparr>workers := sql_update (\<lambda>w. wr_id w = workerID)
                    (\<lambda>w. w\<lparr>wr_heartbeat := now, wr_state := heartbeat_state (rp_Healthy rep) (wr_state w)\<rparr>) (workers db),
                  resources := upsert_resource (report_row now workerID rep) (\<lambda>x. report_row now workerID rep) (resources db)\<rparr>,
               heartbeat_state (rp_Healthy rep) (wr_state w)))"

definition SetState :: "worker_db \<Rightarrow> uuid \<Rightarrow> string \<Rightarrow> worker_error + worker_db" where
  "SetState db workerID st =
     (if \<not> List.member [StateOnline, StateDraining, StateOffline] st then Inl (BadWorkerState st)
      else if sql_count (\<lambda>w. wr_id w = workerID) (workers db) = 0 then Inl WorkerNotFound
      else Inr (db\<lparr>workers := sql_update (\<lambda>w. wr_id w = workerID) (\<lambda>w. w\<lparr>wr_state := st\<rparr>) (workers db)\<rparr>))"

definition stale_worker :: "time \<Rightarrow> duration \<Rightarrow> worker_row \<Rightarrow> bool" where
  "stale_worker now after w \<longleftrightarrow> wr_state w \<noteq> ''offline'' \<and> wr_heartbeat w < now - intervalOf after"

definition MarkStaleOffline :: "time \<Rightarrow> worker_db \<Rightarrow> duration \<Rightarrow> worker_db \<times> nat" where
  "MarkStaleOffline now db after =
     (db\<lparr>workers := sql_update (stale_worker now after) (\<lambda>w. w\<lparr>wr_state := ''offline''\<rparr>) (workers db)\<rparr>,
      sql_count (stale_worker now after) (workers db))"

section \<open>Reading\<close>

definition scanWorker :: "worker_row \<Rightarrow> Worker" where
  "scanWorker w = \<lparr>wk_ID = wr_id w, wk_Name = wr_name w, wk_Hostname = wr_hostname w, wk_OS = wr_os w, wk_Arch = wr_arch w,
     wk_CPUCores = wr_cpu_cores w, wk_MemoryBytes = wr_memory w, wk_DiskBytes = wr_disk w, wk_GPUModel = wr_gpu_model w,
     wk_FFmpegVersion = wr_ffmpeg w, wk_ProtocolVersion = wr_protocol w, wk_Capabilities = wr_capabilities w,
     wk_SlotCapacity = wr_slots w, wk_State = wr_state w, wk_LastHeartbeatAt = wr_heartbeat w, wk_RegisteredAt = wr_registered w\<rparr>"

definition worker_Get :: "worker_db \<Rightarrow> uuid \<Rightarrow> worker_error + Worker" where
  "worker_Get db workerID =
     (case sql_find (\<lambda>w. wr_id w = workerID) (workers db) of None \<Rightarrow> Inl WorkerNotFound | Some w \<Rightarrow> Inr (scanWorker w))"

definition worker_List :: "worker_db \<Rightarrow> Worker list" where
  "worker_List db = map scanWorker (sort_key wr_name (workers db))"

definition worker_Facts :: "worker_db \<Rightarrow> uuid \<Rightarrow> worker_error + (Worker \<times> int)" where
  "worker_Facts db workerID =
     (case worker_Get db workerID of
        Inl e \<Rightarrow> Inl e
      | Inr w \<Rightarrow>
          (case Option.bind (sql_find (\<lambda>x. rs_worker x = workerID) (resources db)) rs_disk_free of
             None \<Rightarrow> Inr (w, wk_DiskBytes w)
           | Some free \<Rightarrow> if free \<le> 0 then Inr (w, wk_DiskBytes w) else Inr (w, free)))"

definition StateCounts :: "worker_db \<Rightarrow> string \<Rightarrow> nat option" where
  "StateCounts db st = (let n = sql_count (\<lambda>w. wr_state w = st) (workers db) in if n = 0 then None else Some n)"

section \<open>The sweeper\<close>

text \<open>
  One tick of \<open>Sweep\<close> and its iteration over the ticks that come before the context is cancelled. A
  sweep that fails leaves the table as it is.
\<close>

fun worker_Sweep :: "duration \<Rightarrow> (time \<times> bool) list \<Rightarrow> worker_db \<Rightarrow> worker_db" where
  "worker_Sweep staleAfter [] db = db"
| "worker_Sweep staleAfter ((now, failed) # ticks) db =
     worker_Sweep staleAfter ticks (if failed then db else fst (MarkStaleOffline now db staleAfter))"

end
