(* ===== verification/Auth.thy ===== *)
theory Auth
  imports Go_Crypto
begin

text \<open>
  API keys and tenants: \<open>internal/auth/key.go\<close>, \<open>store.go\<close> and \<open>middleware.go\<close>, and \<open>internal/tenant/tenant.go\<close>,
  over the tables of \<open>0001_tenancy.sql\<close>. The bytes of the random generator are a parameter of \<open>NewKey\<close>.
\<close>

section \<open>Tenants\<close>

record tenant_row =
  te_id :: uuid
  te_name :: string
  te_status :: string

record api_key_row =
  ak_id :: uuid
  ak_tenant :: uuid
  ak_name :: string
  ak_prefix :: string
  ak_hash :: string
  ak_scopes :: "string list"
  ak_last_used :: "time option"
  ak_expires :: "time option"
  ak_revoked :: "time option"
  ak_created :: time

record auth_db =
  tenants :: "tenant_row list"
  api_keys :: "api_key_row list"

record Tenant =
  tn_ID :: uuid
  tn_Name :: string
  tn_Status :: string

datatype auth_error = AuthUnauthorized | AuthNotFound | BadKeyEnv string | KeyRandomFailed | AuthConstraint string

definition tenant_Create :: "uuid \<Rightarrow> auth_db \<Rightarrow> string \<Rightarrow> auth_error + (auth_db \<times> Tenant)" where
  "tenant_Create newID db name =
     (if list_ex (\<lambda>t. te_id t = newID) (tenants db) then Inl (AuthConstraint ''tenants_pkey'')
      else Inr (db\<lparr>tenants := tenants db @ [\<lparr>te_id = newID, te_name = name, te_status = ''active''\<rparr>]\<rparr>,
                \<lparr>tn_ID = newID, tn_Name = name, tn_Status = ''active''\<rparr>))"

definition tenant_Get :: "auth_db \<Rightarrow> uuid \<Rightarrow> auth_error + Tenant" where
  "tenant_Get db tenantID =
     (case sql_find (\<lambda>t. te_id t = tenantID) (tenants db) of
        None \<Rightarrow> Inl AuthNotFound
      | Some t \<Rightarrow> Inr \<lparr>tn_ID = te_id t, tn_Name = te_name t, tn_Status = te_status t\<rparr>)"

section \<open>Keys\<close>

record Key =
  key_Secret :: string
  key_Prefix :: string
  key_Hash :: string

definition secretBytes :: nat where "secretBytes = 32"
definition prefixLen :: nat where "prefixLen = 11"

definition auth_hash :: "string \<Rightarrow> string" where
  "auth_hash secret = sha256 secret"

definition NewKey :: "string option \<Rightarrow> string \<Rightarrow> auth_error + Key" where
  "NewKey random env =
     (if env \<noteq> ''live'' \<and> env \<noteq> ''test'' then Inl (BadKeyEnv env)
      else case random of
        None \<Rightarrow> Inl KeyRandomFailed
      | Some buf \<Rightarrow>
          let secret = ''tf_'' @ env @ ''_'' @ b64_encode buf in
          Inr \<lparr>key_Secret = secret, key_Prefix = take prefixLen secret, key_Hash = auth_hash secret\<rparr>)"

text \<open>\<open>base64.RawURLEncoding.EncodedLen\<close>.\<close>

definition EncodedLen :: "nat \<Rightarrow> nat" where
  "EncodedLen n = n div 3 * 4 + (n mod 3 * 8 + 5) div 6"

definition parseToken :: "string \<Rightarrow> auth_error + string" where
  "parseToken token =
     (if \<not> HasPrefix token ''tf_live_'' \<and> \<not> HasPrefix token ''tf_test_'' then Inl AuthUnauthorized
      else if length token \<noteq> length ''tf_live_'' + EncodedLen secretBytes then Inl AuthUnauthorized
      else Inr (auth_hash token))"

definition Issue ::
  "time \<Rightarrow> uuid \<Rightarrow> string option \<Rightarrow> auth_db \<Rightarrow> uuid \<Rightarrow> string \<Rightarrow> string \<Rightarrow> string list \<Rightarrow> time option \<Rightarrow>
   auth_error + (auth_db \<times> Key \<times> uuid)" where
  "Issue now newID random db tenantID name env scopes expiresAt =
     (case NewKey random env of
        Inl e \<Rightarrow> Inl e
      | Inr k \<Rightarrow>
          if \<not> list_ex (\<lambda>t. te_id t = tenantID) (tenants db) then Inl (AuthConstraint ''api_keys_tenant_id_fkey'')
          else if list_ex (\<lambda>r. ak_id r = newID) (api_keys db) then Inl (AuthConstraint ''api_keys_pkey'')
          else if list_ex (\<lambda>r. ak_hash r = key_Hash k) (api_keys db) then Inl (AuthConstraint ''api_keys_hash'')
          else Inr (db\<lparr>api_keys := api_keys db @
                     [\<lparr>ak_id = newID, ak_tenant = tenantID, ak_name = name, ak_prefix = key_Prefix k, ak_hash = key_Hash k,
                       ak_scopes = scopes, ak_last_used = None, ak_expires = expiresAt, ak_revoked = None,
                       ak_created = now\<rparr>]\<rparr>, k, newID))"

section \<open>Authentication\<close>

record Principal =
  pr_TenantID :: uuid
  pr_KeyID :: uuid
  pr_Scopes :: "string list"

definition minute :: int where "minute = 60000000"

definition touch :: "time \<Rightarrow> auth_db \<Rightarrow> uuid \<Rightarrow> time option \<Rightarrow> auth_db" where
  "touch now db keyID lastUsed =
     (case lastUsed of
        Some l \<Rightarrow> if now - l < minute then db
          else db\<lparr>api_keys := sql_update (\<lambda>r. ak_id r = keyID) (\<lambda>r. r\<lparr>ak_last_used := Some now\<rparr>) (api_keys db)\<rparr>
      | None \<Rightarrow> db\<lparr>api_keys := sql_update (\<lambda>r. ak_id r = keyID) (\<lambda>r. r\<lparr>ak_last_used := Some now\<rparr>) (api_keys db)\<rparr>)"

definition key_usable :: "auth_db \<Rightarrow> string \<Rightarrow> api_key_row \<Rightarrow> bool" where
  "key_usable db digest k \<longleftrightarrow> ak_hash k = digest \<and> ak_revoked k = None \<and>
     list_ex (\<lambda>t. te_id t = ak_tenant k \<and> te_status t = ''active'') (tenants db)"

definition auth_Authenticate :: "time \<Rightarrow> auth_db \<Rightarrow> string \<Rightarrow> auth_error + (auth_db \<times> Principal)" where
  "auth_Authenticate now db token =
     (case parseToken token of
        Inl e \<Rightarrow> Inl AuthUnauthorized
      | Inr digest \<Rightarrow>
          (case sql_find (key_usable db digest) (api_keys db) of
             None \<Rightarrow> Inl AuthUnauthorized
           | Some k \<Rightarrow>
               if digest \<noteq> ak_hash k then Inl AuthUnauthorized
               else if (case ak_expires k of None \<Rightarrow> False | Some e \<Rightarrow> now > e) then Inl AuthUnauthorized
               else Inr (touch now db (ak_id k) (ak_last_used k),
                         \<lparr>pr_TenantID = ak_tenant k, pr_KeyID = ak_id k, pr_Scopes = ak_scopes k\<rparr>)))"

definition Revoke :: "time \<Rightarrow> auth_db \<Rightarrow> uuid \<Rightarrow> uuid \<Rightarrow> auth_error + auth_db" where
  "Revoke now db tenantID keyID =
     (let hit = (\<lambda>r. ak_id r = keyID \<and> ak_tenant r = tenantID \<and> ak_revoked r = None) in
      if sql_count hit (api_keys db) = 0 then Inl AuthNotFound
      else Inr (db\<lparr>api_keys := sql_update hit (\<lambda>r. r\<lparr>ak_revoked := Some now\<rparr>) (api_keys db)\<rparr>))"

section \<open>Authorisation\<close>

definition ScopeAdmin :: string where "ScopeAdmin = ''admin''"
definition ScopeAssetsRead :: string where "ScopeAssetsRead = ''assets:read''"
definition ScopeAssetsWrite :: string where "ScopeAssetsWrite = ''assets:write''"
definition ScopeJobsRead :: string where "ScopeJobsRead = ''jobs:read''"
definition ScopeJobsWrite :: string where "ScopeJobsWrite = ''jobs:write''"

definition HasScope :: "Principal \<Rightarrow> string \<Rightarrow> bool" where
  "HasScope p want \<longleftrightarrow> list_ex (\<lambda>s. s = want \<or> s = ScopeAdmin) (pr_Scopes p)"

definition bearerToken :: "string \<Rightarrow> string option" where
  "bearerToken header =
     (let (scheme, token, found) = go_Cut header '' '' in
      if \<not> found \<or> ToLower scheme \<noteq> ''bearer'' then None
      else if TrimSpace token = [] then None else Some (TrimSpace token))"

text \<open>
  The middleware decides who calls the next handler: \<open>Inl\<close> is the answer the caller gets instead,
  401 for an authentication failure and 500 for any other error of the authenticator.
\<close>

definition Middleware :: "(string \<Rightarrow> auth_error + 'p) \<Rightarrow> string \<Rightarrow> int + 'p" where
  "Middleware authenticate header =
     (case bearerToken header of
        None \<Rightarrow> Inl 401
      | Some token \<Rightarrow>
          (case authenticate token of
             Inl AuthUnauthorized \<Rightarrow> Inl 401
           | Inl e \<Rightarrow> Inl 500
           | Inr p \<Rightarrow> Inr p))"

definition RequireScope :: "string \<Rightarrow> Principal option \<Rightarrow> int + Principal" where
  "RequireScope scope p =
     (case p of
        None \<Rightarrow> Inl 403
      | Some q \<Rightarrow> if \<not> HasScope q scope then Inl 403 else Inr q)"

section \<open>Properties of keys\<close>

lemma HasPrefix_append [simp]: "HasPrefix (p @ s) p"
  by (simp add: HasPrefix_def)

text \<open>A minted key is accepted by the parser, and its display prefix says nothing about the secret part but three characters.\<close>

lemma minted_key_parses:
  assumes "NewKey (Some buf) env = Inr k" "length buf = secretBytes"
  shows "parseToken (key_Secret k) = Inr (key_Hash k)"
proof -
  have env: "env = ''live'' \<or> env = ''test''"
    and k: "key_Secret k = ''tf_'' @ env @ ''_'' @ b64_encode buf" "key_Hash k = auth_hash (key_Secret k)"
    using assms(1) by (auto simp: NewKey_def Let_def split: if_splits)
  have "length (b64_encode buf) = EncodedLen secretBytes"
    using assms(2) by (simp add: length_b64_encode EncodedLen_def secretBytes_def)
  then show ?thesis using env k by (auto simp: parseToken_def HasPrefix_def EncodedLen_def secretBytes_def)
qed

text \<open>Every reason for a refusal looks the same to the caller.\<close>

lemma refusals_indistinguishable: "auth_Authenticate now db token = Inl e \<Longrightarrow> e = AuthUnauthorized"
  by (auto simp: auth_Authenticate_def split: sum.splits option.splits if_splits)

lemma Authenticate_principal:
  assumes "auth_Authenticate now db token = Inr (db', p)"
  shows "\<exists>k \<in> set (api_keys db). ak_hash k = sha256 token \<and> ak_revoked k = None \<and> ak_id k = pr_KeyID p \<and>
    ak_tenant k = pr_TenantID p \<and> ak_scopes k = pr_Scopes p \<and> (\<forall>e. ak_expires k = Some e \<longrightarrow> now \<le> e) \<and>
    (\<exists>t \<in> set (tenants db). te_id t = pr_TenantID p \<and> te_status t = ''active'')"
  using assms
  by (auto simp: auth_Authenticate_def parseToken_def auth_hash_def key_usable_def list_ex_iff
      dest!: sql_find_SomeD split: sum.splits option.splits if_splits)

text \<open>Revoking a key ends it.\<close>

lemma revoked_key_refused:
  assumes "Revoke now db t keyID = Inr db'" "auth_Authenticate later db' token = Inr (db2, p)"
    and "distinct (map ak_id (api_keys db))"
  shows "pr_KeyID p \<noteq> keyID"
proof
  assume same: "pr_KeyID p = keyID"
  let ?hit = "\<lambda>r. ak_id r = keyID \<and> ak_tenant r = t \<and> ak_revoked r = None"
  have db': "db' = db\<lparr>api_keys := sql_update ?hit (\<lambda>r. r\<lparr>ak_revoked := Some now\<rparr>) (api_keys db)\<rparr>"
    and hits: "sql_count ?hit (api_keys db) \<noteq> 0" using assms(1) by (auto simp: Revoke_def Let_def split: if_splits)
  obtain h where h: "h \<in> set (api_keys db)" "?hit h" using hits unfolding sql_count_0_iff by blast
  obtain k where k: "k \<in> set (api_keys db')" "ak_id k = keyID" "ak_revoked k = None"
    using Authenticate_principal [OF assms(2)] same by blast
  then obtain r where r: "r \<in> set (api_keys db)" "k = (if ?hit r then r\<lparr>ak_revoked := Some now\<rparr> else r)"
    unfolding db' by (auto elim: sql_updateE)
  then have "ak_id r = ak_id h" using k(2) h(2) by (auto split: if_splits)
  then have "r = h" using assms(3) r(1) h(1) by (metis distinct_map inj_onD)
  then show False using r(2) h(2) k(3) by simp
qed

end
