(* ===== verification/Server.thy ===== *)
theory Server
  imports Playback Worker_Registry Auth Pipeline Upload_Service Probe_Store
begin

text \<open>
  What the handlers of \<open>internal/api\<close> share: the tables and the object store they work on, the services
  they were built with (\<open>Deps\<close>), and the helpers of \<open>api.go\<close>. A handler maps the state and a request to
  the new state and the response; a response carries the status, and the code of the error envelope or
  the value that is encoded as the body.

  A request body is the struct that \<open>decode\<close> fills, or \<open>Unreadable\<close>. The only database errors are
  violated constraints: a lost connection is answered 500 by every handler and changes nothing.
\<close>

section \<open>State\<close>

record 'st server_db =
  sv_auth :: auth_db
  sv_media :: media_db
  sv_pipelines :: pipeline_db
  sv_jobs :: job_db
  sv_workers :: worker_db
  sv_artifacts :: artifact_db
  sv_store :: 'st

record 'st Deps =
  dp_Uploads :: "'st Store"
  dp_Head :: "'st \<Rightarrow> string \<Rightarrow> head_error + int"
  dp_Get :: "'st \<Rightarrow> string \<Rightarrow> head_error + string"
  dp_PresignGet :: "string \<Rightarrow> duration \<Rightarrow> storage_error + string"
  dp_PresignGetForWorker :: "string \<Rightarrow> duration \<Rightarrow> storage_error + string"
  dp_PresignPutForWorker :: "string \<Rightarrow> duration \<Rightarrow> storage_error + string"
  dp_parseUUID :: "string \<Rightarrow> uuid option"
  dp_quota :: "uuid \<Rightarrow> int option"
  dp_Playback :: string
  dp_bootstrapHash :: string
  dp_HeartbeatInterval :: duration
  dp_LeaseTTL :: duration
  dp_SourceURLTTL :: duration
  dp_DownloadURLTTL :: duration
  dp_PlaybackTTL :: duration

text \<open>
  What a request finds outside the tables: the clock, the identifiers and random bytes it draws, the
  tasks other transactions hold locked, and whether the database answers.
\<close>

record Env =
  en_now :: time
  en_fresh :: "nat \<Rightarrow> uuid"
  en_random :: "string option"
  en_locked :: "uuid list"
  en_ping :: bool

section \<open>Requests and responses\<close>

record createAssetRequest =
  ca_ExternalID :: "string option"
  ca_Name :: "string option"

record createUploadRequest =
  cu_AssetVersionID :: string
  cu_SizeBytes :: int
  cu_ContentType :: string
  cu_ChecksumAlgo :: string
  cu_Checksum :: "string option"

record createJobRequest =
  cj_AssetVersionID :: string
  cj_Pipeline :: string
  cj_IdempotencyKey :: string
  cj_Priority :: int

datatype req_body = Unreadable
  | CreateAsset createAssetRequest
  | CreateUpload createUploadRequest
  | CreateJob createJobRequest
  | WorkerStateBody string
  | RegistrationBody WorkerRegistration
  | ReportBody WorkerReport
  | ProgressBody rat
  | ResultBody Result
  | ArtifactRegistration Registration
  | PathBody string

datatype body = NoBody
  | StatusOK
  | Me uuid uuid "string list"
  | AssetBody Asset "(Version \<times> ProbeResult option) list"
  | AssetsBody "Asset list"
  | UploadBody Upload "PartURL list option"
  | UploadStatusBody UploadStatus
  | JobBody Job
  | JobsBody "Job list"
  | JobDetail Job "Task list" "(attempt_row \<times> string \<times> string) list" "Check list option"
  | PipelinesBody "Preset list"
  | SetsBody "ArtifactSet list"
  | Download string int int
  | PlaybackLink string int int
  | Playlist string string
  | WorkersBody "Worker list"
  | WorkerBody Worker
  | RegisterResponse Worker string int int
  | HeartbeatResponse string int
  | WorkerStateHeader string
  | AssignmentBody Assignment
  | ProgressResponse bool int
  | RetryingBody bool
  | ArtifactBody Artifact
  | UploadURL string string

type_synonym reply = "body response"

section \<open>Helpers\<close>

definition notFound :: reply where "notFound = Refused 404 ''not_found''"
definition unauthorized :: reply where "unauthorized = Refused 401 ''unauthorized''"
definition forbidden :: reply where "forbidden = Refused 403 ''forbidden''"
definition serverError :: reply where "serverError = Refused 500 ''internal_error''"
definition invalidRequest :: reply where "invalidRequest = Refused 400 ''invalid_request''"
definition staleAttempt :: reply where "staleAttempt = Refused 409 ''stale_attempt''"

lemmas reply_defs = notFound_def unauthorized_def forbidden_def serverError_def invalidRequest_def staleAttempt_def

text \<open>
  \<open>int(d.Seconds())\<close>: the seconds and the nanoseconds are added as floats and truncated.
\<close>

definition whole_seconds :: "duration \<Rightarrow> int" where
  "whole_seconds d = go_trunc (f64 (f64 (of_int (go_quot d second)) +
     f64 (f64 (of_int (d - go_quot d second * second)) / of_int second)))"

definition pathUUID :: "'st Deps \<Rightarrow> string \<Rightarrow> uuid option" where
  "pathUUID d segment = dp_parseUUID d segment"

section \<open>JSON values\<close>

text \<open>
  \<open>map[string]any\<close>: assigning replaces the value of a key, and the encoder writes the keys in order.
\<close>

definition map_put :: "string \<Rightarrow> 'a \<Rightarrow> (string \<times> 'a) list \<Rightarrow> (string \<times> 'a) list" where
  "map_put k v m = (k, v) # filter (\<lambda>e. fst e \<noteq> k) m"

definition go_map :: "(string \<times> 'a) list \<Rightarrow> (string \<times> 'a) list" where
  "go_map ms = sort_key fst (foldl (\<lambda>m (k, v). map_put k v m) [] ms)"

text \<open>
  Decoding into \<open>any\<close> and encoding again: numbers become floats and are written as such, objects
  become maps. \<open>None\<close> is a number out of range.
\<close>

fun any_value :: "json \<Rightarrow> json option" where
  "any_value JNull = Some JNull"
| "any_value (JBool b) = Some (JBool b)"
| "any_value (JInt i) = (if \<bar>f64 (of_int i)\<bar> \<ge> 2 ^ 1024 then None else Some (JDec (json_float (f64 (of_int i)))))"
| "any_value (JDec d) =
     (case ParseFloat d of Some (Finite x) \<Rightarrow> Some (JDec (json_float x)) | _ \<Rightarrow> None)"
| "any_value (JStr s) = Some (JStr s)"
| "any_value (JArr xs) = map_option JArr (those (map any_value xs))"
| "any_value (JObj ms) = map_option (\<lambda>vs. JObj (go_map (zip (map fst ms) vs))) (those (map (\<lambda>(k, v). any_value v) ms))"

text \<open>A \<open>[]byte\<close> is written in padded standard base64, nil as \<open>null\<close>.\<close>

definition b64_std :: "string \<Rightarrow> string" where
  "b64_std bytes =
     map (\<lambda>c. if c = CHR ''-'' then CHR ''+'' else if c = CHR ''_'' then CHR ''/'' else c) (b64_encode bytes) @
     (if length bytes mod 3 = 1 then ''=='' else if length bytes mod 3 = 2 then ''='' else [])"

definition bytes_json :: "string option \<Rightarrow> json" where
  "bytes_json b = (case b of None \<Rightarrow> JNull | Some bytes \<Rightarrow> JStr (b64_std bytes))"

end
