(* ===== verification/Worker_Api.thy ===== *)
theory Worker_Api
  imports Server Json_Text
begin

text \<open>
  The worker protocol: the handlers of \<open>internal/api/workers.go\<close>, those of \<open>artifacts.go\<close> a worker calls,
  and \<open>resolveSpec\<close> of \<open>jobs.go\<close>, which turns a stored specification into one a worker can use. The
  metrics a handler counts are not part of the state.
\<close>

section \<open>Who is calling\<close>

definition bearer :: "string \<Rightarrow> string option" where
  "bearer header =
     (let (scheme, token, found) = go_Cut header '' '' in
      if \<not> found \<or> ToLower scheme \<noteq> ''bearer'' then None
      else if TrimSpace token \<noteq> [] then Some (TrimSpace token) else None)"

definition authenticateWorker :: "'st server_db \<Rightarrow> string \<Rightarrow> reply + Worker" where
  "authenticateWorker db header =
     (case bearer header of
        None \<Rightarrow> Inl unauthorized
      | Some secret \<Rightarrow>
          (case worker_Authenticate (sv_workers db) secret of
             Inl WorkerUnauthorized \<Rightarrow> Inl unauthorized
           | Inl e \<Rightarrow> Inl serverError
           | Inr wk \<Rightarrow> Inr wk))"

definition workerAttempt :: "'st Deps \<Rightarrow> 'st server_db \<Rightarrow> string \<Rightarrow> string \<Rightarrow> reply + (Worker \<times> uuid)" where
  "workerAttempt d db header attempt =
     (case authenticateWorker db header of
        Inl r \<Rightarrow> Inl r
      | Inr wk \<Rightarrow> (case pathUUID d attempt of None \<Rightarrow> Inl notFound | Some attemptID \<Rightarrow> Inr (wk, attemptID)))"

section \<open>Registration and heartbeats\<close>

definition handleWorkerRegister ::
  "Env \<Rightarrow> 'st Deps \<Rightarrow> 'st server_db \<Rightarrow> string \<Rightarrow> req_body \<Rightarrow> 'st server_db \<times> reply" where
  "handleWorkerRegister e d db header body =
     (case bearer header of
        None \<Rightarrow> (db, unauthorized)
      | Some token \<Rightarrow>
          (case body of
             RegistrationBody reg \<Rightarrow>
               (case worker_Register (en_now e) (en_fresh e 0) (en_random e) (dp_bootstrapHash d) (sv_workers db) token reg of
                  Inl WorkerUnauthorized \<Rightarrow> (db, unauthorized)
                | Inl (ErrBadProtocol v) \<Rightarrow> (db, Refused 400 ''unsupported_protocol'')
                | Inl err \<Rightarrow> (db, serverError)
                | Inr (ws, wk, credential) \<Rightarrow>
                    (db\<lparr>sv_workers := ws\<rparr>,
                     Answer 201 (RegisterResponse wk credential ProtocolVersion (whole_seconds (dp_HeartbeatInterval d)))))
           | _ \<Rightarrow> (db, invalidRequest)))"

definition handleWorkerHeartbeat ::
  "Env \<Rightarrow> 'st Deps \<Rightarrow> 'st server_db \<Rightarrow> string \<Rightarrow> req_body \<Rightarrow> 'st server_db \<times> reply" where
  "handleWorkerHeartbeat e d db header body =
     (case authenticateWorker db header of
        Inl r \<Rightarrow> (db, r)
      | Inr wk \<Rightarrow>
          (case body of
             ReportBody rep \<Rightarrow>
               (case worker_Heartbeat (en_now e) (sv_workers db) (wk_ID wk) rep of
                  Inl err \<Rightarrow> (db, serverError)
                | Inr (ws, state) \<Rightarrow>
                    (db\<lparr>sv_workers := ws\<rparr>, Answer 200 (HeartbeatResponse state (whole_seconds (dp_HeartbeatInterval d)))))
           | _ \<Rightarrow> (db, invalidRequest)))"

section \<open>Specifications\<close>

text \<open>
  The typed part of a specification, \<open>None\<close> when the text is not JSON or a field has another type.
\<close>

definition spec_ref :: "json option \<Rightarrow> (string \<times> string) option" where
  "spec_ref spec =
     (case spec of
        None \<Rightarrow> None
      | Some j \<Rightarrow>
          if is_obj j \<and> (\<forall>e \<in> set (members j). ToLower (fst e) = ''source_key'' \<or> ToLower (fst e) = ''output_label'' \<longrightarrow> is_str (snd e))
          then Some (as_str (json_field ''source_key'' (members j)), as_str (json_field ''output_label'' (members j)))
          else None)"

definition media_size :: "json \<Rightarrow> (int \<times> int) option" where
  "media_size j =
     (if is_obj j \<and> (\<forall>e \<in> set (members j). ToLower (fst e) = ''width'' \<or> ToLower (fst e) = ''height'' \<longrightarrow> is_int64 (snd e))
      then Some (as_int (json_field ''width'' (members j)), as_int (json_field ''height'' (members j))) else None)"

definition artifact_entry :: "Artifact \<Rightarrow> string \<Rightarrow> (string \<times> json) list" where
  "artifact_entry art url =
     [(''label'', JStr (art_Label art)), (''kind'', JStr (art_Kind art)), (''url'', JStr url),
      (''size_bytes'', JInt (art_SizeBytes art)), (''checksum_algo'', JStr (art_ChecksumAlgo art)),
      (''checksum'', bytes_json (art_Checksum art))] @
     (case Option.bind (art_Media art) media_size of
        None \<Rightarrow> [] | Some (w, h) \<Rightarrow> [(''width'', JInt w), (''height'', JInt h)])"

fun artifact_entries ::
  "(string \<Rightarrow> duration \<Rightarrow> storage_error + string) \<Rightarrow> duration \<Rightarrow> Artifact list \<Rightarrow> storage_error + json list" where
  "artifact_entries sign ttl [] = Inr []"
| "artifact_entries sign ttl (art # arts) =
     (case sign (art_StorageKey art) ttl of
        Inl err \<Rightarrow> Inl err
      | Inr url \<Rightarrow>
          (case artifact_entries sign ttl arts of
             Inl err \<Rightarrow> Inl err
           | Inr es \<Rightarrow> Inr (JObj (go_map (artifact_entry art url)) # es)))"

datatype resolve_error = SpecNumber | SpecStorage storage_error | SpecKey key_error

type_synonym spec_fields = "(string \<times> json) list"

definition add_input :: "'st Deps \<Rightarrow> string \<Rightarrow> spec_fields \<Rightarrow> resolve_error + spec_fields" where
  "add_input d sourceKey fs =
     (if sourceKey = [] then Inr fs
      else case dp_PresignGetForWorker d sourceKey (dp_SourceURLTTL d) of
        Inl err \<Rightarrow> Inl (SpecStorage err)
      | Inr url \<Rightarrow> Inr (map_put ''input_url'' (JStr url) fs))"

definition add_artifacts :: "'st Deps \<Rightarrow> artifact_db \<Rightarrow> Assignment \<Rightarrow> spec_fields \<Rightarrow> resolve_error + spec_fields" where
  "add_artifacts d adb a fs =
     (if map_of fs ''needs_artifacts'' \<noteq> Some (JBool True) then Inr fs
      else case artifact_entries (dp_PresignGetForWorker d) (dp_SourceURLTTL d) (artifact_ForJob adb (as_TenantID a) (as_JobID a)) of
        Inl err \<Rightarrow> Inl (SpecStorage err)
      | Inr list \<Rightarrow> Inr (map_put ''artifacts'' (JArr list) fs))"

definition add_output :: "'st Deps \<Rightarrow> Assignment \<Rightarrow> string \<Rightarrow> spec_fields \<Rightarrow> resolve_error + spec_fields" where
  "add_output d a outputLabel fs =
     (if outputLabel = [] then Inr fs
      else case JobArtifactKey (as_TenantID a) (as_JobID a) 1 outputLabel of
        Inl err \<Rightarrow> Inl (SpecKey err)
      | Inr key \<Rightarrow>
          (case dp_PresignPutForWorker d key (dp_SourceURLTTL d) of
             Inl err \<Rightarrow> Inl (SpecStorage err)
           | Inr url \<Rightarrow> Inr (map_put ''output_url'' (JStr url) (map_put ''output_key'' (JStr key) fs))))"

definition resolveSpec :: "'st Deps \<Rightarrow> artifact_db \<Rightarrow> Assignment \<Rightarrow> resolve_error + string" where
  "resolveSpec d adb a =
     (case spec_ref (json_parse (as_Spec a)) of
        None \<Rightarrow> Inr (as_Spec a)
      | Some (sourceKey, outputLabel) \<Rightarrow>
          (case Option.bind (json_parse (as_Spec a)) any_value of
             None \<Rightarrow> Inl SpecNumber
           | Some JNull \<Rightarrow> Inr ''null''
           | Some v \<Rightarrow>
               (case add_input d sourceKey (members v) of
                  Inl err \<Rightarrow> Inl err
                | Inr fs1 \<Rightarrow>
                    (case add_artifacts d adb a fs1 of
                       Inl err \<Rightarrow> Inl err
                     | Inr fs2 \<Rightarrow>
                         (case add_output d a outputLabel fs2 of
                            Inl err \<Rightarrow> Inl err
                          | Inr fs3 \<Rightarrow> Inr (json_text (JObj (go_map fs3))))))))"

section \<open>The life of an attempt\<close>

definition worker_facts :: "Worker \<Rightarrow> int \<Rightarrow> WorkerFacts" where
  "worker_facts full diskFree =
     \<lparr>w_ID = wk_ID full, w_Name = wk_Name full, w_Arch = wk_Arch full,
      w_Operations = cap_Operations (wk_Capabilities full), w_Encoders = cap_Encoders (wk_Capabilities full),
      w_HasGPU = (wk_GPUModel full \<noteq> None), w_MemoryBytes = wk_MemoryBytes full, w_DiskFree = diskFree,
      w_SlotCapacity = wk_SlotCapacity full\<rparr>"

definition handleWorkerLease :: "Env \<Rightarrow> 'st Deps \<Rightarrow> 'st server_db \<Rightarrow> string \<Rightarrow> 'st server_db \<times> reply" where
  "handleWorkerLease e d db header =
     (case authenticateWorker db header of
        Inl r \<Rightarrow> (db, r)
      | Inr wk \<Rightarrow>
          if wk_State wk \<noteq> StateOnline then (db, Answer 204 (WorkerStateHeader (wk_State wk)))
          else (case worker_Facts (sv_workers db) (wk_ID wk) of
            Inl err \<Rightarrow> (db, serverError)
          | Inr (full, diskFree) \<Rightarrow>
              (case job_Lease (en_now e) (en_fresh e 0) (dp_quota d) (en_locked e) (sv_jobs db) (worker_facts full diskFree) (dp_LeaseTTL d) of
                 Inl ErrNoWork \<Rightarrow> (db, Answer 204 NoBody)
               | Inl err \<Rightarrow> (db, serverError)
               | Inr (js, assignment) \<Rightarrow>
                   (case resolveSpec d (sv_artifacts db) assignment of
                      Inl err \<Rightarrow> (db\<lparr>sv_jobs := js\<rparr>, serverError)
                    | Inr resolved \<Rightarrow> (db\<lparr>sv_jobs := js\<rparr>, Answer 200 (AssignmentBody (assignment\<lparr>as_Spec := resolved\<rparr>)))))))"

definition handleWorkerStarted :: "Env \<Rightarrow> 'st Deps \<Rightarrow> 'st server_db \<Rightarrow> string \<Rightarrow> string \<Rightarrow> 'st server_db \<times> reply" where
  "handleWorkerStarted e d db header attempt =
     (case workerAttempt d db header attempt of
        Inl r \<Rightarrow> (db, r)
      | Inr (wk, attemptID) \<Rightarrow>
          (case job_Start (en_now e) (sv_jobs db) attemptID (wk_ID wk) (dp_LeaseTTL d) of
             Inl ErrStaleAttempt \<Rightarrow> (db, staleAttempt)
           | Inl err \<Rightarrow> (db, serverError)
           | Inr (js, u) \<Rightarrow> (db\<lparr>sv_jobs := js\<rparr>, Answer 204 NoBody)))"

definition handleWorkerProgress ::
  "Env \<Rightarrow> 'st Deps \<Rightarrow> 'st server_db \<Rightarrow> string \<Rightarrow> string \<Rightarrow> req_body \<Rightarrow> 'st server_db \<times> reply" where
  "handleWorkerProgress e d db header attempt body =
     (case workerAttempt d db header attempt of
        Inl r \<Rightarrow> (db, r)
      | Inr (wk, attemptID) \<Rightarrow>
          (case body of
             ProgressBody pct \<Rightarrow>
               (case job_Progress (en_now e) (sv_jobs db) attemptID (wk_ID wk) pct (dp_LeaseTTL d) of
                  Inl ErrStaleAttempt \<Rightarrow> (db, staleAttempt)
                | Inl err \<Rightarrow> (db, serverError)
                | Inr (js, cancelled) \<Rightarrow> (db\<lparr>sv_jobs := js\<rparr>, Answer 200 (ProgressResponse cancelled (whole_seconds (dp_LeaseTTL d)))))
           | _ \<Rightarrow> (db, invalidRequest)))"

text \<open>A validation report as a worker sends it.\<close>

definition check_of_json :: "json \<Rightarrow> Check option" where
  "check_of_json j =
     (if is_obj j \<and> (\<forall>e \<in> set (members j). List.member [''label'', ''category'', ''name'', ''status''] (ToLower (fst e)) \<longrightarrow> is_str (snd e)) \<and>
         (\<forall>e \<in> set (members j). ToLower (fst e) = ''detail'' \<longrightarrow> is_obj (snd e) \<and> any_value (snd e) \<noteq> None)
      then Some \<lparr>ck_Label = as_str (json_field ''label'' (members j)), ck_Category = as_str (json_field ''category'' (members j)),
                 ck_Name = as_str (json_field ''name'' (members j)), ck_Status = as_str (json_field ''status'' (members j)),
                 ck_Detail = (case any_value (json_field ''detail'' (members j)) of None \<Rightarrow> [] | Some v \<Rightarrow> members v)\<rparr>
      else None)"

definition report_of_text :: "string \<Rightarrow> Check list option" where
  "report_of_text text =
     (case json_parse text of
        None \<Rightarrow> None
      | Some j \<Rightarrow>
          if is_obj j \<and> (\<forall>e \<in> set (members j). ToLower (fst e) = ''checks'' \<longrightarrow> is_arr (snd e))
          then those (map check_of_json (elements (json_field ''checks'' (members j)))) else None)"

definition record_validation :: "Env \<Rightarrow> Completion \<Rightarrow> Result \<Rightarrow> artifact_db \<Rightarrow> artifact_db" where
  "record_validation e c res adb =
     (if comp_Operation c = ''validate'' \<and> length (res_Output res) > 0
      then case report_of_text (res_Output res) of
        None \<Rightarrow> adb
      | Some report \<Rightarrow>
          (case validate_Record (en_fresh e) adb (comp_TenantID c) (comp_JobID c) report of Inl err \<Rightarrow> adb | Inr adb' \<Rightarrow> adb')
      else adb)"

definition record_probe :: "Env \<Rightarrow> Completion \<Rightarrow> Result \<Rightarrow> media_db \<Rightarrow> media_db" where
  "record_probe e c res mdb =
     (if comp_Succeeded c \<and> comp_Operation c = ''probe'' \<and> length (res_Output res) > 0
      then case probe_Record (en_fresh e) mdb (comp_TenantID c) (comp_AssetVersionID c) (json_parse (res_Output res)) of
        Inl err \<Rightarrow> mdb | Inr (mdb', r) \<Rightarrow> mdb'
      else mdb)"

definition close_set :: "Env \<Rightarrow> Completion \<Rightarrow> artifact_db \<Rightarrow> artifact_db" where
  "close_set e c adb =
     (case comp_JobState c of
        Some JobSucceeded \<Rightarrow> MarkComplete (en_now e) adb (comp_TenantID c) (comp_JobID c)
      | Some JobFailed \<Rightarrow> MarkFailed adb (comp_TenantID c) (comp_JobID c)
      | Some JobCancelled \<Rightarrow> MarkFailed adb (comp_TenantID c) (comp_JobID c)
      | _ \<Rightarrow> adb)"

definition handleWorkerComplete ::
  "Env \<Rightarrow> 'st Deps \<Rightarrow> 'st server_db \<Rightarrow> string \<Rightarrow> string \<Rightarrow> req_body \<Rightarrow> 'st server_db \<times> reply" where
  "handleWorkerComplete e d db header attempt body =
     (case workerAttempt d db header attempt of
        Inl r \<Rightarrow> (db, r)
      | Inr (wk, attemptID) \<Rightarrow>
          (case body of
             ResultBody res \<Rightarrow>
               (case job_Complete (en_now e) (sv_jobs db) attemptID (wk_ID wk) res of
                  Inl ErrStaleAttempt \<Rightarrow> (db, staleAttempt)
                | Inl err \<Rightarrow> (db, serverError)
                | Inr (js, c) \<Rightarrow>
                    (db\<lparr>sv_jobs := js, sv_media := record_probe e c res (sv_media db),
                        sv_artifacts := close_set e c (record_validation e c res (sv_artifacts db))\<rparr>,
                     Answer 200 (RetryingBody (comp_Retrying c))))
           | _ \<Rightarrow> (db, invalidRequest)))"

section \<open>Outputs\<close>

definition handleRegisterArtifact ::
  "Env \<Rightarrow> 'st Deps \<Rightarrow> 'st server_db \<Rightarrow> string \<Rightarrow> string \<Rightarrow> req_body \<Rightarrow> 'st server_db \<times> reply" where
  "handleRegisterArtifact e d db header attempt body =
     (case workerAttempt d db header attempt of
        Inl r \<Rightarrow> (db, r)
      | Inr (wk, attemptID) \<Rightarrow>
          (case AuthorizeAttempt (sv_jobs db) attemptID (wk_ID wk) of
             Inl ErrStaleAttempt \<Rightarrow> (db, staleAttempt)
           | Inl err \<Rightarrow> (db, serverError)
           | Inr ctx \<Rightarrow>
               (case body of
                  ArtifactRegistration reg \<Rightarrow>
                    (case Register (en_now e) (en_fresh e) (dp_Head d (sv_store db)) (sv_artifacts db)
                            (ctx_TenantID ctx) (ctx_JobID ctx) attemptID reg of
                       Inl ErrMissingObject \<Rightarrow> (db, Refused 409 ''object_missing'')
                     | Inl ArtifactSizeMismatch \<Rightarrow> (db, Refused 409 ''size_mismatch'')
                     | Inl (ArtifactConflict l) \<Rightarrow> (db, Refused 409 ''artifact_exists'')
                     | Inl (ArtifactBadKey l) \<Rightarrow> (db, Refused 400 ''invalid_label'')
                     | Inl err \<Rightarrow> (db, serverError)
                     | Inr (adb, art) \<Rightarrow> (db\<lparr>sv_artifacts := adb\<rparr>, Answer 201 (ArtifactBody art)))
                | _ \<Rightarrow> (db, invalidRequest))))"

definition handleWorkerUploadURL ::
  "'st Deps \<Rightarrow> 'st server_db \<Rightarrow> string \<Rightarrow> string \<Rightarrow> req_body \<Rightarrow> reply" where
  "handleWorkerUploadURL d db header attempt body =
     (case workerAttempt d db header attempt of
        Inl r \<Rightarrow> r
      | Inr (wk, attemptID) \<Rightarrow>
          (case AuthorizeAttempt (sv_jobs db) attemptID (wk_ID wk) of
             Inl ErrStaleAttempt \<Rightarrow> staleAttempt
           | Inl err \<Rightarrow> serverError
           | Inr ctx \<Rightarrow>
               (case body of
                  PathBody path \<Rightarrow>
                    (case JobOutputKey (ctx_TenantID ctx) (ctx_JobID ctx) 1 path of
                       Inl err \<Rightarrow> Refused 400 ''invalid_path''
                     | Inr key \<Rightarrow>
                         (case dp_PresignPutForWorker d key (dp_SourceURLTTL d) of
                            Inl err \<Rightarrow> serverError
                          | Inr url \<Rightarrow> Answer 200 (UploadURL url key)))
                | _ \<Rightarrow> invalidRequest)))"

end
