(* ===== verification/Client_Api.thy ===== *)
theory Client_Api
  imports Worker_Api
begin

text \<open>
  The tenant surface: the handlers of \<open>internal/api/assets.go\<close>, \<open>uploads.go\<close>, \<open>jobs.go\<close> and \<open>artifacts.go\<close>,
  the administration of the fleet in \<open>workers.go\<close>, and the routing of \<open>api.go\<close>. A handler behind the
  authentication gets the principal the middleware found.
\<close>

section \<open>Assets\<close>

definition handleMe :: "Principal \<Rightarrow> reply" where
  "handleMe p = Answer 200 (Me (pr_TenantID p) (pr_KeyID p) (pr_Scopes p))"

definition handleCreateAsset :: "Env \<Rightarrow> 'st server_db \<Rightarrow> Principal \<Rightarrow> req_body \<Rightarrow> 'st server_db \<times> reply" where
  "handleCreateAsset e db p body =
     (case body of
        CreateAsset req \<Rightarrow>
          (case asset_Create (en_now e) (en_fresh e) (sv_media db) (pr_TenantID p) (ca_ExternalID req) (ca_Name req) ''managed'' of
             Inl AssetConflict \<Rightarrow> (db, Refused 409 ''asset_exists'')
           | Inl err \<Rightarrow> (db, serverError)
           | Inr (mdb, a, v) \<Rightarrow> (db\<lparr>sv_media := mdb\<rparr>, Answer 201 (AssetBody a [(v, None)])))
      | _ \<Rightarrow> (db, invalidRequest))"

definition parse_limit :: "string \<Rightarrow> nat option" where
  "parse_limit raw =
     (if raw = [] then Some 50
      else case ParseInt64 raw of
        None \<Rightarrow> None
      | Some n \<Rightarrow> if n < 1 \<or> n > 200 then None else Some (nat n))"

definition handleListAssets :: "'st server_db \<Rightarrow> Principal \<Rightarrow> string \<Rightarrow> reply" where
  "handleListAssets db p raw =
     (case parse_limit raw of
        None \<Rightarrow> invalidRequest
      | Some limit \<Rightarrow> Answer 200 (AssetsBody (asset_List (sv_media db) (pr_TenantID p) limit)))"

fun versions_media :: "media_db \<Rightarrow> uuid \<Rightarrow> Version list \<Rightarrow> (Version \<times> ProbeResult option) list option" where
  "versions_media mdb tenantID [] = Some []"
| "versions_media mdb tenantID (v # vs) =
     (case (case probe_Get mdb tenantID (ve_ID v) of
              Inr media \<Rightarrow> Some (Some media)
            | Inl ProbeNotFound \<Rightarrow> Some None
            | Inl err \<Rightarrow> None) of
        None \<Rightarrow> None
      | Some media \<Rightarrow> map_option (Cons (v, media)) (versions_media mdb tenantID vs))"

definition handleGetAsset :: "'st Deps \<Rightarrow> 'st server_db \<Rightarrow> Principal \<Rightarrow> string \<Rightarrow> reply" where
  "handleGetAsset d db p seg =
     (case pathUUID d seg of
        None \<Rightarrow> notFound
      | Some assetID \<Rightarrow>
          (case asset_Get (sv_media db) (pr_TenantID p) assetID of
             Inl AssetNotFound \<Rightarrow> notFound
           | Inl err \<Rightarrow> serverError
           | Inr a \<Rightarrow>
               (case versions_media (sv_media db) (pr_TenantID p) (asset_Versions (sv_media db) (pr_TenantID p) assetID) of
                  None \<Rightarrow> serverError
                | Some out \<Rightarrow> Answer 200 (AssetBody a out))))"

section \<open>Uploads\<close>

definition upload_target :: "Version list \<Rightarrow> string \<Rightarrow> Version option" where
  "upload_target versions wanted =
     (if wanted = [] then Some (last versions) else List.find (\<lambda>v. uuid_String (ve_ID v) = wanted) versions)"

definition handleCreateUpload ::
  "Env \<Rightarrow> 'st Deps \<Rightarrow> 'st server_db \<Rightarrow> Principal \<Rightarrow> string \<Rightarrow> req_body \<Rightarrow> 'st server_db \<times> reply" where
  "handleCreateUpload e d db p seg body =
     (case pathUUID d seg of
        None \<Rightarrow> (db, notFound)
      | Some assetID \<Rightarrow>
          (case body of
             CreateUpload req \<Rightarrow>
               let versions = asset_Versions (sv_media db) (pr_TenantID p) assetID in
               if length versions = 0 then (db, notFound)
               else (case upload_target versions (cu_AssetVersionID req) of
                 None \<Rightarrow> (db, notFound)
               | Some target \<Rightarrow>
                   (case upload_Create (en_now e) (en_fresh e) (dp_Uploads d) (sv_store db) (sv_media db) (pr_TenantID p)
                           (ve_ID target) (cu_SizeBytes req) (cu_ContentType req) (cu_ChecksumAlgo req) (cu_Checksum req) of
                      (st, mdb, res) \<Rightarrow>
                        (db\<lparr>sv_store := st, sv_media := mdb\<rparr>,
                         (case res of
                            Inl ErrBadSize \<Rightarrow> invalidRequest
                          | Inl ErrTooLarge \<Rightarrow> Refused 400 ''too_large''
                          | Inl err \<Rightarrow> serverError
                          | Inr (up, parts) \<Rightarrow> Answer 201 (UploadBody up (Some parts))))))
           | _ \<Rightarrow> (db, invalidRequest)))"

definition handleUploadStatus :: "'st Deps \<Rightarrow> 'st server_db \<Rightarrow> Principal \<Rightarrow> string \<Rightarrow> reply" where
  "handleUploadStatus d db p seg =
     (case pathUUID d seg of
        None \<Rightarrow> notFound
      | Some uploadID \<Rightarrow>
          (case upload_Status (dp_Uploads d) (sv_store db) (sv_media db) (pr_TenantID p) uploadID of
             Inl UploadNotFound \<Rightarrow> notFound
           | Inl err \<Rightarrow> serverError
           | Inr st \<Rightarrow> Answer 200 (UploadStatusBody st)))"

definition handleCompleteUpload :: "Env \<Rightarrow> 'st Deps \<Rightarrow> 'st server_db \<Rightarrow> Principal \<Rightarrow> string \<Rightarrow> 'st server_db \<times> reply" where
  "handleCompleteUpload e d db p seg =
     (case pathUUID d seg of
        None \<Rightarrow> (db, notFound)
      | Some uploadID \<Rightarrow>
          (case upload_Complete (en_now e) (en_fresh e 0) (dp_Uploads d) (sv_store db) (sv_media db) (pr_TenantID p) uploadID of
             (st, mdb, res) \<Rightarrow>
               (db\<lparr>sv_store := st, sv_media := mdb\<rparr>,
                (case res of
                   Inl UploadNotFound \<Rightarrow> notFound
                 | Inl (ErrIncomplete ns) \<Rightarrow> Refused 409 ''upload_incomplete''
                 | Inl ErrSizeMismatch \<Rightarrow> Refused 409 ''size_mismatch''
                 | Inl ErrNotOpen \<Rightarrow> Refused 409 ''upload_not_open''
                 | Inl err \<Rightarrow> serverError
                 | Inr up \<Rightarrow> Answer 200 (UploadBody up None)))))"

definition handleAbortUpload :: "'st Deps \<Rightarrow> 'st server_db \<Rightarrow> Principal \<Rightarrow> string \<Rightarrow> 'st server_db \<times> reply" where
  "handleAbortUpload d db p seg =
     (case pathUUID d seg of
        None \<Rightarrow> (db, notFound)
      | Some uploadID \<Rightarrow>
          (case upload_Abort (dp_Uploads d) (sv_store db) (sv_media db) (pr_TenantID p) uploadID of
             (st, mdb, res) \<Rightarrow>
               (db\<lparr>sv_store := st, sv_media := mdb\<rparr>,
                (case res of
                   Some UploadNotFound \<Rightarrow> notFound
                 | Some ErrNotOpen \<Rightarrow> Refused 409 ''upload_not_open''
                 | Some err \<Rightarrow> serverError
                 | None \<Rightarrow> Answer 204 NoBody))))"

section \<open>Jobs\<close>

text \<open>
  What \<open>handleCreateJob\<close> does once the version is known to exist: the source must be there and verified.
\<close>

definition verified_source :: "media_db \<Rightarrow> uuid \<Rightarrow> uuid \<Rightarrow> reply + string" where
  "verified_source mdb tenantID versionID =
     (case asset_Source mdb tenantID versionID of
        Inl AssetNotFound \<Rightarrow> Inl (Refused 409 ''source_missing'')
      | Inl err \<Rightarrow> Inl serverError
      | Inr source \<Rightarrow>
          (case (so_VerifiedAt source, so_StorageKey source) of
             (Some when, Some key) \<Rightarrow> Inr key
           | _ \<Rightarrow> Inl (Refused 409 ''source_unverified'')))"

definition no_media :: ProbeResult where
  "no_media = \<lparr>pr_Container = [], pr_DurationMS = 0, pr_BitrateBPS = 0, pr_SizeBytes = 0, pr_Tracks = []\<rparr>"

definition plan_media :: "media_db \<Rightarrow> uuid \<Rightarrow> uuid \<Rightarrow> Preset \<Rightarrow> reply + ProbeResult" where
  "plan_media mdb tenantID versionID preset =
     (if \<not> NeedsProbe preset then Inr no_media
      else case probe_Get mdb tenantID versionID of
        Inl ProbeNotFound \<Rightarrow> Inl (Refused 409 ''probe_required'')
      | Inl err \<Rightarrow> Inl serverError
      | Inr media \<Rightarrow> Inr media)"

definition handleCreateJob ::
  "Env \<Rightarrow> 'st Deps \<Rightarrow> 'st server_db \<Rightarrow> Principal \<Rightarrow> req_body \<Rightarrow> 'st server_db \<times> reply" where
  "handleCreateJob e d db p body =
     (case body of
        CreateJob req \<Rightarrow>
          (case dp_parseUUID d (cj_AssetVersionID req) of
             None \<Rightarrow> (db, invalidRequest)
           | Some versionID \<Rightarrow>
               (case GetVersion (sv_media db) (pr_TenantID p) versionID of
                  Inl err \<Rightarrow> (db, notFound)
                | Inr v \<Rightarrow>
                    (case verified_source (sv_media db) (pr_TenantID p) versionID of
                       Inl r \<Rightarrow> (db, r)
                     | Inr sourceKey \<Rightarrow>
                         (case Resolve (en_fresh e) (sv_pipelines db) (pr_TenantID p) (cj_Pipeline req) of
                            Inl (ErrUnknownPreset n) \<Rightarrow> (db, Refused 400 ''unknown_pipeline'')
                          | Inl err \<Rightarrow> (db, serverError)
                          | Inr (pdb, pipelineVersionID, preset) \<Rightarrow>
                              let db1 = db\<lparr>sv_pipelines := pdb\<rparr> in
                              (case plan_media (sv_media db) (pr_TenantID p) versionID preset of
                                 Inl r \<Rightarrow> (db1, r)
                               | Inr media \<Rightarrow>
                                   (case Plan preset sourceKey media of
                                      Inl err \<Rightarrow> (db1, Refused 400 ''cannot_plan'')
                                    | Inr built \<Rightarrow>
                                        (case job_Create (en_now e) (\<lambda>i. en_fresh e (i + 2)) (sv_jobs db) (pr_TenantID p) versionID
                                                pipelineVersionID (cj_IdempotencyKey req)
                                                (if cj_Priority req \<le> 0 then 100 else cj_Priority req) built of
                                           Inl err \<Rightarrow> (db1, serverError)
                                         | Inr (jdb, created) \<Rightarrow>
                                             (db1\<lparr>sv_jobs := jdb\<rparr>, Answer 201 (JobBody created)))))))))
      | _ \<Rightarrow> (db, invalidRequest))"

definition handleListJobs :: "'st server_db \<Rightarrow> Principal \<Rightarrow> string \<Rightarrow> reply" where
  "handleListJobs db p raw =
     (case parse_limit raw of
        None \<Rightarrow> invalidRequest
      | Some limit \<Rightarrow> Answer 200 (JobsBody (job_List (sv_jobs db) (pr_TenantID p) limit)))"

definition worker_name :: "worker_db \<Rightarrow> uuid \<Rightarrow> string option" where
  "worker_name wdb workerID = map_option wr_name (sql_find (\<lambda>w. wr_id w = workerID) (workers wdb))"

definition handleGetJob :: "'st Deps \<Rightarrow> 'st server_db \<Rightarrow> Principal \<Rightarrow> string \<Rightarrow> reply" where
  "handleGetJob d db p seg =
     (case pathUUID d seg of
        None \<Rightarrow> notFound
      | Some jobID \<Rightarrow>
          (case job_Get (sv_jobs db) (pr_TenantID p) jobID of
             Inl ErrNotFound \<Rightarrow> notFound
           | Inl err \<Rightarrow> serverError
           | Inr j \<Rightarrow>
               let report = validate_ForJob (sv_artifacts db) (pr_TenantID p) jobID in
               Answer 200 (JobDetail j (job_Tasks (sv_jobs db) (pr_TenantID p) jobID)
                 (job_Attempts (worker_name (sv_workers db)) (sv_jobs db) (pr_TenantID p) jobID)
                 (if length report > 0 then Some report else None))))"

definition handleCancelJob :: "Env \<Rightarrow> 'st Deps \<Rightarrow> 'st server_db \<Rightarrow> Principal \<Rightarrow> string \<Rightarrow> 'st server_db \<times> reply" where
  "handleCancelJob e d db p seg =
     (case pathUUID d seg of
        None \<Rightarrow> (db, notFound)
      | Some jobID \<Rightarrow>
          (case job_Cancel (en_now e) (sv_jobs db) (pr_TenantID p) jobID of
             Inl ErrNotFound \<Rightarrow> (db, notFound)
           | Inl err \<Rightarrow> (db, serverError)
           | Inr jdb \<Rightarrow> (db\<lparr>sv_jobs := jdb\<rparr>, Answer 204 NoBody)))"

text \<open>The order of \<open>Presets\<close> is that of a Go map, so any order; the model takes the table's.\<close>

definition handleListPipelines :: reply where
  "handleListPipelines = Answer 200 (PipelinesBody (map snd presets))"

section \<open>Artifacts\<close>

definition handleListArtifacts :: "'st Deps \<Rightarrow> 'st server_db \<Rightarrow> Principal \<Rightarrow> string \<Rightarrow> reply" where
  "handleListArtifacts d db p seg =
     (case pathUUID d seg of
        None \<Rightarrow> notFound
      | Some jobID \<Rightarrow>
          (case job_Get (sv_jobs db) (pr_TenantID p) jobID of
             Inl err \<Rightarrow> notFound
           | Inr j \<Rightarrow> Answer 200 (SetsBody (artifact_Sets (sv_artifacts db) (pr_TenantID p) jobID))))"

definition handleDownloadArtifact :: "'st Deps \<Rightarrow> 'st server_db \<Rightarrow> Principal \<Rightarrow> string \<Rightarrow> reply" where
  "handleDownloadArtifact d db p seg =
     (case pathUUID d seg of
        None \<Rightarrow> notFound
      | Some artID \<Rightarrow>
          (case artifact_Get (sv_artifacts db) (pr_TenantID p) artID of
             Inl ArtifactNotFound \<Rightarrow> notFound
           | Inl err \<Rightarrow> serverError
           | Inr a \<Rightarrow>
               (case dp_PresignGet d (art_StorageKey a) (dp_DownloadURLTTL d) of
                  Inl err \<Rightarrow> serverError
                | Inr url \<Rightarrow> Answer 200 (Download url (whole_seconds (dp_DownloadURLTTL d)) (art_SizeBytes a)))))"

section \<open>The fleet\<close>

definition handleListWorkers :: "'st server_db \<Rightarrow> reply" where
  "handleListWorkers db = Answer 200 (WorkersBody (worker_List (sv_workers db)))"

definition handleGetWorker :: "'st Deps \<Rightarrow> 'st server_db \<Rightarrow> string \<Rightarrow> reply" where
  "handleGetWorker d db seg =
     (case pathUUID d seg of
        None \<Rightarrow> notFound
      | Some workerID \<Rightarrow>
          (case worker_Get (sv_workers db) workerID of
             Inl WorkerNotFound \<Rightarrow> notFound
           | Inl err \<Rightarrow> serverError
           | Inr wk \<Rightarrow> Answer 200 (WorkerBody wk)))"

definition handleSetWorkerState :: "'st Deps \<Rightarrow> 'st server_db \<Rightarrow> string \<Rightarrow> req_body \<Rightarrow> 'st server_db \<times> reply" where
  "handleSetWorkerState d db seg body =
     (case pathUUID d seg of
        None \<Rightarrow> (db, notFound)
      | Some workerID \<Rightarrow>
          (case body of
             WorkerStateBody st \<Rightarrow>
               (case SetState (sv_workers db) workerID st of
                  Inl WorkerNotFound \<Rightarrow> (db, notFound)
                | Inl err \<Rightarrow> (db, invalidRequest)
                | Inr ws \<Rightarrow> (db\<lparr>sv_workers := ws\<rparr>, Answer 204 NoBody))
           | _ \<Rightarrow> (db, invalidRequest)))"

end
