(* ===== verification/Routes.thy ===== *)
theory Routes
  imports Client_Api Job_Expire
begin

text \<open>
  The routing of \<open>internal/api/api.go\<close>: which handler a request reaches, behind which authentication
  and which scope. A path is the list of its segments, cleaned as the mux cleans it (a trailing slash is
  a last empty segment). A method or path no pattern matches is answered by the mux itself, without an
  error envelope.
\<close>

section \<open>Patterns\<close>

record request =
  rq_method :: string
  rq_path :: "string list"
  rq_auth :: string
  rq_limit :: string
  rq_body :: req_body

datatype seg = Lit string | Wild

fun seg_match :: "seg list \<Rightarrow> string list \<Rightarrow> string list option" where
  "seg_match [] [] = Some []"
| "seg_match (Lit l # ps) (s # ss) = (if s = l then seg_match ps ss else None)"
| "seg_match (Wild # ps) (s # ss) = (if s = [] then None else map_option (Cons s) (seg_match ps ss))"
| "seg_match _ _ = None"

definition method_match :: "string \<Rightarrow> string \<Rightarrow> bool" where
  "method_match pattern method \<longleftrightarrow> method = pattern \<or> (pattern = ''GET'' \<and> method = ''HEAD'')"

datatype endpoint = MeEP | CreateAssetEP | ListAssetsEP | GetAssetEP | CreateUploadEP
  | UploadStatusEP | CompleteUploadEP | AbortUploadEP
  | CreateJobEP | ListJobsEP | GetJobEP | CancelJobEP | ListPipelinesEP | ListArtifactsEP | DownloadArtifactEP | PlaybackLinkEP
  | ListWorkersEP | GetWorkerEP | SetWorkerStateEP | MetricsEP

record 'h route =
  rt_method :: string
  rt_path :: "seg list"
  rt_handler :: 'h

definition route_match :: "request \<Rightarrow> 'h route \<Rightarrow> bool" where
  "route_match rq r \<longleftrightarrow> method_match (rt_method r) (rq_method rq) \<and> seg_match (rt_path r) (rq_path rq) \<noteq> None"

definition route_values :: "request \<Rightarrow> 'h route \<Rightarrow> string list" where
  "route_values rq r = (case seg_match (rt_path r) (rq_path rq) of None \<Rightarrow> [] | Some vs \<Rightarrow> vs)"

text \<open>What the mux answers when nothing matches: 405 when the path exists under another method.\<close>

definition mux_miss :: "request \<Rightarrow> 'h route list \<Rightarrow> reply" where
  "mux_miss rq routes =
     (if list_ex (\<lambda>r. seg_match (rt_path r) (rq_path rq) \<noteq> None) routes then Refused 405 [] else Refused 404 [])"

definition route :: "string \<Rightarrow> seg list \<Rightarrow> 'h \<Rightarrow> 'h route" where
  "route m p h = \<lparr>rt_method = m, rt_path = p, rt_handler = h\<rparr>"

section \<open>The tenant surface\<close>

definition v1_routes :: "(endpoint \<times> string option) route list" where
  "v1_routes =
     [route ''GET'' [Lit ''v1'', Lit ''me''] (MeEP, None),
      route ''POST'' [Lit ''v1'', Lit ''assets''] (CreateAssetEP, Some ScopeAssetsWrite),
      route ''GET'' [Lit ''v1'', Lit ''assets''] (ListAssetsEP, Some ScopeAssetsRead),
      route ''GET'' [Lit ''v1'', Lit ''assets'', Wild] (GetAssetEP, Some ScopeAssetsRead),
      route ''POST'' [Lit ''v1'', Lit ''assets'', Wild, Lit ''uploads''] (CreateUploadEP, Some ScopeAssetsWrite),
      route ''GET'' [Lit ''v1'', Lit ''uploads'', Wild] (UploadStatusEP, Some ScopeAssetsRead),
      route ''POST'' [Lit ''v1'', Lit ''uploads'', Wild, Lit ''complete''] (CompleteUploadEP, Some ScopeAssetsWrite),
      route ''DELETE'' [Lit ''v1'', Lit ''uploads'', Wild] (AbortUploadEP, Some ScopeAssetsWrite),
      route ''POST'' [Lit ''v1'', Lit ''jobs''] (CreateJobEP, Some ScopeJobsWrite),
      route ''GET'' [Lit ''v1'', Lit ''jobs''] (ListJobsEP, Some ScopeJobsRead),
      route ''GET'' [Lit ''v1'', Lit ''jobs'', Wild] (GetJobEP, Some ScopeJobsRead),
      route ''POST'' [Lit ''v1'', Lit ''jobs'', Wild, Lit ''cancel''] (CancelJobEP, Some ScopeJobsWrite),
      route ''GET'' [Lit ''v1'', Lit ''pipelines''] (ListPipelinesEP, Some ScopeJobsRead),
      route ''GET'' [Lit ''v1'', Lit ''jobs'', Wild, Lit ''artifacts''] (ListArtifactsEP, Some ScopeJobsRead),
      route ''GET'' [Lit ''v1'', Lit ''artifacts'', Wild, Lit ''download''] (DownloadArtifactEP, Some ScopeJobsRead),
      route ''POST'' [Lit ''v1'', Lit ''artifacts'', Wild, Lit ''playback''] (PlaybackLinkEP, Some ScopeJobsRead),
      route ''GET'' [Lit ''v1'', Lit ''workers''] (ListWorkersEP, Some ScopeAdmin),
      route ''GET'' [Lit ''v1'', Lit ''workers'', Wild] (GetWorkerEP, Some ScopeAdmin),
      route ''POST'' [Lit ''v1'', Lit ''workers'', Wild, Lit ''state''] (SetWorkerStateEP, Some ScopeAdmin),
      route ''GET'' [Lit ''metrics''] (MetricsEP, Some ScopeAdmin)]"

definition hd_or_empty :: "string list \<Rightarrow> string" where
  "hd_or_empty vs = (case vs of [] \<Rightarrow> [] | v # _ \<Rightarrow> v)"

definition playback_link_reply :: "'st Deps \<Rightarrow> (string \<times> int) response \<Rightarrow> reply" where
  "playback_link_reply d r =
     (case r of
        Refused code msg \<Rightarrow> Refused code msg
      | Answer code (url, expires) \<Rightarrow> Answer code (PlaybackLink url expires (whole_seconds (dp_PlaybackTTL d))))"

fun v1_handler ::
  "Env \<Rightarrow> 'st Deps \<Rightarrow> 'st server_db \<Rightarrow> Principal \<Rightarrow> request \<Rightarrow> string \<Rightarrow> endpoint \<Rightarrow> 'st server_db \<times> reply" where
  "v1_handler e d db p rq seg MeEP = (db, handleMe p)"
| "v1_handler e d db p rq seg CreateAssetEP = handleCreateAsset e db p (rq_body rq)"
| "v1_handler e d db p rq seg ListAssetsEP = (db, handleListAssets db p (rq_limit rq))"
| "v1_handler e d db p rq seg GetAssetEP = (db, handleGetAsset d db p seg)"
| "v1_handler e d db p rq seg CreateUploadEP = handleCreateUpload e d db p seg (rq_body rq)"
| "v1_handler e d db p rq seg UploadStatusEP = (db, handleUploadStatus d db p seg)"
| "v1_handler e d db p rq seg CompleteUploadEP = handleCompleteUpload e d db p seg"
| "v1_handler e d db p rq seg AbortUploadEP = handleAbortUpload d db p seg"
| "v1_handler e d db p rq seg CreateJobEP = handleCreateJob e d db p (rq_body rq)"
| "v1_handler e d db p rq seg ListJobsEP = (db, handleListJobs db p (rq_limit rq))"
| "v1_handler e d db p rq seg GetJobEP = (db, handleGetJob d db p seg)"
| "v1_handler e d db p rq seg CancelJobEP = handleCancelJob e d db p seg"
| "v1_handler e d db p rq seg ListPipelinesEP = (db, handleListPipelines)"
| "v1_handler e d db p rq seg ListArtifactsEP = (db, handleListArtifacts d db p seg)"
| "v1_handler e d db p rq seg DownloadArtifactEP = (db, handleDownloadArtifact d db p seg)"
| "v1_handler e d db p rq seg PlaybackLinkEP =
     (db, playback_link_reply d (handleCreatePlaybackLink (en_now e * 1000) (dp_Playback d) (dp_PlaybackTTL d)
        (sv_artifacts db) (pr_TenantID p) (pathUUID d seg)))"
| "v1_handler e d db p rq seg ListWorkersEP = (db, handleListWorkers db)"
| "v1_handler e d db p rq seg GetWorkerEP = (db, handleGetWorker d db seg)"
| "v1_handler e d db p rq seg SetWorkerStateEP = handleSetWorkerState d db seg (rq_body rq)"
| "v1_handler e d db p rq seg MetricsEP = (db, Answer 200 NoBody)"

text \<open>\<open>scoped\<close> and \<open>adminScoped\<close>: the handler runs when the key has the scope.\<close>

definition scoped :: "string option \<Rightarrow> Principal \<Rightarrow> bool" where
  "scoped scope p \<longleftrightarrow> (case scope of None \<Rightarrow> True | Some s \<Rightarrow> \<not> isl (RequireScope s (Some p)))"

definition v1_mux :: "Env \<Rightarrow> 'st Deps \<Rightarrow> 'st server_db \<Rightarrow> Principal \<Rightarrow> request \<Rightarrow> 'st server_db \<times> reply" where
  "v1_mux e d db p rq =
     (case List.find (route_match rq) v1_routes of
        None \<Rightarrow> (db, mux_miss rq v1_routes)
      | Some r \<Rightarrow>
          (case rt_handler r of (ep, scope) \<Rightarrow>
             if scoped scope p then v1_handler e d db p rq (hd_or_empty (route_values rq r)) ep else (db, forbidden)))"

section \<open>The whole server\<close>

datatype outer = Healthz | Readyz | PlaybackEP | RegisterEP | HeartbeatEP | LeaseEP
  | StartedEP | ProgressEP | UploadURLEP | RegisterArtifactEP | CompleteEP

definition outer_routes :: "outer route list" where
  "outer_routes =
     [route ''GET'' [Lit ''healthz''] Healthz,
      route ''GET'' [Lit ''readyz''] Readyz,
      route ''GET'' [Lit ''playback'', Wild, Wild] PlaybackEP,
      route ''POST'' [Lit ''worker'', Lit ''v1'', Lit ''register''] RegisterEP,
      route ''POST'' [Lit ''worker'', Lit ''v1'', Lit ''heartbeat''] HeartbeatEP,
      route ''POST'' [Lit ''worker'', Lit ''v1'', Lit ''lease''] LeaseEP,
      route ''POST'' [Lit ''worker'', Lit ''v1'', Lit ''attempts'', Wild, Lit ''started''] StartedEP,
      route ''POST'' [Lit ''worker'', Lit ''v1'', Lit ''attempts'', Wild, Lit ''progress''] ProgressEP,
      route ''POST'' [Lit ''worker'', Lit ''v1'', Lit ''attempts'', Wild, Lit ''upload-url''] UploadURLEP,
      route ''POST'' [Lit ''worker'', Lit ''v1'', Lit ''attempts'', Wild, Lit ''artifacts''] RegisterArtifactEP,
      route ''POST'' [Lit ''worker'', Lit ''v1'', Lit ''attempts'', Wild, Lit ''complete''] CompleteEP]"

definition playback_reply :: "(string \<times> string) response \<Rightarrow> reply" where
  "playback_reply r =
     (case r of Refused code msg \<Rightarrow> Refused code msg | Answer code (ct, text) \<Rightarrow> Answer code (Playlist ct text))"

fun outer_handler :: "Env \<Rightarrow> 'st Deps \<Rightarrow> 'st server_db \<Rightarrow> request \<Rightarrow> string list \<Rightarrow> outer \<Rightarrow> 'st server_db \<times> reply" where
  "outer_handler e d db rq vs Healthz = (db, Answer 200 StatusOK)"
| "outer_handler e d db rq vs Readyz =
     (db, if en_ping e then Answer 200 StatusOK else Refused 503 ''database_unavailable'')"
| "outer_handler e d db rq vs PlaybackEP =
     (db, playback_reply (handlePlayback (dp_parseUUID d) (en_now e * 1000) (dp_Playback d) (dp_PlaybackTTL d) (sv_artifacts db)
        (dp_Get d (sv_store db)) (dp_PresignGet d) (hd_or_empty vs) (hd_or_empty (tl vs))))"
| "outer_handler e d db rq vs RegisterEP = handleWorkerRegister e d db (rq_auth rq) (rq_body rq)"
| "outer_handler e d db rq vs HeartbeatEP = handleWorkerHeartbeat e d db (rq_auth rq) (rq_body rq)"
| "outer_handler e d db rq vs LeaseEP = handleWorkerLease e d db (rq_auth rq)"
| "outer_handler e d db rq vs StartedEP = handleWorkerStarted e d db (rq_auth rq) (hd_or_empty vs)"
| "outer_handler e d db rq vs ProgressEP = handleWorkerProgress e d db (rq_auth rq) (hd_or_empty vs) (rq_body rq)"
| "outer_handler e d db rq vs UploadURLEP = (db, handleWorkerUploadURL d db (rq_auth rq) (hd_or_empty vs) (rq_body rq))"
| "outer_handler e d db rq vs RegisterArtifactEP = handleRegisterArtifact e d db (rq_auth rq) (hd_or_empty vs) (rq_body rq)"
| "outer_handler e d db rq vs CompleteEP = handleWorkerComplete e d db (rq_auth rq) (hd_or_empty vs) (rq_body rq)"

definition behind_auth :: "string list \<Rightarrow> bool" where
  "behind_auth path \<longleftrightarrow> (case path of (s # _ # _) \<Rightarrow> s = ''v1'' | _ \<Rightarrow> path = [''metrics''])"

definition Handler :: "Env \<Rightarrow> 'st Deps \<Rightarrow> 'st server_db \<Rightarrow> request \<Rightarrow> 'st server_db \<times> reply" where
  "Handler e d db rq =
     (if behind_auth (rq_path rq)
      then (case Middleware (auth_Authenticate (en_now e) (sv_auth db)) (rq_auth rq) of
              Inl code \<Rightarrow> (db, if code = 401 then unauthorized else serverError)
            | Inr (adb, p) \<Rightarrow> v1_mux e d (db\<lparr>sv_auth := adb\<rparr>) p rq)
      else case List.find (route_match rq) outer_routes of
        None \<Rightarrow> (db, mux_miss rq outer_routes)
      | Some r \<Rightarrow> outer_handler e d db rq (route_values rq r) (rt_handler r))"

section \<open>Route labels\<close>

text \<open>\<open>Route\<close> of \<open>internal/obs/metrics.go\<close>, the label under which a request is counted.\<close>

definition looksLikeID :: "string \<Rightarrow> bool" where
  "looksLikeID s \<longleftrightarrow> length s = 36 \<and>
     list_all (\<lambda>(i, c). if List.member [8, 13, 18, 23] i then c = CHR ''-'' else is_digit c \<or> c \<in> set ''abcdefABCDEF'')
       (List.enumerate 0 s)"

definition Route :: "string \<Rightarrow> string" where
  "Route path =
     (if path = [] then ''unmatched''
      else join_with (CHR ''/'') (map (\<lambda>seg. if looksLikeID seg then ''{id}'' else seg) (split_on (CHR ''/'') path)))"

end
