(* ===== verification/Worker_Properties.thy ===== *)
theory Worker_Properties
  imports Worker_Registry
begin

text \<open>
  The registry as a transition system: a name, an identifier and a credential each belong to one
  worker. Re-registering rotates the credential, and a drain does not outlast a silence.
\<close>

section \<open>The invariant\<close>

definition worker_empty :: worker_db where
  "worker_empty = \<lparr>workers = [], resources = []\<rparr>"

text \<open>The \<open>check\<close> of the column \<open>state\<close>.\<close>

definition worker_states :: "string set" where
  "worker_states = {''online'', ''draining'', ''offline'', ''unhealthy''}"

lemma worker_states_mem [simp]:
  "''online'' \<in> worker_states" "''draining'' \<in> worker_states" "''offline'' \<in> worker_states" "''unhealthy'' \<in> worker_states"
  by (simp_all add: worker_states_def)

definition worker_inv :: "worker_db \<Rightarrow> bool" where
  "worker_inv db \<longleftrightarrow> distinct (map wr_id (workers db)) \<and> distinct (map wr_name (workers db)) \<and>
     distinct (map wr_hash (workers db)) \<and>
     (\<forall>w \<in> set (workers db). wr_state w \<in> worker_states)"

lemma registered_row_sel [simp]:
  "wr_id (registered_row now h r w) = wr_id w" "wr_name (registered_row now h r w) = wr_name w"
  "wr_hash (registered_row now h r w) = h" "wr_state (registered_row now h r w) = ''online''"
  by (simp_all add: registered_row_def)

lemma new_worker_row_sel [simp]:
  "wr_id (new_worker_row now i h r) = i" "wr_name (new_worker_row now i h r) = wg_Name r"
  "wr_hash (new_worker_row now i h r) = h" "wr_state (new_worker_row now i h r) = ''online''"
  by (simp_all add: new_worker_row_def)

lemma distinct_update_one:
  assumes "distinct (map k rows)" "distinct (map h rows)" "\<forall>w \<in> set rows. k w \<noteq> i \<longrightarrow> h w \<noteq> v" "\<And>w. h (f w) = v"
  shows "distinct (map h (sql_update (\<lambda>w. k w = i) f rows))"
  using assms(1,2,3)
proof (induction rows)
  case (Cons w rows)
  then have IH: "distinct (map h (sql_update (\<lambda>w. k w = i) f rows))" by simp
  have "(if k w = i then h (f w) else h w) \<notin> set (map h (sql_update (\<lambda>w. k w = i) f rows))"
  proof
    assume "(if k w = i then h (f w) else h w) \<in> set (map h (sql_update (\<lambda>w. k w = i) f rows))"
    then obtain x where x: "x \<in> set rows" "(if k w = i then h (f w) else h w) = h (if k x = i then f x else x)"
      by (auto elim!: sql_updateE)
    then show False using Cons.prems assms(4) by (cases "k w = i"; cases "k x = i") (auto simp: image_iff)
  qed
  then show ?case using IH by (simp add: sql_update_def split: if_splits)
qed simp

lemma upsert_worker_inv:
  assumes inv: "worker_inv db" and ok: "upsert_worker now newID h r (workers db) = Inr (rows, row)"
  shows "worker_inv (db\<lparr>workers := rows, resources := rs\<rparr>)"
    and "row \<in> set rows" "wr_hash row = h" "wr_name row = wg_Name r" "wr_state row = ''online''"
    and "w \<in> set (workers db) \<Longrightarrow> wr_id w \<noteq> wr_id row \<Longrightarrow> w \<in> set rows"
    and "w \<in> set rows \<Longrightarrow> wr_id w \<noteq> wr_id row \<Longrightarrow> w \<in> set (workers db)"
proof -
  have ids: "distinct (map wr_id (workers db))" "distinct (map wr_name (workers db))" "distinct (map wr_hash (workers db))"
    using inv by (auto simp: worker_inv_def)
  have "worker_inv (db\<lparr>workers := rows, resources := rs\<rparr>) \<and> row \<in> set rows \<and> wr_hash row = h \<and> wr_name row = wg_Name r \<and>
    wr_state row = ''online'' \<and> (\<forall>w. w \<in> set (workers db) \<longrightarrow> wr_id w \<noteq> wr_id row \<longrightarrow> w \<in> set rows) \<and>
    (\<forall>w. w \<in> set rows \<longrightarrow> wr_id w \<noteq> wr_id row \<longrightarrow> w \<in> set (workers db))"
  proof (cases "sql_find (\<lambda>w. wr_name w = wg_Name r) (workers db)")
    case None
    then have "rows = workers db @ [new_worker_row now newID h r]" "row = new_worker_row now newID h r"
      "\<forall>w \<in> set (workers db). wr_id w \<noteq> newID \<and> wr_hash w \<noteq> h"
      using ok by (auto simp: upsert_worker_def list_ex_iff split: if_splits)
    then show ?thesis using inv None by (auto simp: worker_inv_def sql_find_None_iff)
  next
    case (Some old)
    let ?f = "registered_row now h r"
    have old: "old \<in> set (workers db)" "wr_name old = wg_Name r" using sql_find_SomeD [OF Some] by auto
    have rows: "rows = sql_update (\<lambda>w. wr_name w = wg_Name r) ?f (workers db)" "row = ?f old"
      and other: "\<forall>w \<in> set (workers db). wr_id w \<noteq> wr_id old \<longrightarrow> wr_hash w \<noteq> h"
      using ok Some by (auto simp: upsert_worker_def list_ex_iff split: if_splits)
    have one: "w \<in> set (workers db) \<Longrightarrow> wr_name w = wg_Name r \<longleftrightarrow> w = old" for w
      using old ids(2) by (metis distinct_map inj_onD)
    have one_id: "w \<in> set (workers db) \<Longrightarrow> wr_id w = wr_id old \<longleftrightarrow> w = old" for w
      using old(1) ids(1) by (metis distinct_map inj_onD)
    have "distinct (map wr_id rows)" using ids(1) by (simp add: rows(1) map_sql_update_same)
    moreover have "distinct (map wr_name rows)" using ids(2) by (simp add: rows(1) map_sql_update_same)
    moreover have "distinct (map wr_hash rows)" unfolding rows(1)
      using ids(2,3) other one one_id by (intro distinct_update_one [where v = h]) auto
    moreover have "\<forall>w \<in> set rows. wr_state w \<in> worker_states"
      using inv by (auto simp: rows(1) worker_inv_def elim!: sql_updateE)
    moreover have "row \<in> set rows" using sql_updateI [OF old(1), of "\<lambda>w. wr_name w = wg_Name r" ?f] old(2) rows by simp
    moreover have "w \<in> set rows" if "w \<in> set (workers db)" "wr_id w \<noteq> wr_id row" for w
      using sql_updateI [OF that(1), of "\<lambda>w. wr_name w = wg_Name r" ?f] one [OF that(1)] that(2) rows by auto
    moreover have "w \<in> set (workers db)" if "w \<in> set rows" "wr_id w \<noteq> wr_id row" for w
      using that one one_id rows by (auto elim!: sql_updateE split: if_splits)
    ultimately show ?thesis using old(2) rows(2) by (simp add: worker_inv_def)
  qed
  then show "worker_inv (db\<lparr>workers := rows, resources := rs\<rparr>)" "row \<in> set rows" "wr_hash row = h" "wr_name row = wg_Name r"
    "wr_state row = ''online''" "w \<in> set (workers db) \<Longrightarrow> wr_id w \<noteq> wr_id row \<Longrightarrow> w \<in> set rows"
    "w \<in> set rows \<Longrightarrow> wr_id w \<noteq> wr_id row \<Longrightarrow> w \<in> set (workers db)" by blast+
qed

lemma worker_state_inv:
  assumes "worker_inv db" "\<And>w. wr_id (f w) = wr_id w \<and> wr_name (f w) = wr_name w \<and> wr_hash (f w) = wr_hash w"
    and "\<And>w. wr_state (f w) \<in> worker_states"
  shows "worker_inv (db\<lparr>workers := sql_update P f (workers db)\<rparr>)" "worker_inv (db\<lparr>workers := sql_update P f (workers db), resources := rs\<rparr>)"
proof -
  have "map wr_id (sql_update P f (workers db)) = map wr_id (workers db)" "map wr_name (sql_update P f (workers db)) = map wr_name (workers db)"
    "map wr_hash (sql_update P f (workers db)) = map wr_hash (workers db)"
    using assms(2) by (simp_all add: map_sql_update_same)
  then show "worker_inv (db\<lparr>workers := sql_update P f (workers db)\<rparr>)" "worker_inv (db\<lparr>workers := sql_update P f (workers db), resources := rs\<rparr>)"
    using assms(1,3) by (auto simp: worker_inv_def elim!: sql_updateE)
qed

lemma heartbeat_state_allowed: "heartbeat_state h st \<in> worker_states"
  by (simp add: heartbeat_state_def worker_states_def)

section \<open>The transition system\<close>

lemma worker_Register_cases:
  assumes "worker_Register now newID random bh db tok r = Inr (db', w, secret)"
  obtains buf rows row rs where "random = Some buf" "secret = credentialPrefix @ b64_encode buf" "sha256 tok = bh"
    "upsert_worker now newID (sha256 secret) r (workers db) = Inr (rows, row)"
    "db' = db\<lparr>workers := rows, resources := rs\<rparr>" "wk_ID w = wr_id row" "wk_Name w = wr_name row"
proof -
  obtain buf where buf: "random = Some buf" using assms
    by (auto simp: worker_Register_def newCredential_def split: if_splits option.splits)
  obtain rows row where up: "upsert_worker now newID (sha256 (credentialPrefix @ b64_encode buf)) r (workers db) = Inr (rows, row)"
    using assms by (auto simp: worker_Register_def newCredential_def buf Let_def split: if_splits sum.splits)
  show thesis
    by (rule that [OF buf _ _ _ _ _ _, of rows row "resources db'"])
      (use assms up in \<open>auto simp: worker_Register_def newCredential_def buf Let_def checkBootstrap_def split: if_splits\<close>)
qed

inductive worker_step :: "worker_db \<Rightarrow> worker_db \<Rightarrow> bool" where
  step_enrol: "worker_Register now newID random bh db tok r = Inr (db', w, secret) \<Longrightarrow> worker_step db db'"
| step_heartbeat: "worker_Heartbeat now db i rep = Inr (db', st) \<Longrightarrow> worker_step db db'"
| step_set_state: "SetState db i st = Inr db' \<Longrightarrow> worker_step db db'"
| step_sweep: "worker_step db (fst (MarkStaleOffline now db after))"

interpretation worker_sys: transition_system "\<lambda>db. db = worker_empty" worker_step worker_inv
proof (unfold_locales, goal_cases)
  case (2 s t)
  from 2(2) show ?case
  proof cases
    case (step_enrol now newID random bh tok r w secret)
    from this(1) show ?thesis
      by (rule worker_Register_cases) (use upsert_worker_inv(1) [OF 2(1)] in blast)
  next
    case (step_heartbeat now i rep st)
    then show ?thesis using 2(1)
      by (auto simp: worker_Heartbeat_def intro: heartbeat_state_allowed split: option.splits intro!: worker_state_inv)
  next
    case (step_set_state i st)
    then show ?thesis using 2(1)
      by (auto simp: SetState_def worker_state_defs split: if_splits intro!: worker_state_inv)
  next
    case (step_sweep now after)
    then show ?thesis using 2(1) by (auto simp: MarkStaleOffline_def intro!: worker_state_inv)
  qed
qed (simp add: worker_empty_def worker_inv_def)

definition worker_reachable :: "worker_db \<Rightarrow> bool" where
  "worker_reachable db \<longleftrightarrow> worker_step\<^sup>*\<^sup>* worker_empty db"

lemma worker_reachable_inv: "worker_reachable db \<Longrightarrow> worker_inv db"
  unfolding worker_reachable_def by (rule worker_sys.reachable_inv [OF refl])

section \<open>Credentials\<close>

lemma Authenticate_iff:
  assumes "worker_inv db"
  shows "worker_Authenticate db secret = Inr v \<longleftrightarrow> HasPrefix secret credentialPrefix \<and>
    (\<exists>w \<in> set (workers db). wr_hash w = sha256 secret \<and>
       v = authenticated_worker w)"
proof (cases "sql_find (\<lambda>w. wr_hash w = sha256 secret) (workers db)")
  case None
  then have "worker_Authenticate db secret = Inl WorkerUnauthorized" by (simp add: worker_Authenticate_def)
  moreover have "\<forall>w \<in> set (workers db). wr_hash w \<noteq> sha256 secret" using None by (simp add: sql_find_None_iff)
  ultimately show ?thesis by auto
next
  case (Some w)
  then have w: "w \<in> set (workers db)" "wr_hash w = sha256 secret" using sql_find_SomeD by fastforce+
  then have "x \<in> set (workers db) \<Longrightarrow> wr_hash x = sha256 secret \<longleftrightarrow> x = w" for x
    using assms unfolding worker_inv_def by (metis distinct_map inj_onD)
  then have "(\<exists>x \<in> set (workers db). wr_hash x = sha256 secret \<and> Q x) \<longleftrightarrow> Q w" for Q using w by blast
  then have "(\<exists>x \<in> set (workers db). wr_hash x = sha256 secret \<and> v = authenticated_worker x) \<longleftrightarrow> v = authenticated_worker w" .
  moreover have "worker_Authenticate db secret = Inr v \<longleftrightarrow> HasPrefix secret credentialPrefix \<and> v = authenticated_worker w"
    using Some w(2) by (auto simp: worker_Authenticate_def)
  ultimately show ?thesis by simp
qed

lemma Authenticate_cases: "worker_Authenticate db secret = Inl WorkerUnauthorized \<or> (\<exists>v. worker_Authenticate db secret = Inr v)"
  by (auto simp: worker_Authenticate_def split: option.splits)

text \<open>
  C20. A credential is worth one worker's current enrolment: registering returns a secret that
  authenticates exactly the worker it was issued to; every other secret that was valid for that
  worker, by a different digest, stops working at that moment; and every other worker's secret keeps
  working and keeps meaning the same worker.
\<close>

theorem credential_rotation:
  assumes "worker_reachable db" "worker_Register now newID random bh db tok r = Inr (db', w, secret)"
  shows "(\<exists>v. worker_Authenticate db' secret = Inr v \<and> wk_ID v = wk_ID w \<and> wk_Name v = wg_Name r \<and> wk_State v = StateOnline) \<and>
    (\<forall>old v. worker_Authenticate db old = Inr v \<and> sha256 old \<noteq> sha256 secret \<longrightarrow>
       worker_Authenticate db' old = (if wk_ID v = wk_ID w then Inl WorkerUnauthorized else Inr v))"
proof -
  have inv: "worker_inv db" using assms(1) by (rule worker_reachable_inv)
  from assms(2) obtain buf rows row rs where reg: "secret = credentialPrefix @ b64_encode buf"
    "upsert_worker now newID (sha256 secret) r (workers db) = Inr (rows, row)" "workers db' = rows"
    "db' = db\<lparr>workers := rows, resources := rs\<rparr>" "wk_ID w = wr_id row"
    by (rule worker_Register_cases) simp
  note row = upsert_worker_inv [OF inv reg(2)]
  have inv': "worker_inv db'" unfolding reg(4) by (rule row(1))
  have "HasPrefix secret credentialPrefix" using reg(1) by (simp add: HasPrefix_def)
  then have "worker_Authenticate db' secret = Inr (authenticated_worker row)"
    using row(2,3) reg(3) by (auto simp: Authenticate_iff [OF inv'])
  then have "\<exists>v. worker_Authenticate db' secret = Inr v \<and> wk_ID v = wk_ID w \<and> wk_Name v = wg_Name r \<and> wk_State v = StateOnline"
    using row(4,5) reg(5) by (simp add: StateOnline_def)
  moreover have "worker_Authenticate db' old = (if wk_ID v = wk_ID w then Inl WorkerUnauthorized else Inr v)"
    if old: "worker_Authenticate db old = Inr v" "sha256 old \<noteq> sha256 secret" for old v
  proof -
    obtain x where x: "x \<in> set (workers db)" "wr_hash x = sha256 old" "wk_ID v = wr_id x" "HasPrefix old credentialPrefix" "v = authenticated_worker x"
      using old(1) by (auto simp: Authenticate_iff [OF inv])
    show ?thesis
    proof (cases "wk_ID v = wk_ID w")
      case False
      then have "x \<in> set (workers db')" using row(6) x reg(3,5) by auto
      then have "worker_Authenticate db' old = Inr v" using x by (auto simp: Authenticate_iff [OF inv'])
      then show ?thesis using False by simp
    next
      case True
      have "wr_hash y \<noteq> sha256 old" if y: "y \<in> set (workers db')" for y
      proof
        assume h: "wr_hash y = sha256 old"
        then have "wr_id y \<noteq> wr_id row" using row(2,3) inv' y old(2) reg(3)
          by (metis worker_inv_def distinct_map inj_onD)
        then have "y \<in> set (workers db)" using row(7) y reg(3) by simp
        then have "y = x" using h x(1,2) inv by (metis worker_inv_def distinct_map inj_onD)
        then show False using True x(3) reg(5) \<open>wr_id y \<noteq> wr_id row\<close> by simp
      qed
      then have "\<not> (\<exists>v. worker_Authenticate db' old = Inr v)" by (auto simp: Authenticate_iff [OF inv'])
      then show ?thesis using True Authenticate_cases by fastforce
    qed
  qed
  ultimately show ?thesis by blast
qed

definition demo_enrolment :: WorkerRegistration where
  "demo_enrolment = \<lparr>wg_Name = ''encoder-1'', wg_Hostname = ''h1'', wg_OS = ''linux'', wg_Arch = ''amd64'', wg_CPUCores = 8,
     wg_MemoryBytes = 32, wg_DiskBytes = 500, wg_GPUModel = [], wg_GPUMemoryBytes = 0, wg_FFmpegVersion = ''7.1'',
     wg_ProtocolVersion = 1, wg_Capabilities = no_capabilities, wg_SlotCapacity = [(''cpu'', 2)]\<rparr>"

lemma demo_enrolled:
  "\<exists>db' w secret. worker_Register 10 1 (Some ''seed'') (sha256 ''boot'') worker_empty ''boot'' demo_enrolment = Inr (db', w, secret)"
proof -
  have "TrimSpace ''encoder-1'' \<noteq> []" by code_simp
  moreover have "sql_find P [] = None" for P :: "worker_row \<Rightarrow> bool" by (simp add: sql_find_None_iff)
  ultimately show ?thesis
    by (simp add: worker_Register_def checkBootstrap_def newCredential_def demo_enrolment_def upsert_worker_def worker_empty_def
        int4_fits_def MinProtocolVersion_def ProtocolVersion_def Let_def)
qed

theorem credential_rotation_witness:
  "\<exists>db' w secret v. worker_reachable worker_empty \<and>
     worker_Register 10 1 (Some ''seed'') (sha256 ''boot'') worker_empty ''boot'' demo_enrolment = Inr (db', w, secret) \<and>
     worker_Authenticate db' secret = Inr v \<and> wk_ID v = wk_ID w \<and> wk_Name v = ''encoder-1''"
proof -
  obtain db' w secret where reg: "worker_Register 10 1 (Some ''seed'') (sha256 ''boot'') worker_empty ''boot'' demo_enrolment = Inr (db', w, secret)"
    using demo_enrolled by blast
  have "worker_reachable worker_empty" by (simp add: worker_reachable_def)
  from this credential_rotation [OF this reg] reg show ?thesis unfolding demo_enrolment_def WorkerRegistration.simps by blast
qed

section \<open>Draining\<close>

text \<open>
  A heartbeat keeps a draining worker draining, but a worker that falls silent while it drains is
  taken offline, and its next heartbeat puts it back online: the operator's drain is forgotten.
\<close>

lemma drain_forgotten:
  assumes "w \<in> set (workers db)" "wr_state w = ''draining''" "wr_heartbeat w < now - intervalOf after" "rp_Healthy rep" "worker_inv db"
  shows "\<exists>db'. worker_Heartbeat later (fst (MarkStaleOffline now db after)) (wr_id w) rep = Inr (db', StateOnline)"
proof -
  have "w\<lparr>wr_state := ''offline''\<rparr> \<in> set (workers (fst (MarkStaleOffline now db after)))"
    using sql_updateI [OF assms(1), of "stale_worker now after" "\<lambda>w. w\<lparr>wr_state := ''offline''\<rparr>"] assms(2,3)
    by (simp add: MarkStaleOffline_def stale_worker_def)
  moreover have "worker_inv (fst (MarkStaleOffline now db after))" using assms(5) step_sweep by (rule worker_sys.step_inv)
  ultimately have "sql_find (\<lambda>x. wr_id x = wr_id w) (workers (fst (MarkStaleOffline now db after))) = Some (w\<lparr>wr_state := ''offline''\<rparr>)"
    by (intro sql_find_key [where k = wr_id]) (auto simp: worker_inv_def)
  then show ?thesis using assms(4) by (simp add: worker_Heartbeat_def heartbeat_state_def StateOnline_def)
qed

lemma drain_survives_heartbeats:
  "worker_Heartbeat now db i rep = Inr (db', st) \<Longrightarrow> sql_find (\<lambda>w. wr_id w = i) (workers db) = Some w \<Longrightarrow>
   wr_state w = ''draining'' \<Longrightarrow> st = StateDraining"
  by (auto simp: worker_Heartbeat_def heartbeat_state_def StateDraining_def)

end
