(* ===== verification/Server_System.thy ===== *)
theory Server_System
  imports Routes Job_System Media_Invariant Artifact_Properties Worker_Properties
begin

text \<open>
  The server as a transition system: requests, the two sweepers, keys issued or revoked by an operator,
  and an object store that changes on its own. Every step of it is made of steps of the component
  systems, so what the components promise holds of the running server.
\<close>

section \<open>Component moves\<close>

definition server_moves :: "'st Deps \<Rightarrow> 'st server_db \<Rightarrow> 'st server_db \<Rightarrow> bool" where
  "server_moves d db db' \<longleftrightarrow>
     job_step\<^sup>*\<^sup>* (sv_jobs db) (sv_jobs db') \<and>
     (media_step (dp_Uploads d))\<^sup>*\<^sup>* (sv_store db, sv_media db) (sv_store db', sv_media db') \<and>
     artifact_step\<^sup>*\<^sup>* (sv_artifacts db) (sv_artifacts db') \<and>
     worker_step\<^sup>*\<^sup>* (sv_workers db) (sv_workers db')"

named_theorems server_moves_intro

lemma server_moves_refl [simp, intro]: "server_moves d db db"
  by (simp add: server_moves_def)

lemma server_moves_trans: "server_moves d db db1 \<Longrightarrow> server_moves d db1 db2 \<Longrightarrow> server_moves d db db2"
  by (meson server_moves_def rtranclp_trans)

lemma server_moves_jobs [server_moves_intro]:
  "job_step (sv_jobs db) js \<Longrightarrow> server_moves d db (db\<lparr>sv_jobs := js\<rparr>)"
  by (simp add: server_moves_def r_into_rtranclp)

lemma server_moves_workers [server_moves_intro]:
  "worker_step (sv_workers db) ws \<Longrightarrow> server_moves d db (db\<lparr>sv_workers := ws\<rparr>)"
  by (simp add: server_moves_def r_into_rtranclp)

lemma server_moves_artifacts [server_moves_intro]:
  "artifact_step (sv_artifacts db) as \<Longrightarrow> server_moves d db (db\<lparr>sv_artifacts := as\<rparr>)"
  by (simp add: server_moves_def r_into_rtranclp)

lemma server_moves_media [server_moves_intro]:
  "media_step (dp_Uploads d) (sv_store db, sv_media db) (st, mdb) \<Longrightarrow>
   server_moves d db (db\<lparr>sv_store := st, sv_media := mdb\<rparr>)"
  "media_step (dp_Uploads d) (sv_store db, sv_media db) (sv_store db, mdb) \<Longrightarrow> server_moves d db (db\<lparr>sv_media := mdb\<rparr>)"
  by (simp_all add: server_moves_def r_into_rtranclp)

lemma server_moves_other [simp, intro]:
  "server_moves d db (db\<lparr>sv_auth := a\<rparr>)" "server_moves d db (db\<lparr>sv_pipelines := ps\<rparr>)"
  by (simp_all add: server_moves_def)

lemma server_moves_pipelines_jobs [server_moves_intro]:
  "job_step (sv_jobs db) js \<Longrightarrow> server_moves d db (db\<lparr>sv_pipelines := ps, sv_jobs := js\<rparr>)"
  by (simp add: server_moves_def r_into_rtranclp)

section \<open>Handlers\<close>

lemmas handler_splits = option.splits sum.splits prod.splits if_splits req_body.splits
  job_error.splits worker_error.splits artifact_error.splits asset_error.splits upload_error.splits pipeline_error.splits

lemma worker_handlers_move:
  "handleWorkerRegister e d db h body = (db', r) \<Longrightarrow> server_moves d db db'"
  "handleWorkerHeartbeat e d db h body = (db', r) \<Longrightarrow> server_moves d db db'"
  by (auto simp: handleWorkerRegister_def handleWorkerHeartbeat_def split: handler_splits
      intro!: server_moves_intro intro: step_enrol step_heartbeat)

lemma lease_moves:
  "handleWorkerLease e d db h = (db', r) \<Longrightarrow> server_moves d db db'"
  by (auto simp: handleWorkerLease_def split: handler_splits intro!: server_moves_intro intro: job_step.lease)

lemma started_moves_server:
  "handleWorkerStarted e d db h att = (db', r) \<Longrightarrow> server_moves d db db'"
  by (auto simp: handleWorkerStarted_def split: handler_splits intro!: server_moves_intro intro: job_step.start)

lemma progress_moves:
  "handleWorkerProgress e d db h att body = (db', r) \<Longrightarrow> server_moves d db db'"
  by (auto simp: handleWorkerProgress_def split: handler_splits intro!: server_moves_intro intro: job_step.progress)

lemma register_artifact_moves:
  "handleRegisterArtifact e d db h att body = (db', r) \<Longrightarrow> server_moves d db db'"
  by (auto simp: handleRegisterArtifact_def split: handler_splits intro!: server_moves_intro intro: step_register)

lemma record_validation_steps: "artifact_step\<^sup>*\<^sup>* adb (record_validation e c res adb)"
  by (auto simp: record_validation_def split: option.splits sum.splits intro!: r_into_rtranclp step_validation)

lemma close_set_steps: "artifact_step\<^sup>*\<^sup>* adb (close_set e c adb)"
  by (auto simp: close_set_def split: option.splits job_state.splits
      intro!: r_into_rtranclp step_mark_complete step_mark_failed)

lemma record_probe_steps: "(media_step store)\<^sup>*\<^sup>* (st, mdb) (st, record_probe e c res mdb)"
  by (auto simp: record_probe_def split: sum.splits prod.splits intro!: r_into_rtranclp step_probe)

definition completed_db :: "Env \<Rightarrow> 'st server_db \<Rightarrow> job_db \<Rightarrow> Completion \<Rightarrow> Result \<Rightarrow> 'st server_db" where
  "completed_db e db js c res = db\<lparr>sv_jobs := js, sv_media := record_probe e c res (sv_media db),
     sv_artifacts := close_set e c (record_validation e c res (sv_artifacts db))\<rparr>"

lemma handleWorkerComplete_cases:
  assumes "handleWorkerComplete e d db h att body = (db', r)"
  obtains "db' = db"
  | aid wid res js c where "job_Complete (en_now e) (sv_jobs db) aid wid res = Inr (js, c)" "db' = completed_db e db js c res"
proof (cases "workerAttempt d db h att")
  case (Inr wa)
  obtain wk aid where wa: "wa = (wk, aid)" by (cases wa)
  show thesis
  proof (cases "\<exists>res js c. body = ResultBody res \<and> job_Complete (en_now e) (sv_jobs db) aid (wk_ID wk) res = Inr (js, c)")
    case True
    then obtain res js c where fin: "body = ResultBody res" "job_Complete (en_now e) (sv_jobs db) aid (wk_ID wk) res = Inr (js, c)"
      by blast
    have "db' = completed_db e db js c res"
      using assms by (simp add: handleWorkerComplete_def Inr wa fin completed_db_def)
    with fin(2) show thesis by (rule that(2))
  next
    case False
    have "db' = db"
      using assms False by (auto simp: handleWorkerComplete_def Inr wa split: req_body.splits sum.splits job_error.splits)
    then show thesis by (rule that(1))
  qed
next
  case (Inl r0)
  have "db' = db" using assms by (simp add: handleWorkerComplete_def Inl)
  then show thesis by (rule that(1))
qed

lemma complete_moves:
  assumes "handleWorkerComplete e d db h att body = (db', r)"
  shows "server_moves d db db'"
  using assms
proof (cases rule: handleWorkerComplete_cases)
  case (2 aid wid res js c)
  then have "job_step (sv_jobs db) js" by (intro job_step.complete)
  then show ?thesis unfolding server_moves_def 2(2) completed_db_def
    using rtranclp_trans [OF record_validation_steps close_set_steps] record_probe_steps
    by (simp add: r_into_rtranclp)
qed simp

lemma asset_moves:
  "handleCreateAsset e db p body = (db', r) \<Longrightarrow> server_moves d db db'"
  by (auto simp: handleCreateAsset_def split: handler_splits intro!: server_moves_intro intro: step_asset)

lemma upload_moves:
  "handleCreateUpload e d db p seg body = (db', r) \<Longrightarrow> server_moves d db db'"
  "handleCompleteUpload e d db p seg = (db', r) \<Longrightarrow> server_moves d db db'"
  "handleAbortUpload d db p seg = (db', r) \<Longrightarrow> server_moves d db db'"
proof -
  show "handleCreateUpload e d db p seg body = (db', r) \<Longrightarrow> server_moves d db db'"
    by (auto simp: handleCreateUpload_def Let_def split: option.splits prod.splits if_splits req_body.splits
        intro!: server_moves_intro intro: step_create)
  show "handleCompleteUpload e d db p seg = (db', r) \<Longrightarrow> server_moves d db db'"
    by (auto simp: handleCompleteUpload_def split: option.splits prod.splits intro!: server_moves_intro intro: step_complete)
  show "handleAbortUpload d db p seg = (db', r) \<Longrightarrow> server_moves d db db'"
    by (auto simp: handleAbortUpload_def split: option.splits prod.splits intro!: server_moves_intro intro: step_abort)
qed

lemma create_job_moves:
  "handleCreateJob e d db p body = (db', r) \<Longrightarrow> server_moves d db db'"
  by (auto simp: handleCreateJob_def Let_def split: handler_splits intro!: server_moves_intro intro: job_step.create)

lemma cancel_job_moves:
  "handleCancelJob e d db p seg = (db', r) \<Longrightarrow> server_moves d db db'"
  by (auto simp: handleCancelJob_def split: handler_splits intro!: server_moves_intro intro: job_step.cancel)

lemma set_state_moves:
  "handleSetWorkerState d db seg body = (db', r) \<Longrightarrow> server_moves d db db'"
  by (auto simp: handleSetWorkerState_def split: handler_splits intro!: server_moves_intro intro: step_set_state)

lemma v1_handler_moves: "v1_handler e d db p rq seg ep = (db', r) \<Longrightarrow> server_moves d db db'"
  by (cases ep) (auto intro: asset_moves upload_moves create_job_moves cancel_job_moves set_state_moves)

lemma outer_handler_moves: "outer_handler e d db rq vs ep = (db', r) \<Longrightarrow> server_moves d db db'"
  by (cases ep) (auto intro: worker_handlers_move lease_moves started_moves_server progress_moves
      register_artifact_moves complete_moves)

lemma v1_mux_moves: "v1_mux e d db p rq = (db', r) \<Longrightarrow> server_moves d db db'"
  by (auto simp: v1_mux_def split: option.splits prod.splits if_splits intro: v1_handler_moves)

lemma Handler_moves:
  assumes "Handler e d db rq = (db', r)"
  shows "server_moves d db db'"
  using assms server_moves_trans [OF server_moves_other(1) v1_mux_moves]
  by (auto simp: Handler_def split: if_splits sum.splits prod.splits option.splits intro: outer_handler_moves)

section \<open>The system\<close>

definition server_empty :: "'st \<Rightarrow> 'st server_db" where
  "server_empty st = \<lparr>sv_auth = \<lparr>tenants = [], api_keys = []\<rparr>, sv_media = media_empty,
     sv_pipelines = \<lparr>pipelines = [], pipeline_versions = []\<rparr>, sv_jobs = job_empty, sv_workers = worker_empty,
     sv_artifacts = artifact_empty, sv_store = st\<rparr>"

inductive server_step :: "'st Deps \<Rightarrow> 'st server_db \<Rightarrow> 'st server_db \<Rightarrow> bool" for d where
  step_request: "Handler e d db rq = (db', r) \<Longrightarrow> server_step d db db'"
| step_sweep_leases: "ExpireLeases now locked (sv_jobs db) limit = Inr (js, xs) \<Longrightarrow> server_step d db (db\<lparr>sv_jobs := js\<rparr>)"
| step_sweep_workers: "server_step d db (db\<lparr>sv_workers := fst (MarkStaleOffline now (sv_workers db) after)\<rparr>)"
| step_objects: "server_step d db (db\<lparr>sv_store := st\<rparr>)"
| step_keys: "server_step d db (db\<lparr>sv_auth := adb\<rparr>)"

lemma server_step_moves: "server_step d db db' \<Longrightarrow> server_moves d db db'"
proof (induction rule: server_step.induct)
  case (step_objects db st)
  have "media_step (dp_Uploads d) (sv_store db, sv_media db) (st, sv_media db)" by (rule step_store)
  then show ?case by (simp add: server_moves_def r_into_rtranclp)
qed (auto intro: Handler_moves server_moves_intro job_step.expire step_sweep)

definition server_reachable :: "'st Deps \<Rightarrow> 'st server_db \<Rightarrow> bool" where
  "server_reachable d db \<longleftrightarrow> (\<exists>st. (server_step d)\<^sup>*\<^sup>* (server_empty st) db)"

lemma server_steps_move: "(server_step d)\<^sup>*\<^sup>* db db' \<Longrightarrow> server_moves d db db'"
  by (induction rule: rtranclp_induct) (auto intro: server_moves_trans server_step_moves)

end
