(* ===== verification/Playback_Properties.thy ===== *)
theory Playback_Properties
  imports Playback Artifact_Properties
begin

text \<open>
  What a playback link is worth: it is read back as it was minted until it expires, it cannot be made
  without the key, and it reaches the objects of one finished job of one tenant and nothing else.
\<close>

section \<open>Tokens\<close>

lemma go_Cut_dot: "CHR ''.'' \<notin> set b \<Longrightarrow> go_Cut (b @ ''.'' @ s) ''.'' = (b, s, True)"
  by (induction b) (auto simp: HasPrefix_def)

lemma go_Cut_found: "go_Cut s p = (b, a, True) \<Longrightarrow> s = b @ p @ a"
proof (induction s arbitrary: b)
  case (Cons c s)
  show ?case
  proof (cases "HasPrefix (c # s) p")
    case True
    then have "p @ drop (length p) (c # s) = c # s" unfolding HasPrefix_def by (metis append_take_drop_id)
    then show ?thesis using Cons.prems True by auto
  next
    case False
    then show ?thesis using Cons by (auto split: prod.splits)
  qed
qed (auto split: if_splits)

lemma url_no_dot: "list_all url_char s \<Longrightarrow> CHR ''.'' \<notin> set s"
  by (auto simp: list_all_iff url_char_def is_upper_def is_lower_def is_digit_def)

lemma uuid_ascii: "ascii (uuid_String u)"
  using uuid_String_chars [of _ u] by (force simp: ascii_def list_all_iff is_digit_def is_lower_def)

lemma claims_read_back:
  assumes "parseUUID (uuid_String (cl_ArtifactSetID c)) = Some (cl_ArtifactSetID c)"
    and "parseUUID (uuid_String (cl_TenantID c)) = Some (cl_TenantID c)" "is_int64 (JInt (cl_ExpiresAt c))"
  shows "claims_of_text parseUUID (json_text (claims_json c)) = Some c"
proof -
  have names: "ascii ''s''" "ascii ''t''" "ascii ''e''" "ToLower ''s'' = ''s''" "ToLower ''t'' = ''t''" "ToLower ''e'' = ''e''"
    by code_simp+
  have "json_parse (json_text (claims_json c)) = Some (claims_json c)"
    using names uuid_ascii by (intro json_round_trip) (simp_all add: claims_json_def maxNestingDepth_def)
  then show ?thesis using assms names
    by (simp add: claims_of_text_def claims_json_def claims_typed_def json_field_def del: is_int64.simps)
qed

lemma Verify_signed:
  assumes "CHR ''.'' \<notin> set body" "body \<noteq> []"
  shows "Verify parseUUID now key (body @ ''.'' @ token_sign key body) =
    (case b64_decode body of
       None \<Rightarrow> Inl ErrInvalidToken
     | Some payload \<Rightarrow>
         (case claims_of_text parseUUID payload of
            None \<Rightarrow> Inl ErrInvalidToken
          | Some claims \<Rightarrow>
              if cl_ArtifactSetID claims = uuid_Nil \<or> cl_TenantID claims = uuid_Nil then Inl ErrInvalidToken
              else if now > cl_ExpiresAt claims * second then Inl ErrExpired
              else Inr claims))"
proof -
  have "token_sign key body \<noteq> []" by (simp add: token_sign_def hmac_sha256_def)
  then show ?thesis using assms go_Cut_dot [of body "token_sign key body"] by (simp add: Verify_def)
qed

lemma Verify_accepted:
  assumes "Verify parseUUID now key token = Inr c"
  shows "\<exists>body payload. token = body @ ''.'' @ token_sign key body \<and> b64_decode body = Some payload \<and>
    claims_of_text parseUUID payload = Some c \<and> cl_ArtifactSetID c \<noteq> uuid_Nil \<and> cl_TenantID c \<noteq> uuid_Nil \<and>
    now \<le> cl_ExpiresAt c * second"
proof -
  obtain b s where cut: "go_Cut token ''.'' = (b, s, True)" "s = token_sign key b"
    using assms by (auto simp: Verify_def Let_def split: prod.splits if_splits)
  have "token = b @ ''.'' @ s" using go_Cut_found [OF cut(1)] .
  moreover have "\<exists>payload. b64_decode b = Some payload \<and> claims_of_text parseUUID payload = Some c \<and>
      cl_ArtifactSetID c \<noteq> uuid_Nil \<and> cl_TenantID c \<noteq> uuid_Nil \<and> now \<le> cl_ExpiresAt c * second"
    using assms cut by (auto simp: Verify_def Let_def split: option.splits if_splits)
  ultimately show ?thesis using cut(2) by blast
qed

lemma minted_link:
  assumes "parseUUID (uuid_String setID) = Some setID" "parseUUID (uuid_String tenantID) = Some tenantID"
    and "setID \<noteq> uuid_Nil" "tenantID \<noteq> uuid_Nil" "0 \<le> now + ttl" "now + ttl < 2 ^ 63"
  shows "Verify parseUUID now' key (fst (Mint now key setID tenantID ttl)) =
      (if now' > (now + ttl) div second * second then Inl ErrExpired
       else Inr \<lparr>cl_ArtifactSetID = setID, cl_TenantID = tenantID, cl_ExpiresAt = (now + ttl) div second\<rparr>)"
proof -
  let ?c = "\<lparr>cl_ArtifactSetID = setID, cl_TenantID = tenantID, cl_ExpiresAt = (now + ttl) div second\<rparr>"
  let ?body = "b64_encode (json_text (claims_json ?c))"
  have "0 \<le> (now + ttl) div second" "(now + ttl) div second \<le> now + ttl"
    using assms(5) div_by_1 zdiv_mono2 [of "now + ttl" 1 second] by (simp_all add: second_def pos_imp_zdiv_nonneg_iff)
  then have "is_int64 (JInt (cl_ExpiresAt ?c))" using assms(6) by (simp add: min_int64_def max_int64_def)
  then have "claims_of_text parseUUID (json_text (claims_json ?c)) = Some ?c"
    using assms(1,2) by (intro claims_read_back) simp_all
  moreover have "?body \<noteq> []" by (simp add: claims_json_def)
  moreover have "fst (Mint now key setID tenantID ttl) = ?body @ ''.'' @ token_sign key ?body" by (simp add: Mint_def Let_def)
  ultimately show ?thesis
    using Verify_signed [OF url_no_dot [OF b64_encode_url], of "json_text (claims_json ?c)"] assms(3,4) b64_round_trip by simp
qed

text \<open>
  C38. A link says what was asked for and cannot be altered: a minted token is read back as exactly the
  artifact set and tenant it was minted for until the second it expires in, and from then on is
  answered as expired; and whatever token is accepted consists of a text and that text's own HMAC
  under the server's key, is in date, and its claims are those written in the signed text.
\<close>

theorem link_round_trip:
  assumes "parseUUID (uuid_String setID) = Some setID" "parseUUID (uuid_String tenantID) = Some tenantID"
    and "setID \<noteq> uuid_Nil" "tenantID \<noteq> uuid_Nil" "0 \<le> now + ttl" "now + ttl < 2 ^ 63"
  shows "Verify parseUUID now' key (fst (Mint now key setID tenantID ttl)) =
      (if now' > (now + ttl) div second * second then Inl ErrExpired
       else Inr \<lparr>cl_ArtifactSetID = setID, cl_TenantID = tenantID, cl_ExpiresAt = (now + ttl) div second\<rparr>) \<and>
    (\<forall>token c. Verify parseUUID now' key token = Inr c \<longrightarrow>
       (\<exists>body payload. token = body @ ''.'' @ token_sign key body \<and> b64_decode body = Some payload \<and>
          claims_of_text parseUUID payload = Some c \<and> now' \<le> cl_ExpiresAt c * second))"
  using minted_link [OF assms] Verify_accepted by blast

theorem link_round_trip_witness:
  "Verify (\<lambda>s. List.find (\<lambda>u. uuid_String u = s) [7, 4]) 5 ''key'' (fst (Mint 5 ''key'' 7 4 (60 * second))) =
     Inr \<lparr>cl_ArtifactSetID = 7, cl_TenantID = 4, cl_ExpiresAt = 60\<rparr>"
proof -
  have "uuid_String 7 \<noteq> uuid_String 4" by code_simp
  then have "List.find (\<lambda>u. uuid_String u = uuid_String 7) [7, 4] = Some 7" "List.find (\<lambda>u. uuid_String u = uuid_String 4) [7, 4] = Some 4"
    by simp_all
  then show ?thesis
    using link_round_trip [of "\<lambda>s. List.find (\<lambda>u. uuid_String u = s) [7, 4]" 7 4 5 "60 * second" 5 "''key''"]
    by (simp add: uuid_Nil_def second_def del: List.find.simps)
qed

section \<open>Confinement\<close>

lemma SafeFile_no_slash: "SafeFile f \<Longrightarrow> CHR ''/'' \<notin> set f"
  using segment_no_slash by (auto simp: SafeFile_def split: if_splits)

lemma resolve_cong:
  assumes "\<And>f. SafeFile f \<Longrightarrow> sign (prefix @ ''/'' @ f) ttl = sign' (prefix @ ''/'' @ f) ttl"
  shows "resolve sign ttl token prefix name = resolve sign' ttl token prefix name"
  unfolding resolve_def using assms [of name] by simp

lemma RewriteHLS_cong:
  assumes "\<And>f. SafeFile f \<Longrightarrow> sign (prefix @ ''/'' @ f) ttl = sign' (prefix @ ''/'' @ f) ttl"
  shows "RewriteHLS sign ttl token prefix body = RewriteHLS sign' ttl token prefix body"
proof -
  note same = resolve_cong [where sign = sign and sign' = sign', OF assms]
  have "hls_loop sign ttl token prefix ls out = hls_loop sign' ttl token prefix ls out" for ls out
    by (induction ls arbitrary: out) (simp_all add: Let_def rewriteURIAttribute_def same split: sum.split)
  then show ?thesis by (simp add: RewriteHLS_def)
qed

lemma RewriteVTT_cong:
  assumes "\<And>f. SafeFile f \<Longrightarrow> sign (prefix @ ''/'' @ f) ttl = sign' (prefix @ ''/'' @ f) ttl"
  shows "RewriteVTT sign ttl prefix body = RewriteVTT sign' ttl prefix body"
proof -
  have "vtt_loop sign ttl prefix cache ls out = vtt_loop sign' ttl prefix cache ls out" for cache ls out
    using assms by (induction ls arbitrary: cache out) (auto simp: Let_def split: prod.split option.split sum.split)
  then show ?thesis by (simp add: RewriteVTT_def)
qed

lemma set_prefix_parts:
  assumes "artifact_reachable db" "artifact_Set db t sid = Inr s"
  shows "set_Prefix s = ''t/'' @ uuid_String t @ ''/jobs/'' @ uuid_String (set_JobID s) @ ''/v1''"
proof -
  obtain r where "r \<in> set (a_sets db)" "s_tenant r = t" "s = scan_set r []"
    using assms(2) by (auto simp: artifact_Set_def dest!: sql_find_SomeD split: option.splits)
  then show ?thesis using artifact_reachable_inv [OF assms(1)]
    by (auto simp: artifact_inv_def sets_ok_def set_row_ok_def scan_set_def)
qed

lemma object_below_prefix:
  assumes "artifact_reachable db" "artifact_Set db t sid = Inr s" "SafeFile f"
  shows "path_parts (set_Prefix s @ ''/'' @ f) = [''t'', uuid_String t, ''jobs'', uuid_String (set_JobID s), ''v1'', f]"
  unfolding set_prefix_parts [OF assms(1,2)] path_parts_def
  using SafeFile_no_slash [OF assms(3)] by (simp add: split_on_step split_on_free)



end
