(* ===== verification/Delivery.thy ===== *)
theory Delivery
  imports Server_System Playback_Properties
begin

text \<open>
  What viewers can be given: a set of outputs is delivered only after its job succeeded. This spans the
  job tables, the artifact tables and the completion handler that connects them.
\<close>

section \<open>A job that succeeded stays so\<close>

definition task_keys :: "job_db \<Rightarrow> (uuid \<times> uuid) list" where
  "task_keys db = map (\<lambda>t. (t_id t, t_job t)) (tasks db)"

lemma task_keys_update:
  assumes "tasks db' = sql_update P f (tasks db)" "keeps_task f"
  shows "task_keys db' = task_keys db"
  unfolding task_keys_def assms(1) by (rule map_sql_update_same) (use assms(2) in \<open>simp add: keeps_task_def\<close>)

lemma task_keys_same: "tasks db' = tasks db \<Longrightarrow> task_keys db' = task_keys db"
  by (simp add: task_keys_def)

lemma job_keys_same: "jobs db' = jobs db \<Longrightarrow> job_keys db' = job_keys db"
  by (simp add: job_keys_def)

lemma job_keys_update:
  assumes "jobs db' = sql_update P f (jobs db)" "\<And>j. j_id (f j) = j_id j \<and> j_tenant (f j) = j_tenant j"
  shows "job_keys db' = job_keys db"
  unfolding job_keys_def assms(1) by (rule map_sql_update_same) (use assms(2) in simp)

definition same_keys :: "job_db \<Rightarrow> job_db \<Rightarrow> bool" where
  "same_keys db db' \<longleftrightarrow> task_keys db' = task_keys db \<and> job_keys db' = job_keys db"

lemma same_keys_reconcile [simp]: "same_keys db (reconcileJob now db' ten jid) = same_keys db db'"
  by (simp add: same_keys_def task_keys_def)

lemma expire_one_keys:
  assumes "expire_one now db r = Inr (db', x)"
  shows "same_keys db db'"
proof -
  have "same_keys db (expire_attempt now db i)" for i
    by (simp add: same_keys_def expire_attempt_def task_keys_def job_keys_def)
  moreover have "same_keys db (requeue_task now (expire_attempt now db i) tid to)" for i tid to
    unfolding same_keys_def
    by (intro conjI job_keys_same task_keys_update [where P = "\<lambda>t. t_id t = tid"])
      (auto simp: requeue_task_def expire_attempt_def keeps_task_def)
  ultimately show ?thesis using assms by (auto simp: expire_one_def Let_def split: if_splits option.splits)
qed

lemma expire_loop_keys: "expire_loop now db rs = Inr (db', xs) \<Longrightarrow> same_keys db db'"
proof (induction rs arbitrary: db xs)
  case Nil
  then show ?case by (simp add: same_keys_def)
next
  case (Cons r rs)
  then obtain db1 x ys where "expire_one now db r = Inr (db1, x)" "expire_loop now db1 rs = Inr (db', ys)"
    by (auto split: sum.splits prod.splits)
  then show ?case using expire_one_keys Cons.IH by (fastforce simp: same_keys_def)
qed

text \<open>Only creating a job adds tasks, and it adds them to the new job.\<close>

lemma job_step_keys:
  assumes "job_step db db'" "job_inv db"
  shows "same_keys db db' \<or> (\<exists>row rows. jobs db' = jobs db @ [row] \<and> tasks db' = tasks db @ rows \<and>
    j_id row \<notin> j_id ` set (jobs db) \<and> (\<forall>t \<in> set rows. t_job t = j_id row))"
  using assms
proof (induction rule: job_step.induct)
  case (create now fresh db ten ver pv key prio ts db' j)
  show ?case
  proof (cases "db' = db")
    case False
    have d: "distinct (map t_id (tasks db))" using create(2) by (simp add: job_inv_parts)
    obtain row rows where rows: "db' = db\<lparr>jobs := jobs db @ [row], tasks := tasks db @ rows\<rparr>"
      "j_id row \<notin> j_id ` set (jobs db)" "rows = graph_rows now fresh ten (j_id row) prio ts"
      by (rule job_Create_Inr [OF create(1) False d])
    have "t_job (new_task_row now ids ten jid prio t) = jid" for ids jid t by (simp add: new_task_row_def Let_def)
    then have "\<forall>t \<in> set rows. t_job t = j_id row" by (auto simp: rows(3) graph_rows_def)
    then show ?thesis using rows(1,2) by (intro disjI2 exI [of _ row] exI [of _ rows]) simp
  qed (simp add: same_keys_def)
next
  case (lease now aid quota locked db w ttl db' a)
  from lease(1) show ?case
  proof (rule job_Lease_Inr)
    fix t reason assume eq: "db' = leased_db now db t (new_attempt now a (w_ID w) ttl reason)"
    let ?m = "mark_leased db (t_id t) (t_attempt_count t + 1)"
    have "task_keys ?m = task_keys db"
      by (rule task_keys_update [where P = "\<lambda>x. t_id x = t_id t"]) (auto simp: mark_leased_def keeps_task_def)
    then show ?thesis by (simp add: eq leased_db_def) (simp add: same_keys_def task_keys_def job_keys_def mark_leased_def)
  qed
next
  case (start now db aid wid ttl db' u)
  from start(2,1) show ?case
  proof (rule job_Start_Inr)
    fix a t
    assume "t_state t = TaskCancelled \<and> db' = closeAttemptCancelled now db aid \<or>
      t_state t = TaskLeased \<and> a_state a = AttemptLeased \<and> db' = started_db now ttl db aid (t_id t)"
    moreover have "task_keys (started_db now ttl db aid (t_id t)) = task_keys db"
      by (rule task_keys_update [where P = "\<lambda>x. t_id x = t_id t"]) (auto simp: started_db_def keeps_task_def)
    ultimately show ?thesis
      by (auto simp: same_keys_def closeAttemptCancelled_def started_db_def job_keys_def task_keys_def)
  qed
next
  case (progress now db aid wid pct ttl db' c)
  have "jobs db' = jobs db \<and> tasks db' = tasks db" by (rule job_Progress_Inr [OF progress(2,1)]) auto
  then show ?case by (simp add: same_keys_def task_keys_def job_keys_def)
next
  case (complete now db aid wid res db' c)
  from complete(2,1) show ?case
  proof (cases rule: job_Complete_Inr)
    case (cancelled a t)
    then show ?thesis by (simp add: same_keys_def closeAttemptCancelled_def task_keys_def job_keys_def)
  next
    case (succeeded a t)
    let ?s = "succeeded_db now db a t res"
    have "task_keys ?s = task_keys db"
      by (rule task_keys_update [OF succeeded_db_simps(1)]) (simp add: keeps_task_def)
    moreover have "task_keys (releaseDependents now ?s (t_job t) (t_id t)) = task_keys ?s"
      by (rule task_keys_update [OF tasks_releaseDependents]) (simp add: keeps_task_def)
    moreover have "job_keys (releaseDependents now ?s (t_job t) (t_id t)) = job_keys db"
      by (rule job_keys_same) (simp add: releaseDependents_def succeeded_db_def finish_attempt_def Let_def)
    ultimately have "same_keys db (releaseDependents now ?s (t_job t) (t_id t))" by (simp add: same_keys_def)
    then show ?thesis using succeeded by simp
  next
    case (failed a t r)
    have "task_keys (failed_db now db a t res r) = task_keys db"
      by (rule task_keys_update [OF failed_db_simps(1) keeps_settle])
    moreover have "job_keys (failed_db now db a t res r) = job_keys db"
      by (rule job_keys_same) (simp add: failed_db_def settle_task_def finish_attempt_def)
    ultimately have "same_keys db (failed_db now db a t res r)" by (simp add: same_keys_def)
    then show ?thesis using failed by simp
  qed
next
  case (cancel now db ten jid db')
  let ?open = "\<lambda>t. t_job t = jid \<and> t_state t \<in> {TaskPending, TaskQueued, TaskLeased, TaskRunning}"
  have "db' = db \<or> tasks db' = sql_update ?open (\<lambda>t. t\<lparr>t_state := TaskCancelled, t_finished := Some now\<rparr>) (tasks db) \<and>
      jobs db' = sql_update (\<lambda>r. j_id r = jid) (\<lambda>r. r\<lparr>j_state := JobCancelled, j_finished := Some now\<rparr>) (jobs db)"
    using cancel(1) by (auto simp: job_Cancel_def split: option.splits if_splits)
  then show ?case
    using task_keys_update [of db' ?open _ db] job_keys_update [of db' "\<lambda>r. j_id r = jid" _ db]
    by (auto simp: same_keys_def keeps_task_def)
next
  case (expire now locked db limit db' xs)
  then show ?case using expire_loop_keys unfolding ExpireLeases_def by blast
qed

definition job_done :: "job_db \<Rightarrow> uuid \<Rightarrow> uuid \<Rightarrow> bool" where
  "job_done db ten jid \<longleftrightarrow> (\<exists>j \<in> set (jobs db). j_id j = jid \<and> j_tenant j = ten \<and> j_state j = JobSucceeded)"

lemma job_done_tasks:
  assumes "job_inv db" "job_done db ten jid" "t \<in> set (tasks db)" "t_job t = jid"
  shows "t_state t = TaskSucceeded"
proof -
  have "derived_state (job_tasks db jid) = JobSucceeded" using assms(1,2) by (auto simp: job_done_def job_inv_def jobs_ok_def)
  then show ?thesis using assms(3,4) by (auto simp: derived_cases job_tasks_def split: if_splits)
qed

lemma job_done_step:
  assumes step: "job_step db db'" and inv: "job_inv db" and fin: "job_done db ten jid"
  shows "job_done db' ten jid"
proof -
  have inv': "job_inv db'" using job_step_inv step inv by blast
  obtain j where j: "j \<in> set (jobs db)" "j_id j = jid" "j_tenant j = ten" using fin by (auto simp: job_done_def)
  have keys: "\<exists>j' \<in> set (jobs db'). j_id j' = jid \<and> j_tenant j' = ten"
    "\<And>t'. t' \<in> set (tasks db') \<Longrightarrow> t_job t' = jid \<Longrightarrow> \<exists>t \<in> set (tasks db). t_id t = t_id t' \<and> t_job t = jid"
  proof -
    have "(jid, ten) \<in> set (job_keys db)" using j by (auto simp: job_keys_def)
    then have "(jid, ten) \<in> set (job_keys db')"
      using job_step_keys [OF step inv] j by (auto simp: same_keys_def) (auto simp: job_keys_def)
    then show "\<exists>j' \<in> set (jobs db'). j_id j' = jid \<and> j_tenant j' = ten" by (auto simp: job_keys_def)
    fix t' assume t': "t' \<in> set (tasks db')" "t_job t' = jid"
    then have "(t_id t', jid) \<in> set (task_keys db')" by (auto simp: task_keys_def)
    then have "(t_id t', jid) \<in> set (task_keys db)"
      using job_step_keys [OF step inv] t' j by (auto simp: same_keys_def) (auto simp: task_keys_def image_iff)
    then show "\<exists>t \<in> set (tasks db). t_id t = t_id t' \<and> t_job t = jid" by (auto simp: task_keys_def)
  qed
  have "t_state t' = TaskSucceeded" if t': "t' \<in> set (tasks db')" "t_job t' = jid" for t'
  proof -
    obtain t where t: "t \<in> set (tasks db)" "t_id t = t_id t'" "t_job t = jid" using keys(2) [OF t'] by blast
    have "t_state t = TaskSucceeded" by (rule job_done_tasks [OF inv fin t(1,3)])
    moreover obtain u where "u \<in> set (tasks db')" "t_id u = t_id t" "t_state u = t_state t \<or> \<not> task_IsTerminal (t_state t)"
      using job_step_moves [OF step inv] t(1) by (auto simp: task_moves_def)
    ultimately have "u \<in> set (tasks db')" "t_id u = t_id t'" "t_state u = TaskSucceeded" using t(2) by (auto simp: task_IsTerminal_def)
    then show ?thesis using same_task [OF inv' \<open>u \<in> set (tasks db')\<close> t'(1)] by auto
  qed
  then have "derived_state (job_tasks db' jid) = JobSucceeded" by (auto simp: derived_cases job_tasks_def)
  then show ?thesis using keys(1) inv' by (auto simp: job_done_def job_inv_def jobs_ok_def)
qed

lemma job_done_steps: "job_step\<^sup>*\<^sup>* db db' \<Longrightarrow> job_inv db \<Longrightarrow> job_done db ten jid \<Longrightarrow> job_done db' ten jid"
  by (induction rule: rtranclp_induct) (blast intro: job_done_step job_sys.steps_inv)+

section \<open>Sets are closed by the jobs they belong to\<close>

text \<open>Every complete set of \<open>adb'\<close> was one of \<open>adb\<close>, or its job has succeeded.\<close>

definition complete_from :: "artifact_db \<Rightarrow> artifact_db \<Rightarrow> job_db \<Rightarrow> bool" where
  "complete_from adb adb' js \<longleftrightarrow>
     (\<forall>s \<in> set (a_sets adb'). s_state s = ''complete'' \<longrightarrow> s \<in> set (a_sets adb) \<or> job_done js (s_tenant s) (s_job s))"

lemma complete_from_same [simp]: "a_sets adb' = a_sets adb \<Longrightarrow> complete_from adb adb' js"
  by (simp add: complete_from_def)

lemma Register_complete:
  assumes "artifact_inv adb" "Register now fresh head adb t j att reg = Inr (adb', a)"
  shows "complete_from adb adb' js"
  using assms
proof (cases rule: Register_cases)
  case (added adb1 s r)
  have "a_sets adb' = a_sets adb1" using added(2) by (auto simp: insert_artifact_def split: if_splits)
  then show ?thesis using added(1)
    by (auto simp: currentSet_def complete_from_def Let_def split: option.splits if_splits)
qed simp

lemma record_validation_sets [simp]: "a_sets (record_validation e c res adb) = a_sets adb"
  by (auto simp: record_validation_def validate_Record_def dest!: record_checks_only split: option.splits sum.splits)

lemma MarkFailed_complete: "complete_from adb (MarkFailed adb t j) js"
  by (auto simp: MarkFailed_def complete_from_def elim!: sql_updateE split: if_splits)

lemma MarkComplete_complete: "job_done js t j \<Longrightarrow> complete_from adb (MarkComplete now adb t j) js"
  by (auto simp: MarkComplete_def complete_from_def set_open_def elim!: sql_updateE split: if_splits)

lemma job_Complete_state:
  "job_Complete now db aid wid res = Inr (db', c) \<Longrightarrow> comp_JobState c = Some JobSucceeded \<Longrightarrow>
   job_done db' (comp_TenantID c) (comp_JobID c)"
  by (auto simp: job_Complete_def job_Get_def job_done_def scan_job_def dest!: sql_find_SomeD split: sum.splits option.splits)
    blast

lemma close_set_complete:
  assumes "job_Complete now db aid wid res = Inr (js, c)"
  shows "complete_from adb (close_set e c adb) js"
  using MarkFailed_complete MarkComplete_complete [OF job_Complete_state [OF assms]]
  by (auto simp: close_set_def split: option.splits job_state.splits)

section \<open>The invariant of the server\<close>

definition server_inv :: "'st server_db \<Rightarrow> bool" where
  "server_inv db \<longleftrightarrow> job_inv (sv_jobs db) \<and> media_inv (sv_media db) \<and> artifact_inv (sv_artifacts db) \<and> worker_inv (sv_workers db) \<and>
     (\<forall>s \<in> set (a_sets (sv_artifacts db)). s_state s = ''complete'' \<longrightarrow> job_done (sv_jobs db) (s_tenant s) (s_job s))"

lemma server_moves_inv:
  assumes mv: "server_moves d db db'" and inv: "server_inv db"
    and src: "complete_from (sv_artifacts db) (sv_artifacts db') (sv_jobs db')"
  shows "server_inv db'"
proof -
  have "job_inv (sv_jobs db')" "artifact_inv (sv_artifacts db')" "worker_inv (sv_workers db')" "media_inv (sv_media db')"
    using mv inv job_sys.steps_inv artifact_sys.steps_inv worker_sys.steps_inv
      media_sys.steps_inv [of "dp_Uploads d" "(sv_store db, sv_media db)" "(sv_store db', sv_media db')"]
    unfolding server_moves_def server_inv_def by auto
  moreover have "job_done (sv_jobs db') (s_tenant s) (s_job s)"
    if "s \<in> set (a_sets (sv_artifacts db'))" "s_state s = ''complete''" for s
    using that src mv inv job_done_steps [of "sv_jobs db" "sv_jobs db'"]
    unfolding server_moves_def server_inv_def complete_from_def by blast
  ultimately show ?thesis by (simp add: server_inv_def)
qed

text \<open>Handlers that leave the artifact tables alone.\<close>

lemma handlers_keep_artifacts:
  "handleWorkerRegister e d db h body = (db', r) \<Longrightarrow> sv_artifacts db' = sv_artifacts db"
  "handleWorkerHeartbeat e d db h body = (db', r) \<Longrightarrow> sv_artifacts db' = sv_artifacts db"
  "handleWorkerLease e d db h = (db', r) \<Longrightarrow> sv_artifacts db' = sv_artifacts db"
  "handleWorkerStarted e d db h att = (db', r) \<Longrightarrow> sv_artifacts db' = sv_artifacts db"
  "handleWorkerProgress e d db h att body = (db', r) \<Longrightarrow> sv_artifacts db' = sv_artifacts db"
  "handleCreateAsset e db p body = (db', r) \<Longrightarrow> sv_artifacts db' = sv_artifacts db"
  "handleCreateJob e d db p body = (db', r) \<Longrightarrow> sv_artifacts db' = sv_artifacts db"
  "handleCancelJob e d db p seg = (db', r) \<Longrightarrow> sv_artifacts db' = sv_artifacts db"
  "handleSetWorkerState d db seg body = (db', r) \<Longrightarrow> sv_artifacts db' = sv_artifacts db"
  by (auto simp: handleWorkerRegister_def handleWorkerHeartbeat_def handleWorkerLease_def handleWorkerStarted_def
      handleWorkerProgress_def handleCreateAsset_def handleCreateJob_def handleCancelJob_def handleSetWorkerState_def Let_def
      split: handler_splits)

lemma uploads_keep_artifacts:
  "handleCreateUpload e d db p seg body = (db', r) \<Longrightarrow> sv_artifacts db' = sv_artifacts db"
  "handleCompleteUpload e d db p seg = (db', r) \<Longrightarrow> sv_artifacts db' = sv_artifacts db"
  "handleAbortUpload d db p seg = (db', r) \<Longrightarrow> sv_artifacts db' = sv_artifacts db"
  by (auto simp: handleCreateUpload_def handleCompleteUpload_def handleAbortUpload_def Let_def
      split: option.splits prod.splits if_splits req_body.splits)

lemma v1_keeps_artifacts: "v1_mux e d db p rq = (db', r) \<Longrightarrow> sv_artifacts db' = sv_artifacts db"
proof -
  have "v1_handler e d db p rq seg ep = (db', r) \<Longrightarrow> sv_artifacts db' = sv_artifacts db" for seg ep
    by (cases ep) (auto dest: handlers_keep_artifacts uploads_keep_artifacts)
  then show "v1_mux e d db p rq = (db', r) \<Longrightarrow> sv_artifacts db' = sv_artifacts db"
    by (auto simp: v1_mux_def split: option.splits prod.splits if_splits)
qed

lemma outer_complete_from:
  assumes "outer_handler e d db rq vs ep = (db', r)" "server_inv db"
  shows "complete_from (sv_artifacts db) (sv_artifacts db') (sv_jobs db')"
proof (cases ep)
  case RegisterArtifactEP
  have inv: "artifact_inv (sv_artifacts db)" using assms(2) by (simp add: server_inv_def)
  show ?thesis using assms(1)
    by (auto simp: RegisterArtifactEP handleRegisterArtifact_def split: handler_splits intro: Register_complete [OF inv])
next
  case CompleteEP
  then have "handleWorkerComplete e d db (rq_auth rq) (hd_or_empty vs) (rq_body rq) = (db', r)" using assms(1) by simp
  then show ?thesis
  proof (cases rule: handleWorkerComplete_cases)
    case (2 aid wid res js c)
    have "complete_from (record_validation e c res (sv_artifacts db)) (close_set e c (record_validation e c res (sv_artifacts db))) js"
      using 2(1) by (rule close_set_complete)
    then show ?thesis by (simp add: 2(2) completed_db_def complete_from_def)
  qed simp
qed (use assms(1) in \<open>auto dest: handlers_keep_artifacts\<close>)

lemma Handler_complete_from:
  assumes "Handler e d db rq = (db', r)" "server_inv db"
  shows "complete_from (sv_artifacts db) (sv_artifacts db') (sv_jobs db')"
  using assms by (auto simp: Handler_def split: if_splits sum.splits prod.splits option.splits
      dest!: v1_keeps_artifacts intro: outer_complete_from)

interpretation server_sys: transition_system "\<lambda>db. \<exists>st. db = server_empty st" "server_step d" server_inv for d :: "'st Deps"
proof (unfold_locales, goal_cases)
  case (1 s)
  then show ?case using job_sys.init_inv [OF refl] worker_sys.init_inv [OF refl]
    by (auto simp: server_empty_def server_inv_def artifact_empty_def artifact_inv_def sets_ok_def artifacts_ok_def
        media_empty_def media_inv_def media_ids_ok_def)
next
  case (2 s t)
  have "complete_from (sv_artifacts s) (sv_artifacts t) (sv_jobs t)"
    using 2(2) by cases (use Handler_complete_from 2(1) in auto)
  with server_step_moves [OF 2(2)] 2(1) show ?case by (rule server_moves_inv)
qed

section \<open>Delivery\<close>

lemma playback_route:
  assumes "rq_method rq = ''GET''" "rq_path rq = [''playback'', token, file]"
  shows "List.find (route_match rq) outer_routes =
    (if token = [] \<or> file = [] then None else Some (route ''GET'' [Lit ''playback'', Wild, Wild] PlaybackEP))"
  using assms by (cases "token = []"; cases "file = []")
    (simp_all add: outer_routes_def route_match_def route_def method_match_def)

lemma playback_request:
  assumes "rq_method rq = ''GET''" "rq_path rq = [''playback'', token, file]"
  shows "Handler e d db rq =
    (if token = [] \<or> file = [] then (db, mux_miss rq outer_routes)
     else (db, playback_reply (handlePlayback (dp_parseUUID d) (en_now e * 1000) (dp_Playback d) (dp_PlaybackTTL d)
       (sv_artifacts db) (dp_Get d (sv_store db)) (dp_PresignGet d) token file)))"
  using playback_route [OF assms] assms(2)
  by (simp add: Handler_def behind_auth_def route_def route_values_def hd_or_empty_def)

text \<open>
  C40. Nothing is delivered before its job is done. In every history of the server, of requests in any
  order, sweeps, changes of the keys and of the object store, a playback request is answered only when
  the link was signed for an artifact set that exists for that tenant and is complete, and then the job
  of that set has succeeded, every task of it included: the encodes, their validation and the packaging.
\<close>

theorem delivered_only_after_success:
  assumes "server_inv db" "(server_step d)\<^sup>*\<^sup>* db db1"
    and "rq_method rq = ''GET''" "rq_path rq = [''playback'', token, file]" "Handler e d db1 rq = (db2, Answer code b)"
  shows "server_inv (server_empty st) \<and>
    (\<exists>c s. Verify (dp_parseUUID d) (en_now e * 1000) (dp_Playback d) token = Inr c \<and>
       s \<in> set (a_sets (sv_artifacts db1)) \<and> s_id s = cl_ArtifactSetID c \<and> s_tenant s = cl_TenantID c \<and>
       s_state s = ''complete'' \<and> job_done (sv_jobs db1) (s_tenant s) (s_job s) \<and>
       (\<forall>t \<in> set (tasks (sv_jobs db1)). t_job t = s_job s \<longrightarrow> t_state t = TaskSucceeded))"
proof -
  have inv: "server_inv db1" using server_sys.steps_inv assms(1,2) by blast
  obtain x where ans: "handlePlayback (dp_parseUUID d) (en_now e * 1000) (dp_Playback d) (dp_PlaybackTTL d) (sv_artifacts db1)
      (dp_Get d (sv_store db1)) (dp_PresignGet d) token file = Answer code x"
    using assms(5) unfolding playback_request [OF assms(3,4)]
    by (auto simp: playback_reply_def mux_miss_def split: if_splits response.splits)
  then obtain c where c: "Verify (dp_parseUUID d) (en_now e * 1000) (dp_Playback d) token = Inr c"
    by (auto simp: handlePlayback_def split: sum.splits token_error.splits)
  obtain s where s: "sql_find (\<lambda>s. s_id s = cl_ArtifactSetID c \<and> s_tenant s = cl_TenantID c) (a_sets (sv_artifacts db1)) = Some s"
    "s_state s = ''complete''"
    using ans by (auto simp: handlePlayback_def c Let_def artifact_Set_def scan_set_def split: option.splits if_splits)
  have sel: "s \<in> set (a_sets (sv_artifacts db1))" "s_id s = cl_ArtifactSetID c" "s_tenant s = cl_TenantID c"
    using sql_find_SomeD [OF s(1)] by auto
  have fin: "job_done (sv_jobs db1) (s_tenant s) (s_job s)" using inv sel(1) s(2) by (auto simp: server_inv_def)
  have "job_inv (sv_jobs db1)" using inv by (simp add: server_inv_def)
  note all = job_done_tasks [OF this fin]
  have "server_inv (server_empty st)" by (rule server_sys.init_inv) blast
  with c sel s(2) fin all show ?thesis by blast
qed

text \<open>A server whose only job, with one task, has succeeded, and a link to its outputs.\<close>

definition demo_done_jobs :: job_db where
  "demo_done_jobs =
     \<lparr>jobs = [\<lparr>j_id = 2, j_tenant = 4, j_version = 5, j_pipeline = 6, j_idem = None, j_priority = 100, j_state = JobSucceeded,
        j_failure_reason = None, j_created = 1, j_started = Some 2, j_finished = Some 3\<rparr>],
      tasks = [\<lparr>t_id = 30, t_tenant = 4, t_job = 2, t_operation = ''probe'', t_spec = ''{}'', t_requirements = no_requirements,
        t_depends_on = [], t_priority = 100, t_state = TaskSucceeded, t_attempt_count = 1, t_max_attempts = 3,
        t_failure_class = None, t_failure_reason = None, t_queued_at = Some 1, t_created = 1, t_finished = Some 3\<rparr>],
      attempts = [\<lparr>a_id = 40, a_tenant = 4, a_task = 30, a_number = 1, a_worker = 50, a_state = AttemptSucceeded, a_lease_expires = 9,
        a_reason = [], a_progress = None, a_metrics = None, a_failure_class = None, a_failure_reason = None, a_log_key = None,
        a_leased = 2, a_started = Some 2, a_finished = Some 3, a_output = None\<rparr>]\<rparr>"

definition demo_server :: "unit server_db" where
  "demo_server = (server_empty ())\<lparr>sv_jobs := demo_done_jobs, sv_artifacts := MarkComplete 8 (demo_registered ''sha256'') 4 2\<rparr>"

definition demo_deps :: "unit Deps" where
  "demo_deps = \<lparr>dp_Uploads = \<lparr>st_CreateMultipart = \<lambda>s k ct. (s, Inr k), st_PresignUploadPart = \<lambda>s k u n t. Inr k,
       st_ListParts = \<lambda>s k u. Inr [], st_CompleteMultipart = \<lambda>s k u ps. (s, Inl StorageNotFound), st_AbortMultipart = \<lambda>s k u. (s, None)\<rparr>,
     dp_Head = \<lambda>s k. Inr 5, dp_Get = \<lambda>s k. Inr ''#EXTM3U'', dp_PresignGet = \<lambda>k t. Inr k, dp_PresignGetForWorker = \<lambda>k t. Inr k,
     dp_PresignPutForWorker = \<lambda>k t. Inr k, dp_parseUUID = \<lambda>s. List.find (\<lambda>u. uuid_String u = s) [20, 4], dp_quota = \<lambda>t. None,
     dp_Playback = ''key'', dp_bootstrapHash = sha256 ''boot'', dp_HeartbeatInterval = second, dp_LeaseTTL = second,
     dp_SourceURLTTL = second, dp_DownloadURLTTL = second, dp_PlaybackTTL = second\<rparr>"

definition demo_env :: Env where
  "demo_env = \<lparr>en_now = 5, en_fresh = \<lambda>i. i, en_random = Some ''seed'', en_locked = [], en_ping = True\<rparr>"

definition demo_link :: string where
  "demo_link = fst (Mint 5000 ''key'' 20 4 (60 * second))"

definition demo_playback :: request where
  "demo_playback = \<lparr>rq_method = ''GET'', rq_path = [''playback'', demo_link, ''master.m3u8''], rq_auth = [], rq_limit = [],
     rq_body = Unreadable\<rparr>"

lemma demo_done_jobs_inv: "job_inv demo_done_jobs"
  by (simp add: job_inv_parts demo_done_jobs_def tasks_ok_def task_ok_def task_attempts_def live_states_def a_live_def budget_ok_def
      deps_ok_def jobs_ok_def job_tasks_def derived_cases)

lemma demo_server_inv: "server_inv demo_server"
proof -
  have "artifact_inv (MarkComplete 8 (demo_registered ''sha256'') 4 2)"
    using artifact_sys.step_inv [OF artifact_reachable_inv [OF demo_registered_reachable] step_mark_complete] .
  moreover have "media_inv media_empty" "worker_inv worker_empty"
    using server_sys.init_inv [of "server_empty ()"] by (auto simp: server_inv_def server_empty_def)
  ultimately show ?thesis using demo_done_jobs_inv
    by (simp add: server_inv_def demo_server_def server_empty_def MarkComplete_def demo_registered_def demo_set_def
        sql_update_def set_open_def job_done_def demo_done_jobs_def)
qed

lemma demo_answered: "\<exists>x. Handler demo_env demo_deps demo_server demo_playback = (demo_server, Answer 200 x)"
proof -
  let ?parse = "\<lambda>s. List.find (\<lambda>u. uuid_String u = s) [20, 4]"
  have "uuid_String 20 \<noteq> uuid_String 4" by code_simp
  then have v: "Verify ?parse 5000 ''key'' demo_link = Inr \<lparr>cl_ArtifactSetID = 20, cl_TenantID = 4, cl_ExpiresAt = 60\<rparr>"
    using minted_link [of ?parse 20 4 5000 "60 * second" 5000 "''key''"] by (simp add: uuid_Nil_def second_def demo_link_def)
  have "demo_link \<noteq> []" by (simp add: demo_link_def Mint_def Let_def)
  moreover have "artifact_Set (MarkComplete 8 (demo_registered ''sha256'') 4 2) 4 20 =
      Inr (scan_set (demo_set\<lparr>s_state := ''complete'', s_completed := Some 8\<rparr>) [])"
    by (simp add: artifact_Set_def MarkComplete_def demo_registered_def demo_set_def sql_update_def sql_find_def set_open_def)
  moreover have "SafeFile ''master.m3u8''" "HasSuffix ''master.m3u8'' ''.m3u8''" "\<not> HasSuffix ''master.m3u8'' ''.vtt''" by code_simp+
  moreover have "take max_line ''#EXTM3U'' = ''#EXTM3U''" by (simp add: max_line_def)
  moreover have "RewriteHLS (\<lambda>k t. Inr k :: storage_error + string) ttl token p ''#EXTM3U'' = Inr (''#EXTM3U'' @ newline)" for ttl token p
  proof -
    have "scan_lines ''#EXTM3U'' = [''#EXTM3U'']" "TrimSpace (drop_cr ''#EXTM3U'') = ''#EXTM3U''" "HasPrefix ''#EXTM3U'' ''#''"
      "snd (snd (go_Cut ''#EXTM3U'' uri_marker)) = False" by code_simp+
    moreover from this obtain x y where "go_Cut ''#EXTM3U'' uri_marker = (x, y, False)" by (metis prod.collapse)
    moreover have "\<not> max_line \<le> length ''#EXTM3U''" by (simp add: max_line_def)
    ultimately show ?thesis by (simp add: RewriteHLS_def rewriteURIAttribute_def Let_def del: list.size)
  qed
  ultimately show ?thesis using v
    by (simp add: playback_request demo_playback_def) (simp add: demo_deps_def demo_env_def demo_server_def server_empty_def
        handlePlayback_def readObject_def scan_set_def playback_reply_def Let_def)
qed

theorem delivered_only_after_success_witness:
  "\<exists>c s. Verify (dp_parseUUID demo_deps) (en_now demo_env * 1000) (dp_Playback demo_deps) demo_link = Inr c \<and>
     s \<in> set (a_sets (sv_artifacts demo_server)) \<and> s_id s = cl_ArtifactSetID c \<and> job_done (sv_jobs demo_server) (s_tenant s) (s_job s)"
proof -
  obtain x where ans: "Handler demo_env demo_deps demo_server demo_playback = (demo_server, Answer 200 x)" using demo_answered by blast
  have "rq_method demo_playback = ''GET''" "rq_path demo_playback = [''playback'', demo_link, ''master.m3u8'']"
    by (simp_all add: demo_playback_def)
  from delivered_only_after_success [OF demo_server_inv rtranclp.rtrancl_refl this ans, of "()"] show ?thesis by blast
qed

end
