(* ===== verification/Server_Properties.thy ===== *)
theory Server_Properties
  imports Delivery
begin

text \<open>
  Properties of the whole server: it refines the components it is built from, and what a tenant reads is
  what it would read if no other tenant existed.
\<close>

section \<open>Refinement\<close>


definition demo_enrol_request :: request where
  "demo_enrol_request = \<lparr>rq_method = ''POST'', rq_path = [''worker'', ''v1'', ''register''], rq_auth = ''Bearer boot'', rq_limit = [],
     rq_body = RegistrationBody demo_enrolment\<rparr>"

lemma demo_enrol_step:
  "\<exists>ws w secret. worker_Register 5 0 (Some ''seed'') (sha256 ''boot'') worker_empty ''boot'' demo_enrolment = Inr (ws, w, secret) \<and>
     server_step demo_deps (server_empty ()) ((server_empty ())\<lparr>sv_workers := ws\<rparr>)"
proof -
  have "bearer ''Bearer boot'' = Some ''boot''" by code_simp
  moreover have "TrimSpace ''encoder-1'' \<noteq> []" by code_simp
  moreover have "sql_find P [] = None" for P :: "worker_row \<Rightarrow> bool" by (simp add: sql_find_None_iff)
  ultimately have "\<exists>ws w secret. worker_Register 5 0 (Some ''seed'') (sha256 ''boot'') worker_empty ''boot'' demo_enrolment = Inr (ws, w, secret) \<and>
     (\<exists>r. Handler demo_env demo_deps (server_empty ()) demo_enrol_request = ((server_empty ())\<lparr>sv_workers := ws\<rparr>, r))"
    by (simp add: worker_Register_def checkBootstrap_def newCredential_def demo_enrolment_def upsert_worker_def worker_empty_def
        int4_fits_def MinProtocolVersion_def ProtocolVersion_def Let_def Handler_def behind_auth_def demo_enrol_request_def
        outer_routes_def route_match_def route_def method_match_def route_values_def handleWorkerRegister_def demo_deps_def demo_env_def
        server_empty_def)
  then show ?thesis using step_request by blast
qed


section \<open>What a tenant can read\<close>

text \<open>The server with the rows of one tenant only; the fleet and the object store are shared.\<close>

definition media_view :: "uuid \<Rightarrow> media_db \<Rightarrow> media_db" where
  "media_view T db = \<lparr>m_assets = filter (\<lambda>r. ar_tenant r = T) (m_assets db), m_versions = filter (\<lambda>r. vr_tenant r = T) (m_versions db),
     m_sources = filter (\<lambda>r. sr_tenant r = T) (m_sources db), m_uploads = filter (\<lambda>r. ur_tenant r = T) (m_uploads db),
     m_probes = filter (\<lambda>r. pb_tenant r = T) (m_probes db), m_tracks = filter (\<lambda>r. tk_tenant r = T) (m_tracks db)\<rparr>"

definition job_view :: "uuid \<Rightarrow> job_db \<Rightarrow> job_db" where
  "job_view T db = \<lparr>jobs = filter (\<lambda>j. j_tenant j = T) (jobs db), tasks = filter (\<lambda>t. t_tenant t = T) (tasks db),
     attempts = filter (\<lambda>a. a_tenant a = T) (attempts db)\<rparr>"

definition artifact_view :: "uuid \<Rightarrow> artifact_db \<Rightarrow> artifact_db" where
  "artifact_view T db = \<lparr>a_sets = filter (\<lambda>s. s_tenant s = T) (a_sets db), a_artifacts = filter (\<lambda>a. af_tenant a = T) (a_artifacts db),
     a_results = filter (\<lambda>v. list_ex (\<lambda>s. s_id s = vl_set v \<and> s_tenant s = T) (a_sets db)) (a_results db)\<rparr>"

definition tenant_view :: "uuid \<Rightarrow> 'st server_db \<Rightarrow> 'st server_db" where
  "tenant_view T db = db\<lparr>sv_media := media_view T (sv_media db), sv_jobs := job_view T (sv_jobs db),
     sv_artifacts := artifact_view T (sv_artifacts db)\<rparr>"

lemma sql_find_view: "sql_find P (filter Q rows) = sql_find (\<lambda>r. Q r \<and> P r) rows"
  unfolding sql_find_def by (induction rows) auto

lemmas view_simps = sql_find_view filter_filter conj_ac conj_left_absorb

lemma media_reads:
  "asset_Get (media_view T db) T i = asset_Get db T i"
  "asset_List (media_view T db) T n = asset_List db T n"
  "asset_Versions (media_view T db) T i = asset_Versions db T i"
  "probe_Get (media_view T db) T i = probe_Get db T i"
  "upload_get (media_view T db) T i = upload_get db T i"
  by (simp_all add: media_view_def asset_Get_def asset_List_def asset_Versions_def probe_Get_def probe_Tracks_def upload_get_def
      view_simps split: option.split)

lemma versions_media_view: "versions_media (media_view T db) T vs = versions_media db T vs"
  by (induction vs) (simp_all add: media_reads split: sum.split probe_error.split)

lemma upload_Status_view: "upload_Status store st (media_view T db) T i = upload_Status store st db T i"
  by (simp add: upload_Status_def media_reads)

lemma job_reads:
  "job_Get (job_view T db) T i = job_Get db T i"
  "job_List (job_view T db) T n = job_List db T n"
  "job_Tasks (job_view T db) T i = job_Tasks db T i"
  by (simp_all add: job_view_def job_Get_def job_List_def job_Tasks_def view_simps)

lemma concat_map_filter: "(\<And>x. x \<in> set xs \<Longrightarrow> \<not> P x \<Longrightarrow> f x = []) \<Longrightarrow> concat (map f (filter P xs)) = concat (map f xs)"
  by (induction xs) auto

lemma job_Attempts_view:
  assumes "job_inv db"
  shows "job_Attempts names (job_view T db) T i = job_Attempts names db T i"
proof -
  have task: "sql_find (\<lambda>t. t_id t = a_task a) (filter (\<lambda>t. t_tenant t = T) (tasks db)) = sql_find (\<lambda>t. t_id t = a_task a) (tasks db)"
    if a: "a \<in> set (attempts db)" "a_tenant a = T" for a
  proof -
    obtain t where t: "t \<in> set (tasks db)" "t_id t = a_task a" "t_tenant t = T"
      using assms a by (auto simp: job_inv_parts)
    have "distinct (map t_id (tasks db))" using assms by (simp add: job_inv_parts)
    then show ?thesis using t by (simp add: sql_find_key [where k = t_id and r = t] distinct_map_filter)
  qed
  let ?f = "\<lambda>db a. case sql_find (\<lambda>t. t_id t = a_task a) (tasks db) of None \<Rightarrow> []
     | Some t \<Rightarrow> (case names (a_worker a) of None \<Rightarrow> []
        | Some n \<Rightarrow> if t_job t = i \<and> a_tenant a = T then [(a, t_operation t, n)] else [])"
  have "concat (map (?f (job_view T db)) (filter (\<lambda>a. a_tenant a = T) (sort_key a_leased (attempts db)))) =
      concat (map (?f db) (filter (\<lambda>a. a_tenant a = T) (sort_key a_leased (attempts db))))"
    using task by (intro arg_cong [where f = concat] map_cong) (simp_all add: job_view_def)
  also have "\<dots> = concat (map (?f db) (sort_key a_leased (attempts db)))"
    by (rule concat_map_filter) (auto split: option.splits)
  finally show ?thesis by (simp add: job_Attempts_def job_view_def filter_sort)
qed

lemma artifact_reads:
  "artifact_Get (artifact_view T db) T i = artifact_Get db T i"
  "artifact_Sets (artifact_view T db) T i = artifact_Sets db T i"
  by (simp_all add: artifact_view_def artifact_Get_def artifact_Sets_def set_artifacts_of_def view_simps)

lemma validate_ForJob_view: "validate_ForJob (artifact_view T db) T i = validate_ForJob db T i"
proof -
  have "filter (\<lambda>v. list_ex (\<lambda>s. s_id s = vl_set v \<and> s_job s = i \<and> s_tenant s = T) (filter (\<lambda>s. s_tenant s = T) (a_sets db)))
      (filter (\<lambda>v. list_ex (\<lambda>s. s_id s = vl_set v \<and> s_tenant s = T) (a_sets db)) (a_results db)) =
    filter (\<lambda>v. list_ex (\<lambda>s. s_id s = vl_set v \<and> s_job s = i \<and> s_tenant s = T) (a_sets db)) (a_results db)"
    unfolding filter_filter by (rule filter_cong) (auto simp: list_ex_iff)
  then show ?thesis by (simp add: validate_ForJob_def artifact_view_def del: filter_filter)
qed

lemmas view_reads = media_reads versions_media_view upload_Status_view job_reads artifact_reads validate_ForJob_view

definition tenant_reads :: "endpoint list" where
  "tenant_reads = [MeEP, ListAssetsEP, GetAssetEP, UploadStatusEP, ListJobsEP, GetJobEP, ListPipelinesEP, ListArtifactsEP,
     DownloadArtifactEP]"

lemma tenant_view_sel:
  "sv_media (tenant_view T db) = media_view T (sv_media db)" "sv_jobs (tenant_view T db) = job_view T (sv_jobs db)"
  "sv_artifacts (tenant_view T db) = artifact_view T (sv_artifacts db)" "sv_store (tenant_view T db) = sv_store db"
  "sv_workers (tenant_view T db) = sv_workers db"
  by (simp_all add: tenant_view_def)

lemma handlers_read_view:
  assumes "job_inv (sv_jobs db)"
  shows "handleListAssets (tenant_view (pr_TenantID p) db) p raw = handleListAssets db p raw"
    "handleGetAsset d (tenant_view (pr_TenantID p) db) p seg = handleGetAsset d db p seg"
    "handleUploadStatus d (tenant_view (pr_TenantID p) db) p seg = handleUploadStatus d db p seg"
    "handleListJobs (tenant_view (pr_TenantID p) db) p raw = handleListJobs db p raw"
    "handleGetJob d (tenant_view (pr_TenantID p) db) p seg = handleGetJob d db p seg"
    "handleListArtifacts d (tenant_view (pr_TenantID p) db) p seg = handleListArtifacts d db p seg"
    "handleDownloadArtifact d (tenant_view (pr_TenantID p) db) p seg = handleDownloadArtifact d db p seg"
  unfolding handleListAssets_def handleGetAsset_def handleUploadStatus_def handleListJobs_def handleGetJob_def
    handleListArtifacts_def handleDownloadArtifact_def tenant_view_sel view_reads job_Attempts_view [OF assms]
  by (rule refl)+

lemma reads_from_view:
  assumes "ep \<in> set tenant_reads" "job_inv (sv_jobs db)"
  shows "v1_handler e d db p rq seg ep = (db, snd (v1_handler e d (tenant_view (pr_TenantID p) db) p rq seg ep))"
  using assms(1) by (auto simp: tenant_reads_def handlers_read_view [OF assms(2)])

text \<open>A \<open>GET\<close> that is not about the fleet reaches one of these endpoints.\<close>

definition fleet_path :: "string list \<Rightarrow> bool" where
  "fleet_path path \<longleftrightarrow> path = [''metrics''] \<or> take 2 path = [''v1'', ''workers'']"

lemma v1_reads:
  "list_all (\<lambda>r. rt_method r = ''GET'' \<longrightarrow> List.member tenant_reads (fst (rt_handler r)) \<or>
     take 2 (rt_path r) = [Lit ''v1'', Lit ''workers''] \<or> rt_path r = [Lit ''metrics'']) v1_routes"
  by (simp add: v1_routes_def route_def tenant_reads_def)

lemma seg_match_Lit:
  "seg_match (Lit a # ps) path \<noteq> None \<Longrightarrow> \<exists>rest. path = a # rest \<and> seg_match ps rest \<noteq> None"
  by (cases path) (auto split: if_splits)

lemma seg_match_fleet:
  assumes "seg_match ps path \<noteq> None" "take 2 ps = [Lit ''v1'', Lit ''workers''] \<or> ps = [Lit ''metrics'']"
  shows "fleet_path path"
  using assms(2)
proof
  assume "take 2 ps = [Lit ''v1'', Lit ''workers'']"
  then obtain qs where "ps = Lit ''v1'' # Lit ''workers'' # qs"
    by (cases ps; cases "tl ps") (auto simp: take_Suc_conv_app_nth numeral_2_eq_2)
  then obtain rest where "path = ''v1'' # ''workers'' # rest"
    using assms(1) seg_match_Lit by metis
  then show ?thesis by (simp add: fleet_path_def)
next
  assume "ps = [Lit ''metrics'']"
  then obtain rest where "path = ''metrics'' # rest" "seg_match [] rest \<noteq> None" using assms(1) seg_match_Lit by metis
  then show ?thesis by (cases rest) (simp_all add: fleet_path_def)
qed

lemma get_endpoints:
  assumes "List.find (route_match rq) v1_routes = Some r" "rq_method rq = ''GET''" "\<not> fleet_path (rq_path rq)"
  shows "fst (rt_handler r) \<in> set tenant_reads"
proof -
  have r: "r \<in> set v1_routes" "route_match rq r" using assms(1) by (auto simp: find_Some_iff)
  then have "rt_method r = ''GET''" "seg_match (rt_path r) (rq_path rq) \<noteq> None"
    using assms(2) by (auto simp: route_match_def method_match_def)
  then show ?thesis using r(1) v1_reads seg_match_fleet assms(3) by (fastforce simp: list_all_iff)
qed

text \<open>
  C22. A key reads its own tenant and nothing else. A read request on the tenant surface without a
  usable key is answered 401 and changes nothing. With a key it changes at most when the key was last
  used, and the answer is the one the server would give if the rows of every other tenant did not exist:
  another tenant's assets, uploads, jobs and outputs are indistinguishable from ones never made.
\<close>

theorem tenant_isolation:
  assumes "server_inv db" "rq_method rq = ''GET''" "behind_auth (rq_path rq)" "\<not> fleet_path (rq_path rq)"
    and "Handler e d db rq = (db', r)"
  shows "r = unauthorized \<and> db' = db \<or>
    (\<exists>token adb p. bearerToken (rq_auth rq) = Some token \<and> auth_Authenticate (en_now e) (sv_auth db) token = Inr (adb, p) \<and>
       db' = db\<lparr>sv_auth := adb\<rparr> \<and> r = snd (v1_mux e d (tenant_view (pr_TenantID p) db') p rq))"
proof (cases "Middleware (auth_Authenticate (en_now e) (sv_auth db)) (rq_auth rq)")
  case (Inl code)
  then have "code = 401"
    by (auto simp: Middleware_def auth_Authenticate_def split: option.splits sum.splits auth_error.splits if_splits)
  then show ?thesis using assms(3,5) Inl by (simp add: Handler_def)
next
  case (Inr ap)
  obtain adb p where ap: "ap = (adb, p)" by (cases ap)
  obtain token where tok: "bearerToken (rq_auth rq) = Some token" "auth_Authenticate (en_now e) (sv_auth db) token = Inr (adb, p)"
    using Inr ap by (auto simp: Middleware_def split: option.splits sum.splits auth_error.splits)
  let ?db = "db\<lparr>sv_auth := adb\<rparr>"
  have mux: "(db', r) = v1_mux e d ?db p rq" using assms(3,5) Inr ap by (simp add: Handler_def)
  have inv: "job_inv (sv_jobs ?db)" using assms(1) by (simp add: server_inv_def)
  have "v1_mux e d ?db p rq = (?db, snd (v1_mux e d (tenant_view (pr_TenantID p) ?db) p rq))"
  proof (cases "List.find (route_match rq) v1_routes")
    case None
    then show ?thesis by (simp add: v1_mux_def)
  next
    case (Some x)
    obtain ep scope where h: "rt_handler x = (ep, scope)" by (cases "rt_handler x")
    have ep: "ep \<in> set tenant_reads" using get_endpoints [OF Some assms(2,4)] by (simp add: h)
    show ?thesis unfolding v1_mux_def using Some h reads_from_view [OF ep inv, of e d p rq "hd_or_empty (route_values rq x)"]
      by (simp split del: if_split) simp
  qed
  then show ?thesis using mux tok by auto
qed

text \<open>A key of tenant 7 asks the server of \<open>demo_server\<close>, which has one job, of tenant 4, for the jobs.\<close>

definition demo_token :: string where
  "demo_token = ''tf_live_'' @ replicate 43 (CHR ''A'')"

definition demo_auth :: auth_db where
  "demo_auth = \<lparr>tenants = [\<lparr>te_id = 7, te_name = ''t'', te_status = ''active''\<rparr>],
     api_keys = [\<lparr>ak_id = 8, ak_tenant = 7, ak_name = ''k'', ak_prefix = [], ak_hash = auth_hash demo_token, ak_scopes = [''jobs:read''],
       ak_last_used = None, ak_expires = None, ak_revoked = None, ak_created = 1\<rparr>]\<rparr>"

definition demo_list_jobs :: request where
  "demo_list_jobs = \<lparr>rq_method = ''GET'', rq_path = [''v1'', ''jobs''], rq_auth = ''Bearer '' @ demo_token, rq_limit = [], rq_body = Unreadable\<rparr>"

lemma demo_bearer: "bearerToken (''Bearer '' @ demo_token) = Some demo_token"
  unfolding demo_token_def by code_simp

lemma demo_authenticated:
  "auth_Authenticate 5 demo_auth demo_token = Inr (touch 5 demo_auth 8 None, \<lparr>pr_TenantID = 7, pr_KeyID = 8, pr_Scopes = [''jobs:read'']\<rparr>)"
proof -
  have "parseToken demo_token = Inr (auth_hash demo_token)"
    by (simp add: parseToken_def demo_token_def HasPrefix_def EncodedLen_def secretBytes_def)
  moreover have "sql_find (key_usable demo_auth (auth_hash demo_token)) (api_keys demo_auth) = Some (hd (api_keys demo_auth))"
    by (simp add: sql_find_def demo_auth_def key_usable_def)
  ultimately show ?thesis by (simp add: auth_Authenticate_def) (simp add: demo_auth_def)
qed

lemma demo_jobs_listed:
  "snd (Handler demo_env demo_deps (demo_server\<lparr>sv_auth := demo_auth\<rparr>) demo_list_jobs) = Answer 200 (JobsBody [])"
proof -
  have "List.find (route_match demo_list_jobs) v1_routes = Some (route ''GET'' [Lit ''v1'', Lit ''jobs''] (ListJobsEP, Some ScopeJobsRead))"
    by (simp add: v1_routes_def route_match_def route_def method_match_def demo_list_jobs_def)
  moreover have "scoped (Some ScopeJobsRead) \<lparr>pr_TenantID = 7, pr_KeyID = 8, pr_Scopes = [''jobs:read'']\<rparr>"
    by (simp add: scoped_def RequireScope_def HasScope_def ScopeJobsRead_def)
  ultimately show ?thesis using demo_authenticated demo_bearer
    by (simp add: Handler_def behind_auth_def demo_list_jobs_def Middleware_def v1_mux_def route_def handleListJobs_def parse_limit_def
        demo_server_def demo_done_jobs_def job_List_def sql_top_def demo_env_def)
qed

theorem tenant_isolation_witness:
  "\<exists>adb p. auth_Authenticate 5 demo_auth demo_token = Inr (adb, p) \<and>
     snd (v1_mux demo_env demo_deps (tenant_view (pr_TenantID p) (demo_server\<lparr>sv_auth := adb\<rparr>)) p demo_list_jobs) = Answer 200 (JobsBody [])"
proof -
  let ?db = "demo_server\<lparr>sv_auth := demo_auth\<rparr>"
  have inv: "server_inv ?db" using demo_server_inv by (simp add: server_inv_def)
  have rq: "rq_method demo_list_jobs = ''GET''" "behind_auth (rq_path demo_list_jobs)" "\<not> fleet_path (rq_path demo_list_jobs)"
    by (simp_all add: demo_list_jobs_def behind_auth_def fleet_path_def)
  obtain db' where ans: "Handler demo_env demo_deps ?db demo_list_jobs = (db', Answer 200 (JobsBody []))"
    using demo_jobs_listed by (metis prod.collapse)
  have "Answer 200 (JobsBody []) \<noteq> unauthorized" by (simp add: unauthorized_def)
  then obtain token adb p where "bearerToken (rq_auth demo_list_jobs) = Some token"
    "auth_Authenticate (en_now demo_env) (sv_auth ?db) token = Inr (adb, p)" "db' = ?db\<lparr>sv_auth := adb\<rparr>"
    "Answer 200 (JobsBody []) = snd (v1_mux demo_env demo_deps (tenant_view (pr_TenantID p) db') p demo_list_jobs)"
    using tenant_isolation [OF inv rq ans] by blast
  then show ?thesis using demo_bearer by (auto simp: demo_list_jobs_def demo_env_def)
qed

end
