(* ===== verification/Agent_Tools.thy ===== *)
theory Agent_Tools
  imports Worker_Api "HOL-Library.State_Monad"
begin

text \<open>
  The worker agent's dealings with its host, \<open>internal/agent/ffmpeg.go\<close>, \<open>capabilities.go\<close> and
  \<open>probe.go\<close>: what it reads from a media tool's output, what it finds out about the machine, and one
  supervised run of a tool. The machine itself (processes, files, HTTP transfers) is a record of
  operations on a state of its own, so that every effect of the agent is a call in a definite order; a
  computation over it is a \<open>state\<close> of \<open>HOL-Library.State_Monad\<close>. What else goes on meanwhile, the lease
  being renewed by \<open>keepAlive\<close> included, is part of how an operation moves that state.
\<close>

section \<open>64-bit and 32-bit arithmetic\<close>

text \<open>\<open>int64\<close> and \<open>int\<close> products wrap around.\<close>

definition wrap64 :: "int \<Rightarrow> int" where
  "wrap64 n = (n + 2 ^ 63) mod 2 ^ 64 - 2 ^ 63"

lemma wrap64_id: "min_int64 \<le> n \<Longrightarrow> n \<le> max_int64 \<Longrightarrow> wrap64 n = n"
  by (simp add: wrap64_def min_int64_def max_int64_def)

definition go_rem :: "int \<Rightarrow> int \<Rightarrow> int" where
  "go_rem a b = a - go_quot a b * b"

text \<open>\<open>float32\<close>: 24 significant bits, rounded like \<open>f64\<close>.\<close>

definition f32 :: "rat \<Rightarrow> rat" where
  "f32 x =
     (if x = 0 then 0
      else let u = pow2 (exponent_of \<bar>x\<bar> - 23) in
        sgn x * (of_int (round_half_even (\<bar>x\<bar> / u)) * u))"

text \<open>\<open>time.Duration.Seconds\<close>.\<close>

definition duration_Seconds :: "duration \<Rightarrow> rat" where
  "duration_Seconds d = f64 (f64 (of_int (go_quot d second)) +
     f64 (f64 (of_int (d - go_quot d second * second)) / of_int second))"

lemma whole_seconds_Seconds: "whole_seconds d = go_trunc (duration_Seconds d)"
  by (simp add: whole_seconds_def duration_Seconds_def)

section \<open>Text\<close>

definition TrimPrefix :: "string \<Rightarrow> string \<Rightarrow> string" where
  "TrimPrefix s p = (if HasPrefix s p then drop (length p) s else s)"

definition TrimSuffix :: "string \<Rightarrow> string \<Rightarrow> string" where
  "TrimSuffix s p = (if HasSuffix s p then take (length s - length p) s else s)"

text \<open>\<open>strings.Fields\<close>.\<close>

definition Fields :: "string \<Rightarrow> string list" where
  "Fields s = filter (\<lambda>w. w \<noteq> []) (split_on (CHR '' '') (map (\<lambda>c. if is_space c then CHR '' '' else c) s))"

text \<open>\<open>f, _ := strconv.ParseFloat(s, 64)\<close>: what is left when the error is ignored.\<close>

definition ParseFloat_value :: "string \<Rightarrow> go_float" where
  "ParseFloat_value s =
     (case ParseFloat s of
        Some f \<Rightarrow> f
      | None \<Rightarrow> (let (neg, r) = split_sign s in if decimal_literal r = None then Finite 0 else Infinity neg))"

definition agent_tail :: "string \<Rightarrow> nat \<Rightarrow> string" where
  "agent_tail s n = (let t = TrimSpace s in if length t \<le> n then t else drop (length t - n) t)"

definition agent_atoi :: "string \<Rightarrow> int" where
  "agent_atoi s = Atoi_value (TrimSpace s)"

section \<open>Capabilities\<close>

text \<open>The leftmost match of \<open>ffmpeg version (\S+)\<close>.\<close>

definition re_space :: "char \<Rightarrow> bool" where
  "re_space c \<longleftrightarrow> List.member [9, 10, 12, 13, 32] (of_char c :: nat)"

definition version_prefix :: string where
  "version_prefix = ''ffmpeg version ''"

fun version_match :: "string \<Rightarrow> string option" where
  "version_match [] = None"
| "version_match (c # cs) =
     (let m = takeWhile (\<lambda>x. \<not> re_space x) (drop (length version_prefix) (c # cs)) in
      if HasPrefix (c # cs) version_prefix \<and> m \<noteq> [] then Some m else version_match cs)"

definition parseVersion :: "string \<Rightarrow> string" where
  "parseVersion s = (case version_match s of Some v \<Rightarrow> v | None \<Rightarrow> ''unknown'')"

fun codec_loop :: "bool \<Rightarrow> string list \<Rightarrow> string list \<Rightarrow> string list" where
  "codec_loop past [] out = out"
| "codec_loop past (line # ls) out =
     (if \<not> past then codec_loop (HasPrefix (TrimSpace line) ''------'') ls out
      else codec_loop past ls (if 2 \<le> length (Fields line) then out @ [Fields line ! 1] else out))"

definition parseCodecList :: "string \<Rightarrow> string list" where
  "parseCodecList s = codec_loop False (split_on (CHR 0x0A) s) []"

definition add_new :: "string \<Rightarrow> string list \<Rightarrow> string list" where
  "add_new name out = (if name \<noteq> [] \<and> \<not> List.member out name then out @ [name] else out)"

fun format_loop :: "bool \<Rightarrow> string list \<Rightarrow> string list \<Rightarrow> string list" where
  "format_loop past [] out = out"
| "format_loop past (line # ls) out =
     (if \<not> past then format_loop (HasPrefix (TrimSpace line) ''--'') ls out
      else format_loop past ls
        (if length (Fields line) < 2 then out else fold add_new (split_on (CHR '','') (Fields line ! 1)) out))"

definition parseFormatList :: "string \<Rightarrow> string list" where
  "parseFormatList s = format_loop False (split_on (CHR 0x0A) s) []"

record AgentCapabilities =
  ac_FFmpegVersion :: string
  ac_Encoders :: "string list"
  ac_Decoders :: "string list"
  ac_Containers :: "string list"

text \<open>\<open>output args\<close> is what the tool prints for the arguments, or the error of running it.\<close>

definition Detect :: "(string list \<Rightarrow> string + string) \<Rightarrow> string + AgentCapabilities" where
  "Detect output =
     (case output [''-hide_banner'', ''-version''] of
        Inl err \<Rightarrow> Inl err
      | Inr version \<Rightarrow>
          (let listed = (\<lambda>parse flag. case output [''-hide_banner'', flag] of Inl err \<Rightarrow> [] | Inr out \<Rightarrow> parse out) in
           Inr \<lparr>ac_FFmpegVersion = parseVersion version, ac_Encoders = listed parseCodecList ''-encoders'',
                ac_Decoders = listed parseCodecList ''-decoders'', ac_Containers = listed parseFormatList ''-formats''\<rparr>))"

definition MinFFmpegVersion :: int where "MinFFmpegVersion = 6"

definition majorVersion :: "string \<Rightarrow> int option" where
  "majorVersion v =
     (let (major, rest, found) = go_Cut (TrimPrefix (TrimSpace v) ''n'') ''.'' in ParseInt64 major)"

definition CheckVersion :: "string \<Rightarrow> string option" where
  "CheckVersion version =
     (case majorVersion version of
        None \<Rightarrow> None
      | Some major \<Rightarrow>
          if major < MinFFmpegVersion
          then Some (''ffmpeg '' @ version @ '' is too old: version '' @ Itoa MinFFmpegVersion @ '' or newer is required'')
          else None)"

record HostFacts =
  hf_Hostname :: string
  hf_OS :: string
  hf_Arch :: string
  hf_CPUCores :: int
  hf_MemoryBytes :: int
  hf_DiskBytes :: int

text \<open>The text of \<open>/proc/meminfo\<close>, and the free blocks and block size of a file system.\<close>

fun mem_total :: "string list \<Rightarrow> int" where
  "mem_total [] = 0"
| "mem_total (line # ls) =
     (let (key, value, ok) = go_Cut line '':'' in
      if ok \<and> key = ''MemTotal'' then wrap64 (agent_atoi (TrimSuffix (TrimSpace value) '' kB'') * 1024)
      else mem_total ls)"

definition totalMemory :: "string option \<Rightarrow> int" where
  "totalMemory meminfo = (case meminfo of None \<Rightarrow> 0 | Some text \<Rightarrow> mem_total (split_on (CHR 0x0A) text))"

definition freeDisk :: "(int \<times> int) option \<Rightarrow> int" where
  "freeDisk st = (case st of None \<Rightarrow> 0 | Some (bavail, bsize) \<Rightarrow> wrap64 (wrap64 bavail * wrap64 bsize))"

definition Host :: "string \<Rightarrow> string \<Rightarrow> string \<Rightarrow> int \<Rightarrow> string option \<Rightarrow> (int \<times> int) option \<Rightarrow> HostFacts" where
  "Host hostname os arch cpus meminfo st =
     \<lparr>hf_Hostname = hostname, hf_OS = os, hf_Arch = arch, hf_CPUCores = cpus,
      hf_MemoryBytes = totalMemory meminfo, hf_DiskBytes = freeDisk st\<rparr>"

definition DefaultSlots :: "int \<Rightarrow> (string \<times> int) list" where
  "DefaultSlots cores =
     (let encode = go_quot cores 4; encode = (if encode < 1 then 1 else encode) in
      [(''probe'', cores), (''validate'', cores), (''thumbnail'', cores), (''encode'', encode),
       (''package'', max 1 (go_quot cores 2)), (''transcribe'', 1)])"

section \<open>Progress\<close>

record Progress =
  pg_OutTime :: duration
  pg_Frame :: int
  pg_FPS :: go_float
  pg_Speed :: go_float
  pg_Done :: bool

definition no_progress :: Progress where
  "no_progress = \<lparr>pg_OutTime = 0, pg_Frame = 0, pg_FPS = Finite 0, pg_Speed = Finite 0, pg_Done = False\<rparr>"

definition progress_field :: "string \<Rightarrow> string \<Rightarrow> Progress \<Rightarrow> Progress" where
  "progress_field key value p =
     (if key = ''out_time_us'' \<or> key = ''out_time_ms''
      then (case ParseInt64 value of
              Some us \<Rightarrow> if 0 \<le> us then p\<lparr>pg_OutTime := wrap64 (us * 1000)\<rparr> else p
            | None \<Rightarrow> p)
      else if key = ''frame'' then p\<lparr>pg_Frame := Atoi_value value\<rparr>
      else if key = ''fps'' then p\<lparr>pg_FPS := ParseFloat_value value\<rparr>
      else if key = ''speed'' then p\<lparr>pg_Speed := ParseFloat_value (TrimSuffix value ''x'')\<rparr>
      else if key = ''progress'' then p\<lparr>pg_Done := (value = ''end'')\<rparr>
      else p)"

definition max_progress_line :: nat where "max_progress_line = 1024 * 1024"

text \<open>The reports passed to \<open>onProgress\<close>, in order; the scanner stops at a line too long for its buffer.\<close>

fun progress_loop :: "Progress \<Rightarrow> string list \<Rightarrow> Progress list" where
  "progress_loop p [] = []"
| "progress_loop p (raw # ls) =
     (if length raw \<ge> max_progress_line then []
      else let (key, value, found) = go_Cut (drop_cr raw) ''='' in
        if \<not> found then progress_loop p ls
        else let p' = progress_field (TrimSpace key) (TrimSpace value) p in
          if TrimSpace key = ''progress'' then p' # progress_loop p' ls else progress_loop p' ls)"

definition parseProgress :: "string \<Rightarrow> Progress list" where
  "parseProgress out = progress_loop no_progress (scan_lines out)"

definition Percent :: "duration \<Rightarrow> duration \<Rightarrow> rat" where
  "Percent out whole =
     (if whole \<le> 0 then 0
      else let pct = f32 (f32 (f32 (of_int out) / f32 (of_int whole)) * 100) in
        if pct > 100 then 100 else pct)"

text \<open>The last \<open>n\<close> bytes of a stream, which arrives in chunks.\<close>

definition tail_step :: "nat \<Rightarrow> string \<Rightarrow> string \<Rightarrow> string" where
  "tail_step n buf chunk =
     (let buf = buf @ chunk in if length buf > n then drop (length buf - n) buf else buf)"

definition tailCopy :: "nat \<Rightarrow> string list \<Rightarrow> string" where
  "tailCopy n chunks = foldl (tail_step n) [] chunks"

definition stderrTailBytes :: nat where "stderrTailBytes = 8 * 1024"

section \<open>The machine\<close>

datatype wait_error = ExitCode int | WaitOther string

record proc_end =
  pe_stdout :: string
  pe_stderr :: "string list"
  pe_wait :: "wait_error option"
  pe_user :: duration
  pe_sys :: duration
  pe_maxrss :: "int option"

record http_reply =
  hr_StatusCode :: int
  hr_Status :: string
  hr_Body :: string
  hr_BodyError :: "string option"

text \<open>
  \<open>mc_Exec\<close> runs a tool to its end, \<open>mc_Ctx\<close> is \<open>ctx.Err()\<close> of the running task. \<open>mc_Put\<close> is told the file's
  bytes and the declared length and says how many of the bytes were read from the file. The last three
  are texts for people and the order in which a map of two entries is walked.
\<close>

record 'w Machine =
  mc_Exec :: "string \<Rightarrow> string list \<Rightarrow> 'w \<Rightarrow> (string + proc_end) \<times> 'w"
  mc_Ctx :: "'w \<Rightarrow> string option"
  mc_Now :: "'w \<Rightarrow> int"
  mc_MkdirTemp :: "string \<Rightarrow> string \<Rightarrow> 'w \<Rightarrow> (string + string) \<times> 'w"
  mc_MkdirAll :: "string \<Rightarrow> 'w \<Rightarrow> string option \<times> 'w"
  mc_RemoveAll :: "string \<Rightarrow> 'w \<Rightarrow> 'w"
  mc_Stat :: "string \<Rightarrow> 'w \<Rightarrow> string + int"
  mc_ReadDir :: "string \<Rightarrow> 'w \<Rightarrow> string + (string \<times> bool) list"
  mc_Open :: "string \<Rightarrow> 'w \<Rightarrow> string + string"
  mc_Write :: "string \<Rightarrow> string \<Rightarrow> 'w \<Rightarrow> string option \<times> 'w"
  mc_Get :: "string \<Rightarrow> 'w \<Rightarrow> (string + http_reply) \<times> 'w"
  mc_Put :: "string \<Rightarrow> string \<Rightarrow> int \<Rightarrow> 'w \<Rightarrow> (string + http_reply \<times> nat) \<times> 'w"
  mc_JsonError :: "string \<Rightarrow> string"
  mc_ConfigError :: "config_error \<Rightarrow> string"
  mc_SecondFirst :: "'w \<Rightarrow> bool"

definition look :: "('w \<Rightarrow> 'a) \<Rightarrow> ('w, 'a) state" where
  "look f = State (\<lambda>w. (f w, w))"

lemma run_state_look [simp]: "run_state (look f) w = (f w, w)"
  by (simp add: look_def)

record RunResult =
  rr_Stderr :: string
  rr_Duration :: duration
  rr_CPUSeconds :: rat
  rr_PeakMemoryBytes :: int

datatype run_error = RunExit int string | RunCancelled string | RunOther string

definition maxRSSBytes :: "int \<Rightarrow> int" where
  "maxRSSBytes maxrss = wrap64 (maxrss * 1024)"

definition run_result :: "int \<Rightarrow> int \<Rightarrow> proc_end \<Rightarrow> RunResult" where
  "run_result start now p =
     \<lparr>rr_Stderr = TrimSpace (tailCopy stderrTailBytes (pe_stderr p)), rr_Duration = now - start,
      rr_CPUSeconds = duration_Seconds (pe_user p + pe_sys p),
      rr_PeakMemoryBytes = (case pe_maxrss p of None \<Rightarrow> 0 | Some kb \<Rightarrow> maxRSSBytes kb)\<rparr>"

definition no_run :: RunResult where
  "no_run = \<lparr>rr_Stderr = [], rr_Duration = 0, rr_CPUSeconds = 0, rr_PeakMemoryBytes = 0\<rparr>"

definition run_verdict :: "RunResult \<Rightarrow> string option \<Rightarrow> wait_error option \<Rightarrow> run_error option" where
  "run_verdict res ctx waited =
     (case ctx of
        Some e \<Rightarrow> Some (RunCancelled e)
      | None \<Rightarrow>
          (case waited of
             None \<Rightarrow> None
           | Some (ExitCode code) \<Rightarrow> Some (RunExit code (rr_Stderr res))
           | Some (WaitOther e) \<Rightarrow> Some (RunOther e)))"

definition Run ::
  "'w Machine \<Rightarrow> string \<Rightarrow> string list \<Rightarrow> (Progress \<Rightarrow> 'w \<Rightarrow> 'w) \<Rightarrow> ('w, RunResult \<times> run_error option) state" where
  "Run m bin args onProgress =
     do {
       start \<leftarrow> look (mc_Now m);
       p \<leftarrow> State (mc_Exec m bin args);
       (case p of
          Inl e \<Rightarrow> State_Monad.return (no_run, Some (RunOther (''start '' @ bin @ '': '' @ e)))
        | Inr p \<Rightarrow>
            do {
              State_Monad.update (fold onProgress (parseProgress (pe_stdout p)));
              now \<leftarrow> look (mc_Now m);
              ctx \<leftarrow> look (mc_Ctx m);
              (let res = run_result start now p in State_Monad.return (res, run_verdict res ctx (pe_wait p)))
            })
     }"

text \<open>
  What the process group is sent: the time the context is cancelled and the time the tool has stopped,
  when they come. A tool that has not stopped five seconds after the first signal is killed.
\<close>

datatype signal = SIGTERM | SIGKILL

definition supervise :: "int option \<Rightarrow> int option \<Rightarrow> (int \<times> signal) list" where
  "supervise cancelled stopped =
     (case cancelled of
        None \<Rightarrow> []
      | Some c \<Rightarrow>
          if (case stopped of Some s \<Rightarrow> s < c | None \<Rightarrow> False) then []
          else (c, SIGTERM) #
            (if (case stopped of Some s \<Rightarrow> s < c + 5 * second | None \<Rightarrow> False) then [] else [(c + 5 * second, SIGKILL)]))"

end
