(* ===== verification/Agent_Specs.thy ===== *)
theory Agent_Specs
  imports Agent_Tools
begin

text \<open>
  What a task carries and what an executor hands back: the specifications the executors of
  \<open>internal/agent\<close> decode, the URLs they accept, and the outcome they return. Decoding follows
  \<open>json.Unmarshal\<close>: a member of another type anywhere in the document is an error.
\<close>

section \<open>Typed documents\<close>

definition well_typed :: "(string \<times> (json \<Rightarrow> bool)) list \<Rightarrow> json \<Rightarrow> bool" where
  "well_typed typing j \<longleftrightarrow> is_obj j \<and>
     list_all (\<lambda>(k, v). case map_of typing (ToLower k) of None \<Rightarrow> True | Some ok \<Rightarrow> ok v) (members j)"

fun is_float64 :: "json \<Rightarrow> bool" where
  "is_float64 (JInt i) = (\<bar>f64 (of_int i)\<bar> < 2 ^ 1024)"
| "is_float64 (JDec d) = (case ParseFloat d of Some (Finite x) \<Rightarrow> True | _ \<Rightarrow> False)"
| "is_float64 JNull = True"
| "is_float64 _ = False"

fun as_float :: "json \<Rightarrow> rat" where
  "as_float (JInt i) = f64 (of_int i)"
| "as_float (JDec d) = (case ParseFloat d of Some (Finite x) \<Rightarrow> x | _ \<Rightarrow> 0)"
| "as_float _ = 0"

fun int_ptr :: "json \<Rightarrow> int option" where
  "int_ptr (JInt i) = Some i" | "int_ptr _ = None"

text \<open>A \<open>[]byte\<close> is read from padded base64, line breaks ignored.\<close>

definition b64_std_decode :: "string \<Rightarrow> string option" where
  "b64_std_decode s =
     (let t = filter (\<lambda>c. c \<noteq> CHR 0x0A \<and> c \<noteq> CHR 0x0D) s;
          body = rev (dropWhile (\<lambda>c. c = CHR ''='') (rev t))
      in if length t mod 4 \<noteq> 0 \<or> length t - length body > 2 \<or> list_ex (\<lambda>c. c = CHR ''-'' \<or> c = CHR ''_'') body then None
         else b64_decode (map (\<lambda>c. if c = CHR ''+'' then CHR ''-'' else if c = CHR ''/'' then CHR ''_'' else c) body))"

fun is_bytes :: "json \<Rightarrow> bool" where
  "is_bytes (JStr s) = (b64_std_decode s \<noteq> None)" | "is_bytes JNull = True" | "is_bytes _ = False"

fun as_bytes :: "json \<Rightarrow> string" where
  "as_bytes (JStr s) = (case b64_std_decode s of None \<Rightarrow> [] | Some b \<Rightarrow> b)" | "as_bytes _ = []"

section \<open>Encoding configurations\<close>

definition color_typing :: "(string \<times> (json \<Rightarrow> bool)) list" where
  "color_typing = map (\<lambda>k. (k, is_str)) [''primaries'', ''transfer'', ''matrix'', ''range'']"

definition color_of_json :: "json \<Rightarrow> ColorConfig" where
  "color_of_json j =
     (let str = (\<lambda>k. as_str (json_field k (members j))) in
      \<lparr>cc_Primaries = str ''primaries'', cc_Transfer = str ''transfer'', cc_Matrix = str ''matrix'', cc_Range = str ''range''\<rparr>)"

definition video_typing :: "(string \<times> (json \<Rightarrow> bool)) list" where
  "video_typing =
     map (\<lambda>k. (k, is_str)) [''codec'', ''profile'', ''level'', ''rate_control'', ''preset'', ''tune'', ''pixel_format''] @
     map (\<lambda>k. (k, is_int64)) [''width'', ''height'', ''fps_num'', ''fps_den'', ''crf'', ''bitrate_bps'', ''maxrate_bps'',
       ''bufsize_bytes'', ''b_frames'', ''ref_frames''] @
     [(''keyframe_interval_seconds'', is_float64), (''color'', well_typed color_typing)]"

definition struct_ptr :: "(json \<Rightarrow> 'a) \<Rightarrow> json \<Rightarrow> 'a option" where
  "struct_ptr f j = (if j = JNull then None else Some (f j))"

definition video_of_json :: "json \<Rightarrow> VideoConfig" where
  "video_of_json j =
     (let str = (\<lambda>k. as_str (json_field k (members j))); num = (\<lambda>k. as_int (json_field k (members j)));
          ptr = (\<lambda>k. int_ptr (json_field k (members j))) in
      \<lparr>v_Codec = str ''codec'', v_Profile = str ''profile'', v_Level = str ''level'', v_Width = num ''width'',
       v_Height = num ''height'', v_FPSNum = num ''fps_num'', v_FPSDen = num ''fps_den'',
       v_RateControl = str ''rate_control'', v_CRF = ptr ''crf'', v_BitrateBPS = num ''bitrate_bps'',
       v_MaxrateBPS = num ''maxrate_bps'', v_BufsizeBytes = num ''bufsize_bytes'', v_Preset = str ''preset'',
       v_Tune = str ''tune'', v_PixelFormat = str ''pixel_format'',
       v_KeyframeIntervalSec = as_float (json_field ''keyframe_interval_seconds'' (members j)),
       v_BFrames = ptr ''b_frames'', v_RefFrames = ptr ''ref_frames'',
       v_Color = struct_ptr color_of_json (json_field ''color'' (members j))\<rparr>)"

definition audio_typing :: "(string \<times> (json \<Rightarrow> bool)) list" where
  "audio_typing = (''codec'', is_str) # map (\<lambda>k. (k, is_int64)) [''bitrate_bps'', ''sample_rate_hz'', ''channels'']"

definition audio_of_json :: "json \<Rightarrow> AudioConfig" where
  "audio_of_json j =
     (let num = (\<lambda>k. as_int (json_field k (members j))) in
      \<lparr>au_Codec = as_str (json_field ''codec'' (members j)), au_BitrateBPS = num ''bitrate_bps'',
       au_SampleRateHz = num ''sample_rate_hz'', au_Channels = num ''channels''\<rparr>)"

definition config_typing :: "(string \<times> (json \<Rightarrow> bool)) list" where
  "config_typing = [(''container'', is_str), (''video'', well_typed video_typing), (''audio'', well_typed audio_typing)]"

definition config_of_json :: "json \<Rightarrow> Config" where
  "config_of_json j =
     \<lparr>c_Container = as_str (json_field ''container'' (members j)),
      c_Video = video_of_json (json_field ''video'' (members j)),
      c_Audio = struct_ptr audio_of_json (json_field ''audio'' (members j))\<rparr>"

section \<open>Specifications\<close>

definition decode_spec :: "(string \<times> (json \<Rightarrow> bool)) list \<Rightarrow> (json \<Rightarrow> 'a) \<Rightarrow> string \<Rightarrow> 'a option" where
  "decode_spec typing read raw =
     (case json_parse raw of None \<Rightarrow> None | Some j \<Rightarrow> if well_typed typing j then Some (read j) else None)"

definition ProbeSpec_input :: "string \<Rightarrow> string option" where
  "ProbeSpec_input = decode_spec [(''input_url'', is_str)] (\<lambda>j. as_str (json_field ''input_url'' (members j)))"

record EncodeSpec =
  es_InputURL :: string
  es_OutputURL :: string
  es_OutputKey :: string
  es_OutputLabel :: string
  es_DurationMS :: int
  es_Encode :: Config

definition encode_typing :: "(string \<times> (json \<Rightarrow> bool)) list" where
  "encode_typing = map (\<lambda>k. (k, is_str)) [''input_url'', ''output_url'', ''output_key'', ''output_label''] @
     [(''duration_ms'', is_int64), (''encode'', well_typed config_typing)]"

definition encode_of_json :: "json \<Rightarrow> EncodeSpec" where
  "encode_of_json j =
     (let str = (\<lambda>k. as_str (json_field k (members j))) in
      \<lparr>es_InputURL = str ''input_url'', es_OutputURL = str ''output_url'', es_OutputKey = str ''output_key'',
       es_OutputLabel = str ''output_label'', es_DurationMS = as_int (json_field ''duration_ms'' (members j)),
       es_Encode = config_of_json (json_field ''encode'' (members j))\<rparr>)"

definition artifact_typing :: "(string \<times> (json \<Rightarrow> bool)) list" where
  "artifact_typing = map (\<lambda>k. (k, is_str)) [''label'', ''kind'', ''url'', ''checksum_algo''] @
     map (\<lambda>k. (k, is_int64)) [''size_bytes'', ''width'', ''height''] @ [(''checksum'', is_bytes)]"

definition artifact_of_json :: "json \<Rightarrow> ValidateArtifact" where
  "artifact_of_json j =
     (let str = (\<lambda>k. as_str (json_field k (members j))); num = (\<lambda>k. as_int (json_field k (members j))) in
      \<lparr>va_Label = str ''label'', va_Kind = str ''kind'', va_URL = str ''url'', va_SizeBytes = num ''size_bytes'',
       va_ChecksumAlgo = str ''checksum_algo'', va_Checksum = as_bytes (json_field ''checksum'' (members j)),
       va_Width = num ''width'', va_Height = num ''height''\<rparr>)"

definition expectation_typing :: "(string \<times> (json \<Rightarrow> bool)) list" where
  "expectation_typing = map (\<lambda>k. (k, is_str)) [''label'', ''codec'', ''audio_codec'', ''hdr_format''] @
     map (\<lambda>k. (k, is_int64)) [''width'', ''height'', ''duration_ms'']"

definition expectation_of_json :: "json \<Rightarrow> Expectation" where
  "expectation_of_json j =
     (let str = (\<lambda>k. as_str (json_field k (members j))); num = (\<lambda>k. as_int (json_field k (members j))) in
      \<lparr>ex_Label = str ''label'', ex_Codec = str ''codec'', ex_Width = num ''width'', ex_Height = num ''height'',
       ex_DurationMS = num ''duration_ms'', ex_AudioCodec = str ''audio_codec'', ex_HDRFormat = str ''hdr_format''\<rparr>)"

definition array_of :: "(json \<Rightarrow> bool) \<Rightarrow> json \<Rightarrow> bool" where
  "array_of ok j \<longleftrightarrow> is_arr j \<and> list_all ok (elements j)"

definition validate_typing :: "(string \<times> (json \<Rightarrow> bool)) list" where
  "validate_typing = [(''expect'', array_of (well_typed expectation_typing)), (''artifacts'', array_of (well_typed artifact_typing))]"

definition validate_of_json :: "json \<Rightarrow> ValidateSpec" where
  "validate_of_json j =
     \<lparr>vs_Expect = map expectation_of_json (elements (json_field ''expect'' (members j))),
      vs_Artifacts = map artifact_of_json (elements (json_field ''artifacts'' (members j)))\<rparr>"

record PackageSpec =
  pk_Artifacts :: "ValidateArtifact list"
  pk_SegmentSecs :: rat

definition package_typing :: "(string \<times> (json \<Rightarrow> bool)) list" where
  "package_typing = [(''artifacts'', array_of (well_typed artifact_typing)), (''segment_seconds'', is_float64)]"

definition package_of_json :: "json \<Rightarrow> PackageSpec" where
  "package_of_json j =
     \<lparr>pk_Artifacts = map artifact_of_json (elements (json_field ''artifacts'' (members j))),
      pk_SegmentSecs = as_float (json_field ''segment_seconds'' (members j))\<rparr>"

record ThumbnailSpec =
  ts_InputURL :: string
  ts_DurationMS :: int
  ts_PosterWidth :: int
  ts_ThumbWidth :: int
  ts_Columns :: int

definition thumbnail_typing :: "(string \<times> (json \<Rightarrow> bool)) list" where
  "thumbnail_typing = (''input_url'', is_str) #
     map (\<lambda>k. (k, is_int64)) [''duration_ms'', ''poster_width'', ''thumb_width'', ''columns'']"

definition thumbnail_of_json :: "json \<Rightarrow> ThumbnailSpec" where
  "thumbnail_of_json j =
     (let num = (\<lambda>k. as_int (json_field k (members j))) in
      \<lparr>ts_InputURL = as_str (json_field ''input_url'' (members j)), ts_DurationMS = num ''duration_ms'',
       ts_PosterWidth = num ''poster_width'', ts_ThumbWidth = num ''thumb_width'', ts_Columns = num ''columns''\<rparr>)"

section \<open>URLs\<close>

text \<open>
  \<open>url.Parse\<close> as far as \<open>isHTTPURL\<close> looks at it: the scheme, and whether the rest of a URL with a scheme
  is well formed.
\<close>

definition is_alpha :: "char \<Rightarrow> bool" where
  "is_alpha c \<longleftrightarrow> is_upper c \<or> is_lower c"

definition scheme_char :: "char \<Rightarrow> bool" where
  "scheme_char c \<longleftrightarrow> is_alpha c \<or> is_digit c \<or> c \<in> set ''+-.''"

definition getScheme :: "string \<Rightarrow> (string \<times> string) option" where
  "getScheme raw =
     (let pre = takeWhile scheme_char raw; rest = drop (length pre) raw in
      if rest \<noteq> [] \<and> hd rest = CHR '':''
      then (if pre = [] then None else if \<not> is_alpha (hd pre) then Some ([], raw) else Some (pre, tl rest))
      else Some ([], raw))"

definition is_hex :: "char \<Rightarrow> bool" where
  "is_hex c \<longleftrightarrow> is_digit c \<or> c \<in> set ''abcdefABCDEF''"

fun percent_ok :: "string \<Rightarrow> bool" where
  "percent_ok [] = True"
| "percent_ok (c # cs) =
     (if c = CHR ''%'' then (case cs of a # b # r \<Rightarrow> is_hex a \<and> is_hex b | _ \<Rightarrow> False) \<and> percent_ok cs
      else percent_ok cs)"

definition host_char :: "char \<Rightarrow> bool" where
  "host_char c \<longleftrightarrow> 128 \<le> (of_char c :: nat) \<or> is_alpha c \<or> is_digit c \<or> c \<in> set ''-_.~!$&()*+,;=:[]<>'' \<or>
     c = CHR 0x27 \<or> c = CHR 0x22"

text \<open>In a host only bytes outside ASCII and the percent sign may be escaped; a zone may escape more.\<close>

fun host_part_ok :: "bool \<Rightarrow> string \<Rightarrow> bool" where
  "host_part_ok zone [] = True"
| "host_part_ok zone (c # cs) =
     (if c = CHR ''%''
      then (case cs of
              a # b # r \<Rightarrow>
                (let v = the (hex_value a) * 16 + the (hex_value b) in
                 is_hex a \<and> is_hex b \<and>
                 (a = CHR ''2'' \<and> b = CHR ''5'' \<or>
                  (if zone then v = 32 \<or> host_char (char_of v) \<and> v < 128 else 8 \<le> the (hex_value a))) \<and>
                 host_part_ok zone r)
            | _ \<Rightarrow> False)
      else host_char c \<and> host_part_ok zone cs)"

definition last_split :: "char \<Rightarrow> string \<Rightarrow> (string \<times> string) option" where
  "last_split c s =
     (if c \<in> set s
      then Some (rev (tl (dropWhile (\<lambda>x. x \<noteq> c) (rev s))), rev (takeWhile (\<lambda>x. x \<noteq> c) (rev s))) else None)"

definition validOptionalPort :: "string \<Rightarrow> bool" where
  "validOptionalPort p \<longleftrightarrow> p = [] \<or> hd p = CHR '':'' \<and> list_all is_digit (tl p)"

definition host_ok :: "string \<Rightarrow> bool" where
  "host_ok h =
     (if HasPrefix h ''[''
      then (case last_split (CHR '']'') h of
              None \<Rightarrow> False
            | Some (before, after) \<Rightarrow>
                validOptionalPort after \<and>
                (let (addr, zone, found) = go_Cut before ''%25'' in
                 if found then host_part_ok False addr \<and> host_part_ok True (''%25'' @ zone) \<and> host_part_ok False (CHR '']'' # after)
                 else host_part_ok False h))
      else (case last_split (CHR '':'') h of None \<Rightarrow> True | Some (before, after) \<Rightarrow> validOptionalPort (CHR '':'' # after)) \<and>
        host_part_ok False h)"

definition userinfo_char :: "char \<Rightarrow> bool" where
  "userinfo_char c \<longleftrightarrow> is_alpha c \<or> is_digit c \<or> c \<in> set ''-._:~!$&()*+,;=%@'' \<or> c = CHR 0x27"

definition authority_ok :: "string \<Rightarrow> bool" where
  "authority_ok a =
     (case last_split (CHR ''@'') a of
        None \<Rightarrow> host_ok a
      | Some (user, host) \<Rightarrow> host_ok host \<and> list_all userinfo_char user \<and> percent_ok user)"

definition rest_ok :: "string \<Rightarrow> bool" where
  "rest_ok rest =
     (let (p, query, found) = go_Cut rest ''?'' in
      if HasPrefix p ''//''
      then authority_ok (takeWhile (\<lambda>c. c \<noteq> CHR ''/'') (drop 2 p)) \<and> percent_ok (dropWhile (\<lambda>c. c \<noteq> CHR ''/'') (drop 2 p))
      else \<not> HasPrefix p ''/'' \<or> percent_ok p)"

definition isHTTPURL :: "string \<Rightarrow> bool" where
  "isHTTPURL raw =
     (let (u, fragment, found) = go_Cut raw ''#'' in
      \<not> list_ex (\<lambda>c. (of_char c :: nat) < 32 \<or> (of_char c :: nat) = 127) u \<and>
      (case getScheme u of
         None \<Rightarrow> False
       | Some (scheme, rest) \<Rightarrow> (ToLower scheme = ''http'' \<or> ToLower scheme = ''https'') \<and> rest_ok rest \<and> percent_ok fragment))"

section \<open>Outcomes\<close>

record Outcome =
  oc_Result :: Result
  oc_Artifacts :: "Registration list"

definition no_metrics :: Metrics where
  "no_metrics = \<lparr>CPUSeconds = 0, WallSeconds = 0, PeakMemoryBytes = 0, GPUSeconds = 0, BytesIn = 0, BytesOut = 0\<rparr>"

definition failure :: "FailureClass \<Rightarrow> string \<Rightarrow> Result" where
  "failure class reason =
     \<lparr>Success = False, res_FailureClass = class, res_FailureReason = reason, res_Metrics = no_metrics,
      res_LogStorageKey = [], res_Output = []\<rparr>"

definition success :: "string \<Rightarrow> Metrics \<Rightarrow> Result" where
  "success output metrics =
     \<lparr>Success = True, res_FailureClass = [], res_FailureReason = [], res_Metrics = metrics,
      res_LogStorageKey = [], res_Output = output\<rparr>"

text \<open>An executor's answer: an error that stopped it from trying, or an outcome.\<close>

type_synonym executed = "string + Outcome"

definition failed :: "FailureClass \<Rightarrow> string \<Rightarrow> executed" where
  "failed class reason = Inr \<lparr>oc_Result = failure class reason, oc_Artifacts = []\<rparr>"

lemma failed_not_success [simp]: "failed class reason = Inr oc \<Longrightarrow> \<not> Success (oc_Result oc)"
  by (auto simp: failed_def failure_def)

end
