(* ===== verification/Agent_Tasks.thy ===== *)
theory Agent_Tasks
  imports Agent_Specs
begin

text \<open>
  The executors of \<open>internal/agent\<close> that inspect, encode, validate and package: \<open>probe.go\<close>, \<open>encode.go\<close>,
  \<open>validate.go\<close> and \<open>package.go\<close>, and the transfers they share. Each is a computation over the machine
  that ends in an error or an outcome; an early return of the source is a branch that ends the computation.
\<close>

section \<open>Files and transfers\<close>

definition path_Join :: "string \<Rightarrow> string \<Rightarrow> string" where
  "path_Join dir name = dir @ ''/'' @ name"

text \<open>\<open>os.MkdirTemp\<close> with the deferred \<open>os.RemoveAll\<close>: the directory goes however the body returns.\<close>

definition with_temp_dir ::
  "'w Machine \<Rightarrow> string \<Rightarrow> string \<Rightarrow> (string \<Rightarrow> ('w, executed) state) \<Rightarrow> ('w, executed) state" where
  "with_temp_dir m workDir pattern body =
     do {
       r \<leftarrow> State (mc_MkdirTemp m workDir pattern);
       (case r of
          Inl e \<Rightarrow> State_Monad.return (Inl e)
        | Inr dir \<Rightarrow>
            do {
              outcome \<leftarrow> body dir;
              State_Monad.update (mc_RemoveAll m dir);
              State_Monad.return outcome
            })
     }"

definition download :: "'w Machine \<Rightarrow> string \<Rightarrow> string \<Rightarrow> ('w, string + int \<times> string) state" where
  "download m url path =
     do {
       r \<leftarrow> State (mc_Get m url);
       (case r of
          Inl e \<Rightarrow> State_Monad.return (Inl e)
        | Inr resp \<Rightarrow>
            if hr_StatusCode resp \<ge> 300 then State_Monad.return (Inl (''storage returned '' @ hr_Status resp))
            else do {
              written \<leftarrow> State (mc_Write m path (hr_Body resp));
              State_Monad.return
                (case written of
                   Some e \<Rightarrow> Inl e
                 | None \<Rightarrow>
                     (case hr_BodyError resp of
                        Some e \<Rightarrow> Inl e
                      | None \<Rightarrow> Inr (int (length (hr_Body resp)), sha256 (hr_Body resp))))
            })
     }"

text \<open>The digest is of the bytes the transfer read from the file.\<close>

definition upload :: "'w Machine \<Rightarrow> string \<Rightarrow> string \<Rightarrow> int \<Rightarrow> ('w, string + string) state" where
  "upload m presignedURL path sz =
     do {
       f \<leftarrow> look (mc_Open m path);
       (case f of
          Inl e \<Rightarrow> State_Monad.return (Inl e)
        | Inr bytes \<Rightarrow>
            do {
              r \<leftarrow> State (mc_Put m presignedURL bytes sz);
              State_Monad.return
                (case r of
                   Inl e \<Rightarrow> Inl e
                 | Inr (resp, read) \<Rightarrow>
                     if hr_StatusCode resp \<ge> 300 then Inl (''storage returned '' @ hr_Status resp)
                     else Inr (sha256 (take read bytes)))
            })
     }"

definition uploadFile :: "'w Machine \<Rightarrow> string \<Rightarrow> string \<Rightarrow> int \<Rightarrow> ('w, string + string) state" where
  "uploadFile m presignedURL path sz = upload m presignedURL path sz"

text \<open>A run that failed: a cancelled task is an error, anything else a failure of the input.\<close>

definition run_failed :: "'w Machine \<Rightarrow> FailureClass \<Rightarrow> string \<Rightarrow> ('w, executed) state" where
  "run_failed m class reason =
     do {
       ctx \<leftarrow> look (mc_Ctx m);
       State_Monad.return (case ctx of Some e \<Rightarrow> Inl e | None \<Rightarrow> failed class reason)
     }"

definition bad_spec :: "'w Machine \<Rightarrow> string \<Rightarrow> string \<Rightarrow> executed" where
  "bad_spec m kind raw = failed ClassPermanentConfig (kind @ '' spec is not valid: '' @ mc_JsonError m raw)"

section \<open>Inspecting\<close>

definition probe_args :: "string \<Rightarrow> string list" where
  "probe_args url =
     [''-hide_banner'', ''-loglevel'', ''error'', ''-print_format'', ''json'', ''-show_format'', ''-show_streams'',
      ''-show_chapters'', ''-analyzeduration'', ''20M'', ''-probesize'', ''50M'', url]"

text \<open>\<open>deadline\<close> is \<open>ctx.Err()\<close> of the context that also ends after \<open>ProbeTimeout\<close>.\<close>

definition probeTask :: "'w Machine \<Rightarrow> ('w \<Rightarrow> string option) \<Rightarrow> string \<Rightarrow> string \<Rightarrow> ('w, executed) state" where
  "probeTask m deadline bin raw =
     (case ProbeSpec_input raw of
        None \<Rightarrow> State_Monad.return (bad_spec m ''probe'' raw)
      | Some url \<Rightarrow>
          if url = [] then State_Monad.return (failed ClassPermanentConfig ''probe spec has no input_url'')
          else if \<not> isHTTPURL url
          then State_Monad.return (failed ClassPermanentConfig ''input_url must be an http or https URL'')
          else do {
            r \<leftarrow> State (mc_Exec m bin (probe_args url));
            ctx \<leftarrow> look deadline;
            State_Monad.return
              (case r of
                 Inl e \<Rightarrow> (case ctx of Some c \<Rightarrow> Inl c | None \<Rightarrow> failed ClassPermanentInput ''ffprobe could not read the source: '')
               | Inr p \<Rightarrow>
                   if pe_wait p \<noteq> None
                   then (case ctx of
                           Some c \<Rightarrow> Inl c
                         | None \<Rightarrow> failed ClassPermanentInput
                             (''ffprobe could not read the source: '' @ agent_tail (concat (pe_stderr p)) 512))
                   else if json_parse (pe_stdout p) = None
                   then failed ClassUnknown ''ffprobe returned output that is not valid JSON''
                   else Inr \<lparr>oc_Result = success (pe_stdout p) no_metrics, oc_Artifacts = []\<rparr>)
          })"

section \<open>Encoding\<close>

definition mediaSummary :: "Config \<Rightarrow> json" where
  "mediaSummary cfg = JObj (go_map (
     [(''codec'', JStr (v_Codec (c_Video cfg))), (''width'', JInt (v_Width (c_Video cfg))),
      (''height'', JInt (v_Height (c_Video cfg))), (''container'', JStr (c_Container cfg))] @
     (if v_FPSNum (c_Video cfg) > 0 \<and> v_FPSDen (c_Video cfg) > 0
      then [(''fps_num'', JInt (v_FPSNum (c_Video cfg))), (''fps_den'', JInt (v_FPSDen (c_Video cfg)))] else []) @
     (case c_Audio cfg of None \<Rightarrow> [] | Some a \<Rightarrow> [(''audio_codec'', JStr (au_Codec a))]) @
     (case v_Color (c_Video cfg) of None \<Rightarrow> [] | Some c \<Rightarrow> [(''color'', color_json c)])))"

definition encode_output :: "EncodeSpec \<Rightarrow> int \<Rightarrow> string \<Rightarrow> json" where
  "encode_output spec sz digest = JObj (
     [(''storage_key'', JStr (es_OutputKey spec)), (''size_bytes'', JInt sz)] @ omit_str ''label'' (es_OutputLabel spec) @
     [(''checksum_algo'', JStr ''sha256''), (''checksum'', JStr (b64_std digest)), (''media'', mediaSummary (es_Encode spec))])"

definition run_metrics :: "int \<Rightarrow> rat \<Rightarrow> int \<Rightarrow> Metrics" where
  "run_metrics bytesOut cpu peak = no_metrics\<lparr>BytesOut := bytesOut, CPUSeconds := cpu, PeakMemoryBytes := peak\<rparr>"

definition registration :: "string \<Rightarrow> string \<Rightarrow> string \<Rightarrow> int \<Rightarrow> string \<Rightarrow> json option \<Rightarrow> Registration" where
  "registration kind label key sz digest media =
     \<lparr>reg_Kind = kind, reg_Label = label, reg_StorageKey = key, reg_SizeBytes = sz,
      reg_ChecksumAlgo = ''sha256'', reg_Checksum = Some digest, reg_Media = media\<rparr>"

definition encoded :: "EncodeSpec \<Rightarrow> RunResult \<Rightarrow> int \<Rightarrow> string \<Rightarrow> Outcome" where
  "encoded spec run sz digest =
     \<lparr>oc_Result = success (json_text (encode_output spec sz digest))
        (run_metrics sz (rr_CPUSeconds run) (rr_PeakMemoryBytes run)),
      oc_Artifacts = [registration ''rendition'' (es_OutputLabel spec) (es_OutputKey spec) sz digest
        (Some (mediaSummary (es_Encode spec)))]\<rparr>"

text \<open>What follows the run: the file the encoder wrote is measured and sent.\<close>

definition send_encoded :: "'w Machine \<Rightarrow> EncodeSpec \<Rightarrow> string \<Rightarrow> RunResult \<Rightarrow> ('w, executed) state" where
  "send_encoded m spec outputPath run =
     do {
       info \<leftarrow> look (mc_Stat m outputPath);
       (case info of
          Inl e \<Rightarrow> State_Monad.return (failed ClassUnknown ''the encoder reported success but produced no file'')
        | Inr sz \<Rightarrow>
            if sz = 0 then State_Monad.return (failed ClassUnknown ''the encoder produced an empty file'')
            else do {
              sent \<leftarrow> upload m (es_OutputURL spec) outputPath sz;
              State_Monad.return
                (case sent of
                   Inl e \<Rightarrow> failed ClassTransient (''could not upload the output: '' @ e)
                 | Inr digest \<Rightarrow> Inr (encoded spec run sz digest))
            })
     }"

definition bad_url :: "EncodeSpec \<Rightarrow> bool \<Rightarrow> string option" where
  "bad_url spec secondFirst =
     (let bad = filter (\<lambda>(name, u). \<not> isHTTPURL u)
            [(''input_url'', es_InputURL spec), (''output_url'', es_OutputURL spec)] in
      case if secondFirst then rev bad else bad of [] \<Rightarrow> None | (name, u) # _ \<Rightarrow> Some name)"

definition encodeTask ::
  "'w Machine \<Rightarrow> string \<Rightarrow> string \<Rightarrow> string \<Rightarrow> (Progress \<Rightarrow> 'w \<Rightarrow> 'w) \<Rightarrow> ('w, executed) state" where
  "encodeTask m workDir bin raw onProgress =
     (case decode_spec encode_typing encode_of_json raw of
        None \<Rightarrow> State_Monad.return (bad_spec m ''encode'' raw)
      | Some spec \<Rightarrow>
          do {
            secondFirst \<leftarrow> look (mc_SecondFirst m);
            (case bad_url spec secondFirst of
               Some name \<Rightarrow> State_Monad.return (failed ClassPermanentConfig (name @ '' must be an http or https URL''))
             | None \<Rightarrow>
                 (case config_Args (es_Encode spec) (es_InputURL spec) [] of
                    Inl e \<Rightarrow> State_Monad.return (failed ClassPermanentConfig (mc_ConfigError m e))
                  | Inr _ \<Rightarrow> with_temp_dir m workDir ''encode-'' (\<lambda>dir.
                      case config_Args (es_Encode spec) (es_InputURL spec) (path_Join dir ''output'') of
                        Inl e \<Rightarrow> State_Monad.return (failed ClassPermanentConfig (mc_ConfigError m e))
                      | Inr args \<Rightarrow>
                          do {
                            (run, err) \<leftarrow> Run m bin args onProgress;
                            (if err \<noteq> None
                             then run_failed m ClassPermanentInput (''encoding failed: '' @ agent_tail (rr_Stderr run) 1024)
                             else send_encoded m spec (path_Join dir ''output'') run)
                          })))
          })"

section \<open>Validating\<close>

definition file_args :: "string \<Rightarrow> string list" where
  "file_args path = [''-hide_banner'', ''-loglevel'', ''error'', ''-print_format'', ''json'', ''-show_format'', ''-show_streams'', path]"

definition probeFile :: "'w Machine \<Rightarrow> string \<Rightarrow> string \<Rightarrow> ('w, string + ProbeResult) state" where
  "probeFile m bin path =
     do {
       r \<leftarrow> State (mc_Exec m bin (file_args path));
       State_Monad.return
         (case r of
            Inl e \<Rightarrow> Inl []
          | Inr p \<Rightarrow>
              if pe_wait p \<noteq> None then Inl (agent_tail (concat (pe_stderr p)) 400)
              else (case probe_Parse (json_parse (pe_stdout p)) of
                      None \<Rightarrow> Inl (mc_JsonError m (pe_stdout p))
                    | Some media \<Rightarrow> Inr media))
     }"

definition check_json :: "Check \<Rightarrow> json" where
  "check_json c = JObj ([(''label'', JStr (ck_Label c)), (''category'', JStr (ck_Category c)), (''name'', JStr (ck_Name c)),
     (''status'', JStr (ck_Status c))] @ (if ck_Detail c = [] then [] else [(''detail'', JObj (go_map (ck_Detail c)))]))"

definition report_json :: "Check list \<Rightarrow> json" where
  "report_json checks = JObj [(''checks'', JArr (map check_json checks))]"

definition missing_check :: "string \<Rightarrow> Check" where
  "missing_check label = check label ''exists'' Fail_status
     [(''reason'', JStr ''no artifact was registered with this label'')]"

definition shorten :: "string + ProbeResult \<Rightarrow> string + ProbeResult" where
  "shorten r = (case r of Inl e \<Rightarrow> Inl (agent_tail e 400) | Inr media \<Rightarrow> Inr media)"

text \<open>\<open>Inl\<close> is the early return.\<close>

fun validate_run ::
  "'w Machine \<Rightarrow> string \<Rightarrow> string \<Rightarrow> (Progress \<Rightarrow> 'w \<Rightarrow> 'w) \<Rightarrow> (string \<Rightarrow> ValidateArtifact option) \<Rightarrow>
   Expectation list \<Rightarrow> Check list \<Rightarrow> ('w, executed + Check list) state" where
  "validate_run m bin dir onProgress arts [] checks = State_Monad.return (Inr checks)"
| "validate_run m bin dir onProgress arts (e # es) checks =
     (case arts (ex_Label e) of
        None \<Rightarrow> validate_run m bin dir onProgress arts es (checks @ [missing_check (ex_Label e)])
      | Some a \<Rightarrow>
          do {
            got \<leftarrow> download m (va_URL a) (path_Join dir ''artifact'');
            (case got of
               Inl err \<Rightarrow>
                 do {
                   outcome \<leftarrow> run_failed m ClassTransient (''could not fetch '' @ ex_Label e @ '': '' @ err);
                   State_Monad.return (Inl outcome)
                 }
             | Inr bytes \<Rightarrow>
                 do {
                   media \<leftarrow> probeFile m bin (path_Join dir ''artifact'');
                   State_Monad.update (mc_RemoveAll m (path_Join dir ''artifact''));
                   State_Monad.update (if isl media then (\<lambda>w. w) else onProgress no_progress);
                   validate_run m bin dir onProgress arts es (checks @ checks_for e a bytes (shorten media))
                 })
          })"

definition validated :: "Check list \<Rightarrow> executed" where
  "validated checks =
     (let out = json_text (report_json checks) in
      if report_Failed checks
      then (let (pass, warn, bad) = report_Summary checks in
            Inr \<lparr>oc_Result = (failure ClassPermanentInput
                    (''validation failed: '' @ show_nat pass @ '' passed, '' @ show_nat warn @ '' warned, '' @ show_nat bad @ '' failed''))
                    \<lparr>res_Output := out\<rparr>, oc_Artifacts = []\<rparr>)
      else Inr \<lparr>oc_Result = success out no_metrics, oc_Artifacts = []\<rparr>)"

definition run_validateTask ::
  "'w Machine \<Rightarrow> string \<Rightarrow> string \<Rightarrow> string \<Rightarrow> (Progress \<Rightarrow> 'w \<Rightarrow> 'w) \<Rightarrow> ('w, executed) state" where
  "run_validateTask m workDir bin raw onProgress =
     (case decode_spec validate_typing validate_of_json raw of
        None \<Rightarrow> State_Monad.return (bad_spec m ''validate'' raw)
      | Some spec \<Rightarrow>
          (let arts = by_label (vs_Artifacts spec);
               found = length (filter (\<lambda>e. arts (ex_Label e) \<noteq> None) (vs_Expect spec)) in
           with_temp_dir m workDir ''validate-'' (\<lambda>dir.
             do {
               r \<leftarrow> validate_run m bin dir onProgress arts (vs_Expect spec)
                     [CheckArtifactCount (int (length (vs_Expect spec))) (int found)];
               State_Monad.return (case r of Inl outcome \<Rightarrow> outcome | Inr checks \<Rightarrow> validated checks)
             })))"

section \<open>Packaging\<close>

definition orderRenditions :: "ValidateArtifact list \<Rightarrow> ValidateArtifact list" where
  "orderRenditions arts = sort_key (\<lambda>a. (- va_Height a, - va_Width a)) arts"

definition DefaultSegmentSeconds :: rat where "DefaultSegmentSeconds = 2"

definition package_maps :: "nat \<Rightarrow> string list" where
  "package_maps n = concat (map (\<lambda>i. [''-map'', show_nat i @ '':v'']) [0..<n])"

definition packageArgs :: "string list \<Rightarrow> string \<Rightarrow> rat \<Rightarrow> string list" where
  "packageArgs inputs outDir segmentSecs =
     [''-hide_banner'', ''-nostdin'', ''-loglevel'', ''error'', ''-y'', ''-progress'', ''pipe:1'', ''-nostats''] @
     concat (map (\<lambda>path. [''-i'', path]) inputs) @ package_maps (length inputs) @ [''-map'', ''0:a?''] @
     [''-c'', ''copy'', ''-f'', ''dash'', ''-seg_duration'', fmt_g segmentSecs, ''-use_template'', ''1'', ''-use_timeline'', ''0'',
      ''-hls_playlist'', ''1'', ''-adaptation_sets'', ''id=0,streams=v id=1,streams=a'', path_Join outDir ''manifest.mpd'']"

definition input_name :: "nat \<Rightarrow> string" where
  "input_name i = ''in'' @ pad0 2 (show_nat i) @ ''.mp4''"

fun fetch_loop ::
  "'w Machine \<Rightarrow> string \<Rightarrow> nat \<Rightarrow> ValidateArtifact list \<Rightarrow> string list \<Rightarrow> ('w, executed + string list) state" where
  "fetch_loop m dir i [] local = State_Monad.return (Inr local)"
| "fetch_loop m dir i (a # as) local =
     (if \<not> isHTTPURL (va_URL a)
      then State_Monad.return (Inl (failed ClassPermanentConfig ''rendition URLs must be http or https''))
      else do {
        got \<leftarrow> download m (va_URL a) (path_Join dir (input_name i));
        (case got of
           Inl err \<Rightarrow>
             do {
               outcome \<leftarrow> run_failed m ClassTransient (''could not fetch '' @ va_Label a @ '': '' @ err);
               State_Monad.return (Inl outcome)
             }
         | Inr _ \<Rightarrow> fetch_loop m dir (i + 1) as (local @ [path_Join dir (input_name i)]))
      })"

text \<open>Where a file goes: the URL and key the control plane answers, or an error.\<close>

type_synonym 'w Uploader = "string \<Rightarrow> ('w, string + string \<times> string) state"

text \<open>One output file: measured, given a destination, sent. \<open>Inl\<close> is the early return.\<close>

definition send_file ::
  "'w Machine \<Rightarrow> 'w Uploader \<Rightarrow> string \<Rightarrow> string \<Rightarrow> ('w, executed + (string \<times> int \<times> string)) state" where
  "send_file m up dir name =
     do {
       info \<leftarrow> look (mc_Stat m (path_Join dir name));
       (case info of
          Inl e \<Rightarrow> State_Monad.return (Inl (Inl e))
        | Inr sz \<Rightarrow>
            do {
              dest \<leftarrow> up name;
              (case dest of
                 Inl e \<Rightarrow> State_Monad.return (Inl (failed ClassTransient (''could not get a destination for '' @ name @ '': '' @ e)))
               | Inr (url, key) \<Rightarrow>
                   do {
                     sent \<leftarrow> uploadFile m url (path_Join dir name) sz;
                     State_Monad.return
                       (case sent of
                          Inl e \<Rightarrow> Inl (failed ClassTransient (''could not upload '' @ name @ '': '' @ e))
                        | Inr digest \<Rightarrow> Inr (key, sz, digest))
                   })
            })
     }"

record packaged =
  pd_segments :: int
  pd_size :: int
  pd_hls :: "Registration option"
  pd_dash :: "Registration option"

definition note_file :: "string \<Rightarrow> string \<times> int \<times> string \<Rightarrow> packaged \<Rightarrow> packaged" where
  "note_file name sent acc =
     (case sent of (key, sz, digest) \<Rightarrow>
       let acc = acc\<lparr>pd_size := pd_size acc + sz\<rparr> in
       if name = ''master.m3u8'' then acc\<lparr>pd_hls := Some (registration ''manifest'' ''hls_master'' key sz digest None)\<rparr>
       else if HasSuffix name ''.mpd'' then acc\<lparr>pd_dash := Some (registration ''manifest'' ''dash_manifest'' key sz digest None)\<rparr>
       else if HasSuffix name ''.m4s'' \<or> HasSuffix name ''.m3u8'' then acc\<lparr>pd_segments := pd_segments acc + 1\<rparr>
       else acc)"

fun package_loop ::
  "'w Machine \<Rightarrow> 'w Uploader \<Rightarrow> string \<Rightarrow> (string \<times> bool) list \<Rightarrow> packaged \<Rightarrow> ('w, executed + packaged) state" where
  "package_loop m up out [] acc = State_Monad.return (Inr acc)"
| "package_loop m up out ((name, isDir) # es) acc =
     (if isDir then package_loop m up out es acc
      else do {
        r \<leftarrow> send_file m up out name;
        (case r of
           Inl outcome \<Rightarrow> State_Monad.return (Inl outcome)
         | Inr sent \<Rightarrow> package_loop m up out es (note_file name sent acc))
      })"

definition package_media :: "nat \<Rightarrow> rat \<Rightarrow> packaged \<Rightarrow> json" where
  "package_media inputs segmentSecs acc = JObj (go_map
     [(''renditions'', JInt (int inputs)), (''segment_files'', JInt (pd_segments acc)),
      (''segment_seconds'', JDec (json_float segmentSecs)), (''total_bytes'', JInt (pd_size acc))])"

definition package_outcome :: "nat \<Rightarrow> nat \<Rightarrow> rat \<Rightarrow> RunResult \<Rightarrow> packaged \<Rightarrow> executed" where
  "package_outcome inputs produced segmentSecs run acc =
     (case (pd_hls acc, pd_dash acc) of
        (None, _) \<Rightarrow> failed ClassUnknown ''packaging did not produce a hls manifest''
      | (_, None) \<Rightarrow> failed ClassUnknown ''packaging did not produce a dash manifest''
      | (Some hls, Some dash) \<Rightarrow>
          (let media = Some (package_media inputs segmentSecs acc);
               summary = JObj (go_map [(''renditions'', JInt (int inputs)), (''files'', JInt (int produced)),
                 (''total_bytes'', JInt (pd_size acc))])
           in Inr \<lparr>oc_Result = success (json_text summary)
                (run_metrics (pd_size acc) (rr_CPUSeconds run) (rr_PeakMemoryBytes run)),
              oc_Artifacts = [hls\<lparr>reg_Media := media\<rparr>, dash\<lparr>reg_Media := media\<rparr>]\<rparr>))"

text \<open>What follows the run of the packager.\<close>

definition send_packaged ::
  "'w Machine \<Rightarrow> 'w Uploader \<Rightarrow> string \<Rightarrow> nat \<Rightarrow> rat \<Rightarrow> RunResult \<Rightarrow> ('w, executed) state" where
  "send_packaged m up out inputs segmentSecs run =
     do {
       listing \<leftarrow> look (mc_ReadDir m out);
       (case listing of
          Inl e \<Rightarrow> State_Monad.return (Inl e)
        | Inr produced \<Rightarrow>
            if produced = [] then State_Monad.return (failed ClassUnknown ''packaging reported success but produced no files'')
            else do {
              r \<leftarrow> package_loop m up out produced \<lparr>pd_segments = 0, pd_size = 0, pd_hls = None, pd_dash = None\<rparr>;
              State_Monad.return
                (case r of Inl outcome \<Rightarrow> outcome | Inr acc \<Rightarrow> package_outcome inputs (length produced) segmentSecs run acc)
            })
     }"

definition package_dir ::
  "'w Machine \<Rightarrow> string \<Rightarrow> 'w Uploader \<Rightarrow> (Progress \<Rightarrow> 'w \<Rightarrow> 'w) \<Rightarrow> ValidateArtifact list \<Rightarrow> rat \<Rightarrow> string \<Rightarrow>
   ('w, executed) state" where
  "package_dir m bin up onProgress inputs segmentSecs dir =
     do {
       fetched \<leftarrow> fetch_loop m dir 0 inputs [];
       (case fetched of
          Inl outcome \<Rightarrow> State_Monad.return outcome
        | Inr local \<Rightarrow>
            do {
              made \<leftarrow> State (mc_MkdirAll m (path_Join dir ''out''));
              (case made of
                 Some e \<Rightarrow> State_Monad.return (Inl e)
               | None \<Rightarrow>
                   do {
                     (run, err) \<leftarrow> Run m bin (packageArgs local (path_Join dir ''out'') segmentSecs) onProgress;
                     (if err \<noteq> None
                      then run_failed m ClassPermanentInput (''packaging failed: '' @ agent_tail (rr_Stderr run) 1024)
                      else send_packaged m up (path_Join dir ''out'') (length inputs) segmentSecs run)
                   })
            })
     }"

definition packageTask ::
  "'w Machine \<Rightarrow> string \<Rightarrow> string \<Rightarrow> string \<Rightarrow> 'w Uploader \<Rightarrow> (Progress \<Rightarrow> 'w \<Rightarrow> 'w) \<Rightarrow> ('w, executed) state" where
  "packageTask m workDir bin raw up onProgress =
     (case decode_spec package_typing package_of_json raw of
        None \<Rightarrow> State_Monad.return (failed ClassPermanentConfig (''packaging spec is not valid: '' @ mc_JsonError m raw))
      | Some spec \<Rightarrow>
          (let renditions = filter (\<lambda>a. va_Kind a = [] \<or> va_Kind a = ''rendition'') (pk_Artifacts spec);
               segmentSecs = (if pk_SegmentSecs spec \<le> 0 then DefaultSegmentSeconds else pk_SegmentSecs spec) in
           if renditions = [] then State_Monad.return (failed ClassPermanentConfig ''there is nothing to package'')
           else with_temp_dir m workDir ''package-'' (package_dir m bin up onProgress (orderRenditions renditions) segmentSecs)))"

end
