(* ===== verification/Agent_Thumbnails.thy ===== *)
theory Agent_Thumbnails
  imports Agent_Tasks
begin

text \<open>
  The poster and the scrubbing strip, \<open>internal/agent/thumbnail.go\<close>, and what makes the strip usable: the
  tiles of the index lie inside the sheet, do not overlap, and their times follow one another without gap.
\<close>

section \<open>Sizes\<close>

definition defaultPosterWidth :: int where "defaultPosterWidth = 1280"
definition defaultThumbWidth :: int where "defaultThumbWidth = 160"
definition defaultColumns :: int where "defaultColumns = 10"
definition maxThumbnails :: int where "maxThumbnails = 100"
definition minIntervalS :: int where "minIntervalS = 1"

lemmas thumbnail_consts = defaultPosterWidth_def defaultThumbWidth_def defaultColumns_def maxThumbnails_def minIntervalS_def

definition applyThumbnailDefaults :: "ThumbnailSpec \<Rightarrow> ThumbnailSpec" where
  "applyThumbnailDefaults spec =
     (let spec = (if ts_PosterWidth spec \<le> 0 then spec\<lparr>ts_PosterWidth := defaultPosterWidth\<rparr> else spec);
          spec = (if ts_ThumbWidth spec \<le> 0 then spec\<lparr>ts_ThumbWidth := defaultThumbWidth\<rparr> else spec) in
      if ts_Columns spec \<le> 0 then spec\<lparr>ts_Columns := defaultColumns\<rparr> else spec)"

definition thumbnailInterval :: "duration \<Rightarrow> int" where
  "thumbnailInterval d =
     (let seconds = whole_seconds d in
      if seconds \<le> 0 then minIntervalS
      else let interval = go_quot (seconds + maxThumbnails - 1) maxThumbnails in
        if interval < minIntervalS then minIntervalS else interval)"

definition thumbnailCount :: "duration \<Rightarrow> int \<Rightarrow> int" where
  "thumbnailCount d interval =
     (let seconds = whole_seconds d in
      if seconds \<le> 0 \<or> interval \<le> 0 then 1
      else let count = go_quot seconds interval in if count < 1 then 1 else count)"

definition sheet_rows :: "int \<Rightarrow> int \<Rightarrow> int" where
  "sheet_rows count columns = go_quot (count + columns - 1) columns"

section \<open>The index\<close>

text \<open>\<open>fmt\<close>'s \<open>%0nd\<close>.\<close>

definition fmt_0d :: "nat \<Rightarrow> int \<Rightarrow> string" where
  "fmt_0d w i = (if i < 0 then CHR ''-'' # pad0 (w - 1) (show_nat (nat (- i))) else pad0 w (show_nat (nat i)))"

definition vttTime :: "duration \<Rightarrow> string" where
  "vttTime d =
     (let t = whole_seconds d; ms = go_rem (go_quot d 1000000) 1000 in
      fmt_0d 2 (go_quot t 3600) @ '':'' @ fmt_0d 2 (go_quot (go_rem t 3600) 60) @ '':'' @ fmt_0d 2 (go_rem t 60) @
      ''.'' @ fmt_0d 3 ms)"

record cue =
  cue_start :: duration
  cue_end :: duration
  cue_x :: int
  cue_y :: int
  cue_w :: int
  cue_h :: int

definition sprite_cue :: "int \<Rightarrow> int \<Rightarrow> int \<Rightarrow> int \<Rightarrow> int \<Rightarrow> cue" where
  "sprite_cue interval columns tileWidth tileHeight i =
     \<lparr>cue_start = wrap64 (wrap64 (i * interval) * second), cue_end = wrap64 (wrap64 ((i + 1) * interval) * second),
      cue_x = wrap64 (go_rem i columns * tileWidth), cue_y = wrap64 (go_quot i columns * tileHeight),
      cue_w = tileWidth, cue_h = tileHeight\<rparr>"

definition cue_text :: "string \<Rightarrow> cue \<Rightarrow> string" where
  "cue_text sheet c =
     vttTime (cue_start c) @ '' --> '' @ vttTime (cue_end c) @ newline @
     sheet @ ''#xywh='' @ Itoa (cue_x c) @ '','' @ Itoa (cue_y c) @ '','' @ Itoa (cue_w c) @ '','' @ Itoa (cue_h c) @ newline @ newline"

definition sprite_cues :: "int \<Rightarrow> int \<Rightarrow> int \<Rightarrow> int \<Rightarrow> int \<Rightarrow> cue list" where
  "sprite_cues count interval columns tileWidth tileHeight =
     map (\<lambda>i. sprite_cue interval columns tileWidth tileHeight (int i)) [0..<nat count]"

definition SpriteIndex :: "int \<Rightarrow> int \<Rightarrow> int \<Rightarrow> int \<Rightarrow> int \<Rightarrow> string \<Rightarrow> string" where
  "SpriteIndex count interval columns tileWidth tileHeight sheet =
     ''WEBVTT'' @ newline @ newline @
     concat (map (cue_text sheet) (sprite_cues count interval columns tileWidth tileHeight))"

section \<open>The task\<close>

text \<open>The text a sheet's size is read from, or the error of the tool. The binary is named literally.\<close>

definition probeSize :: "'w Machine \<Rightarrow> string \<Rightarrow> ('w, string + string) state" where
  "probeSize m path =
     do {
       r \<leftarrow> State (mc_Exec m ''ffprobe'' [''-hide_banner'', ''-loglevel'', ''error'', ''-show_entries'', ''stream=width,height'',
              ''-of'', ''csv=p=0'', path]);
       State_Monad.return
         (case r of
            Inl e \<Rightarrow> Inl e
          | Inr p \<Rightarrow>
              (case pe_wait p of
                 None \<Rightarrow> Inr (pe_stdout p)
               | Some (ExitCode code) \<Rightarrow> Inl (''exit status '' @ Itoa code)
               | Some (WaitOther e) \<Rightarrow> Inl e))
     }"

definition tile_height :: "string + string \<Rightarrow> int \<Rightarrow> string + int" where
  "tile_height measured rows =
     (case measured of
        Inl e \<Rightarrow> Inl (''could not measure the scrubbing strip: '' @ e)
      | Inr out \<Rightarrow>
          (case split_on (CHR '','') (TrimSpace out) of
             _ # h # _ \<Rightarrow>
               (case ParseInt64 (TrimSpace h) of
                  Some height \<Rightarrow> if rows \<le> 0 then Inl ''the scrubbing strip has no readable size'' else Inr (go_quot height rows)
                | None \<Rightarrow> Inl ''the scrubbing strip has no readable size'')
           | _ \<Rightarrow> Inl ''the scrubbing strip has no readable size''))"

definition tileHeightOf :: "'w Machine \<Rightarrow> string \<Rightarrow> int \<Rightarrow> ('w, string + int) state" where
  "tileHeightOf m path rows =
     do {
       measured \<leftarrow> probeSize m path;
       State_Monad.return (tile_height measured rows)
     }"

definition poster_args :: "ThumbnailSpec \<Rightarrow> duration \<Rightarrow> string \<Rightarrow> string list" where
  "poster_args spec d posterPath =
     [''-hide_banner'', ''-nostdin'', ''-loglevel'', ''error'', ''-y'', ''-ss'', fmt_fixed 3 (duration_Seconds (go_quot d 10)),
      ''-i'', ts_InputURL spec, ''-vf'', ''thumbnail=n=50,scale='' @ Itoa (ts_PosterWidth spec) @ '':-2'',
      ''-frames:v'', ''1'', ''-q:v'', ''3'', posterPath]"

definition sprite_args :: "ThumbnailSpec \<Rightarrow> int \<Rightarrow> int \<Rightarrow> int \<Rightarrow> string \<Rightarrow> string list" where
  "sprite_args spec interval columns rows spritePath =
     [''-hide_banner'', ''-nostdin'', ''-loglevel'', ''error'', ''-y'', ''-i'', ts_InputURL spec,
      ''-vf'', ''fps=1/'' @ Itoa interval @ '',scale='' @ Itoa (ts_ThumbWidth spec) @ '':-2,tile='' @ Itoa columns @ ''x'' @ Itoa rows,
      ''-frames:v'', ''1'', ''-q:v'', ''4'', spritePath]"

definition thumbnail_files :: "(string \<times> string \<times> string) list" where
  "thumbnail_files = [(''poster.jpg'', ''poster'', ''poster''), (''sprite.jpg'', ''sprite'', ''sprite''),
     (''sprite.vtt'', ''sprite_index'', ''sprite_index'')]"

fun thumbnail_loop ::
  "'w Machine \<Rightarrow> 'w Uploader \<Rightarrow> string \<Rightarrow> json \<Rightarrow> (string \<times> string \<times> string) list \<Rightarrow> Registration list \<Rightarrow> int \<Rightarrow>
   ('w, executed + (Registration list \<times> int)) state" where
  "thumbnail_loop m up dir media [] regs whole = State_Monad.return (Inr (regs, whole))"
| "thumbnail_loop m up dir media ((file, kind, label) # us) regs whole =
     do {
       r \<leftarrow> send_file m up dir file;
       (case r of
          Inl outcome \<Rightarrow> State_Monad.return (Inl outcome)
        | Inr (key, sz, digest) \<Rightarrow>
            thumbnail_loop m up dir media us (regs @ [registration kind label key sz digest (Some media)]) (whole + sz))
     }"

definition thumbnail_media :: "int \<Rightarrow> int \<Rightarrow> int \<Rightarrow> int \<Rightarrow> int \<Rightarrow> int \<Rightarrow> json" where
  "thumbnail_media interval count columns rows tileWidth tileHeight = JObj (go_map
     [(''interval_seconds'', JInt interval), (''thumbnails'', JInt count), (''columns'', JInt columns), (''rows'', JInt rows),
      (''tile_width'', JInt tileWidth), (''tile_height'', JInt tileHeight)])"

definition thumbnail_outcome :: "int \<Rightarrow> int \<Rightarrow> RunResult \<Rightarrow> RunResult \<Rightarrow> Registration list \<Rightarrow> int \<Rightarrow> executed" where
  "thumbnail_outcome count interval posterRun spriteRun regs whole =
     Inr \<lparr>oc_Result = success (json_text (JObj (go_map [(''thumbnails'', JInt count), (''interval_seconds'', JInt interval),
              (''total_bytes'', JInt whole)])))
            (run_metrics whole (f64 (rr_CPUSeconds posterRun + rr_CPUSeconds spriteRun))
              (max (rr_PeakMemoryBytes posterRun) (rr_PeakMemoryBytes spriteRun))),
          oc_Artifacts = regs\<rparr>"

text \<open>What follows the two runs: the index is written and the three files are sent.\<close>

definition send_thumbnails ::
  "'w Machine \<Rightarrow> 'w Uploader \<Rightarrow> string \<Rightarrow> ThumbnailSpec \<Rightarrow> int \<Rightarrow> int \<Rightarrow> int \<Rightarrow> int \<Rightarrow> RunResult \<Rightarrow> RunResult \<Rightarrow>
   ('w, executed) state" where
  "send_thumbnails m up dir spec interval count columns rows posterRun spriteRun =
     do {
       measured \<leftarrow> tileHeightOf m (path_Join dir ''sprite.jpg'') rows;
       (case measured of
          Inl e \<Rightarrow> State_Monad.return (failed ClassUnknown e)
        | Inr tileHeight \<Rightarrow>
            do {
              written \<leftarrow> State (mc_Write m (path_Join dir ''sprite.vtt'')
                (SpriteIndex count interval columns (ts_ThumbWidth spec) tileHeight ''sprite.jpg''));
              (case written of
                 Some e \<Rightarrow> State_Monad.return (Inl e)
               | None \<Rightarrow>
                   do {
                     r \<leftarrow> thumbnail_loop m up dir
                       (thumbnail_media interval count columns rows (ts_ThumbWidth spec) tileHeight) thumbnail_files [] 0;
                     State_Monad.return
                       (case r of
                          Inl outcome \<Rightarrow> outcome
                        | Inr (regs, whole) \<Rightarrow> thumbnail_outcome count interval posterRun spriteRun regs whole)
                   })
            })
     }"

definition thumbnail_dir ::
  "'w Machine \<Rightarrow> string \<Rightarrow> 'w Uploader \<Rightarrow> (Progress \<Rightarrow> 'w \<Rightarrow> 'w) \<Rightarrow> ThumbnailSpec \<Rightarrow> string \<Rightarrow> ('w, executed) state" where
  "thumbnail_dir m bin up onProgress spec dir =
     (let d = wrap64 (ts_DurationMS spec * 1000000); interval = thumbnailInterval d;
          count = thumbnailCount d interval; columns = min (ts_Columns spec) count; rows = sheet_rows count columns in
      do {
        (posterRun, err) \<leftarrow> Run m bin (poster_args spec d (path_Join dir ''poster.jpg'')) onProgress;
        (if err \<noteq> None
         then run_failed m ClassPermanentInput (''could not make a poster: '' @ agent_tail (rr_Stderr posterRun) 512)
         else do {
           (spriteRun, err) \<leftarrow> Run m bin (sprite_args spec interval columns rows (path_Join dir ''sprite.jpg'')) onProgress;
           (if err \<noteq> None
            then run_failed m ClassPermanentInput (''could not make a scrubbing strip: '' @ agent_tail (rr_Stderr spriteRun) 512)
            else send_thumbnails m up dir spec interval count columns rows posterRun spriteRun)
         })
      })"

definition thumbnailTask ::
  "'w Machine \<Rightarrow> string \<Rightarrow> string \<Rightarrow> string \<Rightarrow> 'w Uploader \<Rightarrow> (Progress \<Rightarrow> 'w \<Rightarrow> 'w) \<Rightarrow> ('w, executed) state" where
  "thumbnailTask m workDir bin raw up onProgress =
     (case decode_spec thumbnail_typing thumbnail_of_json raw of
        None \<Rightarrow> State_Monad.return (bad_spec m ''thumbnail'' raw)
      | Some spec \<Rightarrow>
          if \<not> isHTTPURL (ts_InputURL spec)
          then State_Monad.return (failed ClassPermanentConfig ''input_url must be an http or https URL'')
          else with_temp_dir m workDir ''thumbs-'' (thumbnail_dir m bin up onProgress (applyThumbnailDefaults spec)))"

end
