(* ===== verification/Agent.thy ===== *)
theory Agent
  imports Agent_Thumbnails
begin

text \<open>
  The worker agent, \<open>internal/agent/agent.go\<close>, and its client of the worker protocol, \<open>client.go\<close>. What
  travels over HTTP is the struct on both sides, so a request carries the body the handlers of
  \<open>internal/api\<close> decode and a reply is theirs. The agent's state holds the fields of \<open>Agent\<close>, the shared
  progress value, the calls it made so far (which no code reads), and the state of its machine.

  \<open>keepAlive\<close> runs beside an executor. Its own calls are modelled here; that it cancels the run shows in
  the machine, through \<open>ctx.Err()\<close>.
\<close>

section \<open>State\<close>

record AgentConfig =
  cf_BootstrapToken :: string
  cf_Name :: string
  cf_WorkDir :: string
  cf_FFmpegBin :: string
  cf_FFprobeBin :: string
  cf_SlotCapacity :: "(string \<times> int) list"
  cf_PollInterval :: duration

datatype client_error = NoWork | LeaseGone | CallRefused int string | CallFailed string

record call =
  cl_Path :: "string list"
  cl_In :: "req_body option"
  cl_Answer :: "client_error + body"

record 'w Agent =
  ag_workerID :: uuid
  ag_credential :: string
  ag_running :: int
  ag_slots :: "(string \<times> int) list"
  ag_pct :: rat
  ag_calls :: "call list"
  ag_world :: 'w

text \<open>
  The link to the control plane: one HTTP exchange, whether the agent itself is being stopped, a wait
  that reports whether it ran to its end, and the text of an error.
\<close>

record 'w Link =
  ln_Http :: "string \<Rightarrow> string list \<Rightarrow> req_body option \<Rightarrow> 'w \<Rightarrow> (string + reply) \<times> 'w"
  ln_Stopping :: "'w \<Rightarrow> bool"
  ln_Sleep :: "duration \<Rightarrow> 'w \<Rightarrow> bool \<times> 'w"
  ln_ErrorText :: "client_error \<Rightarrow> string"

section \<open>The machine inside the agent\<close>

definition lift_op :: "('w \<Rightarrow> 'a \<times> 'w) \<Rightarrow> 'w Agent \<Rightarrow> 'a \<times> 'w Agent" where
  "lift_op f a = (case f (ag_world a) of (r, w) \<Rightarrow> (r, a\<lparr>ag_world := w\<rparr>))"

definition lift_machine :: "'w Machine \<Rightarrow> 'w Agent Machine" where
  "lift_machine m =
     \<lparr>mc_Exec = (\<lambda>bin args. lift_op (mc_Exec m bin args)), mc_Ctx = mc_Ctx m \<circ> ag_world, mc_Now = mc_Now m \<circ> ag_world,
      mc_MkdirTemp = (\<lambda>d p. lift_op (mc_MkdirTemp m d p)), mc_MkdirAll = (\<lambda>p. lift_op (mc_MkdirAll m p)),
      mc_RemoveAll = (\<lambda>p a. a\<lparr>ag_world := mc_RemoveAll m p (ag_world a)\<rparr>), mc_Stat = (\<lambda>p. mc_Stat m p \<circ> ag_world),
      mc_ReadDir = (\<lambda>p. mc_ReadDir m p \<circ> ag_world), mc_Open = (\<lambda>p. mc_Open m p \<circ> ag_world),
      mc_Write = (\<lambda>p b. lift_op (mc_Write m p b)), mc_Get = (\<lambda>u. lift_op (mc_Get m u)),
      mc_Put = (\<lambda>u b n. lift_op (mc_Put m u b n)), mc_JsonError = mc_JsonError m, mc_ConfigError = mc_ConfigError m,
      mc_SecondFirst = mc_SecondFirst m \<circ> ag_world\<rparr>"

section \<open>The client\<close>

text \<open>\<open>wants\<close>: the caller passed a value to decode into, for which 204 means there is none.\<close>

definition client_answer :: "bool \<Rightarrow> string + reply \<Rightarrow> client_error + body" where
  "client_answer wants r =
     (case r of
        Inl e \<Rightarrow> Inl (CallFailed e)
      | Inr resp \<Rightarrow>
          (let (code, msg, content) = (case resp of Refused code msg \<Rightarrow> (code, msg, NoBody) | Answer code b \<Rightarrow> (code, [], b)) in
           if code = 204 then (if wants then Inl NoWork else Inr NoBody)
           else if code = 409 then Inl LeaseGone
           else if code \<ge> 300 then Inl (CallRefused code msg)
           else Inr content))"

definition client_do ::
  "'w Link \<Rightarrow> string list \<Rightarrow> string \<Rightarrow> req_body option \<Rightarrow> bool \<Rightarrow> ('w Agent, client_error + body) state" where
  "client_do l path token inp wants =
     State (\<lambda>a. case ln_Http l token path inp (ag_world a) of (r, w) \<Rightarrow>
       (client_answer wants r,
        a\<lparr>ag_world := w, ag_calls := ag_calls a @ [\<lparr>cl_Path = path, cl_In = inp, cl_Answer = client_answer wants r\<rparr>]\<rparr>))"

definition attempt_path :: "uuid \<Rightarrow> string \<Rightarrow> string list" where
  "attempt_path attemptID op = [''worker'', ''v1'', ''attempts'', uuid_String attemptID, op]"

text \<open>A body of another shape does not decode.\<close>

definition undecodable :: client_error where
  "undecodable = CallFailed ''cannot decode the response''"

definition client_call ::
  "'w Link \<Rightarrow> string list \<Rightarrow> req_body option \<Rightarrow> bool \<Rightarrow> ('w Agent, client_error + body) state" where
  "client_call l path inp wants =
     do {
       a \<leftarrow> State_Monad.get;
       client_do l path (ag_credential a) inp wants
     }"

definition client_Register ::
  "'w Link \<Rightarrow> string \<Rightarrow> WorkerRegistration \<Rightarrow> ('w Agent, client_error + uuid \<times> duration) state" where
  "client_Register l bootstrapToken reg =
     do {
       r \<leftarrow> client_do l [''worker'', ''v1'', ''register''] bootstrapToken (Some (RegistrationBody reg)) True;
       (case r of
          Inl e \<Rightarrow> State_Monad.return (Inl e)
        | Inr (RegisterResponse wk credential protocol heartbeat) \<Rightarrow>
            do {
              State_Monad.update (\<lambda>a. a\<lparr>ag_credential := credential\<rparr>);
              State_Monad.return (Inr (wk_ID wk, wrap64 (heartbeat * second)))
            }
        | Inr _ \<Rightarrow> State_Monad.return (Inl undecodable))
     }"

definition client_Heartbeat :: "'w Link \<Rightarrow> WorkerReport \<Rightarrow> ('w Agent, client_error + string) state" where
  "client_Heartbeat l rep =
     do {
       r \<leftarrow> client_call l [''worker'', ''v1'', ''heartbeat''] (Some (ReportBody rep)) True;
       State_Monad.return
         (case r of Inl e \<Rightarrow> Inl e | Inr (HeartbeatResponse state every) \<Rightarrow> Inr state | Inr _ \<Rightarrow> Inl undecodable)
     }"

definition client_Lease :: "'w Link \<Rightarrow> ('w Agent, client_error + Assignment) state" where
  "client_Lease l =
     do {
       r \<leftarrow> client_call l [''worker'', ''v1'', ''lease''] None True;
       State_Monad.return (case r of Inl e \<Rightarrow> Inl e | Inr (AssignmentBody as) \<Rightarrow> Inr as | Inr _ \<Rightarrow> Inl undecodable)
     }"

definition client_Started :: "'w Link \<Rightarrow> uuid \<Rightarrow> ('w Agent, client_error option) state" where
  "client_Started l attemptID =
     do {
       r \<leftarrow> client_call l (attempt_path attemptID ''started'') None False;
       State_Monad.return (case r of Inl e \<Rightarrow> Some e | Inr _ \<Rightarrow> None)
     }"

definition client_Progress :: "'w Link \<Rightarrow> uuid \<Rightarrow> rat \<Rightarrow> ('w Agent, client_error + bool) state" where
  "client_Progress l attemptID pct =
     do {
       r \<leftarrow> client_call l (attempt_path attemptID ''progress'') (Some (ProgressBody pct)) True;
       State_Monad.return
         (case r of Inl e \<Rightarrow> Inl e | Inr (ProgressResponse cancel every) \<Rightarrow> Inr cancel | Inr _ \<Rightarrow> Inl undecodable)
     }"

definition client_UploadURL :: "'w Link \<Rightarrow> uuid \<Rightarrow> string \<Rightarrow> ('w Agent, client_error + string \<times> string) state" where
  "client_UploadURL l attemptID path =
     do {
       r \<leftarrow> client_call l (attempt_path attemptID ''upload-url'') (Some (PathBody path)) True;
       State_Monad.return (case r of Inl e \<Rightarrow> Inl e | Inr (UploadURL url key) \<Rightarrow> Inr (url, key) | Inr _ \<Rightarrow> Inl undecodable)
     }"

definition client_RegisterArtifact :: "'w Link \<Rightarrow> uuid \<Rightarrow> Registration \<Rightarrow> ('w Agent, client_error option) state" where
  "client_RegisterArtifact l attemptID reg =
     do {
       r \<leftarrow> client_call l (attempt_path attemptID ''artifacts'') (Some (ArtifactRegistration reg)) False;
       State_Monad.return (case r of Inl e \<Rightarrow> Some e | Inr _ \<Rightarrow> None)
     }"

definition client_Complete :: "'w Link \<Rightarrow> uuid \<Rightarrow> Result \<Rightarrow> ('w Agent, client_error option) state" where
  "client_Complete l attemptID res =
     do {
       r \<leftarrow> client_call l (attempt_path attemptID ''complete'') (Some (ResultBody res)) False;
       State_Monad.return (case r of Inl e \<Rightarrow> Some e | Inr _ \<Rightarrow> None)
     }"

section \<open>Waiting and counting\<close>

definition agent_sleep :: "'w Link \<Rightarrow> duration \<Rightarrow> ('w Agent, bool) state" where
  "agent_sleep l d = State (lift_op (ln_Sleep l (if d \<le> 0 then second else d)))"

definition stopping :: "'w Link \<Rightarrow> ('w Agent, bool) state" where
  "stopping l = look (ln_Stopping l \<circ> ag_world)"

definition track :: "int \<Rightarrow> ('w Agent, unit) state" where
  "track delta = State_Monad.update (\<lambda>a. a\<lparr>ag_running := ag_running a + delta\<rparr>)"

definition slotsInUse :: "'w Agent \<Rightarrow> (string \<times> int) list" where
  "slotsInUse a = [(''total'', ag_running a)]"

definition sourceDuration :: "string \<Rightarrow> duration" where
  "sourceDuration raw =
     (case decode_spec [(''duration_ms'', is_int64)] (\<lambda>j. as_int (json_field ''duration_ms'' (members j))) raw of
        None \<Rightarrow> 0 | Some ms \<Rightarrow> wrap64 (ms * 1000000))"

section \<open>Reporting\<close>

text \<open>At most five calls; the wait doubles after each failed one.\<close>

fun report_loop :: "'w Link \<Rightarrow> uuid \<Rightarrow> Result \<Rightarrow> nat \<Rightarrow> duration \<Rightarrow> ('w Agent, unit) state" where
  "report_loop l attemptID res 0 backoff = State_Monad.return ()"
| "report_loop l attemptID res (Suc n) backoff =
     do {
       err \<leftarrow> client_Complete l attemptID res;
       (if err = None then State_Monad.return ()
        else do {
          stop \<leftarrow> stopping l;
          (if err = Some LeaseGone \<or> stop then State_Monad.return ()
           else do {
             slept \<leftarrow> agent_sleep l backoff;
             (if slept then report_loop l attemptID res n (backoff * 2) else State_Monad.return ())
           })
        })
     }"

definition agent_report :: "'w Link \<Rightarrow> Assignment \<Rightarrow> Result \<Rightarrow> ('w Agent, unit) state" where
  "agent_report l as result = report_loop l (as_AttemptID as) result 5 second"

section \<open>Keeping the lease\<close>

definition keep_every :: "Assignment \<Rightarrow> duration" where
  "keep_every as = (let every = go_quot (wrap64 (as_LeaseTTL as * second)) 3 in if every < second then second else every)"

text \<open>What the loop's \<open>select\<close> finds, in order; the result is whether the run was cancelled.\<close>

datatype wake = Finished | CtxDone | Tick

fun keepAlive :: "'w Link \<Rightarrow> Assignment \<Rightarrow> wake list \<Rightarrow> ('w Agent, bool) state" where
  "keepAlive l as [] = State_Monad.return False"
| "keepAlive l as (Finished # ws) = State_Monad.return False"
| "keepAlive l as (CtxDone # ws) = State_Monad.return False"
| "keepAlive l as (Tick # ws) =
     do {
       pct \<leftarrow> look ag_pct;
       r \<leftarrow> client_Progress l (as_AttemptID as) pct;
       (case r of
          Inl LeaseGone \<Rightarrow> State_Monad.return True
        | Inl e \<Rightarrow> keepAlive l as ws
        | Inr cancelled \<Rightarrow> if cancelled then State_Monad.return True else keepAlive l as ws)
     }"

section \<open>Executing\<close>

text \<open>\<open>deadline\<close> is the context that bounds a probe.\<close>

definition executors ::
  "'w Machine \<Rightarrow> ('w \<Rightarrow> string option) \<Rightarrow> AgentConfig \<Rightarrow>
   (string \<times> (string \<Rightarrow> 'w Agent Uploader \<Rightarrow> (Progress \<Rightarrow> 'w Agent \<Rightarrow> 'w Agent) \<Rightarrow> ('w Agent, executed) state)) list" where
  "executors m deadline cfg =
     (let lm = lift_machine m in
      [(''probe'', \<lambda>spec up p. probeTask lm (deadline \<circ> ag_world) (cf_FFprobeBin cfg) spec),
       (''encode'', \<lambda>spec up p. encodeTask lm (cf_WorkDir cfg) (cf_FFmpegBin cfg) spec p),
       (''validate'', \<lambda>spec up p. run_validateTask lm (cf_WorkDir cfg) (cf_FFprobeBin cfg) spec p),
       (''package'', \<lambda>spec up p. packageTask lm (cf_WorkDir cfg) (cf_FFmpegBin cfg) spec up p),
       (''thumbnail'', \<lambda>spec up p. thumbnailTask lm (cf_WorkDir cfg) (cf_FFmpegBin cfg) spec up p)])"

definition Operations :: "string list" where
  "Operations = [''probe'', ''encode'', ''validate'', ''package'', ''thumbnail'']"

datatype registered = AllRegistered | LeaseLost | NotRegistered string client_error

fun register_all :: "'w Link \<Rightarrow> uuid \<Rightarrow> Registration list \<Rightarrow> ('w Agent, registered) state" where
  "register_all l attemptID [] = State_Monad.return AllRegistered"
| "register_all l attemptID (reg # regs) =
     do {
       err \<leftarrow> client_RegisterArtifact l attemptID reg;
       (case err of
          None \<Rightarrow> register_all l attemptID regs
        | Some LeaseGone \<Rightarrow> State_Monad.return LeaseLost
        | Some e \<Rightarrow> State_Monad.return (NotRegistered (reg_Label reg) e))
     }"

definition set_progress :: "string \<Rightarrow> Progress \<Rightarrow> 'w Agent \<Rightarrow> 'w Agent" where
  "set_progress spec p a = a\<lparr>ag_pct := Percent (pg_OutTime p) (sourceDuration spec)\<rparr>"

definition uploader :: "'w Link \<Rightarrow> uuid \<Rightarrow> 'w Agent Uploader" where
  "uploader l attemptID path =
     do {
       r \<leftarrow> client_UploadURL l attemptID path;
       State_Monad.return (case r of Inl e \<Rightarrow> Inl (ln_ErrorText l e) | Inr dest \<Rightarrow> Inr dest)
     }"

text \<open>What is done with the executor's answer.\<close>

definition settle :: "'w Link \<Rightarrow> Assignment \<Rightarrow> Result \<Rightarrow> Registration list \<Rightarrow> ('w Agent, unit) state" where
  "settle l as result arts =
     (if \<not> Success result then agent_report l as result
      else do {
        r \<leftarrow> register_all l (as_AttemptID as) arts;
        (case r of
           LeaseLost \<Rightarrow> State_Monad.return ()
         | AllRegistered \<Rightarrow> agent_report l as result
         | NotRegistered label e \<Rightarrow>
             agent_report l as (failure ClassTransient (''could not register '' @ label @ '': '' @ ln_ErrorText l e)))
      })"

definition run_task ::
  "'w Machine \<Rightarrow> 'w Link \<Rightarrow> Assignment \<Rightarrow>
   (string \<Rightarrow> 'w Agent Uploader \<Rightarrow> (Progress \<Rightarrow> 'w Agent \<Rightarrow> 'w Agent) \<Rightarrow> ('w Agent, executed) state) \<Rightarrow> ('w Agent, unit) state" where
  "run_task m l as exec =
     do {
       State_Monad.update (\<lambda>a. a\<lparr>ag_pct := 0\<rparr>);
       started \<leftarrow> look (mc_Now m \<circ> ag_world);
       outcome \<leftarrow> exec (as_Spec as) (uploader l (as_AttemptID as)) (set_progress (as_Spec as));
       cancelled \<leftarrow> look (mc_Ctx m \<circ> ag_world);
       stop \<leftarrow> stopping l;
       now \<leftarrow> look (mc_Now m \<circ> ag_world);
       (let timed = (\<lambda>res. res\<lparr>res_Metrics := (res_Metrics res)\<lparr>WallSeconds := duration_Seconds (now - started)\<rparr>\<rparr>) in
        case outcome of
          Inl e \<Rightarrow> if cancelled \<noteq> None \<and> \<not> stop then State_Monad.return () else settle l as (timed (failure ClassUnknown e)) []
        | Inr oc \<Rightarrow> settle l as (timed (oc_Result oc)) (oc_Artifacts oc))
     }"

definition execute ::
  "'w Machine \<Rightarrow> 'w Link \<Rightarrow> ('w \<Rightarrow> string option) \<Rightarrow> AgentConfig \<Rightarrow> Assignment \<Rightarrow> ('w Agent, unit) state" where
  "execute m l deadline cfg as =
     (case map_of (executors m deadline cfg) (as_Operation as) of
        None \<Rightarrow> agent_report l as (failure ClassPermanentConfig (''this worker has no executor for operation '' @ as_Operation as))
      | Some exec \<Rightarrow>
          do {
            track 1;
            err \<leftarrow> client_Started l (as_AttemptID as);
            (if err = Some LeaseGone then State_Monad.return () else run_task m l as exec);
            track (- 1)
          })"

section \<open>The loops\<close>

definition poll_once ::
  "'w Machine \<Rightarrow> 'w Link \<Rightarrow> ('w \<Rightarrow> string option) \<Rightarrow> AgentConfig \<Rightarrow> ('w Agent, unit) state" where
  "poll_once m l deadline cfg =
     do {
       r \<leftarrow> client_Lease l;
       (case r of
          Inl e \<Rightarrow>
            do {
              slept \<leftarrow> agent_sleep l (cf_PollInterval cfg);
              State_Monad.return ()
            }
        | Inr assignment \<Rightarrow> execute m l deadline cfg assignment)
     }"

text \<open>\<open>n\<close> rounds of \<open>pollLoop\<close>, which has no end of its own.\<close>

fun pollLoop ::
  "'w Machine \<Rightarrow> 'w Link \<Rightarrow> ('w \<Rightarrow> string option) \<Rightarrow> AgentConfig \<Rightarrow> nat \<Rightarrow> ('w Agent, unit) state" where
  "pollLoop m l deadline cfg 0 = State_Monad.return ()"
| "pollLoop m l deadline cfg (Suc n) =
     do {
       stop \<leftarrow> stopping l;
       (if stop then State_Monad.return ()
        else do {
          poll_once m l deadline cfg;
          pollLoop m l deadline cfg n
        })
     }"

definition heartbeat_every :: "duration \<Rightarrow> duration" where
  "heartbeat_every every = (if every \<le> 0 then 10 * second else every)"

text \<open>One tick of \<open>heartbeatLoop\<close>: whatever the answer, the loop goes on.\<close>

definition heartbeat_once :: "'w Link \<Rightarrow> (int \<times> int) option \<Rightarrow> ('w Agent, unit) state" where
  "heartbeat_once l st =
     do {
       a \<leftarrow> State_Monad.get;
       r \<leftarrow> client_Heartbeat l \<lparr>rp_CPUPct = 0, rp_MemoryUsedBytes = 0, rp_DiskFreeBytes = freeDisk st, rp_GPUPct = 0,
         rp_SlotsInUse = slotsInUse a, rp_Healthy = True\<rparr>;
       State_Monad.return ()
     }"

section \<open>Starting\<close>

definition agent_slots :: "AgentConfig \<Rightarrow> HostFacts \<Rightarrow> (string \<times> int) list" where
  "agent_slots cfg host =
     (let slots = (if cf_SlotCapacity cfg = [] then DefaultSlots (hf_CPUCores host) else cf_SlotCapacity cfg) in
      concat (map (\<lambda>op. case map_of slots op of Some n \<Rightarrow> if n > 0 then [(op, n)] else [] | None \<Rightarrow> []) Operations))"

definition agent_registration :: "AgentConfig \<Rightarrow> HostFacts \<Rightarrow> AgentCapabilities \<Rightarrow> WorkerRegistration" where
  "agent_registration cfg host caps =
     \<lparr>wg_Name = cf_Name cfg, wg_Hostname = hf_Hostname host, wg_OS = hf_OS host, wg_Arch = hf_Arch host,
      wg_CPUCores = hf_CPUCores host, wg_MemoryBytes = hf_MemoryBytes host, wg_DiskBytes = hf_DiskBytes host,
      wg_GPUModel = [], wg_GPUMemoryBytes = 0, wg_FFmpegVersion = ac_FFmpegVersion caps,
      wg_ProtocolVersion = ProtocolVersion,
      wg_Capabilities = \<lparr>cap_Operations = Operations, cap_Encoders = ac_Encoders caps, cap_Decoders = ac_Decoders caps,
        cap_Containers = ac_Containers caps, cap_PixelFmts = [], cap_Packagers = [], cap_Encryption = [], cap_ASRModels = []\<rparr>,
      wg_SlotCapacity = agent_slots cfg host\<rparr>"

datatype start_error = ToolFailed string | ToolTooOld string | NotEnrolled client_error

text \<open>\<open>Run\<close> up to the two loops: the interval between heartbeats, or why the agent does not start.\<close>

definition agent_Run ::
  "'w Link \<Rightarrow> (string list \<Rightarrow> string + string) \<Rightarrow> HostFacts \<Rightarrow> AgentConfig \<Rightarrow> ('w Agent, start_error + duration) state" where
  "agent_Run l output host cfg =
     (case Detect output of
        Inl e \<Rightarrow> State_Monad.return (Inl (ToolFailed e))
      | Inr caps \<Rightarrow>
          (case CheckVersion (ac_FFmpegVersion caps) of
             Some e \<Rightarrow> State_Monad.return (Inl (ToolTooOld e))
           | None \<Rightarrow>
               do {
                 State_Monad.update (\<lambda>a. a\<lparr>ag_slots := agent_slots cfg host\<rparr>);
                 r \<leftarrow> client_Register l (cf_BootstrapToken cfg) (agent_registration cfg host caps);
                 (case r of
                    Inl e \<Rightarrow> State_Monad.return (Inl (NotEnrolled e))
                  | Inr (workerID, every) \<Rightarrow>
                      do {
                        State_Monad.update (\<lambda>a. a\<lparr>ag_workerID := workerID\<rparr>);
                        State_Monad.return (Inr (heartbeat_every every))
                      })
               }))"

end
