(* ===== verification/Agent_Steps.thy ===== *)
theory Agent_Steps
  imports Agent
begin

text \<open>
  How a computation of the agent moves its state. \<open>keeps R m\<close>: the computation \<open>m\<close> takes every state to
  one related to it by \<open>R\<close>. The interface \<open>machine_relation\<close> asks for a preorder that the host's own
  operations respect, and then every executor respects it as soon as its uploader does; \<open>agent_relation\<close>
  adds the calls to the control plane, and then executing, reporting and polling respect it too. The calls
  an agent makes (\<open>Agent_Calls\<close>) and what the control plane does meanwhile (\<open>Composition\<close>) are two such
  relations.
\<close>

section \<open>Moves of the machine\<close>

inductive machine_step :: "'w Machine \<Rightarrow> 'w \<Rightarrow> 'w \<Rightarrow> bool" for m where
  step_exec: "machine_step m w (snd (mc_Exec m bin args w))"
| step_mkdir_temp: "machine_step m w (snd (mc_MkdirTemp m d p w))"
| step_mkdir_all: "machine_step m w (snd (mc_MkdirAll m p w))"
| step_remove_all: "machine_step m w (mc_RemoveAll m p w)"
| step_write: "machine_step m w (snd (mc_Write m p bs w))"
| step_get: "machine_step m w (snd (mc_Get m url w))"
| step_put: "machine_step m w (snd (mc_Put m url bs n w))"

lemma lift_machine_ops [simp]:
  "mc_Exec (lift_machine m) bin args = lift_op (mc_Exec m bin args)"
  "mc_MkdirTemp (lift_machine m) d p = lift_op (mc_MkdirTemp m d p)"
  "mc_MkdirAll (lift_machine m) p = lift_op (mc_MkdirAll m p)"
  "mc_Write (lift_machine m) p b = lift_op (mc_Write m p b)"
  "mc_Get (lift_machine m) u = lift_op (mc_Get m u)"
  "mc_Put (lift_machine m) u b n = lift_op (mc_Put m u b n)"
  "mc_RemoveAll (lift_machine m) p a = a\<lparr>ag_world := mc_RemoveAll m p (ag_world a)\<rparr>"
  by (simp_all add: lift_machine_def)

lemma lift_op_state: "snd (lift_op f a) = a\<lparr>ag_world := snd (f (ag_world a))\<rparr>"
  by (simp add: lift_op_def split: prod.split)

section \<open>Computations that respect a relation\<close>

definition keeps :: "('s \<Rightarrow> 's \<Rightarrow> bool) \<Rightarrow> ('s, 'a) state \<Rightarrow> bool" where
  "keeps R m \<longleftrightarrow> (\<forall>a. R a (snd (run_state m a)))"

named_theorems keeps_intros \<open>rules for computations that respect a relation\<close>

lemma keepsD: "keeps R m \<Longrightarrow> R a (snd (run_state m a))"
  by (simp add: keeps_def)

lemma keeps_update: "(\<And>a. R a (f a)) \<Longrightarrow> keeps R (State_Monad.update f)"
  by (simp add: keeps_def State_Monad.update_def)

lemma keeps_if [keeps_intros]: "(P \<Longrightarrow> keeps R m) \<Longrightarrow> (\<not> P \<Longrightarrow> keeps R n) \<Longrightarrow> keeps R (if P then m else n)"
  by simp

lemma keeps_option [keeps_intros]:
  "(x = None \<Longrightarrow> keeps R m) \<Longrightarrow> (\<And>v. x = Some v \<Longrightarrow> keeps R (n v)) \<Longrightarrow> keeps R (case x of None \<Rightarrow> m | Some v \<Rightarrow> n v)"
  by (cases x) auto

lemma keeps_sum [keeps_intros]:
  "(\<And>e. x = Inl e \<Longrightarrow> keeps R (m e)) \<Longrightarrow> (\<And>v. x = Inr v \<Longrightarrow> keeps R (n v)) \<Longrightarrow> keeps R (case x of Inl e \<Rightarrow> m e | Inr v \<Rightarrow> n v)"
  by (cases x) auto

lemma keeps_prod [keeps_intros]: "(\<And>a b. x = (a, b) \<Longrightarrow> keeps R (m a b)) \<Longrightarrow> keeps R (case x of (a, b) \<Rightarrow> m a b)"
  by (cases x) auto

lemma keeps_Let [keeps_intros]: "keeps R (f x) \<Longrightarrow> keeps R (let y = x in f y)"
  by simp

section \<open>The executors\<close>

locale machine_relation =
  fixes R :: "'w Agent \<Rightarrow> 'w Agent \<Rightarrow> bool" and m :: "'w Machine"
  assumes same: "ag_calls b = ag_calls a \<Longrightarrow> ag_world b = ag_world a \<Longrightarrow> R a b"
    and trans: "R a b \<Longrightarrow> R b c \<Longrightarrow> R a c"
    and machine: "machine_step m (ag_world a) w \<Longrightarrow> R a (a\<lparr>ag_world := w\<rparr>)"
begin

lemma relates_refl [simp]: "R a a"
  by (simp add: same)

lemma keeps_return [keeps_intros]: "keeps R (State_Monad.return x)"
  by (simp add: keeps_def same)

lemma keeps_look [keeps_intros]: "keeps R (look f)"
  by (simp add: keeps_def same)

lemma keeps_get [keeps_intros]: "keeps R State_Monad.get"
  by (simp add: keeps_def same)

lemma keeps_bind [keeps_intros]: "keeps R c \<Longrightarrow> (\<And>x. keeps R (f x)) \<Longrightarrow> keeps R (State_Monad.bind c f)"
  by (auto simp: keeps_def split: prod.split) (metis snd_conv trans)

lemma keeps_same [keeps_intros]:
  "(\<And>a. ag_calls (f a) = ag_calls a) \<Longrightarrow> (\<And>a. ag_world (f a) = ag_world a) \<Longrightarrow> keeps R (State_Monad.update f)"
  by (rule keeps_update) (rule same)

lemma keeps_machine [keeps_intros]:
  "keeps R (State (lift_op (mc_Exec m bin args)))" "keeps R (State (lift_op (mc_MkdirTemp m d p)))"
  "keeps R (State (lift_op (mc_MkdirAll m p)))" "keeps R (State (lift_op (mc_Write m p bs)))"
  "keeps R (State (lift_op (mc_Get m url)))" "keeps R (State (lift_op (mc_Put m url bs n)))"
  "keeps R (State_Monad.update (mc_RemoveAll (lift_machine m) p))"
  by (auto simp: keeps_def lift_op_state State_Monad.update_def intro!: machine machine_step.intros)

lemma fold_moves: "(\<And>x a. R a (p x a)) \<Longrightarrow> R a (fold p xs a)"
  by (induction xs arbitrary: a) (auto intro: same trans)

lemma keeps_Run [keeps_intros]: "(\<And>x a. R a (p x a)) \<Longrightarrow> keeps R (Run (lift_machine m) bin args p)"
  by (auto simp: Run_def Let_def intro!: keeps_intros keeps_update fold_moves)

lemma keeps_download [keeps_intros]: "keeps R (download (lift_machine m) url path)"
  by (auto simp: download_def intro!: keeps_intros)

lemma keeps_upload [keeps_intros]: "keeps R (upload (lift_machine m) url path n)"
  by (auto simp: upload_def intro!: keeps_intros)

lemma keeps_run_failed [keeps_intros]: "keeps R (run_failed m' c r)"
  by (auto simp: run_failed_def intro!: keeps_intros)

lemma keeps_temp_dir [keeps_intros]: "(\<And>dir. keeps R (body dir)) \<Longrightarrow> keeps R (with_temp_dir (lift_machine m) w p body)"
  by (auto simp: with_temp_dir_def intro!: keeps_intros)

lemma keeps_probeTask [keeps_intros]: "keeps R (probeTask (lift_machine m) deadline bin raw)"
  by (auto simp: probeTask_def intro!: keeps_intros)

lemma keeps_send_encoded [keeps_intros]: "keeps R (send_encoded (lift_machine m) spec path run)"
  by (auto simp: send_encoded_def intro!: keeps_intros)

lemma keeps_encodeTask [keeps_intros]: "(\<And>x a. R a (p x a)) \<Longrightarrow> keeps R (encodeTask (lift_machine m) w bin raw p)"
  by (auto simp: encodeTask_def intro!: keeps_intros)

lemma keeps_probeFile [keeps_intros]: "keeps R (probeFile (lift_machine m) bin path)"
  by (auto simp: probeFile_def intro!: keeps_intros)

lemma keeps_validate_run [keeps_intros]:
  "(\<And>x a. R a (p x a)) \<Longrightarrow> keeps R (validate_run (lift_machine m) bin dir p arts es checks)"
proof (induction es arbitrary: checks)
  case (Cons e es)
  then show ?case by (auto intro!: keeps_intros keeps_update)
qed (auto intro!: keeps_intros)

lemma keeps_validateTask [keeps_intros]:
  "(\<And>x a. R a (p x a)) \<Longrightarrow> keeps R (run_validateTask (lift_machine m) w bin raw p)"
  by (auto simp: run_validateTask_def Let_def intro!: keeps_intros)

lemma keeps_fetch_loop [keeps_intros]: "keeps R (fetch_loop (lift_machine m) dir i as local)"
  by (induction as arbitrary: i local) (auto intro!: keeps_intros)

lemma keeps_send_file [keeps_intros]: "(\<And>n. keeps R (up n)) \<Longrightarrow> keeps R (send_file (lift_machine m) up dir name)"
  by (auto simp: send_file_def uploadFile_def intro!: keeps_intros)

lemma keeps_package_loop [keeps_intros]: "(\<And>n. keeps R (up n)) \<Longrightarrow> keeps R (package_loop (lift_machine m) up out es acc)"
  by (induction es arbitrary: acc) (auto intro!: keeps_intros)

lemma keeps_send_packaged [keeps_intros]: "(\<And>n. keeps R (up n)) \<Longrightarrow> keeps R (send_packaged (lift_machine m) up out k s run)"
  by (auto simp: send_packaged_def intro!: keeps_intros)

lemma keeps_packageTask [keeps_intros]:
  "(\<And>n. keeps R (up n)) \<Longrightarrow> (\<And>x a. R a (p x a)) \<Longrightarrow> keeps R (packageTask (lift_machine m) w bin raw up p)"
  by (auto simp: packageTask_def package_dir_def Let_def intro!: keeps_intros)

lemma keeps_thumbnail_loop [keeps_intros]:
  "(\<And>n. keeps R (up n)) \<Longrightarrow> keeps R (thumbnail_loop (lift_machine m) up dir media us regs n)"
proof (induction us arbitrary: regs n)
  case (Cons u us)
  then show ?case by (cases u) (auto intro!: keeps_intros)
qed (auto intro!: keeps_intros)

lemma keeps_tileHeightOf [keeps_intros]: "keeps R (tileHeightOf (lift_machine m) path rows)"
  by (auto simp: tileHeightOf_def probeSize_def intro!: keeps_intros)

lemma keeps_thumbnailTask [keeps_intros]:
  "(\<And>n. keeps R (up n)) \<Longrightarrow> (\<And>x a. R a (p x a)) \<Longrightarrow> keeps R (thumbnailTask (lift_machine m) w bin raw up p)"
  by (auto simp: thumbnailTask_def thumbnail_dir_def send_thumbnails_def Let_def intro!: keeps_intros)

lemma keeps_executors:
  assumes "map_of (executors m deadline cfg) op = Some exec" "\<And>n. keeps R (up n)" "\<And>x a. R a (p x a)"
  shows "keeps R (exec spec up p)"
  using assms(1) by (auto simp: executors_def Let_def split: if_splits intro!: keeps_intros assms(2,3))

end

section \<open>The agent\<close>

locale agent_relation = machine_relation R m for R :: "'w Agent \<Rightarrow> 'w Agent \<Rightarrow> bool" and m +
  fixes l :: "'w Link"
  assumes sleep: "R a (a\<lparr>ag_world := snd (ln_Sleep l t (ag_world a))\<rparr>)"
    and exchange: "keeps R (client_do l path token inp wants)"
begin

lemma keeps_client_call [keeps_intros]: "keeps R (client_call l path inp wants)"
  by (auto simp: client_call_def intro!: keeps_intros exchange)

lemma keeps_client [keeps_intros]:
  "keeps R (client_Heartbeat l rep)" "keeps R (client_Lease l)" "keeps R (client_Started l i)" "keeps R (client_Progress l i pct)"
  "keeps R (client_UploadURL l i path)" "keeps R (client_RegisterArtifact l i reg)" "keeps R (client_Complete l i res)"
  by (auto simp: client_Heartbeat_def client_Lease_def client_Started_def client_Progress_def client_UploadURL_def
      client_RegisterArtifact_def client_Complete_def intro!: keeps_intros)

lemma keeps_client_Register [keeps_intros]: "keeps R (client_Register l token reg)"
  unfolding client_Register_def
  by (rule keeps_bind [OF exchange]) (auto split: sum.split body.split intro!: keeps_intros)

lemma keeps_waiting [keeps_intros]: "keeps R (agent_sleep l t)" "keeps R (stopping l)" "keeps R (track n)"
  by (auto simp: agent_sleep_def stopping_def track_def keeps_def lift_op_state sleep State_Monad.update_def intro!: same)

lemma keeps_report_loop: "keeps R (report_loop l i res n backoff)"
  by (induction n arbitrary: backoff) (auto intro!: keeps_intros)

lemma keeps_agent_report [keeps_intros]: "keeps R (agent_report l as res)"
  by (simp add: agent_report_def keeps_report_loop)

lemma keeps_keepAlive [keeps_intros]: "keeps R (keepAlive l as ws)"
proof (induction ws)
  case (Cons w ws)
  then show ?case by (cases w) (auto split: sum.split client_error.split intro!: keeps_intros)
qed (auto intro!: keeps_intros)

lemma keeps_register_all [keeps_intros]: "keeps R (register_all l i regs)"
  by (induction regs) (auto split: option.split client_error.split intro!: keeps_intros)

lemma keeps_settlement [keeps_intros]: "keeps R (settle l as res arts)"
  by (auto simp: settle_def split: registered.split intro!: keeps_intros)

lemma keeps_uploader [keeps_intros]: "keeps R (uploader l i path)"
  by (auto simp: uploader_def intro!: keeps_intros)

lemma keeps_execute [keeps_intros]: "keeps R (execute m l deadline cfg as)"
proof (cases "map_of (executors m deadline cfg) (as_Operation as)")
  case (Some exec)
  have "keeps R (exec (as_Spec as) (uploader l (as_AttemptID as)) (set_progress (as_Spec as)))"
    using Some by (rule keeps_executors) (auto simp: set_progress_def intro!: keeps_intros same)
  then have "keeps R (run_task m l as exec)"
    by (auto simp: run_task_def Let_def intro!: keeps_intros)
  with Some show ?thesis by (auto simp: execute_def intro!: keeps_intros)
qed (auto simp: execute_def intro!: keeps_intros)

lemma keeps_poll_once [keeps_intros]: "keeps R (poll_once m l deadline cfg)"
  by (auto simp: poll_once_def intro!: keeps_intros)

lemma keeps_pollLoop [keeps_intros]: "keeps R (pollLoop m l deadline cfg n)"
  by (induction n) (auto intro!: keeps_intros)

lemma keeps_heartbeat_once [keeps_intros]: "keeps R (heartbeat_once l st)"
  by (auto simp: heartbeat_once_def intro!: keeps_intros)

lemma keeps_agent_Run [keeps_intros]: "keeps R (agent_Run l output host cfg)"
  by (auto simp: agent_Run_def intro!: keeps_intros)

end

end
