(* ===== verification/Agent_Calls.thy ===== *)
theory Agent_Calls
  imports Agent_Steps
begin

text \<open>
  The calls an agent makes. \<open>emits m Q\<close>: from every state the computation \<open>m\<close> appends calls \<open>es\<close> to those
  made so far and returns \<open>x\<close> with \<open>Q x es\<close>. The rules compose the claim along \<open>bind\<close>; the executors are
  shown once to ask for nothing but destinations, which is the interface \<open>task_executor\<close>, and what is said
  of executing and reporting rests on that.
\<close>

section \<open>A calculus of calls\<close>

definition emits :: "('w Agent, 'a) state \<Rightarrow> ('a \<Rightarrow> call list \<Rightarrow> bool) \<Rightarrow> bool" where
  "emits m Q \<longleftrightarrow>
     (\<forall>a. \<exists>es. ag_calls (snd (run_state m a)) = ag_calls a @ es \<and> Q (fst (run_state m a)) es)"

lemma emitsD: "emits m Q \<Longrightarrow> run_state m a = (x, b) \<Longrightarrow> \<exists>es. ag_calls b = ag_calls a @ es \<and> Q x es"
  unfolding emits_def by (metis fst_conv snd_conv)

lemma emits_mono: "emits m P \<Longrightarrow> (\<And>x es. P x es \<Longrightarrow> Q x es) \<Longrightarrow> emits m Q"
  unfolding emits_def by blast

lemma emits_return: "Q x [] \<Longrightarrow> emits (State_Monad.return x) Q"
  by (simp add: emits_def)

lemma emits_look: "(\<And>x. Q x []) \<Longrightarrow> emits (look f) Q"
  by (simp add: emits_def)

lemma emits_get: "(\<And>x. Q x []) \<Longrightarrow> emits State_Monad.get Q"
  by (simp add: emits_def)

lemma emits_lift_op: "(\<And>x. Q x []) \<Longrightarrow> emits (State (lift_op f)) Q"
  by (simp add: emits_def lift_op_def split: prod.split)

lemma emits_update: "(\<And>a. ag_calls (f a) = ag_calls a) \<Longrightarrow> Q () [] \<Longrightarrow> emits (State_Monad.update f) Q"
  by (simp add: emits_def State_Monad.update_def)

lemma emits_bind:
  assumes "emits m P" "\<And>x es. P x es \<Longrightarrow> emits (f x) (\<lambda>y es'. Q y (es @ es'))"
  shows "emits (State_Monad.bind m f) Q"
  unfolding emits_def
proof
  fix a
  obtain x b where m: "run_state m a = (x, b)" by force
  then obtain es where es: "ag_calls b = ag_calls a @ es" "P x es" using emitsD [OF assms(1)] by blast
  obtain y c where f: "run_state (f x) b = (y, c)" by force
  then obtain es' where "ag_calls c = ag_calls b @ es'" "Q y (es @ es')" using emitsD [OF assms(2) [OF es(2)]] by blast
  then show "\<exists>es. ag_calls (snd (run_state (State_Monad.bind m f) a)) = ag_calls a @ es \<and>
      Q (fst (run_state (State_Monad.bind m f) a)) es"
    using m f es(1) by (intro exI [of _ "es @ es'"]) simp
qed

lemma emits_client_do:
  "(\<And>r. Q r [\<lparr>cl_Path = path, cl_In = inp, cl_Answer = r\<rparr>]) \<Longrightarrow> emits (client_do l path token inp wants) Q"
  by (simp add: emits_def client_do_def split: prod.split)

lemma emits_client_call:
  assumes "\<And>r. Q r [\<lparr>cl_Path = path, cl_In = inp, cl_Answer = r\<rparr>]"
  shows "emits (client_call l path inp wants) Q"
  unfolding client_call_def
  by (rule emits_bind [where P = "\<lambda>_ es. es = []"]) (auto intro!: emits_get emits_client_do assms)

section \<open>Quiet computations\<close>

text \<open>Computations that make no call other than those that satisfy \<open>ok\<close>.\<close>

definition more_calls :: "(call \<Rightarrow> bool) \<Rightarrow> 'w Agent \<Rightarrow> 'w Agent \<Rightarrow> bool" where
  "more_calls ok a b \<longleftrightarrow> (\<exists>es. ag_calls b = ag_calls a @ es \<and> list_all ok es)"

lemma keeps_more_calls: "keeps (more_calls ok) m \<longleftrightarrow> emits m (\<lambda>_. list_all ok)"
  by (simp add: keeps_def more_calls_def emits_def)

lemma more_calls_same: "ag_calls b = ag_calls a \<Longrightarrow> more_calls ok a b"
  by (simp add: more_calls_def)

interpretation calls: machine_relation "more_calls ok" m for ok m
proof (unfold_locales, goal_cases)
  case (2 a b c)
  then show ?case unfolding more_calls_def by (metis append.assoc list_all_append)
qed (auto intro: more_calls_same)

end
