(* ===== verification/Agent_Properties.thy ===== *)
theory Agent_Properties
  imports Agent_Calls
begin

text \<open>
  What an agent's calls look like: outputs are registered before success is reported, a report is tried a
  bounded number of times, and the interface every executor satisfies.
\<close>

section \<open>Kinds of calls\<close>

definition upload_call :: "uuid \<Rightarrow> call \<Rightarrow> bool" where
  "upload_call attemptID c \<longleftrightarrow> cl_Path c = attempt_path attemptID ''upload-url''"

definition registration_call :: "uuid \<Rightarrow> call \<Rightarrow> bool" where
  "registration_call attemptID c \<longleftrightarrow> cl_Path c = attempt_path attemptID ''artifacts''"

definition completion_call :: "uuid \<Rightarrow> Result \<Rightarrow> call \<Rightarrow> bool" where
  "completion_call attemptID res c \<longleftrightarrow> cl_Path c = attempt_path attemptID ''complete'' \<and> cl_In c = Some (ResultBody res)"

definition accepted :: "call \<Rightarrow> bool" where
  "accepted c \<longleftrightarrow> \<not> isl (cl_Answer c)"

text \<open>An error after which the report is sent again.\<close>

definition worth_repeating :: "call \<Rightarrow> bool" where
  "worth_repeating c \<longleftrightarrow> isl (cl_Answer c) \<and> cl_Answer c \<noteq> Inl LeaseGone"

section \<open>Reporting\<close>

text \<open>The calls of a report that may be tried \<open>n\<close> times.\<close>

definition report_calls :: "uuid \<Rightarrow> Result \<Rightarrow> nat \<Rightarrow> call list \<Rightarrow> bool" where
  "report_calls attemptID res n cs \<longleftrightarrow> length cs \<le> n \<and> (0 < n \<longrightarrow> cs \<noteq> []) \<and>
     list_all (completion_call attemptID res) cs \<and> list_all worth_repeating (butlast cs)"

lemma report_calls_Cons:
  "completion_call i res c \<Longrightarrow> worth_repeating c \<Longrightarrow> report_calls i res n cs \<Longrightarrow> report_calls i res (Suc n) (c # cs)"
  by (auto simp: report_calls_def)

lemma report_calls_single: "completion_call i res c \<Longrightarrow> report_calls i res (Suc n) [c]"
  by (simp add: report_calls_def)

lemma emits_Complete:
  "emits (client_Complete l i res)
     (\<lambda>err es. \<exists>c. es = [c] \<and> completion_call i res c \<and> (\<forall>e. err = Some e \<and> e \<noteq> LeaseGone \<longrightarrow> worth_repeating c))"
  unfolding client_Complete_def
  by (rule emits_bind [OF emits_client_call [where Q = "\<lambda>r es. es = [\<lparr>cl_Path = attempt_path i ''complete'', cl_In = Some (ResultBody res), cl_Answer = r\<rparr>]"]])
     (auto intro!: emits_return simp: completion_call_def worth_repeating_def split: sum.splits)

lemma emits_report_loop: "emits (report_loop l i res n backoff) (\<lambda>_. report_calls i res n)"
proof (induction n arbitrary: backoff)
  case 0
  show ?case by (simp add: emits_return report_calls_def)
next
  case (Suc n)
  show ?case
    unfolding report_loop.simps
  proof (rule emits_bind [OF emits_Complete])
    fix err es
    assume "\<exists>c. es = [c] \<and> completion_call i res c \<and> (\<forall>e. err = Some e \<and> e \<noteq> LeaseGone \<longrightarrow> worth_repeating c)"
    then obtain c where c: "es = [c]" "completion_call i res c" "\<forall>e. err = Some e \<and> e \<noteq> LeaseGone \<longrightarrow> worth_repeating c" by blast
    have one: "report_calls i res (Suc n) [c]" using c(2) by (rule report_calls_single)
    have more: "emits (report_loop l i res n b) (\<lambda>_ es'. report_calls i res (Suc n) (c # es'))" if "worth_repeating c" for b
      by (rule emits_mono [OF Suc.IH]) (rule report_calls_Cons [OF c(2) that])
    have sleep: "emits (agent_sleep l d) (\<lambda>_ es. es = [])" for d
      unfolding agent_sleep_def by (rule emits_lift_op) simp
    have stop: "emits (stopping l) (\<lambda>_ es. es = [])"
      unfolding stopping_def by (rule emits_look) simp
    show "emits (if err = None then State_Monad.return ()
        else State_Monad.bind (stopping l) (\<lambda>stop. if err = Some LeaseGone \<or> stop then State_Monad.return ()
          else State_Monad.bind (agent_sleep l backoff) (\<lambda>slept. if slept then report_loop l i res n (backoff * 2) else State_Monad.return ())))
      (\<lambda>_ es'. report_calls i res (Suc n) (es @ es'))"
      using c(1,3) one more
      by (cases err) (auto intro!: emits_return emits_bind [OF stop] emits_bind [OF sleep])
  qed
qed

lemma emits_agent_report: "emits (agent_report l as res) (\<lambda>_. report_calls (as_AttemptID as) res 5)"
  unfolding agent_report_def by (rule emits_report_loop)

section \<open>Registering\<close>

definition registrations :: "uuid \<Rightarrow> Registration list \<Rightarrow> call list \<Rightarrow> bool" where
  "registrations attemptID regs rs \<longleftrightarrow> list_all (registration_call attemptID) rs \<and> list_all accepted rs \<and>
     map cl_In rs = map (Some \<circ> ArtifactRegistration) regs"

lemma emits_RegisterArtifact:
  "emits (client_RegisterArtifact l i reg)
     (\<lambda>err es. list_all (registration_call i) es \<and> (err = None \<longrightarrow> registrations i [reg] es))"
  unfolding client_RegisterArtifact_def
  by (rule emits_bind [OF emits_client_call [where Q = "\<lambda>r es. es = [\<lparr>cl_Path = attempt_path i ''artifacts'', cl_In = Some (ArtifactRegistration reg), cl_Answer = r\<rparr>]"]])
     (auto intro!: emits_return simp: registration_call_def registrations_def accepted_def split: sum.splits)

lemma emits_register_all:
  "emits (register_all l i regs)
     (\<lambda>r es. list_all (registration_call i) es \<and> (r = AllRegistered \<longrightarrow> registrations i regs es))"
proof (induction regs)
  case Nil
  show ?case by (simp add: emits_return registrations_def)
next
  case (Cons reg regs)
  show ?case
    unfolding register_all.simps
    by (rule emits_bind [OF emits_RegisterArtifact])
       (auto split: option.split client_error.split intro!: emits_return emits_mono [OF Cons.IH] simp: registrations_def)
qed

text \<open>What follows an executor: registrations, then at most five reports of one result.\<close>

definition settled :: "uuid \<Rightarrow> Result \<Rightarrow> Registration list \<Rightarrow> call list \<Rightarrow> bool" where
  "settled i res regs es \<longleftrightarrow>
     (\<exists>rs cs. es = rs @ cs \<and> list_all (registration_call i) rs \<and>
       (cs = [] \<or> (\<exists>sent. report_calls i sent 5 cs \<and> (Success sent \<longrightarrow> Success res \<and> registrations i regs rs))))"

lemma emits_settle: "emits (settle l as res regs) (\<lambda>_. settled (as_AttemptID as) res regs)"
proof (cases "Success res")
  case False
  then have "settled (as_AttemptID as) res regs es" if "report_calls (as_AttemptID as) res 5 es" for es
    using that unfolding settled_def by (intro exI [of _ "[]"] exI [of _ es] conjI disjI2 exI [of _ res]) auto
  then show ?thesis using False unfolding settle_def by (auto intro!: emits_mono [OF emits_agent_report])
next
  case True
  have rep: "emits (agent_report l as sent) (\<lambda>_ es'. settled (as_AttemptID as) res regs (es @ es'))"
    if "list_all (registration_call (as_AttemptID as)) es" "Success sent \<Longrightarrow> registrations (as_AttemptID as) regs es" for sent es
    using that True by (intro emits_mono [OF emits_agent_report]) (auto simp: settled_def)
  have none: "emits (State_Monad.return ()) (\<lambda>_ es'. settled (as_AttemptID as) res regs (es @ es'))"
    if "list_all (registration_call (as_AttemptID as)) es" for es
    using that by (intro emits_return) (auto simp: settled_def)
  show ?thesis
    using True unfolding settle_def
    by (auto split: registered.split intro!: emits_bind [OF emits_register_all] rep none simp: failure_def)
qed

section \<open>Executors\<close>

text \<open>
  What the agent relies on in an executor: the only calls it makes to the control plane ask where an
  output of its own attempt should go.
\<close>

locale task_executor =
  fixes exec :: "string \<Rightarrow> 'w Agent Uploader \<Rightarrow> (Progress \<Rightarrow> 'w Agent \<Rightarrow> 'w Agent) \<Rightarrow> ('w Agent, executed) state"
  assumes only_uploads: "(\<And>name. keeps (more_calls ok) (up name)) \<Longrightarrow> (\<And>x a. more_calls ok a (p x a)) \<Longrightarrow>
      keeps (more_calls ok) (exec spec up p)"
begin

lemma exec_uploads: "emits (exec spec (uploader l i) (set_progress spec)) (\<lambda>_. list_all (upload_call i))"
proof -
  have call: "emits (client_UploadURL l i name) (\<lambda>_. list_all (upload_call i))" for name
    unfolding client_UploadURL_def
    by (rule emits_bind [OF emits_client_call [where Q = "\<lambda>r. list_all (upload_call i)"]])
       (auto simp: upload_call_def intro!: emits_return)
  have "keeps (more_calls (upload_call i)) (uploader l i name)" for name
    unfolding uploader_def using call by (intro calls.keeps_bind calls.keeps_return) (simp add: keeps_more_calls)
  then have "keeps (more_calls (upload_call i)) (exec spec (uploader l i) (set_progress spec))"
    by (rule only_uploads) (simp add: more_calls_same set_progress_def)
  then show ?thesis by (simp add: keeps_more_calls)
qed

lemma run_task_calls:
  assumes "run_state (exec (as_Spec as) (uploader l (as_AttemptID as)) (set_progress (as_Spec as))) (a\<lparr>ag_pct := 0\<rparr>) = (outcome, b)"
  shows "\<exists>ups es. ag_calls (snd (run_state (run_task m l as exec) a)) = ag_calls a @ ups @ es \<and>
    list_all (upload_call (as_AttemptID as)) ups \<and>
    (es = [] \<or> (\<exists>res regs. settled (as_AttemptID as) res regs es \<and>
      (Success res \<longrightarrow> (\<exists>oc. outcome = Inr oc \<and> Success (oc_Result oc) \<and> regs = oc_Artifacts oc))))"
proof -
  obtain ups where ups: "ag_calls b = ag_calls a @ ups" "list_all (upload_call (as_AttemptID as)) ups"
    using emitsD [OF exec_uploads assms] by auto
  let ?quit = "mc_Ctx m (ag_world b) \<noteq> None \<and> \<not> ln_Stopping l (ag_world b)"
  define timed where "timed = (\<lambda>res :: Result. res\<lparr>res_Metrics := (res_Metrics res)\<lparr>WallSeconds := duration_Seconds (mc_Now m (ag_world b) - mc_Now m (ag_world a))\<rparr>\<rparr>)"
  have timed: "Success (timed r) = Success r" for r :: Result by (simp add: timed_def)
  have run: "snd (run_state (run_task m l as exec) a) =
      snd (run_state (case outcome of
          Inl e \<Rightarrow> if ?quit then State_Monad.return () else settle l as (timed (failure ClassUnknown e)) []
        | Inr oc \<Rightarrow> settle l as (timed (oc_Result oc)) (oc_Artifacts oc)) b)"
    using assms by (cases outcome) (simp_all add: run_task_def stopping_def State_Monad.update_def timed_def Let_def split: if_split)
  have sent: "\<exists>es. ag_calls (snd (run_state (settle l as res regs) b)) = ag_calls a @ ups @ es \<and> settled (as_AttemptID as) res regs es" for res regs
    using emitsD [OF emits_settle, of l as res regs b] ups(1) by (metis append.assoc prod.collapse)
  show ?thesis
  proof (cases outcome)
    case (Inl e)
    show ?thesis
    proof (cases ?quit)
      case True
      then have "ag_calls (snd (run_state (run_task m l as exec) a)) = ag_calls a @ ups @ []" using Inl run ups(1) by simp
      then show ?thesis using ups(2) by blast
    next
      case False
      let ?res = "timed (failure ClassUnknown e)"
      obtain es where "ag_calls (snd (run_state (settle l as ?res []) b)) = ag_calls a @ ups @ es" "settled (as_AttemptID as) ?res [] es"
        using sent by blast
      moreover have "\<not> Success ?res" by (simp add: timed failure_def)
      moreover have "snd (run_state (run_task m l as exec) a) = snd (run_state (settle l as ?res []) b)"
        using False Inl run by auto
      ultimately show ?thesis using ups(2) by metis
    qed
  next
    case (Inr oc)
    let ?res = "timed (oc_Result oc)"
    obtain es where "ag_calls (snd (run_state (settle l as ?res (oc_Artifacts oc)) b)) = ag_calls a @ ups @ es"
        "settled (as_AttemptID as) ?res (oc_Artifacts oc) es"
      using sent by blast
    moreover have "snd (run_state (run_task m l as exec) a) = snd (run_state (settle l as ?res (oc_Artifacts oc)) b)"
      using Inr run by simp
    moreover have "Success ?res = Success (oc_Result oc)" by (rule timed)
    ultimately show ?thesis using ups(2) Inr by metis
  qed
qed

end

interpretation probe_exec: task_executor "\<lambda>spec up p. probeTask (lift_machine m) d bin spec" for m d bin
  by unfold_locales (rule calls.keeps_probeTask)

interpretation encode_exec: task_executor "\<lambda>spec up p. encodeTask (lift_machine m) w bin spec p" for m w bin
  by unfold_locales (rule calls.keeps_encodeTask)

interpretation validate_exec: task_executor "\<lambda>spec up p. run_validateTask (lift_machine m) w bin spec p" for m w bin
  by unfold_locales (rule calls.keeps_validateTask)

interpretation package_exec: task_executor "\<lambda>spec up p. packageTask (lift_machine m) w bin spec up p" for m w bin
  by unfold_locales (rule calls.keeps_packageTask)

interpretation thumbnail_exec: task_executor "\<lambda>spec up p. thumbnailTask (lift_machine m) w bin spec up p" for m w bin
  by unfold_locales (rule calls.keeps_thumbnailTask)

lemma executors_ok: "map_of (executors m d cfg) op = Some exec \<Longrightarrow> task_executor exec"
  using probe_exec.task_executor_axioms encode_exec.task_executor_axioms validate_exec.task_executor_axioms
    package_exec.task_executor_axioms thumbnail_exec.task_executor_axioms
  by (auto simp: executors_def Let_def split: if_splits)

section \<open>Conflicts\<close>

text \<open>
  The client takes every 409 for a lost lease. The control plane also answers 409 when the registered
  object is missing, has another size or was registered differently: the agent then drops the task without
  reporting, and it stays leased until it expires.
\<close>

lemma conflict_drops_report:
  assumes "\<And>token path inp w. ln_Http l token path inp w = (Inr (Refused 409 code), w)" "Success res"
  shows "ag_calls (snd (run_state (settle l as res (reg # regs)) a)) =
    ag_calls a @ [\<lparr>cl_Path = attempt_path (as_AttemptID as) ''artifacts'', cl_In = Some (ArtifactRegistration reg), cl_Answer = Inl LeaseGone\<rparr>]"
  using assms by (simp add: settle_def client_RegisterArtifact_def client_call_def client_do_def client_answer_def)

section \<open>Properties\<close>

lemma emits_Started: "emits (client_Started l i) (\<lambda>err es. list_all (\<lambda>c. cl_Path c = attempt_path i ''started'') es)"
  unfolding client_Started_def
  by (rule emits_bind [OF emits_client_call [where Q = "\<lambda>r es. list_all (\<lambda>c. cl_Path c = attempt_path i ''started'') es"]])
     (auto intro!: emits_return)

lemma run_execute:
  assumes "map_of (executors m d cfg) (as_Operation as) = Some exec"
    and "run_state (client_Started l (as_AttemptID as)) (a\<lparr>ag_running := ag_running a + 1\<rparr>) = (err, a1)"
  shows "ag_calls (snd (run_state (execute m l d cfg as) a)) =
    (if err = Some LeaseGone then ag_calls a1 else ag_calls (snd (run_state (run_task m l as exec) a1)))"
  using assms by (auto simp: execute_def track_def State_Monad.update_def split: prod.split)

lemma execute_calls:
  assumes "map_of (executors m d cfg) (as_Operation as) = Some exec"
    and "run_state (client_Started l (as_AttemptID as)) (a\<lparr>ag_running := ag_running a + 1\<rparr>) = (err, a1)"
    and "run_state (exec (as_Spec as) (uploader l (as_AttemptID as)) (set_progress (as_Spec as))) (a1\<lparr>ag_pct := 0\<rparr>) = (outcome, a2)"
  shows "\<exists>ups rs cs. ag_calls (snd (run_state (execute m l d cfg as) a)) = ag_calls a1 @ ups @ rs @ cs \<and>
    list_all (upload_call (as_AttemptID as)) ups \<and> list_all (registration_call (as_AttemptID as)) rs \<and>
    (cs = [] \<or> (\<exists>sent. report_calls (as_AttemptID as) sent 5 cs \<and>
      (Success sent \<longrightarrow> err \<noteq> Some LeaseGone \<and>
        (\<exists>oc. outcome = Inr oc \<and> Success (oc_Result oc) \<and> registrations (as_AttemptID as) (oc_Artifacts oc) rs))))"
proof (cases "err = Some LeaseGone")
  case True
  then have "ag_calls (snd (run_state (execute m l d cfg as) a)) = ag_calls a1 @ [] @ [] @ []"
    using run_execute [OF assms(1,2)] by simp
  then show ?thesis by (intro exI conjI) auto
next
  case False
  obtain ups es where es: "ag_calls (snd (run_state (run_task m l as exec) a1)) = ag_calls a1 @ ups @ es"
      "list_all (upload_call (as_AttemptID as)) ups"
      "es = [] \<or> (\<exists>res regs. settled (as_AttemptID as) res regs es \<and>
        (Success res \<longrightarrow> (\<exists>oc. outcome = Inr oc \<and> Success (oc_Result oc) \<and> regs = oc_Artifacts oc)))"
    using task_executor.run_task_calls [OF executors_ok [OF assms(1)] assms(3)] by blast
  have calls: "ag_calls (snd (run_state (execute m l d cfg as) a)) = ag_calls a1 @ ups @ es"
    using False es(1) run_execute [OF assms(1,2)] by simp
  show ?thesis
  proof (cases "es = []")
    case True
    then show ?thesis using calls es(2) by (intro exI [of _ ups] exI [of _ "[]"]) simp
  next
    case nonempty: False
    then obtain res regs where "settled (as_AttemptID as) res regs es"
        and oc: "Success res \<Longrightarrow> \<exists>oc. outcome = Inr oc \<and> Success (oc_Result oc) \<and> regs = oc_Artifacts oc"
      using es(3) by blast
    then obtain rs cs where "es = rs @ cs" "list_all (registration_call (as_AttemptID as)) rs"
        "cs = [] \<or> (\<exists>sent. report_calls (as_AttemptID as) sent 5 cs \<and> (Success sent \<longrightarrow> Success res \<and> registrations (as_AttemptID as) regs rs))"
      unfolding settled_def by blast
    then show ?thesis using calls es(2) oc False by (intro exI [of _ ups] exI [of _ rs] exI [of _ cs]) blast
  qed
qed

text \<open>
  C11. An agent that executes an assignment first asks for destinations, then registers outputs, then
  reports, and it sends at most five reports. If it ever reports success, it had told the control plane
  that it started and still held the lease, the executor succeeded, and each artifact of its outcome, in
  order, was registered and accepted before.
\<close>

theorem success_after_registration:
  assumes "map_of (executors m d cfg) (as_Operation as) = Some exec"
    and "run_state (client_Started l (as_AttemptID as)) (a\<lparr>ag_running := ag_running a + 1\<rparr>) = (err, a1)"
    and "run_state (exec (as_Spec as) (uploader l (as_AttemptID as)) (set_progress (as_Spec as))) (a1\<lparr>ag_pct := 0\<rparr>) = (outcome, a2)"
  shows "\<exists>ups rs cs. ag_calls (snd (run_state (execute m l d cfg as) a)) = ag_calls a1 @ ups @ rs @ cs \<and>
    list_all (upload_call (as_AttemptID as)) ups \<and> list_all (registration_call (as_AttemptID as)) rs \<and>
    (cs = [] \<or> (\<exists>sent. report_calls (as_AttemptID as) sent 5 cs \<and>
      (Success sent \<longrightarrow> err \<noteq> Some LeaseGone \<and>
        (\<exists>oc. outcome = Inr oc \<and> Success (oc_Result oc) \<and> registrations (as_AttemptID as) (oc_Artifacts oc) rs))))"
  using assms by (rule execute_calls)

text \<open>An agent on a machine where the inspection tool finds an empty document, against a control plane that accepts everything.\<close>

definition demo_machine :: "unit Machine" where
  "demo_machine =
     \<lparr>mc_Exec = (\<lambda>bin args w. (Inr \<lparr>pe_stdout = ''{}'', pe_stderr = [], pe_wait = None, pe_user = 0, pe_sys = 0, pe_maxrss = None\<rparr>, w)),
      mc_Ctx = (\<lambda>w. None), mc_Now = (\<lambda>w. 0), mc_MkdirTemp = (\<lambda>d p w. (Inr ''/tmp/x'', w)), mc_MkdirAll = (\<lambda>p w. (None, w)),
      mc_RemoveAll = (\<lambda>p w. w), mc_Stat = (\<lambda>p w. Inl ''missing''), mc_ReadDir = (\<lambda>p w. Inr []), mc_Open = (\<lambda>p w. Inl ''missing''),
      mc_Write = (\<lambda>p b w. (None, w)), mc_Get = (\<lambda>u w. (Inl ''unreachable'', w)), mc_Put = (\<lambda>u b n w. (Inl ''unreachable'', w)),
      mc_JsonError = (\<lambda>raw. ''syntax error''), mc_ConfigError = (\<lambda>e. ''invalid''), mc_SecondFirst = (\<lambda>w. False)\<rparr>"

definition demo_agent_link :: "unit Link" where
  "demo_agent_link =
     \<lparr>ln_Http = (\<lambda>token path inp w. (Inr (Answer (if last path = ''started'' then 204 else 200) NoBody), w)),
      ln_Stopping = (\<lambda>w. False), ln_Sleep = (\<lambda>d w. (True, w)), ln_ErrorText = (\<lambda>e. ''error'')\<rparr>"

definition demo_agent_config :: AgentConfig where
  "demo_agent_config = \<lparr>cf_BootstrapToken = ''t'', cf_Name = ''w'', cf_WorkDir = ''/tmp'', cf_FFmpegBin = ''ffmpeg'', cf_FFprobeBin = ''ffprobe'',
     cf_SlotCapacity = [], cf_PollInterval = second\<rparr>"

definition demo_assignment :: Assignment where
  "demo_assignment = \<lparr>as_TaskID = 1, as_AttemptID = 2, as_JobID = 3, as_TenantID = 4, as_Operation = ''probe'',
     as_Spec = json_text (JObj [(''input_url'', JStr ''http://h/x'')]), as_Attempt = 1, as_LeaseTTL = 60\<rparr>"

definition demo_agent :: "unit Agent" where
  "demo_agent = \<lparr>ag_workerID = 5, ag_credential = ''c'', ag_running = 0, ag_slots = [], ag_pct = 0, ag_calls = [], ag_world = ()\<rparr>"

definition demo_started :: "unit Agent" where
  "demo_started = demo_agent\<lparr>ag_running := 1, ag_calls := [\<lparr>cl_Path = attempt_path 2 ''started'', cl_In = None, cl_Answer = Inr NoBody\<rparr>]\<rparr>"

lemma demo_probe:
  "run_state (client_Started demo_agent_link (as_AttemptID demo_assignment)) (demo_agent\<lparr>ag_running := ag_running demo_agent + 1\<rparr>) = (None, demo_started)"
  by code_simp

lemma demo_outcome:
  "run_state (probeTask (lift_machine demo_machine) ((\<lambda>w. None) \<circ> ag_world) (cf_FFprobeBin demo_agent_config) (as_Spec demo_assignment)) (demo_started\<lparr>ag_pct := 0\<rparr>) =
     (Inr \<lparr>oc_Result = success ''{}'' no_metrics, oc_Artifacts = []\<rparr>, demo_started\<lparr>ag_pct := 0\<rparr>)"
  by code_simp

theorem success_after_registration_witness:
  "\<exists>ups rs cs. ag_calls (snd (run_state (execute demo_machine demo_agent_link (\<lambda>w. None) demo_agent_config demo_assignment) demo_agent)) =
      ag_calls demo_started @ ups @ rs @ cs \<and>
    list_all (upload_call 2) ups \<and> list_all (registration_call 2) rs \<and>
    (cs = [] \<or> (\<exists>sent. report_calls 2 sent 5 cs \<and> (Success sent = False \<or> registrations 2 [] rs)))"
proof -
  have exec: "map_of (executors demo_machine (\<lambda>w. None) demo_agent_config) (as_Operation demo_assignment) =
      Some (\<lambda>spec up p. probeTask (lift_machine demo_machine) ((\<lambda>w. None) \<circ> ag_world) (cf_FFprobeBin demo_agent_config) spec)"
    by (simp add: executors_def Let_def demo_assignment_def)
  have "as_AttemptID demo_assignment = 2" by (simp add: demo_assignment_def)
  then show ?thesis
    using success_after_registration [OF exec demo_probe demo_outcome] by auto
qed

text \<open>
  C16. Reporting ends: whatever the network and the control plane do, the result is sent at least once and
  at most five times, always the same result, and sent again only after an error other than a lost lease.
\<close>

theorem report_ends:
  "\<exists>cs. ag_calls (snd (run_state (agent_report l as res) a)) = ag_calls a @ cs \<and> cs \<noteq> [] \<and> length cs \<le> 5 \<and>
    list_all (completion_call (as_AttemptID as) res) cs \<and> list_all worth_repeating (butlast cs)"
  using emits_agent_report [of l as res] unfolding emits_def report_calls_def by fastforce

end
