(* ===== verification/Composition.thy ===== *)
theory Composition
  imports Agent_Properties Delivery Report_Properties
begin

text \<open>
  The agent and the control plane together. An agent's calls go over a network that may lose a request or
  its reply, to the server of \<open>Routes\<close>, which in the meantime serves others, sweeps, and sees its object
  store change. Whatever an agent does is then a history of the server, and what the control plane told
  the agent stays true: an accepted report has ended the attempt and its task, an accepted registration is
  in the tables.
\<close>

section \<open>The network\<close>

text \<open>What else happens to the server between two calls of the agent.\<close>

datatype 'st happening =
    OtherRequest Env request
  | LeaseSweep time "uuid list" nat
  | WorkerSweep time duration
  | ObjectsChange 'st
  | KeysChange auth_db

fun happens :: "'st Deps \<Rightarrow> 'st happening \<Rightarrow> 'st server_db \<Rightarrow> 'st server_db" where
  "happens d (OtherRequest e rq) db = fst (Handler e d db rq)"
| "happens d (LeaseSweep now locked limit) db =
     (case ExpireLeases now locked (sv_jobs db) limit of Inl e \<Rightarrow> db | Inr (js, xs) \<Rightarrow> db\<lparr>sv_jobs := js\<rparr>)"
| "happens d (WorkerSweep now after) db = db\<lparr>sv_workers := fst (MarkStaleOffline now (sv_workers db) after)\<rparr>"
| "happens d (ObjectsChange st) db = db\<lparr>sv_store := st\<rparr>"
| "happens d (KeysChange adb) db = db\<lparr>sv_auth := adb\<rparr>"

datatype delivery = Undelivered string | ReplyLost string | Delivered

text \<open>
  The network as a function of a local state: what happens before a call arrives, whether it arrives and
  its reply comes back, the clock and random source of the server, and the agent's own waits.
\<close>

record ('st, 'l) Network =
  nw_Before :: "'l \<Rightarrow> 'st happening list"
  nw_Delivery :: "'l \<Rightarrow> delivery"
  nw_Env :: "'l \<Rightarrow> Env"
  nw_Next :: "'l \<Rightarrow> 'l"
  nw_Stopping :: "'l \<Rightarrow> bool"
  nw_Sleep :: "duration \<Rightarrow> 'l \<Rightarrow> bool \<times> 'l"
  nw_ErrorText :: "client_error \<Rightarrow> string"

text \<open>The request \<open>do\<close> builds; a call without a value has an empty body, which no handler can read.\<close>

definition agent_request :: "string \<Rightarrow> string list \<Rightarrow> req_body option \<Rightarrow> request" where
  "agent_request token path inp =
     \<lparr>rq_method = ''POST'', rq_path = path, rq_auth = ''Bearer '' @ token, rq_limit = [],
      rq_body = (case inp of None \<Rightarrow> Unreadable | Some b \<Rightarrow> b)\<rparr>"

definition over_network ::
  "'st Deps \<Rightarrow> ('st, 'l) Network \<Rightarrow> string \<Rightarrow> string list \<Rightarrow> req_body option \<Rightarrow>
   'st server_db \<times> 'l \<Rightarrow> (string + reply) \<times> ('st server_db \<times> 'l)" where
  "over_network d nw token path inp w =
     (case w of (db, x) \<Rightarrow>
        let db1 = fold (happens d) (nw_Before nw x) db;
            (db2, r) = Handler (nw_Env nw x) d db1 (agent_request token path inp)
        in case nw_Delivery nw x of
             Undelivered e \<Rightarrow> (Inl e, (db1, nw_Next nw x))
           | ReplyLost e \<Rightarrow> (Inl e, (db2, nw_Next nw x))
           | Delivered \<Rightarrow> (Inr r, (db2, nw_Next nw x)))"

definition network_link :: "'st Deps \<Rightarrow> ('st, 'l) Network \<Rightarrow> ('st server_db \<times> 'l) Link" where
  "network_link d nw =
     \<lparr>ln_Http = over_network d nw, ln_Stopping = nw_Stopping nw \<circ> snd,
      ln_Sleep = (\<lambda>t (db, x). case nw_Sleep nw t x of (b, x') \<Rightarrow> (b, (db, x'))), ln_ErrorText = nw_ErrorText nw\<rparr>"

text \<open>The agent's host does not reach into the server.\<close>

definition beside :: "('l \<Rightarrow> 'a \<times> 'l) \<Rightarrow> 'd \<times> 'l \<Rightarrow> 'a \<times> ('d \<times> 'l)" where
  "beside f w = (case w of (db, x) \<Rightarrow> case f x of (r, x') \<Rightarrow> (r, (db, x')))"

definition host_machine :: "'l Machine \<Rightarrow> ('d \<times> 'l) Machine" where
  "host_machine m =
     \<lparr>mc_Exec = (\<lambda>bin args. beside (mc_Exec m bin args)), mc_Ctx = mc_Ctx m \<circ> snd, mc_Now = mc_Now m \<circ> snd,
      mc_MkdirTemp = (\<lambda>d p. beside (mc_MkdirTemp m d p)), mc_MkdirAll = (\<lambda>p. beside (mc_MkdirAll m p)),
      mc_RemoveAll = (\<lambda>p (db, x). (db, mc_RemoveAll m p x)), mc_Stat = (\<lambda>p. mc_Stat m p \<circ> snd),
      mc_ReadDir = (\<lambda>p. mc_ReadDir m p \<circ> snd), mc_Open = (\<lambda>p. mc_Open m p \<circ> snd),
      mc_Write = (\<lambda>p b. beside (mc_Write m p b)), mc_Get = (\<lambda>u. beside (mc_Get m u)),
      mc_Put = (\<lambda>u b n. beside (mc_Put m u b n)), mc_JsonError = mc_JsonError m, mc_ConfigError = mc_ConfigError m,
      mc_SecondFirst = mc_SecondFirst m \<circ> snd\<rparr>"

lemma host_step: "machine_step (host_machine m) w w' \<Longrightarrow> fst w' = fst w"
  by (induction rule: machine_step.induct) (auto simp: host_machine_def beside_def split: prod.splits)

section \<open>The server meanwhile\<close>

lemma happens_steps: "(server_step d)\<^sup>*\<^sup>* db (happens d h db)"
proof (cases h)
  case (LeaseSweep now locked limit)
  then show ?thesis
    by (cases "ExpireLeases now locked (sv_jobs db) limit") (auto intro: server_step.intros)
qed (auto intro!: r_into_rtranclp intro: server_step.intros step_request [OF surjective_pairing])

lemma all_happens_steps: "(server_step d)\<^sup>*\<^sup>* db (fold (happens d) hs db)"
  by (induction hs arbitrary: db) (auto intro: rtranclp_trans [OF happens_steps])

text \<open>Both ends of a call: the server has moved on, and a reply that came back is the handler's.\<close>

lemma over_network_cases:
  assumes "over_network d nw token path inp w = (r, w')"
  obtains (silent) e where "r = Inl e" "(server_step d)\<^sup>*\<^sup>* (fst w) (fst w')"
  | (answered) e db1 rep where "r = Inr rep" "(server_step d)\<^sup>*\<^sup>* (fst w) db1"
      "Handler e d db1 (agent_request token path inp) = (fst w', rep)"
proof -
  obtain db x where w: "w = (db, x)" by force
  let ?db1 = "fold (happens d) (nw_Before nw x) db"
  obtain db2 rep where h: "Handler (nw_Env nw x) d ?db1 (agent_request token path inp) = (db2, rep)" by force
  have before: "(server_step d)\<^sup>*\<^sup>* db ?db1" by (rule all_happens_steps)
  then have after: "(server_step d)\<^sup>*\<^sup>* db db2" using step_request [OF h] by simp
  show thesis
    using assms h before after silent answered
    by (cases "nw_Delivery nw x") (auto simp: over_network_def w Let_def)
qed

section \<open>What stays true\<close>

text \<open>The attempt and its task ended together, as a success or because the task was cancelled.\<close>

definition attempt_closed :: "job_db \<Rightarrow> uuid \<Rightarrow> bool" where
  "attempt_closed db i \<longleftrightarrow>
     (\<exists>a \<in> set (attempts db). \<exists>t \<in> set (tasks db). a_id a = i \<and> t_id t = a_task a \<and>
        (a_state a = AttemptSucceeded \<and> t_state t = TaskSucceeded \<or> a_state a = AttemptCancelled \<and> t_state t = TaskCancelled))"

definition recorded :: "artifact_db \<Rightarrow> Registration \<Rightarrow> bool" where
  "recorded db reg \<longleftrightarrow>
     (\<exists>r \<in> set (a_artifacts db). af_label r = reg_Label reg \<and> af_key r = reg_StorageKey reg)"

lemma ended_attempt_moves:
  "attempt_IsTerminal s \<Longrightarrow> \<not> CanTransitionAttempt s s'"
  by (cases s; cases s') (simp_all add: attempt_IsTerminal_def)

lemma ended_attempt_stays:
  assumes "job_step\<^sup>*\<^sup>* db db'" "job_inv db" "a \<in> set (attempts db)" "attempt_IsTerminal (a_state a)"
  shows "\<exists>a' \<in> set (attempts db'). a_id a' = a_id a \<and> a_task a' = a_task a \<and> a_state a' = a_state a"
  using assms
proof (induction rule: rtranclp_induct)
  case (step db1 db2)
  then obtain a1 where a1: "a1 \<in> set (attempts db1)" "a_id a1 = a_id a" "a_task a1 = a_task a" "a_state a1 = a_state a" by blast
  have "job_inv db1" using job_sys.steps_inv [OF step(1)] step.prems(1) by blast
  then have "attempt_moves db1 db2" using job_step_moves step(2) by blast
  then obtain a2 where "a2 \<in> set (attempts db2)" "a_id a2 = a_id a1" "a_task a2 = a_task a1"
    "a_state a2 = a_state a1 \<or> CanTransitionAttempt (a_state a1) (a_state a2)"
    using a1(1) unfolding attempt_moves_def by blast
  then show ?case using a1 step.prems(3) ended_attempt_moves by auto
qed blast

lemma attempt_closed_stays:
  assumes "job_step\<^sup>*\<^sup>* db db'" "job_inv db" "attempt_closed db i"
  shows "attempt_closed db' i"
proof -
  obtain a t where a: "a \<in> set (attempts db)" "a_id a = i" and t: "t \<in> set (tasks db)" "t_id t = a_task a"
    and st: "a_state a = AttemptSucceeded \<and> t_state t = TaskSucceeded \<or> a_state a = AttemptCancelled \<and> t_state t = TaskCancelled"
    using assms(3) unfolding attempt_closed_def by blast
  have "attempt_IsTerminal (a_state a)" "task_IsTerminal (t_state t)"
    using st by (auto simp: attempt_IsTerminal_def task_IsTerminal_def)
  then obtain a' t' where "a' \<in> set (attempts db')" "a_id a' = a_id a" "a_task a' = a_task a" "a_state a' = a_state a"
    "t' \<in> set (tasks db')" "t_id t' = t_id t" "t_state t' = t_state t"
    using ended_attempt_stays [OF assms(1,2) a(1)] terminal_stays [OF assms(1,2) t(1)] by blast
  then show ?thesis using a t st unfolding attempt_closed_def by (intro bexI [of _ a'] bexI [of _ t']) auto
qed

lemma recorded_stays:
  assumes "artifact_step\<^sup>*\<^sup>* db db'" "artifact_inv db" "recorded db reg"
  shows "recorded db' reg"
  using artifact_sys.steps_evolve [OF assms(1,2)] assms(3) by (fastforce simp: recorded_def artifact_evolves_def)

section \<open>What a reply means\<close>

lemma uuid_String_not_Nil [simp]: "uuid_String i \<noteq> []"
  by (simp add: uuid_String_def Let_def)

lemma attempt_request:
  assumes "(op, ep) \<in> {(''started'', StartedEP), (''artifacts'', RegisterArtifactEP), (''complete'', CompleteEP)}"
  shows "Handler e d db (agent_request token (attempt_path i op) inp) =
    outer_handler e d db (agent_request token (attempt_path i op) inp) [uuid_String i] ep"
proof -
  let ?rq = "agent_request token (attempt_path i op) inp"
  have path: "rq_path ?rq = [''worker'', ''v1'', ''attempts'', uuid_String i, op]" and meth: "rq_method ?rq = ''POST''"
    by (simp_all add: agent_request_def attempt_path_def)
  have "List.find (route_match ?rq) outer_routes =
      Some (route ''POST'' [Lit ''worker'', Lit ''v1'', Lit ''attempts'', Wild, Lit op] ep)"
    using assms by (auto simp: outer_routes_def route_match_def route_def method_match_def path meth)
  then show ?thesis
    by (simp add: Handler_def behind_auth_def path route_values_def route_def)
qed

lemma started_request:
  "Handler e d db (agent_request token (attempt_path i ''started'') None) = handleWorkerStarted e d db (''Bearer '' @ token) (uuid_String i)"
  using attempt_request [of "''started''" StartedEP e d db token i None] by (simp add: hd_or_empty_def agent_request_def)

lemma complete_request:
  "Handler e d db (agent_request token (attempt_path i ''complete'') (Some b)) =
    handleWorkerComplete e d db (''Bearer '' @ token) (uuid_String i) b"
  using attempt_request [of "''complete''" CompleteEP e d db token i "Some b"] by (simp add: hd_or_empty_def agent_request_def)

lemma register_request:
  "Handler e d db (agent_request token (attempt_path i ''artifacts'') (Some b)) =
    handleRegisterArtifact e d db (''Bearer '' @ token) (uuid_String i) b"
  using attempt_request [of "''artifacts''" RegisterArtifactEP e d db token i "Some b"] by (simp add: hd_or_empty_def agent_request_def)

lemma client_accepts: "client_answer wants (Inr (Refused code msg)) = Inr b \<Longrightarrow> code < 300 \<and> code \<noteq> 409"
  by (auto simp: client_answer_def Let_def split: if_splits)

lemma refused_by_worker_auth:
  "workerAttempt d db h seg = Inl r \<Longrightarrow> \<exists>code msg. r = Refused code msg \<and> code \<ge> 400"
  by (auto simp: workerAttempt_def authenticateWorker_def reply_defs split: option.splits sum.splits worker_error.splits)

lemma complete_reply:
  assumes "handleWorkerComplete e d db h (uuid_String i) (ResultBody res) = (db', r)" "client_answer wants (Inr r) = Inr b"
    and "dp_parseUUID d (uuid_String i) = Some i" "Success res" "server_inv db"
  shows "attempt_closed (sv_jobs db') i"
proof -
  obtain wk where wk: "workerAttempt d db h (uuid_String i) = Inr (wk, i)"
  proof (cases "workerAttempt d db h (uuid_String i)")
    case (Inl r')
    then show ?thesis
      using assms(1,2) refused_by_worker_auth [OF Inl] client_accepts by (fastforce simp: handleWorkerComplete_def)
  next
    case (Inr x)
    then show ?thesis
      using that assms(3) by (auto simp: workerAttempt_def pathUUID_def split: sum.splits option.splits)
  qed
  obtain js c where c: "job_Complete (en_now e) (sv_jobs db) i (wk_ID wk) res = Inr (js, c)" and db': "sv_jobs db' = js"
  proof (cases "job_Complete (en_now e) (sv_jobs db) i (wk_ID wk) res")
    case (Inl err)
    have "\<exists>code msg. r = Refused code msg \<and> code \<ge> 400"
      using assms(1) by (cases err) (auto simp: handleWorkerComplete_def wk Inl reply_defs)
    then show ?thesis using assms(2) client_accepts by fastforce
  next
    case (Inr x)
    then show ?thesis using that assms(1) by (cases x) (auto simp: handleWorkerComplete_def wk)
  qed
  have inv: "job_inv (sv_jobs db)" using assms(5) by (simp add: server_inv_def)
  show ?thesis
    using inv c
  proof (cases rule: job_Complete_Inr)
    case (cancelled a t)
    let ?f = "\<lambda>a. a\<lparr>a_state := AttemptCancelled, a_finished := Some (en_now e), a_failure_reason := Some ''the task was cancelled while this attempt was running''\<rparr>"
    have m: "a \<in> set (attempts (sv_jobs db))" "t \<in> set (tasks (sv_jobs db))" "t_id t = a_task a" using cancelled(1) by (auto simp: holds_def)
    have att: "attempts js = sql_update (\<lambda>x. a_id x = a_id a) ?f (attempts (sv_jobs db))" and tsk: "tasks js = tasks (sv_jobs db)"
      using cancelled(2,5) by (simp_all add: closeAttemptCancelled_def)
    have "?f a \<in> set (attempts js)" unfolding att
      by (rule sql_updateI [OF m(1), where P = "\<lambda>x. a_id x = a_id a", simplified])
    then show ?thesis using cancelled(2,4) m(2,3) unfolding attempt_closed_def db' tsk
      by (intro bexI [of _ "?f a"] bexI [of _ t]) simp_all
  next
    case (succeeded a t)
    let ?t = "t\<lparr>t_state := TaskSucceeded, t_finished := Some (en_now e)\<rparr>" and ?a = "finish_row (en_now e) AttemptSucceeded res a"
    have m: "a \<in> set (attempts (sv_jobs db))" "t \<in> set (tasks (sv_jobs db))" "t_id t = a_task a" using succeeded(1) by (auto simp: holds_def)
    have "?a \<in> set (attempts js)" unfolding succeeded(6)
      using sql_updateI [OF m(1), of "\<lambda>x. a_id x = a_id a" "finish_row (en_now e) AttemptSucceeded res"] by (simp add: succeeded_db_simps)
    moreover have "?t \<in> set (tasks js)"
    proof -
      have "?t \<in> set (tasks (succeeded_db (en_now e) (sv_jobs db) a t res))" unfolding succeeded_db_simps
        by (rule sql_updateI [OF m(2), where P = "\<lambda>x. t_id x = t_id t", simplified])
      from sql_updateI [OF this, of "released (succeeded_db (en_now e) (sv_jobs db) a t res) (t_job t) (t_id t)"
          "\<lambda>t. t\<lparr>t_state := TaskQueued, t_queued_at := Some (en_now e)\<rparr>"]
      show ?thesis unfolding succeeded(6) by (simp add: tasks_releaseDependents released_def)
    qed
    ultimately show ?thesis using succeeded m(3) unfolding attempt_closed_def db'
      by (intro bexI [of _ ?a] bexI [of _ ?t]) (auto simp: finish_row_def)
  qed (use assms(4) in simp)
qed

lemma register_reply:
  assumes "handleRegisterArtifact e d db h seg (ArtifactRegistration reg) = (db', r)" "client_answer wants (Inr r) = Inr b"
    and "server_inv db"
  shows "recorded (sv_artifacts db') reg"
proof -
  have no: "\<not> (\<exists>code msg. r = Refused code msg \<and> code \<ge> 400)" using assms(2) client_accepts by fastforce
  obtain wk i where wk: "workerAttempt d db h seg = Inr (wk, i)"
    using assms(1) no refused_by_worker_auth by (cases "workerAttempt d db h seg") (fastforce simp: handleRegisterArtifact_def)+
  obtain ctx where ctx: "AuthorizeAttempt (sv_jobs db) i (wk_ID wk) = Inr ctx"
  proof (cases "AuthorizeAttempt (sv_jobs db) i (wk_ID wk)")
    case (Inl err)
    then show ?thesis using assms(1) no by (cases err) (auto simp: handleRegisterArtifact_def wk reply_defs)
  qed blast
  obtain adb art where reg: "Register (en_now e) (en_fresh e) (dp_Head d (sv_store db)) (sv_artifacts db)
      (ctx_TenantID ctx) (ctx_JobID ctx) i reg = Inr (adb, art)" "sv_artifacts db' = adb"
  proof (cases "Register (en_now e) (en_fresh e) (dp_Head d (sv_store db)) (sv_artifacts db) (ctx_TenantID ctx) (ctx_JobID ctx) i reg")
    case (Inl err)
    then show ?thesis using assms(1) no by (cases err) (auto simp: handleRegisterArtifact_def wk ctx reply_defs)
  next
    case (Inr x)
    then show ?thesis using that assms(1) by (cases x) (auto simp: handleRegisterArtifact_def wk ctx)
  qed
  have "artifact_inv (sv_artifacts db)" using assms(3) by (simp add: server_inv_def)
  from Register_inv [OF this reg(1)] show ?thesis unfolding recorded_def reg(2) by (auto simp: scan_artifact_def)
qed

section \<open>The agent beside the server\<close>

text \<open>
  A call whose success the agent was told of is true of the server: a reported success has closed the
  attempt, a registration is recorded.
\<close>

definition call_true :: "'st Deps \<Rightarrow> 'st server_db \<Rightarrow> call \<Rightarrow> bool" where
  "call_true d db c \<longleftrightarrow> (accepted c \<longrightarrow>
     (\<forall>i res. completion_call i res c \<and> Success res \<and> dp_parseUUID d (uuid_String i) = Some i \<longrightarrow> attempt_closed (sv_jobs db) i) \<and>
     (\<forall>i reg. registration_call i c \<and> cl_In c = Some (ArtifactRegistration reg) \<longrightarrow> recorded (sv_artifacts db) reg))"

lemma call_true_stays:
  assumes "(server_step d)\<^sup>*\<^sup>* db db'" "server_inv db" "call_true d db c"
  shows "call_true d db' c"
  using server_steps_move [OF assms(1)] assms(2,3) attempt_closed_stays recorded_stays
  unfolding server_moves_def server_inv_def call_true_def by blast

definition agent_server :: "('st server_db \<times> 'l) Agent \<Rightarrow> 'st server_db" where
  "agent_server a = fst (ag_world a)"

definition meanwhile :: "'st Deps \<Rightarrow> ('st server_db \<times> 'l) Agent \<Rightarrow> ('st server_db \<times> 'l) Agent \<Rightarrow> bool" where
  "meanwhile d a b \<longleftrightarrow> (server_step d)\<^sup>*\<^sup>* (agent_server a) (agent_server b) \<and>
     (\<exists>es. ag_calls b = ag_calls a @ es \<and> (server_inv (agent_server a) \<longrightarrow> list_all (call_true d (agent_server b)) es))"

lemma meanwhile_still: "ag_calls b = ag_calls a \<Longrightarrow> agent_server b = agent_server a \<Longrightarrow> meanwhile d a b"
  by (simp add: meanwhile_def)

lemma meanwhile_trans:
  assumes "meanwhile d a b" "meanwhile d b c"
  shows "meanwhile d a c"
proof -
  have st: "(server_step d)\<^sup>*\<^sup>* (agent_server a) (agent_server b)" "(server_step d)\<^sup>*\<^sup>* (agent_server b) (agent_server c)"
    using assms by (auto simp: meanwhile_def)
  obtain es es' where es: "ag_calls b = ag_calls a @ es" "server_inv (agent_server a) \<longrightarrow> list_all (call_true d (agent_server b)) es"
    "ag_calls c = ag_calls b @ es'" "server_inv (agent_server b) \<longrightarrow> list_all (call_true d (agent_server c)) es'"
    using assms by (auto simp: meanwhile_def)
  have "list_all (call_true d (agent_server c)) (es @ es')" if inv: "server_inv (agent_server a)"
  proof -
    have "server_inv (agent_server b)" using server_sys.steps_inv [OF st(1) inv] .
    then show ?thesis using es(2,4) inv call_true_stays [OF st(2)] by (auto simp: list_all_iff)
  qed
  then show ?thesis using st es(1,3) unfolding meanwhile_def
    by (intro conjI exI [of _ "es @ es'"]) (auto intro: rtranclp_trans)
qed

lemma answered_call_true:
  assumes "Handler e d db (agent_request token path inp) = (db', rep)" "server_inv db"
  shows "call_true d db' \<lparr>cl_Path = path, cl_In = inp, cl_Answer = client_answer wants (Inr rep)\<rparr>"
proof (cases "client_answer wants (Inr rep)")
  case (Inr b)
  have "attempt_closed (sv_jobs db') i"
    if "path = attempt_path i ''complete''" "inp = Some (ResultBody res)" "Success res" "dp_parseUUID d (uuid_String i) = Some i" for i res
    by (rule complete_reply [OF assms(1) [unfolded that(1,2) complete_request] Inr that(4,3) assms(2)])
  moreover have "recorded (sv_artifacts db') reg"
    if "path = attempt_path i ''artifacts''" "inp = Some (ArtifactRegistration reg)" for i reg
    by (rule register_reply [OF assms(1) [unfolded that register_request] Inr assms(2)])
  ultimately show ?thesis by (simp add: call_true_def completion_call_def registration_call_def)
qed (simp add: call_true_def accepted_def)

lemma exchange_meanwhile:
  fixes d :: "'a Deps" and nw :: "('a, 'b) Network"
  shows "keeps (meanwhile d) (client_do (network_link d nw) path token inp wants)"
  unfolding keeps_def
proof
  fix a :: "('a server_db \<times> 'b) Agent"
  obtain r w where x: "over_network d nw token path inp (ag_world a) = (r, w)" by (rule prod.exhaust)
  let ?c = "\<lparr>cl_Path = path, cl_In = inp, cl_Answer = client_answer wants r\<rparr>"
  have post: "snd (run_state (client_do (network_link d nw) path token inp wants) a) =
      a\<lparr>ag_world := w, ag_calls := ag_calls a @ [?c]\<rparr>"
    using x by (simp add: client_do_def network_link_def)
  have "(server_step d)\<^sup>*\<^sup>* (agent_server a) (fst w) \<and> (server_inv (agent_server a) \<longrightarrow> call_true d (fst w) ?c)"
    using x
  proof (cases rule: over_network_cases)
    case (silent e)
    then show ?thesis by (simp add: agent_server_def call_true_def accepted_def client_answer_def)
  next
    case (answered e db1 rep)
    have "(server_step d)\<^sup>*\<^sup>* (agent_server a) (fst w)"
      using answered(2) step_request [OF answered(3)] by (simp add: agent_server_def)
    moreover have "call_true d (fst w) ?c" if "server_inv (agent_server a)"
      using answered_call_true [OF answered(3)] server_sys.steps_inv [OF answered(2)] that answered(1) by (simp add: agent_server_def)
    ultimately show ?thesis by blast
  qed
  then show "meanwhile d a (snd (run_state (client_do (network_link d nw) path token inp wants) a))"
    unfolding post meanwhile_def by (auto simp: agent_server_def)
qed

interpretation network: agent_relation "meanwhile d" "host_machine m" "network_link d nw" for d m nw
proof (unfold_locales, goal_cases)
  case (2 a b c)
  then show ?case by (rule meanwhile_trans)
next
  case (5 path token inp wants)
  show ?case by (rule exchange_meanwhile)
qed (auto intro!: meanwhile_still dest: host_step simp: agent_server_def network_link_def split: prod.split)

section \<open>End to end\<close>

lemma attempt_path_inj: "attempt_path i op = attempt_path i op' \<longleftrightarrow> op = op'"
  by (simp add: attempt_path_def)

lemma success_call_cases:
  assumes "map_of (executors m dl cfg) (as_Operation as) = Some exec"
    and "run_state (client_Started l (as_AttemptID as)) (a\<lparr>ag_running := ag_running a + 1\<rparr>) = (err, a1)"
    and "run_state (exec (as_Spec as) (uploader l (as_AttemptID as)) (set_progress (as_Spec as))) (a1\<lparr>ag_pct := 0\<rparr>) = (outcome, a2)"
    and "ag_calls (snd (run_state (execute m l dl cfg as) a)) = ag_calls a @ es"
    and "c \<in> set es" "completion_call (as_AttemptID as) sent c" "Success sent"
  shows "\<exists>oc rs. outcome = Inr oc \<and> Success (oc_Result oc) \<and> set rs \<subseteq> set es \<and> registrations (as_AttemptID as) (oc_Artifacts oc) rs"
proof -
  obtain st where st: "ag_calls a1 = ag_calls a @ st" "list_all (\<lambda>c. cl_Path c = attempt_path (as_AttemptID as) ''started'') st"
    using emitsD [OF emits_Started assms(2)] by auto
  obtain ups rs cs where calls: "ag_calls (snd (run_state (execute m l dl cfg as) a)) = ag_calls a1 @ ups @ rs @ cs"
      "list_all (upload_call (as_AttemptID as)) ups" "list_all (registration_call (as_AttemptID as)) rs"
      "cs = [] \<or> (\<exists>sent. report_calls (as_AttemptID as) sent 5 cs \<and> (Success sent \<longrightarrow> err \<noteq> Some LeaseGone \<and>
        (\<exists>oc. outcome = Inr oc \<and> Success (oc_Result oc) \<and> registrations (as_AttemptID as) (oc_Artifacts oc) rs)))"
    using execute_calls [OF assms(1-3)] by blast
  have es: "es = st @ ups @ rs @ cs" using calls(1) st(1) assms(4) by simp
  have "c \<in> set cs"
    using assms(5,6) st(2) calls(2,3) unfolding es
    by (auto simp: list_all_iff completion_call_def upload_call_def registration_call_def attempt_path_inj)
  then obtain sent' where rep: "report_calls (as_AttemptID as) sent' 5 cs"
    "Success sent' \<longrightarrow> (\<exists>oc. outcome = Inr oc \<and> Success (oc_Result oc) \<and> registrations (as_AttemptID as) (oc_Artifacts oc) rs)"
    using calls(4) by auto
  have "completion_call (as_AttemptID as) sent' c" using rep(1) \<open>c \<in> set cs\<close> by (auto simp: report_calls_def list_all_iff)
  then have "sent' = sent" using assms(6) by (simp add: completion_call_def)
  with rep(2) assms(7) obtain oc where "outcome = Inr oc" "Success (oc_Result oc)" "registrations (as_AttemptID as) (oc_Artifacts oc) rs" by blast
  moreover have "set rs \<subseteq> set es" unfolding es by auto
  ultimately show ?thesis by blast
qed

lemma registered_all:
  assumes "registrations i regs rs" "list_all (call_true d db) rs" "reg \<in> set regs"
  shows "recorded (sv_artifacts db) reg"
proof -
  have "Some (ArtifactRegistration reg) \<in> set (map cl_In rs)" using assms(1,3) by (auto simp: registrations_def)
  then obtain c where "c \<in> set rs" "cl_In c = Some (ArtifactRegistration reg)" by auto
  then show ?thesis using assms(1,2) by (auto simp: registrations_def list_all_iff call_true_def)
qed

text \<open>
  C26. End to end, over a network that may lose requests and replies, with other clients and the sweepers
  at work in between: what an agent does to the control plane is a history of the server, and if the agent
  was ever told that its report of success was accepted, then the executor had succeeded, in the
  control plane the attempt and its task are closed (as succeeded, or as cancelled when a tenant cancelled
  the task first), and every artifact of the outcome is in the tables under its label and key.
\<close>

theorem accepted_success_recorded:
  assumes "server_inv (agent_server a)" "dp_parseUUID d (uuid_String (as_AttemptID as)) = Some (as_AttemptID as)"
    and "map_of (executors (host_machine m) dl cfg) (as_Operation as) = Some exec"
    and "run_state (client_Started (network_link d nw) (as_AttemptID as)) (a\<lparr>ag_running := ag_running a + 1\<rparr>) = (err, a1)"
    and "run_state (exec (as_Spec as) (uploader (network_link d nw) (as_AttemptID as)) (set_progress (as_Spec as))) (a1\<lparr>ag_pct := 0\<rparr>) = (outcome, a2)"
    and "run_state (execute (host_machine m) (network_link d nw) dl cfg as) a = ((), b)" "ag_calls b = ag_calls a @ es"
    and "c \<in> set es" "completion_call (as_AttemptID as) sent c" "Success sent" "accepted c"
  shows "(server_step d)\<^sup>*\<^sup>* (agent_server a) (agent_server b) \<and> server_inv (agent_server b) \<and>
    attempt_closed (sv_jobs (agent_server b)) (as_AttemptID as) \<and>
    (\<exists>oc. outcome = Inr oc \<and> Success (oc_Result oc) \<and> (\<forall>reg \<in> set (oc_Artifacts oc). recorded (sv_artifacts (agent_server b)) reg))"
proof -
  have "meanwhile d a b"
    using keepsD [OF network.keeps_execute [of d m nw dl cfg as], of a] assms(6) by simp
  then have hist: "(server_step d)\<^sup>*\<^sup>* (agent_server a) (agent_server b)" and true: "list_all (call_true d (agent_server b)) es"
    using assms(1,7) by (auto simp: meanwhile_def)
  have "ag_calls (snd (run_state (execute (host_machine m) (network_link d nw) dl cfg as) a)) = ag_calls a @ es"
    using assms(6,7) by simp
  from success_call_cases [OF assms(3-5) this assms(8-10)] obtain oc rs where
    oc: "outcome = Inr oc" "Success (oc_Result oc)" "set rs \<subseteq> set es" "registrations (as_AttemptID as) (oc_Artifacts oc) rs" by blast
  have "list_all (call_true d (agent_server b)) rs" using true oc(3) by (auto simp: list_all_iff)
  then have "\<forall>reg \<in> set (oc_Artifacts oc). recorded (sv_artifacts (agent_server b)) reg" using registered_all [OF oc(4)] by blast
  moreover have "attempt_closed (sv_jobs (agent_server b)) (as_AttemptID as)"
    using true assms(2,8-11) unfolding list_all_iff call_true_def by blast
  ultimately show ?thesis using hist server_sys.steps_inv [OF hist assms(1)] oc(1,2) by blast
qed

text \<open>A leased task, the agent that holds it with its registered credential, and a network that delivers.\<close>

definition demo_credential :: string where "demo_credential = credentialPrefix @ ''key''"

definition demo_plane :: "unit server_db" where
  "demo_plane = (server_empty ())\<lparr>sv_jobs := demo2, sv_workers := worker_empty\<lparr>workers := [new_worker_row 1 7 (sha256 demo_credential) demo_enrolment]\<rparr>\<rparr>"

definition demo_plane_deps :: "unit Deps" where
  "demo_plane_deps = demo_deps\<lparr>dp_parseUUID := (\<lambda>s. if s = uuid_String 200 then Some 200 else None)\<rparr>"

definition demo_network :: "(unit, unit) Network" where
  "demo_network = \<lparr>nw_Before = (\<lambda>x. []), nw_Delivery = (\<lambda>x. Delivered), nw_Env = (\<lambda>x. demo_env\<lparr>en_now := 2000000\<rparr>), nw_Next = (\<lambda>x. x),
     nw_Stopping = (\<lambda>x. False), nw_Sleep = (\<lambda>t x. (True, x)), nw_ErrorText = (\<lambda>e. [])\<rparr>"

definition demo_holder :: "(unit server_db \<times> unit) Agent" where
  "demo_holder = \<lparr>ag_workerID = 7, ag_credential = demo_credential, ag_running = 0, ag_slots = [], ag_pct = 0, ag_calls = [],
     ag_world = (demo_plane, ())\<rparr>"

definition demo_probe_task :: Assignment where
  "demo_probe_task = demo_assignment\<lparr>as_AttemptID := 200\<rparr>"

lemma demo_probe_task_sel [simp]: "as_AttemptID demo_probe_task = 200" "as_Operation demo_probe_task = ''probe''" "as_Spec demo_probe_task = as_Spec demo_assignment"
  by (simp_all add: demo_probe_task_def demo_assignment_def)

definition demo_probe_outcome :: Outcome where
  "demo_probe_outcome = \<lparr>oc_Result = success ''{}'' no_metrics, oc_Artifacts = []\<rparr>"

lemma demo_probe_any:
  "run_state (probeTask (lift_machine (host_machine demo_machine)) ((\<lambda>w. None) \<circ> ag_world) bin (as_Spec demo_assignment)) a = (Inr demo_probe_outcome, a)"
proof -
  have "ProbeSpec_input (as_Spec demo_assignment) = Some ''http://h/x''" "isHTTPURL ''http://h/x''" "json_parse ''{}'' \<noteq> None" by code_simp+
  then show ?thesis
    by (cases a) (auto simp: probeTask_def demo_probe_outcome_def lift_op_def host_machine_def beside_def demo_machine_def)
qed

definition demo_sent :: Result where
  "demo_sent = (oc_Result demo_probe_outcome)\<lparr>res_Metrics := no_metrics\<lparr>WallSeconds := duration_Seconds 0\<rparr>\<rparr>"

definition demo_started_jobs :: job_db where
  "demo_started_jobs = got (job_Start 2000000 demo2 200 7 second)"

lemma demo_jobs_run:
  "job_Start 2000000 demo2 200 7 second = Inr (demo_started_jobs, ())"
  "\<not> isl (job_Complete 2000000 demo_started_jobs 200 7 demo_sent)"
  by code_simp+

lemma demo_authorised:
  "workerAttempt demo_plane_deps (demo_plane\<lparr>sv_jobs := js\<rparr>) (''Bearer '' @ demo_credential) (uuid_String 200) =
     Inr (authenticated_worker (new_worker_row 1 7 (sha256 demo_credential) demo_enrolment), 200)"
  "wk_ID (authenticated_worker (new_worker_row 1 7 (sha256 demo_credential) demo_enrolment)) = 7"
proof -
  have "bearer (''Bearer '' @ demo_credential) = Some demo_credential" "HasPrefix demo_credential credentialPrefix" by code_simp+
  then show "workerAttempt demo_plane_deps (demo_plane\<lparr>sv_jobs := js\<rparr>) (''Bearer '' @ demo_credential) (uuid_String 200) =
     Inr (authenticated_worker (new_worker_row 1 7 (sha256 demo_credential) demo_enrolment), 200)"
    by (simp add: workerAttempt_def authenticateWorker_def worker_Authenticate_def demo_plane_def pathUUID_def demo_plane_deps_def sql_find_def)
  show "wk_ID (authenticated_worker (new_worker_row 1 7 (sha256 demo_credential) demo_enrolment)) = 7"
    by (simp add: authenticated_worker_def)
qed

lemma demo_plane_inv: "server_inv demo_plane"
proof -
  have "job_inv demo2" using demo_reachable(2) by (rule job_reachable_inv)
  moreover have "server_inv (server_empty ())" by (rule server_sys.init_inv) blast
  ultimately show ?thesis by (simp add: server_inv_def demo_plane_def worker_inv_def server_empty_def artifact_empty_def)
qed

lemma demo_execute:
  "\<exists>b c1 c2. run_state (execute (host_machine demo_machine) (network_link demo_plane_deps demo_network) (\<lambda>w. None) demo_agent_config demo_probe_task) demo_holder = ((), b) \<and>
     ag_calls b = [c1, c2] \<and> completion_call 200 demo_sent c2 \<and> accepted c2"
proof -
  let ?e = "demo_env\<lparr>en_now := 2000000\<rparr>" and ?cred = demo_credential
  have env: "en_now ?e = 2000000" "dp_LeaseTTL demo_plane_deps = second" by (simp_all add: demo_plane_deps_def demo_deps_def)
  have plane: "demo_plane\<lparr>sv_jobs := demo2\<rparr> = demo_plane" "sv_jobs demo_plane = demo2" by (simp_all add: demo_plane_def)
  have h1: "Handler ?e demo_plane_deps demo_plane (agent_request ?cred (attempt_path 200 ''started'') None) =
      (demo_plane\<lparr>sv_jobs := demo_started_jobs\<rparr>, Answer 204 NoBody)"
    using demo_authorised(1) [of demo2] unfolding plane(1)
    by (simp add: started_request handleWorkerStarted_def demo_authorised(2) env plane(2) demo_jobs_run(1))
  obtain js c where c: "job_Complete 2000000 demo_started_jobs 200 7 demo_sent = Inr (js, c)"
    using demo_jobs_run(2) by (cases "job_Complete 2000000 demo_started_jobs 200 7 demo_sent") auto
  obtain db where h2: "Handler ?e demo_plane_deps (demo_plane\<lparr>sv_jobs := demo_started_jobs\<rparr>) (agent_request ?cred (attempt_path 200 ''complete'') (Some (ResultBody demo_sent))) =
      (db, Answer 200 (RetryingBody (comp_Retrying c)))"
    unfolding complete_request handleWorkerComplete_def demo_authorised(1) using c by (simp add: demo_authorised(2))
  let ?l = "network_link demo_plane_deps demo_network"
  have n1: "ln_Http ?l ?cred (attempt_path 200 ''started'') None (demo_plane, ()) =
      (Inr (Answer 204 NoBody), (demo_plane\<lparr>sv_jobs := demo_started_jobs\<rparr>, ()))"
    using h1 by (simp add: network_link_def over_network_def demo_network_def)
  have n2: "ln_Http ?l ?cred (attempt_path 200 ''complete'') (Some (ResultBody demo_sent)) (demo_plane\<lparr>sv_jobs := demo_started_jobs\<rparr>, ()) =
      (Inr (Answer 200 (RetryingBody (comp_Retrying c))), (db, ()))"
    using h2 by (simp add: network_link_def over_network_def demo_network_def)
  have exec: "map_of (executors (host_machine demo_machine) (\<lambda>w. None) demo_agent_config) ''probe'' =
      Some (\<lambda>spec up p. probeTask (lift_machine (host_machine demo_machine)) ((\<lambda>w. None) \<circ> ag_world) (cf_FFprobeBin demo_agent_config) spec)"
    by (simp add: executors_def Let_def)
  have res: "(oc_Result demo_probe_outcome)\<lparr>res_Metrics := (res_Metrics (oc_Result demo_probe_outcome))\<lparr>WallSeconds := duration_Seconds 0\<rparr>\<rparr> = demo_sent"
    "Success demo_sent" "oc_Artifacts demo_probe_outcome = []"
    by (simp_all add: demo_sent_def demo_probe_outcome_def success_def)
  let ?db1 = "demo_plane\<lparr>sv_jobs := demo_started_jobs\<rparr>"
  let ?c1 = "\<lparr>cl_Path = attempt_path 200 ''started'', cl_In = None, cl_Answer = Inr NoBody\<rparr>"
  let ?c2 = "\<lparr>cl_Path = attempt_path 200 ''complete'', cl_In = Some (ResultBody demo_sent), cl_Answer = Inr (RetryingBody (comp_Retrying c))\<rparr>"
  define a1 where "a1 = demo_holder\<lparr>ag_running := 1, ag_world := (?db1, ()), ag_calls := [?c1]\<rparr>"
  define a2 where "a2 = a1\<lparr>ag_pct := 0, ag_world := (db, ()), ag_calls := [?c1, ?c2]\<rparr>"
  have "run_state (client_Started ?l 200) (demo_holder\<lparr>ag_running := 1\<rparr>) = (None, a1)"
    by (simp add: client_Started_def client_call_def client_do_def demo_holder_def n1 client_answer_def a1_def)
  moreover have "run_state (client_Complete ?l 200 demo_sent) (a1\<lparr>ag_pct := 0\<rparr>) = (None, a2)"
    by (simp add: client_Complete_def client_call_def client_do_def demo_holder_def n2 client_answer_def a1_def a2_def)
  then have "run_state (agent_report ?l demo_probe_task demo_sent) (a1\<lparr>ag_pct := 0\<rparr>) = ((), a2)"
    unfolding agent_report_def using report_loop.simps(2) [of ?l 200 demo_sent 4 second] by simp
  then have "run_state (settle ?l demo_probe_task demo_sent []) (a1\<lparr>ag_pct := 0\<rparr>) = ((), a2)"
    by (simp add: settle_def res)
  moreover have "mc_Now (host_machine demo_machine) w = 0" "mc_Ctx (host_machine demo_machine) w = None" for w :: "unit server_db \<times> unit"
    by (simp_all add: host_machine_def demo_machine_def)
  ultimately have "run_state (execute (host_machine demo_machine) ?l (\<lambda>w. None) demo_agent_config demo_probe_task) demo_holder = ((), a2\<lparr>ag_running := ag_running a2 - 1\<rparr>)"
    by (simp add: execute_def exec track_def State_Monad.update_def run_task_def stopping_def demo_probe_any Let_def res demo_holder_def)
  then show ?thesis by (simp add: a2_def completion_call_def accepted_def)
qed

theorem accepted_success_recorded_witness:
  "\<exists>b. run_state (execute (host_machine demo_machine) (network_link demo_plane_deps demo_network) (\<lambda>w. None) demo_agent_config demo_probe_task) demo_holder = ((), b) \<and>
     server_inv (agent_server b) \<and> attempt_closed (sv_jobs (agent_server b)) 200"
proof -
  let ?l = "network_link demo_plane_deps demo_network"
  obtain b c1 c2 where run: "run_state (execute (host_machine demo_machine) ?l (\<lambda>w. None) demo_agent_config demo_probe_task) demo_holder = ((), b)"
      "ag_calls b = [c1, c2]" "completion_call 200 demo_sent c2" "accepted c2"
    using demo_execute by blast
  have exec: "map_of (executors (host_machine demo_machine) (\<lambda>w. None) demo_agent_config) (as_Operation demo_probe_task) =
      Some (\<lambda>spec up p. probeTask (lift_machine (host_machine demo_machine)) ((\<lambda>w. None) \<circ> ag_world) (cf_FFprobeBin demo_agent_config) spec)"
    by (simp add: executors_def Let_def)
  obtain err a1 where started: "run_state (client_Started ?l (as_AttemptID demo_probe_task)) (demo_holder\<lparr>ag_running := ag_running demo_holder + 1\<rparr>) = (err, a1)"
    by (rule prod.exhaust)
  have probe: "run_state (probeTask (lift_machine (host_machine demo_machine)) ((\<lambda>w. None) \<circ> ag_world) (cf_FFprobeBin demo_agent_config) (as_Spec demo_probe_task))
      (a1\<lparr>ag_pct := 0\<rparr>) = (Inr demo_probe_outcome, a1\<lparr>ag_pct := 0\<rparr>)"
    by (simp add: demo_probe_any)
  have inv: "server_inv (agent_server demo_holder)" using demo_plane_inv by (simp add: agent_server_def demo_holder_def)
  have parse: "dp_parseUUID demo_plane_deps (uuid_String (as_AttemptID demo_probe_task)) = Some (as_AttemptID demo_probe_task)"
    by (simp add: demo_plane_deps_def)
  have calls: "ag_calls b = ag_calls demo_holder @ [c1, c2]" using run(2) by (simp add: demo_holder_def)
  have "Success demo_sent" by (simp add: demo_sent_def demo_probe_outcome_def success_def)
  with accepted_success_recorded [OF inv parse exec started probe run(1) calls, of c2 demo_sent] run
  show ?thesis by simp
qed

end
