(* ===== verification/Json_Rewrite.thy ===== *)
theory Json_Rewrite
  imports Server Json_Text
begin

text \<open>
  Documents that the control plane reads into \<open>map[string]any\<close>, adds keys to and writes again: a whole number
  becomes a float and is written with the same digits, an object is written with its keys in order. What
  \<open>portable\<close> documents say stays the same.
\<close>

section \<open>Powers of ten\<close>

lemma pow10_powi: "pow10 k = 10 powi k"
  by (simp add: pow10_def power_int_def field_simps)

lemma pow10_nat: "pow10 (int n) = 10 ^ n"
  by (simp add: pow10_def)

lemma pow10_mono: "a \<le> b \<Longrightarrow> pow10 a \<le> pow10 b"
  unfolding pow10_powi by (rule power_int_increasing) auto

lemma exponent10_eq:
  assumes "pow10 e \<le> x" "x < pow10 (e + 1)" "-324 < e" "e \<le> 308"
  shows "exponent10 x = e"
proof -
  let ?xs = "map (\<lambda>i. 308 - int i) [0..<633]"
  have "List.find (\<lambda>e. pow10 e \<le> x) ?xs = Some e"
    unfolding find_Some_iff
  proof (intro exI [of _ "nat (308 - e)"] conjI allI impI)
    show "nat (308 - e) < length ?xs" "e = ?xs ! nat (308 - e)" using assms(3,4) by auto
    show "pow10 (?xs ! nat (308 - e)) \<le> x" using assms(1,3,4) by auto
    fix j assume j: "j < nat (308 - e)"
    then have "pow10 (e + 1) \<le> pow10 (308 - int j)" by (intro pow10_mono) linarith
    moreover have "?xs ! j = 308 - int j" using j assms(3) by simp
    ultimately show "\<not> pow10 (?xs ! j) \<le> x" using assms(2) by (simp add: not_le)
  qed
  then show ?thesis by (simp add: exponent10_def)
qed

section \<open>Digits\<close>

lemma show_nat_times10: "0 < m \<Longrightarrow> show_nat (m * 10) = show_nat m @ ''0''"
proof -
  have "digit_char 0 = CHR ''0''" by code_simp
  then show "0 < m \<Longrightarrow> show_nat (m * 10) = show_nat m @ ''0''" by (subst show_nat.simps) simp
qed

lemma show_nat_pow10: "0 < m \<Longrightarrow> show_nat (m * 10 ^ k) = show_nat m @ replicate k (CHR ''0'')"
proof (induction k)
  case (Suc k)
  have "show_nat (m * 10 ^ Suc k) = show_nat (m * 10 ^ k * 10)" by (simp add: mult.assoc mult.commute)
  also have "\<dots> = show_nat (m * 10 ^ k) @ ''0''" using Suc.prems by (intro show_nat_times10) simp
  finally show ?case using Suc by (simp add: replicate_append_same)
qed simp

lemma length_show_nat: "10 ^ p \<le> n \<Longrightarrow> n < 10 ^ Suc p \<Longrightarrow> length (show_nat n) = Suc p"
proof (induction p arbitrary: n)
  case 0
  then show ?case by (subst show_nat.simps) simp
next
  case (Suc p)
  have "10 ^ p * 10 \<le> n" "n < 10 ^ Suc p * 10" using Suc.prems by (simp_all only: power_Suc mult.commute)
  then have "10 ^ p \<le> n div 10" "n div 10 < 10 ^ Suc p" by (simp_all only: less_eq_div_iff_mult_less_eq less_mult_imp_div_less)
  then have "length (show_nat (n div 10)) = Suc p" by (rule Suc.IH)
  moreover have "\<not> n < 10"
  proof -
    have "(10::nat) ^ 1 \<le> 10 ^ Suc p" by (rule power_increasing) auto
    then have "10 ^ 1 \<le> n" using Suc.prems(1) by (rule le_trans)
    then show ?thesis by simp
  qed
  ultimately show ?case by (subst show_nat.simps) simp
qed

lemma decimal_length: "0 < n \<Longrightarrow> \<exists>e. 10 ^ e \<le> n \<and> n < (10::nat) ^ Suc e"
proof (induction n rule: less_induct)
  case (less n)
  show ?case
  proof (cases "n < 10")
    case True
    then show ?thesis using less.prems by (intro exI [of _ 0]) simp
  next
    case False
    then have "n div 10 < n" "0 < n div 10" by simp_all
    then obtain e where "10 ^ e \<le> n div 10" "n div 10 < 10 ^ Suc e" using less.IH by blast
    then have "10 ^ Suc e \<le> n" "n < 10 ^ Suc (Suc e)" by simp_all
    then show ?thesis by blast
  qed
qed

section \<open>Whole numbers as floats\<close>

text \<open>
  A whole number below \<open>10 ^ 15\<close> survives as a \<open>float64\<close>, and its shortest form is its decimal digits. This is
  why a document may pass through \<open>map[string]any\<close> without changing its numbers.
\<close>

lemma round_digits_near:
  assumes "0 \<le> r"
  shows "of_nat (nat (round_half_even r)) \<le> r + 1 / 2"
proof -
  have "0 \<le> round_half_even r" using round_half_even_mono [OF assms] round_half_even_of_int [of 0] by simp
  then have "(of_nat (nat (round_half_even r)) :: rat) = of_int (round_half_even r)" by simp
  then show ?thesis using round_half_even_near [of r] by linarith
qed

lemma shortest_whole:
  assumes n: "10 ^ e \<le> n" "n < 10 ^ Suc e" and e: "e < 15"
  shows "\<exists>p m. shortest_prec (of_nat n) = p \<and> sig_digits (of_nat n) p = m \<and> 0 < p \<and> p \<le> Suc e \<and> n = m * 10 ^ (Suc e - p)"
proof -
  let ?x = "of_nat n :: rat"
  have x10: "(10::rat) ^ e \<le> ?x" "?x < 10 ^ Suc e" using n by (metis of_nat_le_iff of_nat_numeral of_nat_power, metis of_nat_less_iff of_nat_numeral of_nat_power)
  have exp: "exponent10 ?x = int e"
    using x10 e pow10_nat [of e] pow10_nat [of "Suc e"] by (intro exponent10_eq) (simp_all add: add.commute)
  have scale: "pow10 (exponent10 ?x - int p + 1) = 10 ^ (Suc e - p)" if "p \<le> Suc e" for p
    using that pow10_nat [of "Suc e - p"] unfolding exp by (simp add: of_nat_diff algebra_simps)
  have exact: "f64 (of_nat k) = of_nat k" if "k \<le> 2 * 10 ^ 15" for k
    using f64.exact [of "int k"] that by simp
  have "sig_digits ?x (Suc e) = n" using scale [of "Suc e"] round_half_even_of_int [of "int n"] by (simp add: sig_digits_def)
  moreover have "f64 ?x = ?x" using n(2) e power_increasing [of "Suc e" 15 "10::nat"] by (intro exact) simp
  ultimately have last: "f64 (of_nat (sig_digits ?x (Suc e)) * pow10 (exponent10 ?x - int (Suc e) + 1)) = ?x"
    using scale [of "Suc e"] by simp
  have "Suc e \<in> set [1..<17]" using e by simp
  with last have "List.find (\<lambda>p. f64 (of_nat (sig_digits ?x p) * pow10 (exponent10 ?x - int p + 1)) = ?x) [1..<17] \<noteq> None"
    using \<open>Suc e \<in> set [1..<17]\<close> unfolding find_None_iff by blast
  then obtain p where p: "List.find (\<lambda>p. f64 (of_nat (sig_digits ?x p) * pow10 (exponent10 ?x - int p + 1)) = ?x) [1..<17] = Some p" by blast
  then obtain i where i: "i < 16" "p = Suc i" "f64 (of_nat (sig_digits ?x p) * pow10 (exponent10 ?x - int p + 1)) = ?x"
    "\<And>j. j < i \<Longrightarrow> f64 (of_nat (sig_digits ?x (Suc j)) * pow10 (exponent10 ?x - int (Suc j) + 1)) \<noteq> ?x"
    unfolding find_Some_iff by auto
  have le: "p \<le> Suc e"
  proof (rule ccontr)
    assume "\<not> p \<le> Suc e"
    then have "e < i" using i(2) by simp
    then show False using i(4) [of e] last by blast
  qed
  let ?m = "sig_digits ?x p" and ?u = "10 ^ (Suc e - p) :: nat"
  have "(of_nat ?m :: rat) \<le> ?x / of_nat ?u + 1 / 2"
    unfolding sig_digits_def scale [OF le] using round_digits_near [of "?x / 10 ^ (Suc e - p)"] by simp
  then have "of_nat ?m * of_nat ?u \<le> (?x / of_nat ?u + 1 / 2) * of_nat ?u" by (intro mult_right_mono) simp_all
  also have "\<dots> = ?x + of_nat ?u / 2" by (simp add: field_simps)
  also have "\<dots> \<le> ?x + of_nat ?u" by simp
  finally have "(of_nat (?m * ?u) :: rat) \<le> of_nat (n + ?u)" by (simp only: of_nat_mult of_nat_add)
  then have "?m * ?u \<le> n + ?u" unfolding of_nat_le_iff .
  moreover have "?u \<le> 10 ^ 15" "n \<le> 10 ^ 15"
    using e i(2) n(2) power_increasing [of "Suc e - p" 15 "10::nat"] power_increasing [of "Suc e" 15 "10::nat"] by simp_all
  ultimately have "?m * ?u \<le> 2 * 10 ^ 15" by linarith
  then have "f64 (of_nat (?m * ?u)) = of_nat (?m * ?u)" by (rule exact)
  then have "(of_nat (?m * ?u) :: rat) = ?x" using i(3) scale [OF le] by simp
  then have "n = ?m * ?u" unfolding of_nat_eq_iff by simp
  moreover have "shortest_prec ?x = p" using p by (simp add: shortest_prec_def)
  ultimately show ?thesis using i(2) le by (intro exI [of _ p] exI [of _ ?m]) simp
qed

lemma fmt_whole:
  assumes "0 < n" "n < 10 ^ 15"
  shows "fmt_shortest (- 6) 21 1 (of_nat n) = show_nat n"
proof -
  obtain e where n: "10 ^ e \<le> n" "n < 10 ^ Suc e" using decimal_length [OF assms(1)] by blast
  have e: "e < 15"
  proof (rule ccontr)
    assume "\<not> e < 15"
    then have "(10::nat) ^ 15 \<le> 10 ^ e" by (intro power_increasing) auto
    then show False using n(1) assms(2) by linarith
  qed
  obtain p m where pm: "shortest_prec (of_nat n) = p" "sig_digits (of_nat n) p = m" "0 < p" "p \<le> Suc e" "n = m * 10 ^ (Suc e - p)"
    using shortest_whole [OF n e] by blast
  have m: "0 < m" using assms(1) pm(5) by (cases m) auto
  have split: "(10::nat) ^ Suc e = 10 ^ p * 10 ^ (Suc e - p)" "(10::nat) ^ e = 10 ^ (p - 1) * 10 ^ (Suc e - p)"
    using pm(3,4) by (simp_all flip: power_add)
  have bounds: "m < 10 ^ p" "10 ^ (p - 1) \<le> m"
    using n pm(5) unfolding split by simp_all
  have len: "length (show_nat m) = p" using length_show_nat [of "p - 1" m] bounds pm(3) by simp
  have x10: "(10::rat) ^ e \<le> of_nat n" "(of_nat n :: rat) < 10 ^ Suc e"
    using n by (metis of_nat_le_iff of_nat_numeral of_nat_power, metis of_nat_less_iff of_nat_numeral of_nat_power)
  have "exponent10 (of_nat n) = int e"
    using x10 e pow10_nat [of e] pow10_nat [of "Suc e"] by (intro exponent10_eq) (simp_all add: add.commute)
  then show ?thesis using pm bounds(1) len e assms(1) show_nat_pow10 [OF m, of "Suc e - p"]
    by (simp add: fmt_shortest_def Let_def)
qed

lemma json_float_int: "\<bar>i\<bar> < 10 ^ 15 \<Longrightarrow> json_float (of_int i) = Itoa i"
proof -
  assume b: "\<bar>i\<bar> < 10 ^ 15"
  have zero: "show_nat 0 = ''0''" by code_simp
  have "fmt_shortest (- 6) 21 1 \<bar>of_int i\<bar> = show_nat (nat \<bar>i\<bar>)"
  proof (cases "i = 0")
    case False
    have "(\<bar>of_int i\<bar> :: rat) = of_nat (nat \<bar>i\<bar>)" by simp
    then show ?thesis using fmt_whole [of "nat \<bar>i\<bar>"] False b by (simp add: nat_less_iff)
  qed (simp add: fmt_shortest_def zero)
  then show ?thesis by (simp add: json_float_def Itoa_def)
qed

section \<open>Maps\<close>

lemma map_put_new: "k \<notin> fst ` set m \<Longrightarrow> map_put k v m = (k, v) # m"
  by (auto simp: map_put_def intro!: filter_True)

lemma fold_map_put: "distinct (map fst ms) \<Longrightarrow> fst ` set ms \<inter> fst ` set m = {} \<Longrightarrow>
  foldl (\<lambda>m (k, v). map_put k v m) m ms = rev ms @ m"
proof (induction ms arbitrary: m)
  case (Cons e ms)
  obtain k v where e: "e = (k, v)" by force
  have "foldl (\<lambda>m (k, v). map_put k v m) m (e # ms) = foldl (\<lambda>m (k, v). map_put k v m) ((k, v) # m) ms"
    using Cons.prems(2) by (simp add: e map_put_new)
  also have "\<dots> = rev ms @ (k, v) # m" using Cons.prems by (intro Cons.IH) (auto simp: e)
  finally show ?case by (simp add: e)
qed simp

lemma go_map_distinct: "distinct (map fst ms) \<Longrightarrow> go_map ms = sort_key fst (rev ms)"
  by (simp add: go_map_def fold_map_put)

lemma set_go_map: "distinct (map fst ms) \<Longrightarrow> set (go_map ms) = set ms"
  by (simp add: go_map_distinct)

lemma distinct_go_map: "distinct (map fst ms) \<Longrightarrow> distinct (map fst (go_map ms))"
  by (simp add: go_map_distinct distinct_map inj_on_def)

lemma map_of_go_map: "distinct (map fst ms) \<Longrightarrow> map_of (go_map ms) = map_of ms"
  by (rule map_of_inject_set [THEN iffD2]) (simp_all add: distinct_go_map set_go_map)

definition on_values :: "('a \<Rightarrow> 'b) \<Rightarrow> (string \<times> 'a) list \<Rightarrow> (string \<times> 'b) list" where
  "on_values f ms = map (\<lambda>(k, v). (k, f v)) ms"

lemma on_values_simps [simp]: "on_values f [] = []" "on_values f ((k, v) # ms) = (k, f v) # on_values f ms"
  "on_values f (xs @ ys) = on_values f xs @ on_values f ys" "on_values f (rev ms) = rev (on_values f ms)"
  by (simp_all add: on_values_def rev_map)

lemma keys_on_values [simp]: "map fst (on_values f ms) = map fst ms"
  by (simp add: on_values_def case_prod_beta comp_def)

lemma on_values_insort: "insort_key fst (k, f v) (on_values f ms) = on_values f (insort_key fst (k, v) ms)"
  by (induction ms) auto

lemma sort_on_values: "sort_key fst (on_values f ms) = on_values f (sort_key fst ms)"
proof (induction ms)
  case (Cons e ms)
  then show ?case by (cases e) (simp add: on_values_insort)
qed simp

lemma go_map_on_values: "distinct (map fst ms) \<Longrightarrow> go_map (on_values f ms) = on_values f (go_map ms)"
  by (simp add: go_map_distinct sort_on_values flip: on_values_simps(4))

lemma map_of_on_values: "map_of (on_values f ms) k = map_option f (map_of ms k)"
  by (induction ms) auto

section \<open>Documents\<close>

text \<open>
  A portable document has whole numbers below \<open>10 ^ 15\<close>, ASCII text, and objects whose keys are distinct and in
  lower case. \<open>whole_numbers\<close> reads the numbers of its text, \<open>in_order\<close> puts the keys of its objects in order,
  \<open>as_floats\<close> is what \<open>any\<close> holds for its numbers.
\<close>

fun portable :: "json \<Rightarrow> bool" where
  "portable (JInt i) = (\<bar>i\<bar> < 10 ^ 15)"
| "portable (JDec d) = (case number_value d of JInt i \<Rightarrow> \<bar>i\<bar> < 10 ^ 15 \<and> Itoa i = d | _ \<Rightarrow> False)"
| "portable (JStr s) = ascii s"
| "portable (JArr xs) = list_all portable xs"
| "portable (JObj ms) = (distinct (map fst ms) \<and> list_all (\<lambda>(k, v). ascii k \<and> ToLower k = k \<and> portable v) ms)"
| "portable _ = True"

fun whole_numbers :: "json \<Rightarrow> json" where
  "whole_numbers (JDec d) = number_value d"
| "whole_numbers (JArr xs) = JArr (map whole_numbers xs)"
| "whole_numbers (JObj ms) = JObj (map (\<lambda>(k, v). (k, whole_numbers v)) ms)"
| "whole_numbers j = j"

fun in_order :: "json \<Rightarrow> json" where
  "in_order (JArr xs) = JArr (map in_order xs)"
| "in_order (JObj ms) = JObj (go_map (map (\<lambda>(k, v). (k, in_order v)) ms))"
| "in_order j = j"

fun as_floats :: "json \<Rightarrow> json" where
  "as_floats (JInt i) = JDec (Itoa i)"
| "as_floats (JArr xs) = JArr (map as_floats xs)"
| "as_floats (JObj ms) = JObj (map (\<lambda>(k, v). (k, as_floats v)) ms)"
| "as_floats j = j"

fun whole :: "json \<Rightarrow> bool" where
  "whole (JDec d) = False"
| "whole (JArr xs) = list_all whole xs"
| "whole (JObj ms) = list_all (\<lambda>(k, v). whole v) ms"
| "whole j = True"

lemma portable_whole:
  "portable j \<Longrightarrow> whole (whole_numbers j) \<and> portable (whole_numbers j) \<and> json_text (whole_numbers j) = json_text j"
proof (induction j)
  case (JDec d)
  then show ?case by (cases "number_value d") auto
next
  case (JArr xs)
  then show ?case by (auto simp: list_all_iff cong: map_cong)
next
  case (JObj ms)
  have "map (\<lambda>(k, v). json_string k @ '':'' @ json_text v) (map (\<lambda>(k, v). (k, whole_numbers v)) ms) =
      map (\<lambda>(k, v). json_string k @ '':'' @ json_text v) ms"
    using JObj by (auto simp: list_all_iff)
  moreover have "map fst (map (\<lambda>(k, v). (k, whole_numbers v)) ms) = map fst ms" by auto
  ultimately show ?case using JObj by (auto simp: list_all_iff simp del: map_map)
qed auto

lemma in_order_whole:
  "portable j \<Longrightarrow> whole j \<Longrightarrow> portable (in_order j) \<and> whole (in_order j)"
proof (induction j)
  case (JArr xs)
  then show ?case by (auto simp: list_all_iff)
next
  case (JObj ms)
  let ?ms = "on_values in_order ms"
  have "distinct (map fst ?ms)" using JObj.prems by simp
  moreover have "(k, v) \<in> set ?ms \<Longrightarrow> ascii k \<and> ToLower k = k \<and> portable v \<and> whole v" for k v
    using JObj by (fastforce simp: on_values_def list_all_iff)
  ultimately show ?case
    by (auto simp: list_all_iff set_go_map distinct_go_map simp flip: on_values_def)
qed auto

lemma any_whole: "portable j \<Longrightarrow> whole j \<Longrightarrow> any_value j = Some (as_floats (in_order j))"
proof (induction j)
  case (JInt i)
  have "\<bar>i\<bar> \<le> 2 ^ 53" using JInt by simp
  then have "f64 (of_int i) = of_int i" by (rule f64.exact)
  moreover have "\<bar>of_int i :: rat\<bar> < 2 ^ 1024"
  proof -
    have "(2::rat) ^ 53 < 2 ^ 1024" by (rule power_strict_increasing) auto
    moreover have "\<bar>of_int i :: rat\<bar> \<le> 2 ^ 53"
      using \<open>\<bar>i\<bar> \<le> 2 ^ 53\<close> by (metis of_int_abs of_int_le_iff of_int_numeral of_int_power)
    ultimately show ?thesis by linarith
  qed
  ultimately show ?case using json_float_int [of i] JInt by simp
next
  case (JArr xs)
  have "those (map any_value xs) = Some (map (\<lambda>x. as_floats (in_order x)) xs)"
    using JArr by (induction xs) auto
  then show ?case by (simp add: comp_def)
next
  case (JObj ms)
  have "any_value (snd e) = Some (as_floats (in_order (snd e)))" if "e \<in> set ms" for e
    using JObj that by (cases e) (fastforce simp: list_all_iff)
  then have "those (map (\<lambda>e. any_value (snd e)) ms) = Some (map (\<lambda>e. as_floats (in_order (snd e))) ms)"
    by (induction ms) auto
  then have "those (map (\<lambda>(k, v). any_value v) ms) = Some (map (\<lambda>(k, v). as_floats (in_order v)) ms)"
    by (simp add: case_prod_unfold)
  moreover have "zip (map fst ms) (map (\<lambda>(k, v). as_floats (in_order v)) ms) = on_values as_floats (on_values in_order ms)"
    by (induction ms) auto
  moreover have "go_map (on_values as_floats (on_values in_order ms)) = on_values as_floats (go_map (on_values in_order ms))"
    using JObj.prems by (intro go_map_on_values) simp
  ultimately show ?case by (simp flip: on_values_def)
qed auto

lemma whole_printable: "portable j \<Longrightarrow> whole j \<Longrightarrow> printable j"
proof (induction j)
  case (JArr xs)
  then show ?case by (auto simp: list_all_iff)
next
  case (JObj ms)
  have "ascii k \<and> printable v" if "(k, v) \<in> set ms" for k v
    using JObj that by (fastforce simp: list_all_iff)
  then show ?case by (auto simp: list_all_iff)
qed auto

lemma depth_obj: "json_depth (JObj ms) \<le> Suc n \<longleftrightarrow> (\<forall>(k, v) \<in> set ms. json_depth v \<le> n)"
  by (auto simp: fold_max_le)

lemma depth_arr: "json_depth (JArr xs) \<le> Suc n \<longleftrightarrow> (\<forall>v \<in> set xs. json_depth v \<le> n)"
  by (auto simp: fold_max_le)

section \<open>What a document says\<close>

text \<open>
  The control plane reads a document and writes it again. What it then says is \<open>canonical\<close>: numbers read, keys in
  order. Reading a field commutes with it, and so does the type of every field.
\<close>

definition canonical :: "json \<Rightarrow> json" where
  "canonical j = in_order (whole_numbers j)"

lemma canonical_simps [simp]: "canonical JNull = JNull" "canonical (JBool b) = JBool b" "canonical (JInt i) = JInt i" "canonical (JStr s) = JStr s"
  "canonical (JArr xs) = JArr (map canonical xs)"
  by (simp_all add: canonical_def)

lemma canonical_obj: "canonical (JObj ms) = JObj (go_map (on_values canonical ms))"
  by (simp add: canonical_def on_values_def comp_def case_prod_unfold)

lemma canonical_dec: "portable (JDec d) \<Longrightarrow> \<exists>i. d = Itoa i \<and> \<bar>i\<bar> < 10 ^ 15 \<and> canonical (JDec d) = JInt i"
  by (cases "number_value d") (auto simp: canonical_def)

lemma portable_canonical: "portable j \<Longrightarrow> portable (canonical j) \<and> whole (canonical j)"
  unfolding canonical_def using portable_whole in_order_whole by blast

lemma canonical_null: "portable j \<Longrightarrow> canonical j = JNull \<longleftrightarrow> j = JNull"
  by (cases j) (auto dest!: canonical_dec simp del: portable.simps(2) simp: canonical_obj)

lemma depth_canonical: "portable j \<Longrightarrow> json_depth j \<le> n \<Longrightarrow> json_depth (canonical j) \<le> n"
proof (induction j arbitrary: n)
  case (JDec d)
  then show ?case using canonical_dec [of d] by auto
next
  case (JArr xs)
  obtain m where n: "n = Suc m" using JArr.prems by (cases n) auto
  show ?case using JArr unfolding n canonical_simps depth_arr by (auto simp: list_all_iff)
next
  case (JObj ms)
  obtain m where n: "n = Suc m" using JObj.prems by (cases n) auto
  have "json_depth (canonical v) \<le> m" if "(k, v) \<in> set ms" for k v
    using JObj that unfolding n depth_obj by (fastforce simp: list_all_iff)
  moreover have "distinct (map fst (on_values canonical ms))" using JObj.prems by simp
  ultimately show ?case unfolding n canonical_obj depth_obj by (auto simp: set_go_map on_values_def)
qed auto

lemma field_lower:
  assumes "distinct (map fst ms)" "list_all (\<lambda>(k, v). ToLower k = k) ms"
  shows "json_field k ms = (case map_of ms k of None \<Rightarrow> JNull | Some v \<Rightarrow> v)"
proof -
  have d: "distinct (map fst (rev ms))" using assms(1) by (simp flip: rev_map)
  have "map_of (rev ms) = map_of ms" by (rule map_of_inject_set [THEN iffD2, OF d assms(1)]) simp
  moreover have "(case List.find (\<lambda>(k', v). ToLower k' = k \<and> v \<noteq> JNull) ns of None \<Rightarrow> JNull | Some (k', v) \<Rightarrow> v) =
      (case map_of ns k of None \<Rightarrow> JNull | Some v \<Rightarrow> v)"
    if "distinct (map fst ns)" "list_all (\<lambda>(k, v). ToLower k = k) ns" for ns
    using that
  proof (induction ns)
    case (Cons e ns)
    obtain k' v where e: "e = (k', v)" by force
    show ?case
    proof (cases "k' = k \<and> v = JNull")
      case True
      then have "map_of ns k = None" using Cons.prems by (simp add: e map_of_eq_None_iff)
      then show ?thesis using Cons True by (simp add: e)
    qed (use Cons in \<open>auto simp: e\<close>)
  qed simp
  ultimately show ?thesis using d assms(2) by (simp add: json_field_def list_all_rev)
qed

lemma field_canonical:
  assumes "portable (JObj ms)"
  shows "json_field k (go_map (on_values canonical ms)) = canonical (json_field k ms)"
proof -
  have d: "distinct (map fst ms)" and l: "list_all (\<lambda>(k, v). ToLower k = k) ms" using assms by (auto simp: list_all_iff)
  have d': "distinct (map fst (on_values canonical ms))" using d by simp
  have l': "list_all (\<lambda>(k, v). ToLower k = k) (go_map (on_values canonical ms))"
    using l unfolding list_all_iff set_go_map [OF d'] by (auto simp: on_values_def)
  show ?thesis
    unfolding field_lower [OF d l] field_lower [OF distinct_go_map [OF d'] l'] map_of_go_map [OF d']
    by (simp add: map_of_on_values split: option.split)
qed

section \<open>Reading and writing again\<close>

lemma text_as_floats: "json_text (as_floats j) = json_text j"
proof (induction j)
  case (JArr xs)
  then show ?case by (auto cong: map_cong)
next
  case (JObj ms)
  have "map (\<lambda>(k, v). json_string k @ '':'' @ json_text v) (on_values as_floats ms) = map (\<lambda>(k, v). json_string k @ '':'' @ json_text v) ms"
    using JObj by (fastforce simp: on_values_def)
  then show ?case by (simp flip: on_values_def)
qed auto

lemma as_floats_idem: "as_floats (as_floats j) = as_floats j"
proof (induction j)
  case (JObj ms)
  then have "on_values as_floats (on_values as_floats ms) = on_values as_floats ms" by (fastforce simp: on_values_def)
  then show ?case by (simp flip: on_values_def)
qed auto

lemma as_floats_twice: "on_values as_floats (on_values as_floats ms) = on_values as_floats ms"
  by (simp add: on_values_def as_floats_idem case_prod_unfold)

lemma depth_whole: "json_depth (whole_numbers j) = json_depth j"
proof (induction j)
  case (JDec d)
  show ?case by (simp add: number_value_def split: option.split)
next
  case (JArr xs)
  then show ?case by (auto cong: map_cong intro!: arg_cong [where f = "\<lambda>ns. fold max ns 0"])
next
  case (JObj ms)
  have "map (\<lambda>(k, v). json_depth v) (on_values whole_numbers ms) = map (\<lambda>(k, v). json_depth v) ms"
    using JObj by (fastforce simp: on_values_def)
  then show ?case by (simp flip: on_values_def)
qed auto

lemma parse_portable:
  assumes "portable j" "json_depth j \<le> maxNestingDepth"
  shows "json_parse (json_text j) = Some (whole_numbers j)"
proof -
  have "printable (whole_numbers j)" using portable_whole [OF assms(1)] whole_printable by blast
  then show ?thesis
    using json_round_trip [of "whole_numbers j"] portable_whole [OF assms(1)] assms(2) depth_whole by simp
qed

text \<open>Keys set on what was read, in the order they are set.\<close>

definition set_keys :: "(string \<times> json) list \<Rightarrow> (string \<times> json) list \<Rightarrow> (string \<times> json) list" where
  "set_keys puts ms = fold (\<lambda>(k, v). map_put k v) puts ms"

lemma set_keys_simps [simp]: "set_keys [] ms = ms" "set_keys ((k, v) # puts) ms = set_keys puts (map_put k v ms)"
  by (simp_all add: set_keys_def)

lemma keys_map_put: "distinct (map fst ms) \<Longrightarrow> distinct (map fst (map_put k v ms))"
  by (auto simp: map_put_def distinct_map inj_on_def)

lemma map_of_put: "map_of (map_put k v ms) = (map_of ms)(k \<mapsto> v)"
proof
  show "map_of (map_put k v ms) x = ((map_of ms)(k \<mapsto> v)) x" for x
    by (induction ms) (auto simp: map_put_def)
qed

lemma put_on_values: "map_put k (f v) (on_values f ms) = on_values f (map_put k v ms)"
  by (induction ms) (auto simp: map_put_def)

lemma keys_set_keys: "distinct (map fst ms) \<Longrightarrow> distinct (map fst (set_keys puts ms))"
  by (induction puts arbitrary: ms) (auto simp: keys_map_put)

lemma map_of_set_keys: "distinct (map fst puts) \<Longrightarrow>
  map_of (set_keys puts ms) k = (case map_of puts k of None \<Rightarrow> map_of ms k | Some v \<Rightarrow> Some v)"
proof (induction puts arbitrary: ms)
  case (Cons e puts)
  then show ?case
    by (cases e) (auto simp: map_of_put split: option.split dest!: map_of_SomeD intro: rev_image_eqI)
qed simp

lemma set_keys_on_values: "set_keys (on_values f puts) (on_values f ms) = on_values f (set_keys puts ms)"
  by (induction puts arbitrary: ms) (auto simp: put_on_values)

lemma set_keys_floats: "on_values as_floats (set_keys puts (on_values as_floats ms)) = on_values as_floats (set_keys puts ms)"
  using set_keys_on_values [of as_floats puts "on_values as_floats ms"] set_keys_on_values [of as_floats puts ms]
  by (simp add: as_floats_twice)

lemma text_object_floats:
  "distinct (map fst ms) \<Longrightarrow> json_text (JObj (go_map (on_values as_floats ms))) = json_text (JObj (go_map ms))"
  using text_as_floats [of "JObj (go_map ms)"] by (simp add: go_map_on_values flip: on_values_def)

lemma put_all: "list_all P ms \<Longrightarrow> P (k, v) \<Longrightarrow> list_all P (map_put k v ms)"
  by (auto simp: map_put_def list_all_iff)

lemma set_keys_all: "list_all P ms \<Longrightarrow> list_all P puts \<Longrightarrow> list_all P (set_keys puts ms)"
  by (induction puts arbitrary: ms) (auto simp: put_all)

definition settable :: "nat \<Rightarrow> string \<times> json \<Rightarrow> bool" where
  "settable n e \<longleftrightarrow> ascii (fst e) \<and> ToLower (fst e) = fst e \<and> portable (snd e) \<and> whole (snd e) \<and> json_depth (snd e) \<le> n"

text \<open>
  What a reader finds in the text the control plane writes after it has read a portable document and set keys:
  the keys set, and beside them what the document said.
\<close>

lemma rewritten:
  assumes "portable (JObj ms)" "json_depth (JObj ms) \<le> Suc n" "Suc n \<le> maxNestingDepth" "list_all (settable n) puts"
  shows "\<exists>fs. json_parse (json_text (JObj (go_map (set_keys puts (on_values as_floats (go_map (on_values canonical ms))))))) = Some (JObj fs) \<and>
    portable (JObj fs) \<and> map_of fs = map_of (set_keys puts (on_values canonical ms))"
proof -
  let ?ns = "go_map (on_values canonical ms)" and ?fs = "go_map (set_keys puts (go_map (on_values canonical ms)))"
  have d: "distinct (map fst (on_values canonical ms))" using assms(1) by simp
  have ns: "list_all (settable n) ?ns"
  proof -
    have "settable n (k, canonical v)" if "(k, v) \<in> set ms" for k v
      using that assms(1,2) portable_canonical [of v] depth_canonical [of v n] unfolding depth_obj
      by (fastforce simp: settable_def list_all_iff)
    then show ?thesis unfolding list_all_iff set_go_map [OF d] by (auto simp: on_values_def)
  qed
  have dk: "distinct (map fst (set_keys puts ?ns))" using d by (simp add: keys_set_keys distinct_go_map)
  have all: "list_all (settable n) ?fs"
    using set_keys_all [OF ns assms(4)] set_go_map [OF dk] by (simp add: list_all_iff)
  then have p: "portable (JObj ?fs)" "whole (JObj ?fs)" "json_depth (JObj ?fs) \<le> Suc n"
    using distinct_go_map [OF dk] unfolding depth_obj by (auto simp: settable_def list_all_iff)
  have "json_text (JObj (go_map (set_keys puts (on_values as_floats ?ns)))) = json_text (JObj ?fs)"
    using text_object_floats [OF dk] text_object_floats [of "set_keys puts (on_values as_floats ?ns)"] d
    by (simp add: set_keys_floats keys_set_keys distinct_go_map)
  moreover have "json_parse (json_text (JObj ?fs)) = Some (JObj ?fs)"
    using json_round_trip [of "JObj ?fs"] whole_printable p assms(3) by (meson le_trans)
  moreover have "map_of ?fs = map_of (set_keys puts (on_values canonical ms))"
  proof -
    have "map_of (set_keys puts xs) = map_of (set_keys puts ys)" if "map_of xs = map_of ys" for xs ys :: "(string \<times> json) list"
      using that by (induction puts arbitrary: xs ys) (auto simp: map_of_put)
    then show ?thesis using map_of_go_map [OF dk] map_of_go_map [OF d] by metis
  qed
  ultimately show ?thesis using p(1) by (intro exI [of _ ?fs]) simp
qed

end
