(* ===== verification/Config_Json.thy ===== *)
theory Config_Json
  imports Agent_Specs Pipeline
begin

text \<open>
  The JSON of an encoding configuration: the fields of a document whose members are written one by one, and that
  the agent's \<open>config_of_json\<close> reads what the planner's \<open>config_json\<close> says.
\<close>

section \<open>Fields\<close>

lemma json_field_Nil [simp]: "json_field k [] = JNull"
  by (simp add: json_field_def)

lemma json_field_append:
  "json_field k (xs @ ys) = (if json_field k ys = JNull then json_field k xs else json_field k ys)"
proof -
  have "List.find P (us @ vs) = (case List.find P us of None \<Rightarrow> List.find P vs | Some x \<Rightarrow> Some x)" for P and us vs :: "(string \<times> json) list"
    by (induction us) auto
  note app = this
  let ?P = "\<lambda>(n, v). ToLower n = k \<and> v \<noteq> JNull"
  show ?thesis
  proof (cases "List.find ?P (rev ys)")
    case None
    then show ?thesis by (simp add: json_field_def app)
  next
    case (Some e)
    then have "?P e" by (metis (no_types, lifting) find_Some_iff)
    then show ?thesis using Some by (cases e) (simp add: json_field_def app)
  qed
qed

lemma json_field_single [simp]: "json_field k [(k', v)] = (if ToLower k' = k then v else JNull)"
  by (auto simp: json_field_def)

text \<open>The field of a concatenation: the later part, unless it says nothing.\<close>

definition or_else :: "json \<Rightarrow> json \<Rightarrow> json" where
  "or_else i j = (if i = JNull then j else i)"

lemma or_else_simps [simp]: "or_else JNull j = j" "or_else j JNull = j"
  by (simp_all add: or_else_def)

lemma json_field_eqs:
  "json_field k (xs @ ys) = or_else (json_field k ys) (json_field k xs)"
  "json_field k ((k', v) # ms) = or_else (json_field k ms) (if ToLower k' = k then v else JNull)"
  using json_field_append [of k "[(k', v)]" ms] by (auto simp: or_else_def json_field_append)

text \<open>A pointer that is left out when it is nil.\<close>

definition ptr_json :: "('a \<Rightarrow> json) \<Rightarrow> 'a option \<Rightarrow> json" where
  "ptr_json f p = (case p of None \<Rightarrow> JNull | Some x \<Rightarrow> f x)"

lemma ptr_json_simps [simp]: "ptr_json (\<lambda>j. j) (map_option f p) = ptr_json f p" "int_ptr (ptr_json JInt q) = q"
  by (simp_all add: ptr_json_def split: option.split)

lemma json_field_omit [simp]:
  "json_field k (omit_str k' s) = (if ToLower k' = k \<and> s \<noteq> [] then JStr s else JNull)"
  "json_field k (omit_int k' n) = (if ToLower k' = k \<and> n \<noteq> 0 then JInt n else JNull)"
  "json_field k (omit_ptr k' p) = (if ToLower k' = k then ptr_json (\<lambda>j. j) p else JNull)"
  by (auto simp: omit_str_def omit_int_def omit_ptr_def ptr_json_def split: option.split)

lemma lower_keys:
  "ToLower ''codec'' = ''codec''"
  "ToLower ''profile'' = ''profile''"
  "ToLower ''level'' = ''level''"
  "ToLower ''width'' = ''width''"
  "ToLower ''height'' = ''height''"
  "ToLower ''fps_num'' = ''fps_num''"
  "ToLower ''fps_den'' = ''fps_den''"
  "ToLower ''rate_control'' = ''rate_control''"
  "ToLower ''crf'' = ''crf''"
  "ToLower ''bitrate_bps'' = ''bitrate_bps''"
  "ToLower ''maxrate_bps'' = ''maxrate_bps''"
  "ToLower ''bufsize_bytes'' = ''bufsize_bytes''"
  "ToLower ''preset'' = ''preset''"
  "ToLower ''tune'' = ''tune''"
  "ToLower ''pixel_format'' = ''pixel_format''"
  "ToLower ''keyframe_interval_seconds'' = ''keyframe_interval_seconds''"
  "ToLower ''b_frames'' = ''b_frames''"
  "ToLower ''ref_frames'' = ''ref_frames''"
  "ToLower ''color'' = ''color''"
  "ToLower ''primaries'' = ''primaries''"
  "ToLower ''transfer'' = ''transfer''"
  "ToLower ''matrix'' = ''matrix''"
  "ToLower ''range'' = ''range''"
  "ToLower ''sample_rate_hz'' = ''sample_rate_hz''"
  "ToLower ''channels'' = ''channels''"
  "ToLower ''container'' = ''container''"
  "ToLower ''video'' = ''video''"
  "ToLower ''audio'' = ''audio''"
  by code_simp+

lemma read_back [simp]:
  "as_str (if s \<noteq> [] then JStr s else JNull) = s" "as_int (if n \<noteq> 0 then JInt n else JNull) = n"
  by auto

lemma color_fields:
  "json_field ''primaries'' (members (color_json c)) = (if cc_Primaries c \<noteq> [] then JStr (cc_Primaries c) else JNull)"
  "json_field ''transfer'' (members (color_json c)) = (if cc_Transfer c \<noteq> [] then JStr (cc_Transfer c) else JNull)"
  "json_field ''matrix'' (members (color_json c)) = (if cc_Matrix c \<noteq> [] then JStr (cc_Matrix c) else JNull)"
  "json_field ''range'' (members (color_json c)) = (if cc_Range c \<noteq> [] then JStr (cc_Range c) else JNull)"
  by (simp_all add: color_json_def lower_keys json_field_eqs)

lemma struct_not_null [simp]: "color_json c \<noteq> JNull" "audio_json a \<noteq> JNull" "video_json v \<noteq> JNull"
  by (simp_all add: color_json_def audio_json_def video_json_def)

lemma audio_fields:
  "json_field ''codec'' (members (audio_json a)) = JStr (au_Codec a)"
  "json_field ''bitrate_bps'' (members (audio_json a)) = (if au_BitrateBPS a \<noteq> 0 then JInt (au_BitrateBPS a) else JNull)"
  "json_field ''sample_rate_hz'' (members (audio_json a)) = (if au_SampleRateHz a \<noteq> 0 then JInt (au_SampleRateHz a) else JNull)"
  "json_field ''channels'' (members (audio_json a)) = (if au_Channels a \<noteq> 0 then JInt (au_Channels a) else JNull)"
  by (simp_all add: audio_json_def lower_keys json_field_eqs)

text \<open>The members of the video object, each where it stands.\<close>

lemma video_strings:
  "json_field ''codec'' (members (video_json v)) = JStr (v_Codec v)"
  "json_field ''profile'' (members (video_json v)) = (if v_Profile v \<noteq> [] then JStr (v_Profile v) else JNull)"
  "json_field ''level'' (members (video_json v)) = (if v_Level v \<noteq> [] then JStr (v_Level v) else JNull)"
  "json_field ''rate_control'' (members (video_json v)) = JStr (v_RateControl v)"
  "json_field ''preset'' (members (video_json v)) = (if v_Preset v \<noteq> [] then JStr (v_Preset v) else JNull)"
  "json_field ''tune'' (members (video_json v)) = (if v_Tune v \<noteq> [] then JStr (v_Tune v) else JNull)"
  "json_field ''pixel_format'' (members (video_json v)) = (if v_PixelFormat v \<noteq> [] then JStr (v_PixelFormat v) else JNull)"
  unfolding video_json_def members.simps by (simp_all add: lower_keys json_field_eqs)

lemma video_numbers:
  "json_field ''width'' (members (video_json v)) = JInt (v_Width v)"
  "json_field ''height'' (members (video_json v)) = JInt (v_Height v)"
  "json_field ''fps_num'' (members (video_json v)) = (if v_FPSNum v \<noteq> 0 then JInt (v_FPSNum v) else JNull)"
  "json_field ''fps_den'' (members (video_json v)) = (if v_FPSDen v \<noteq> 0 then JInt (v_FPSDen v) else JNull)"
  "json_field ''bitrate_bps'' (members (video_json v)) = (if v_BitrateBPS v \<noteq> 0 then JInt (v_BitrateBPS v) else JNull)"
  "json_field ''maxrate_bps'' (members (video_json v)) = (if v_MaxrateBPS v \<noteq> 0 then JInt (v_MaxrateBPS v) else JNull)"
  "json_field ''bufsize_bytes'' (members (video_json v)) = (if v_BufsizeBytes v \<noteq> 0 then JInt (v_BufsizeBytes v) else JNull)"
  "json_field ''keyframe_interval_seconds'' (members (video_json v)) =
     (if v_KeyframeIntervalSec v = 0 then JNull else JDec (json_float (v_KeyframeIntervalSec v)))"
  unfolding video_json_def members.simps by (simp_all add: lower_keys json_field_eqs)

lemma video_pointers:
  "json_field ''crf'' (members (video_json v)) = ptr_json JInt (v_CRF v)"
  "json_field ''b_frames'' (members (video_json v)) = ptr_json JInt (v_BFrames v)"
  "json_field ''ref_frames'' (members (video_json v)) = ptr_json JInt (v_RefFrames v)"
  "json_field ''color'' (members (video_json v)) = ptr_json color_json (v_Color v)"
  unfolding video_json_def members.simps by (simp_all add: lower_keys json_field_eqs)

lemmas video_fields = video_strings video_numbers video_pointers

lemma config_fields:
  "json_field ''container'' (members (config_json c)) = JStr (c_Container c)"
  "json_field ''video'' (members (config_json c)) = video_json (c_Video c)"
  "json_field ''audio'' (members (config_json c)) = ptr_json audio_json (c_Audio c)"
  by (simp_all add: config_json_def lower_keys json_field_eqs)

section \<open>Configurations\<close>

lemma color_round_trip: "color_of_json (color_json c) = c"
  by (simp add: color_of_json_def color_fields)

lemma audio_round_trip: "audio_of_json (audio_json a) = a"
  by (simp add: audio_of_json_def audio_fields)

lemma struct_ptr_round_trip: "(\<And>x. p = Some x \<Longrightarrow> f x \<noteq> JNull \<and> g (f x) = x) \<Longrightarrow> struct_ptr g (ptr_json f p) = p"
  by (cases p) (simp_all add: struct_ptr_def ptr_json_def)

text \<open>
  The agent reads the configuration the planner wrote. The keyframe interval is a \<open>float64\<close>; that its
  shortest decimal form reads back as the same value is what \<open>strconv\<close> documents.
\<close>

lemma video_round_trip:
  assumes "v_KeyframeIntervalSec v = 0 \<or> ParseFloat (json_float (v_KeyframeIntervalSec v)) = Some (Finite (v_KeyframeIntervalSec v))"
  shows "video_of_json (video_json v) = v"
  using assms by (auto simp: video_of_json_def video_fields struct_ptr_round_trip color_round_trip)

lemma config_round_trip:
  assumes "v_KeyframeIntervalSec (c_Video c) = 0 \<or>
    ParseFloat (json_float (v_KeyframeIntervalSec (c_Video c))) = Some (Finite (v_KeyframeIntervalSec (c_Video c)))"
  shows "config_of_json (config_json c) = c"
  by (simp add: config_of_json_def config_fields video_round_trip [OF assms] struct_ptr_round_trip audio_round_trip)

end
