(* ===== verification/Spec_Delivery.thy ===== *)
theory Spec_Delivery
  imports Json_Rewrite Config_Json Delivery Pipeline_Properties "HOL-Library.Sublist"
begin

text \<open>
  A planned specification on its way to the agent. The planner writes it as JSON, the database keeps the document,
  the control plane reads it into \<open>map[string]any\<close>, adds signed URLs and writes it again, and the agent decodes it
  into typed fields. The agent gets what the planner meant.
\<close>

section \<open>Reading typed fields\<close>

lemma well_typed_portable:
  assumes "portable (JObj fs)" "\<And>k v. map_of fs k = Some v \<Longrightarrow> (case map_of typing k of None \<Rightarrow> True | Some ok \<Rightarrow> ok v)"
  shows "well_typed typing (JObj fs)"
proof -
  have "case map_of typing (ToLower k) of None \<Rightarrow> True | Some ok \<Rightarrow> ok v" if "(k, v) \<in> set fs" for k v
    using assms that by (auto simp: list_all_iff)
  then show ?thesis by (auto simp: well_typed_def list_all_iff)
qed

lemma well_typed_canonical:
  assumes "portable (JObj ms)" "list_all (\<lambda>(k, v). case map_of typing k of None \<Rightarrow> True | Some ok \<Rightarrow> ok (canonical v)) ms"
  shows "well_typed typing (canonical (JObj ms))"
proof -
  have d: "distinct (map fst (on_values canonical ms))" using assms(1) by simp
  have "case map_of typing (ToLower k) of None \<Rightarrow> True | Some ok \<Rightarrow> ok v" if "(k, v) \<in> set (go_map (on_values canonical ms))" for k v
    using that assms unfolding set_go_map [OF d] by (fastforce simp: on_values_def list_all_iff)
  then show ?thesis unfolding canonical_obj by (auto simp: well_typed_def list_all_iff)
qed

lemma field_portable: "portable (JObj fs) \<Longrightarrow> json_field k fs = (case map_of fs k of None \<Rightarrow> JNull | Some v \<Rightarrow> v)"
  by (rule field_lower) (auto simp: list_all_iff)

lemma members_canonical: "portable (JObj ms) \<Longrightarrow> json_field k (members (canonical (JObj ms))) = canonical (json_field k ms)"
  by (simp add: canonical_obj field_canonical)

section \<open>The text a worker is sent\<close>

text \<open>
  The column \<open>spec\<close> is \<open>jsonb\<close>: what it gives back is the document it was given, its keys unique and in an order of
  its own, its white space changed.
\<close>

definition same_document :: "string \<Rightarrow> string \<Rightarrow> bool" where
  "same_document s s' \<longleftrightarrow>
     (case (json_parse s, json_parse s') of
        (Some j, Some j') \<Rightarrow> portable j \<and> whole j \<and> in_order j = in_order j'
      | _ \<Rightarrow> False)"

lemma whole_fixed: "whole j \<Longrightarrow> whole_numbers j = j"
proof (induction j)
  case (JArr xs)
  then show ?case by (auto simp: list_all_iff intro: map_idI)
next
  case (JObj ms)
  then have "map (\<lambda>(k, v). (k, whole_numbers v)) ms = ms" by (intro map_idI) (fastforce simp: list_all_iff)
  then show ?case by simp
qed auto

lemma str_canonical: "as_str (canonical j) = as_str j"
  by (cases j) (simp_all add: canonical_def number_value_def split: option.split)

lemma is_str_canonical: "portable j \<Longrightarrow> is_str (canonical j) = is_str j"
  by (cases j) (auto dest!: canonical_dec simp: canonical_obj simp del: portable.simps(2))

lemma spec_ref_canonical:
  assumes "portable (JObj ms)"
  shows "spec_ref (Some (canonical (JObj ms))) = spec_ref (Some (JObj ms))"
proof -
  have d: "distinct (map fst (on_values canonical ms))" using assms by simp
  have "(\<forall>e \<in> set (go_map (on_values canonical ms)). P (fst e) \<longrightarrow> is_str (snd e)) \<longleftrightarrow> (\<forall>e \<in> set ms. P (fst e) \<longrightarrow> is_str (snd e))" for P
    using assms unfolding set_go_map [OF d] by (fastforce simp: on_values_def list_all_iff is_str_canonical)
  note typed = this [of "\<lambda>k. ToLower k = ''source_key'' \<or> ToLower k = ''output_label''"]
  show ?thesis
    unfolding spec_ref_def canonical_obj option.case is_obj.simps members.simps typed field_canonical [OF assms] str_canonical ..
qed

lemma resolveSpec_portable:
  assumes "same_document (as_Spec a) (json_text (JObj ms))" "portable (JObj ms)" "json_depth (JObj ms) \<le> maxNestingDepth"
    and "spec_ref (Some (JObj ms)) = Some (sourceKey, outputLabel)"
  shows "resolveSpec d adb a =
    (case add_input d sourceKey (on_values as_floats (go_map (on_values canonical ms))) of
       Inl err \<Rightarrow> Inl err
     | Inr fs1 \<Rightarrow>
         (case add_artifacts d adb a fs1 of
            Inl err \<Rightarrow> Inl err
          | Inr fs2 \<Rightarrow>
              (case add_output d a outputLabel fs2 of
                 Inl err \<Rightarrow> Inl err
               | Inr fs3 \<Rightarrow> Inr (json_text (JObj (go_map fs3))))))"
proof -
  let ?fs = "on_values as_floats (go_map (on_values canonical ms))"
  obtain j where j: "json_parse (as_Spec a) = Some j" "portable j" "whole j" "in_order j = canonical (JObj ms)"
    using assms(1) parse_portable [OF assms(2,3)]
    by (auto simp: same_document_def canonical_def split: option.splits)
  then obtain ns where ns: "j = JObj ns" by (cases j) (auto simp: canonical_obj)
  have "canonical j = canonical (JObj ms)" using j(3,4) by (simp add: canonical_def whole_fixed)
  then have ref: "spec_ref (Some j) = Some (sourceKey, outputLabel)"
    using spec_ref_canonical [of ns] spec_ref_canonical [OF assms(2)] assms(4) j(2) ns by simp
  have any: "any_value j = Some (JObj ?fs)"
    using any_whole [OF j(2,3)] j(4) by (simp add: canonical_obj flip: on_values_def)
  show ?thesis unfolding resolveSpec_def j(1) by (simp add: ref any del: any_value.simps)
qed

section \<open>Encoding configurations\<close>

text \<open>
  A plain configuration: ASCII text, numbers below \<open>10 ^ 15\<close>, a whole keyframe interval. Every configuration the
  planner makes is plain.
\<close>

definition small :: "int \<Rightarrow> bool" where "small i \<longleftrightarrow> \<bar>i\<bar> < 10 ^ 15"

lemma portable_int: "portable (JInt i) = small i"
  by (simp add: small_def)

definition plain_color :: "ColorConfig \<Rightarrow> bool" where
  "plain_color c \<longleftrightarrow> ascii (cc_Primaries c) \<and> ascii (cc_Transfer c) \<and> ascii (cc_Matrix c) \<and> ascii (cc_Range c)"

definition plain_video :: "VideoConfig \<Rightarrow> bool" where
  "plain_video v \<longleftrightarrow>
     list_all (\<lambda>f. ascii (f v)) [v_Codec, v_Profile, v_Level, v_RateControl, v_Preset, v_Tune, v_PixelFormat] \<and>
     list_all (\<lambda>f. small (f v)) [v_Width, v_Height, v_FPSNum, v_FPSDen, v_BitrateBPS, v_MaxrateBPS, v_BufsizeBytes] \<and>
     list_all (\<lambda>f. pred_option small (f v)) [v_CRF, v_BFrames, v_RefFrames] \<and>
     v_KeyframeIntervalSec v = of_int \<lfloor>v_KeyframeIntervalSec v\<rfloor> \<and> small \<lfloor>v_KeyframeIntervalSec v\<rfloor> \<and>
     pred_option plain_color (v_Color v)"

definition plain_audio :: "AudioConfig \<Rightarrow> bool" where
  "plain_audio a \<longleftrightarrow> ascii (au_Codec a) \<and> small (au_BitrateBPS a) \<and> small (au_SampleRateHz a) \<and> small (au_Channels a)"

definition plain_config :: "Config \<Rightarrow> bool" where
  "plain_config c \<longleftrightarrow> ascii (c_Container c) \<and> plain_video (c_Video c) \<and> pred_option plain_audio (c_Audio c)"

lemma keys_omit:
  "subseq (map fst (omit_str k s)) [k]" "subseq (map fst (omit_int k i)) [k]" "subseq (map fst (omit_ptr k p)) [k]"
  by (auto simp: omit_str_def omit_int_def omit_ptr_def split: option.split)

lemma all_omit [simp]:
  "list_all P (omit_str k s) \<longleftrightarrow> s = [] \<or> P (k, JStr s)"
  "list_all P (omit_int k i) \<longleftrightarrow> i = 0 \<or> P (k, JInt i)"
  "list_all P (omit_ptr k p) \<longleftrightarrow> pred_option (\<lambda>j. P (k, j)) p"
  by (auto simp: omit_str_def omit_int_def omit_ptr_def split: option.split)

lemma distinct_keys:
  assumes "subseq ks ls" "distinct ls"
  shows "distinct ks"
  using assms by (induction rule: list_emb.induct) (auto dest: list_emb_set)

lemma keys_then: "subseq (map fst xs) ks \<Longrightarrow> subseq (map fst ys) ls \<Longrightarrow> subseq (map fst (xs @ ys)) (ks @ ls)"
  by (simp add: list_emb_append_mono)

lemma keys_here: "subseq (map fst [(k, v)]) [k]" "subseq (map fst [(k, v), (k', v')]) [k, k']"
  "subseq (map fst (if b then [] else [(k, v)])) [k]"
  by simp_all

lemmas keys_intros = keys_then keys_omit keys_here

lemma ascii_keys:
  "list_all ascii [''codec'', ''profile'', ''level'', ''width'', ''height'', ''fps_num'', ''fps_den'', ''rate_control'', ''crf'', ''bitrate_bps'',
     ''maxrate_bps'', ''bufsize_bytes'', ''preset'', ''tune'', ''pixel_format'', ''keyframe_interval_seconds'', ''b_frames'', ''ref_frames'',
     ''color'', ''primaries'', ''transfer'', ''matrix'', ''range'', ''sample_rate_hz'', ''channels'', ''container'', ''video'', ''audio'']"
  by code_simp

lemmas key_facts = lower_keys ascii_keys [unfolded list.pred_inject]

lemma portable_color: "plain_color c \<Longrightarrow> portable (color_json c)"
proof -
  have "subseq (map fst (members (color_json c))) ([''primaries''] @ [''transfer''] @ [''matrix''] @ [''range''])"
    unfolding color_json_def members.simps by (intro keys_intros)
  then have "distinct (map fst (members (color_json c)))" by (rule distinct_keys) simp
  then show "plain_color c \<Longrightarrow> portable (color_json c)"
    by (auto simp: color_json_def plain_color_def key_facts)
qed

lemma portable_audio: "plain_audio a \<Longrightarrow> portable (audio_json a)"
proof -
  have "subseq (map fst (members (audio_json a))) ([''codec''] @ [''bitrate_bps''] @ [''sample_rate_hz''] @ [''channels''])"
    unfolding audio_json_def members.simps by (intro keys_intros)
  then have "distinct (map fst (members (audio_json a)))" by (rule distinct_keys) simp
  then show "plain_audio a \<Longrightarrow> portable (audio_json a)"
    by (auto simp: audio_json_def plain_audio_def small_def key_facts)
qed

lemma dec_whole: "small i \<Longrightarrow> portable (JDec (json_float (of_int i))) \<and> canonical (JDec (json_float (of_int i))) = JInt i"
  using number_ok_Itoa [of i] by (simp add: small_def json_float_int canonical_def)

lemma portable_video: "plain_video v \<Longrightarrow> portable (video_json v)"
proof -
  assume v: "plain_video v"
  let ?f = "v_KeyframeIntervalSec v"
  have "subseq (map fst (members (video_json v))) ([''codec''] @ [''profile''] @ [''level''] @ [''width'', ''height''] @ [''fps_num''] @ [''fps_den''] @
    [''rate_control''] @ [''crf''] @ [''bitrate_bps''] @ [''maxrate_bps''] @ [''bufsize_bytes''] @ [''preset''] @ [''tune''] @ [''pixel_format''] @
    [''keyframe_interval_seconds''] @ [''b_frames''] @ [''ref_frames''] @ [''color''])"
    unfolding video_json_def members.simps by (intro keys_intros)
  then have d: "distinct (map fst (members (video_json v)))" by (rule distinct_keys) simp
  have key: "portable (JDec (json_float ?f))" using v dec_whole [of "\<lfloor>?f\<rfloor>"] by (auto simp: plain_video_def simp del: portable.simps)
  have color: "pred_option (\<lambda>c. portable (color_json c)) (v_Color v)" using v portable_color by (auto simp: plain_video_def option.pred_mono_strong)
  have all: "list_all (\<lambda>(k, j). ascii k \<and> ToLower k = k \<and> portable j) (members (video_json v))"
    using v key color
    by (simp add: video_json_def plain_video_def portable_int key_facts option.pred_map comp_def del: portable.simps(1,2))
  show "portable (video_json v)" using d all by (simp add: video_json_def)
qed

lemma portable_config: "plain_config c \<Longrightarrow> portable (config_json c)"
proof -
  assume c: "plain_config c"
  have "subseq (map fst (members (config_json c))) ([''container'', ''video''] @ [''audio''])"
    unfolding config_json_def members.simps by (intro keys_intros)
  then have "distinct (map fst (members (config_json c)))" by (rule distinct_keys) simp
  moreover have "pred_option (\<lambda>a. portable (audio_json a)) (c_Audio c)"
    using c portable_audio by (auto simp: plain_config_def option.pred_mono_strong)
  ultimately show "portable (config_json c)" using c portable_video
    by (simp add: config_json_def plain_config_def key_facts option.pred_map comp_def)
qed

text \<open>What the agent reads of a plain configuration that the control plane has read and written again.\<close>

lemma int_canonical: "as_int (canonical (if n \<noteq> 0 then JInt n else JNull)) = n" "int_ptr (canonical (ptr_json JInt p)) = p"
  by (auto simp: ptr_json_def split: option.split)

lemma ptr_canonical:
  assumes "\<And>x. p = Some x \<Longrightarrow> portable (f x) \<and> f x \<noteq> JNull \<and> g (canonical (f x)) = x"
  shows "struct_ptr g (canonical (ptr_json f p)) = p"
proof (cases p)
  case (Some x)
  then show ?thesis using assms canonical_null by (simp add: struct_ptr_def ptr_json_def)
qed (simp add: struct_ptr_def ptr_json_def)

lemmas canonical_reads = str_canonical int_canonical

lemma object_canonical: "portable j \<Longrightarrow> is_obj j \<Longrightarrow> json_field k (members (canonical j)) = canonical (json_field k (members j))"
  by (cases j) (simp_all add: members_canonical)

lemma object_json [simp]: "is_obj (color_json c)" "is_obj (audio_json a)" "is_obj (video_json v)" "is_obj (config_json g)"
  by (simp_all add: color_json_def audio_json_def video_json_def config_json_def)

lemma color_read: "plain_color c \<Longrightarrow> color_of_json (canonical (color_json c)) = c"
  by (simp add: color_of_json_def object_canonical portable_color color_fields canonical_reads)

lemma audio_read: "plain_audio a \<Longrightarrow> audio_of_json (canonical (audio_json a)) = a"
  by (simp add: audio_of_json_def object_canonical portable_audio audio_fields canonical_reads)

lemma float_read: "small i \<Longrightarrow> as_float (canonical (JDec (json_float (of_int i)))) = of_int i"
proof -
  assume i: "small i"
  then have "f64 (of_int i) = of_int i" by (intro f64.exact) (simp add: small_def)
  then show ?thesis using dec_whole [OF i] by simp
qed

lemma video_read: "plain_video v \<Longrightarrow> video_of_json (canonical (video_json v)) = v"
proof -
  assume v: "plain_video v"
  obtain i where i: "v_KeyframeIntervalSec v = of_int i" "small i" using v by (auto simp: plain_video_def)
  have color: "struct_ptr color_of_json (canonical (ptr_json color_json (v_Color v))) = v_Color v"
    using v by (intro ptr_canonical) (auto simp: plain_video_def portable_color color_read)
  show "video_of_json (canonical (video_json v)) = v"
    using color float_read [OF i(2)] i(1)
    by (cases "v_KeyframeIntervalSec v = 0")
      (simp_all add: video_of_json_def object_canonical portable_video [OF v] video_fields canonical_reads)
qed

lemma config_read: "plain_config c \<Longrightarrow> config_of_json (canonical (config_json c)) = c"
proof -
  assume c: "plain_config c"
  have "struct_ptr audio_of_json (canonical (ptr_json audio_json (c_Audio c))) = c_Audio c"
    using c by (intro ptr_canonical) (auto simp: plain_config_def portable_audio audio_read)
  then show "config_of_json (canonical (config_json c)) = c"
    using c portable_config [OF c]
    by (simp add: config_of_json_def object_canonical config_fields canonical_reads video_read plain_config_def)
qed

section \<open>Their types\<close>

lemma object_typed:
  assumes "portable j" "is_obj j" "list_all (\<lambda>(k, v). case map_of typing k of None \<Rightarrow> True | Some ok \<Rightarrow> ok (canonical v)) (members j)"
  shows "well_typed typing (canonical j)"
proof (cases j)
  case (JObj ms)
  then show ?thesis using assms well_typed_canonical by simp
qed (use assms in \<open>simp_all add: well_typed_def\<close>)

lemma small_int64: "small i \<Longrightarrow> is_int64 (JInt i)"
  by (auto simp: small_def min_int64_def max_int64_def abs_less_iff)

lemma color_typed: "plain_color c \<Longrightarrow> well_typed color_typing (canonical (color_json c))"
  by (rule object_typed) (simp_all add: portable_color, simp add: color_json_def color_typing_def)

lemma audio_typed: "plain_audio a \<Longrightarrow> well_typed audio_typing (canonical (audio_json a))"
  by (rule object_typed) (simp_all add: portable_audio, simp add: audio_json_def audio_typing_def plain_audio_def small_int64 del: is_int64.simps)

lemma float_typed: "small i \<Longrightarrow> is_float64 (canonical (JDec (json_float (of_int i))))"
proof -
  assume i: "small i"
  have "(2::rat) ^ 53 < 2 ^ 1024" by (rule power_strict_increasing) auto
  moreover have "\<bar>of_int i :: rat\<bar> \<le> 2 ^ 53"
  proof -
    have "\<bar>i\<bar> \<le> 2 ^ 53" using i by (simp add: small_def)
    then show ?thesis by (metis of_int_abs of_int_le_iff of_int_numeral of_int_power)
  qed
  moreover have "f64 (of_int i) = of_int i" using i by (intro f64.exact) (simp add: small_def)
  ultimately show ?thesis using dec_whole [OF i] by simp
qed

lemma video_typed: "plain_video v \<Longrightarrow> well_typed video_typing (canonical (video_json v))"
proof (rule object_typed)
  assume v: "plain_video v"
  obtain i where i: "v_KeyframeIntervalSec v = of_int i" "small i" using v by (auto simp: plain_video_def)
  have color: "pred_option (\<lambda>c. well_typed color_typing (canonical (color_json c))) (v_Color v)"
    using v color_typed by (auto simp: plain_video_def option.pred_mono_strong)
  have ptrs: "pred_option (\<lambda>n. is_int64 (JInt n)) (v_CRF v)" "pred_option (\<lambda>n. is_int64 (JInt n)) (v_BFrames v)"
    "pred_option (\<lambda>n. is_int64 (JInt n)) (v_RefFrames v)"
    using v small_int64 by (auto simp: plain_video_def option.pred_mono_strong simp del: is_int64.simps)
  show "list_all (\<lambda>(k, j). case map_of video_typing k of None \<Rightarrow> True | Some ok \<Rightarrow> ok (canonical j)) (members (video_json v))"
    using v color ptrs float_typed [OF i(2)] i(1)
    by (simp add: video_json_def video_typing_def plain_video_def small_int64 option.pred_map comp_def del: is_int64.simps)
qed (simp_all add: portable_video)

lemma config_typed: "plain_config c \<Longrightarrow> well_typed config_typing (canonical (config_json c))"
proof (rule object_typed)
  assume c: "plain_config c"
  then have "pred_option (\<lambda>a. well_typed audio_typing (canonical (audio_json a))) (c_Audio c)"
    using audio_typed by (auto simp: plain_config_def option.pred_mono_strong)
  then show "list_all (\<lambda>(k, j). case map_of config_typing k of None \<Rightarrow> True | Some ok \<Rightarrow> ok (canonical j)) (members (config_json c))"
    using c by (simp add: config_json_def config_typing_def plain_config_def video_typed option.pred_map comp_def)
qed (simp_all add: portable_config)

text \<open>A configuration nests three deep.\<close>

lemma depth_members: "json_depth (JObj ms) \<le> Suc n \<longleftrightarrow> list_all (\<lambda>(k, v). json_depth v \<le> n) ms"
  unfolding depth_obj by (auto simp: list_all_iff)

lemma depth_config: "json_depth (config_json c) \<le> 3"
proof -
  have color: "json_depth (color_json g) \<le> Suc 0" for g
    unfolding color_json_def depth_members by simp
  have video: "json_depth (video_json v) \<le> Suc (Suc 0)" for v
    unfolding video_json_def depth_members using color by (simp add: option.pred_map comp_def option.pred_True)
  have audio: "json_depth (audio_json a) \<le> Suc (Suc 0)" for a
    unfolding audio_json_def depth_members by simp
  have "json_depth (config_json c) \<le> Suc (Suc (Suc 0))"
    unfolding config_json_def depth_members using video audio by (simp add: option.pred_map comp_def option.pred_True)
  then show ?thesis by (simp add: numeral_3_eq_3)
qed

section \<open>An encode task reaches the agent\<close>

lemma spec_keys:
  "ToLower ''duration_ms'' = ''duration_ms''" "ToLower ''encode'' = ''encode''" "ToLower ''output_label'' = ''output_label''"
  "ToLower ''source_key'' = ''source_key''" "ToLower ''input_url'' = ''input_url''" "ToLower ''output_url'' = ''output_url''"
  "ToLower ''output_key'' = ''output_key''"
  "ascii ''duration_ms''" "ascii ''encode''" "ascii ''output_label''" "ascii ''source_key''" "ascii ''input_url''" "ascii ''output_url''"
  "ascii ''output_key''"
  by code_simp+

lemma label_not_Nil: "JobArtifactKey t j n label = Inr key \<Longrightarrow> label \<noteq> []"
  by (auto simp: JobArtifactKey_def Segment_def)

lemma encode_resolved:
  assumes spec: "same_document (as_Spec a) (nt_Spec (encode_task sourceKey media r cfg))"
    and plain: "plain_config cfg" "small (pr_DurationMS media)" "ascii (rg_Label r)" "ascii sourceKey" "sourceKey \<noteq> []"
    and key: "JobArtifactKey (as_TenantID a) (as_JobID a) 1 (rg_Label r) = Inr key" "ascii key"
    and signs: "dp_PresignGetForWorker d sourceKey (dp_SourceURLTTL d) = Inr inURL" "dp_PresignPutForWorker d key (dp_SourceURLTTL d) = Inr outURL"
      "ascii inURL" "ascii outURL"
  shows "\<exists>text. resolveSpec d adb a = Inr text \<and>
    decode_spec encode_typing encode_of_json text =
      Some \<lparr>es_InputURL = inURL, es_OutputURL = outURL, es_OutputKey = key, es_OutputLabel = rg_Label r,
        es_DurationMS = pr_DurationMS media, es_Encode = cfg\<rparr>"
proof -
  let ?ms = "[(''duration_ms'', JInt (pr_DurationMS media)), (''encode'', config_json cfg), (''output_label'', JStr (rg_Label r)), (''source_key'', JStr sourceKey)]"
  let ?puts = "[(''input_url'', JStr inURL), (''output_key'', JStr key), (''output_url'', JStr outURL)]"
  let ?M = "on_values as_floats (go_map (on_values canonical ?ms))"
  have p: "portable (JObj ?ms)" using plain portable_config by (simp add: spec_keys portable_int del: portable.simps(1))
  have d: "json_depth (JObj ?ms) \<le> Suc 3" unfolding depth_members using depth_config by simp
  have ref: "spec_ref (Some (JObj ?ms)) = Some (sourceKey, rg_Label r)"
    by (simp add: spec_ref_def spec_keys json_field_eqs)
  have "map_of ?M ''needs_artifacts'' = None"
  proof -
    have "distinct (map fst (on_values canonical ?ms))" by simp
    then show ?thesis unfolding map_of_on_values by (subst map_of_go_map) simp_all
  qed
  then have none: "map_of (map_put ''input_url'' (JStr inURL) ?M) ''needs_artifacts'' = None" by (simp add: map_of_put)
  have "resolveSpec d adb a = Inr (json_text (JObj (go_map (set_keys ?puts ?M))))"
    using none signs key label_not_Nil [OF key(1)] plain(5)
    by (subst resolveSpec_portable [OF _ p _ ref])
      (use spec d in \<open>simp_all add: encode_task_def maxNestingDepth_def add_input_def add_artifacts_def add_output_def del: json_depth.simps json_text.simps on_values_simps\<close>)
  moreover have "list_all (settable 3) ?puts" using signs key by (simp add: settable_def spec_keys)
  then obtain fs where fs: "json_parse (json_text (JObj (go_map (set_keys ?puts ?M)))) = Some (JObj fs)" "portable (JObj fs)"
    "map_of fs = map_of (set_keys ?puts (on_values canonical ?ms))"
    using rewritten [OF p d, of ?puts] by (auto simp: maxNestingDepth_def)
  moreover have "well_typed encode_typing (JObj fs)"
  proof (rule well_typed_portable [OF fs(2)])
    fix k v assume "map_of fs k = Some v"
    then show "case map_of encode_typing k of None \<Rightarrow> True | Some ok \<Rightarrow> ok v"
      unfolding fs(3) using config_typed [OF plain(1)] small_int64 [OF plain(2)]
      by (auto simp: map_of_put encode_typing_def simp del: is_int64.simps split: if_splits)
  qed
  moreover have "encode_of_json (JObj fs) = \<lparr>es_InputURL = inURL, es_OutputURL = outURL, es_OutputKey = key, es_OutputLabel = rg_Label r,
        es_DurationMS = pr_DurationMS media, es_Encode = cfg\<rparr>"
    using config_read [OF plain(1)] by (simp add: encode_of_json_def field_portable [OF fs(2)] fs(3) map_of_put)
  ultimately show ?thesis by (simp add: decode_spec_def)
qed

section \<open>What the planner makes is plain\<close>

lemma vocabulary_ascii: "list_all ascii colorPrimaries" "list_all ascii colorTransfers" "list_all ascii colorMatrices" "list_all ascii colorRanges"
  by code_simp+

lemma color_plain: "Supported c \<Longrightarrow> plain_color c"
proof -
  have none: "ascii []" by (simp add: ascii_def)
  have all: "s = [] \<or> List.member ws s \<Longrightarrow> list_all ascii ws \<Longrightarrow> ascii s" for s ws
    using none by (auto simp: list_all_iff)
  assume "Supported c"
  then show "plain_color c"
    using vocabulary_ascii all by (auto simp: Supported_def color_validate_def plain_color_def split: if_splits)
qed

lemma rung_config_sel:
  "c_Container (rung_config r video audio) = ''mp4''"
  "v_Codec (c_Video (rung_config r video audio)) = ''h264''" "v_Profile (c_Video (rung_config r video audio)) = ''high''"
  "v_Level (c_Video (rung_config r video audio)) = []" "v_Tune (c_Video (rung_config r video audio)) = []"
  "v_RateControl (c_Video (rung_config r video audio)) = ''crf''" "v_Preset (c_Video (rung_config r video audio)) = ''medium''"
  "v_PixelFormat (c_Video (rung_config r video audio)) = ''yuv420p''" "v_CRF (c_Video (rung_config r video audio)) = Some (rg_CRF r)"
  "v_BitrateBPS (c_Video (rung_config r video audio)) = 0" "v_MaxrateBPS (c_Video (rung_config r video audio)) = rg_MaxrateBPS r"
  "v_BufsizeBytes (c_Video (rung_config r video audio)) = 0" "v_KeyframeIntervalSec (c_Video (rung_config r video audio)) = 2"
  "v_BFrames (c_Video (rung_config r video audio)) = None" "v_RefFrames (c_Video (rung_config r video audio)) = None"
  "v_Color (c_Video (rung_config r video audio)) = colorOf video"
  "v_FPSNum (c_Video (rung_config r video audio)) = (if tr_FPSNum video > 0 \<and> tr_FPSDen video > 0 then tr_FPSNum video else 0)"
  "v_FPSDen (c_Video (rung_config r video audio)) = (if tr_FPSNum video > 0 \<and> tr_FPSDen video > 0 then tr_FPSDen video else 0)"
  "c_Audio (rung_config r video audio) = map_option (\<lambda>a. \<lparr>au_Codec = ''aac'', au_BitrateBPS = 128000, au_SampleRateHz = 48000,
     au_Channels = min (tr_Channels a) 2\<rparr>) audio"
  by (simp_all add: rung_config_def segmentSeconds_def Let_def split: prod.split)

lemma rung_plain:
  assumes "config_Validate (rung_config r video audio) = None" "small (tr_FPSNum video)" "small (tr_FPSDen video)"
  shows "plain_config (rung_config r video audio)"
proof -
  let ?c = "rung_config r video audio"
  have v: "validate_size (c_Video ?c) = None" "validate_rate (c_Video ?c) = None" and a: "\<forall>x. c_Audio ?c = Some x \<longrightarrow> audio_validate x = None"
    using assms(1) by (auto simp: config_Validate_def video_validate_def split: if_splits option.splits)
  have words: "ascii ''mp4''" "ascii ''h264''" "ascii ''high''" "ascii ''crf''" "ascii ''medium''" "ascii ''yuv420p''" "ascii ''aac''" "ascii []"
    by code_simp+
  have size: "small (v_Width (c_Video ?c))" "small (v_Height (c_Video ?c))"
    using v(1) by (auto simp: validate_size_def small_def maxDimension_def split: if_splits)
  have rate: "small (rg_CRF r)" "small (rg_MaxrateBPS r)"
    using v(2) by (auto simp: validate_rate_def rung_config_sel small_def maxCRF_def maxBitrateBPS_def split: if_splits)
  have color: "pred_option plain_color (colorOf video)" using color_plain by (auto simp: colorOf_def Let_def)
  have zero: "small 0" "small 2" by (simp_all add: small_def)
  have video: "plain_video (c_Video ?c)"
    unfolding plain_video_def using size rate color words zero assms(2,3) by (simp add: rung_config_sel)
  have "pred_option plain_audio (c_Audio ?c)"
    using a words by (cases audio) (auto simp: plain_audio_def rung_config_sel small_def audio_validate_def split: if_splits)
  then show ?thesis using video words by (simp add: plain_config_def rung_config_sel)
qed

lemma label_ascii: "list_all label_char s \<Longrightarrow> ascii s"
  by (auto simp: ascii_def list_all_iff label_char_def is_lower_def is_upper_def is_digit_def)

lemma key_ascii: "JobArtifactKey t j n label = Inr key \<Longrightarrow> ascii key"
proof -
  assume k: "JobArtifactKey t j n label = Inr key"
  have app: "ascii (xs @ ys) \<longleftrightarrow> ascii xs \<and> ascii ys" for xs ys by (simp add: ascii_def)
  have words: "ascii ''t/''" "ascii ''/jobs/''" "ascii ''/v''" "ascii ''/''" by code_simp+
  have "ascii (Itoa n)" using Itoa_chars [of _ n] by (force simp: ascii_def list_all_iff is_digit_def)
  moreover obtain s where "Segment label = Inr s" "key = ''t/'' @ uuid_String t @ ''/jobs/'' @ uuid_String j @ ''/v'' @ Itoa n @ ''/'' @ s"
    using k by (auto simp: JobArtifactKey_def split: sum.splits)
  moreover have "ascii s" if "Segment label = Inr s" for s using that label_ascii by (simp add: segment_ok)
  ultimately show "ascii key" using words uuid_ascii by (metis app)
qed

lemma source_key_ascii: "ascii (SourceKey t a v)"
proof -
  have app: "ascii (xs @ ys) \<longleftrightarrow> ascii xs \<and> ascii ys" for xs ys by (simp add: ascii_def)
  have "ascii ''t/''" "ascii ''/assets/''" "ascii ''/versions/''" "ascii ''/source''" by code_simp+
  then show ?thesis unfolding SourceKey_def app using uuid_ascii by blast
qed

lemma preset_labels: "(name, p) \<in> set presets \<Longrightarrow> r \<in> set (rungsFor (ps_Ladder p) video) \<Longrightarrow> Segment (rg_Label r) = Inr (rg_Label r)"
proof -
  assume p: "(name, p) \<in> set presets" and r: "r \<in> set (rungsFor (ps_Ladder p) video)"
  have "list_all (\<lambda>(n, p). list_all (\<lambda>r. Segment (rg_Label r) = Inr (rg_Label r)) (ps_Ladder p)) presets" by code_simp
  then have "\<forall>x \<in> set (ps_Ladder p). Segment (rg_Label x) = Inr (rg_Label x)" using p by (fastforce simp: list_all_iff)
  then show ?thesis using rungsFor_cases [OF r] by auto
qed

lemma planned_encodes:
  assumes "Plan p key media = Inr ts" "videoTrack media = Some video" "t \<in> set ts" "nt_Operation t = ''encode''" "(name, p) \<in> set presets"
  shows "\<exists>r \<in> set (rungsFor (ps_Ladder p) video). t = encode_task key media r (rung_config r video (audioTrack media)) \<and>
    config_Validate (rung_config r video (audioTrack media)) = None"
proof (cases "NeedsProbe p")
  case True
  obtain x where x: "plan_rungs key media video (rungsFor (ps_Ladder p) video) [] [] = Inr x"
    using assms(1,2) True by (auto simp: Plan_def split: option.splits sum.splits)
  then have "ts = ladder_tasks p key media video"
    using Plan_ladder [OF True assms(2) plan_rungs_Inr [OF x]] assms(1) by simp
  then show ?thesis using assms(3,4) plan_rungs_Inr [OF x]
    by (auto simp: ladder_tasks_def thumbnail_tasks_def package_tasks_def Let_def zero_task_def split: if_splits)
next
  case False
  then show ?thesis using assms by (auto simp: Plan_def presets_def NeedsProbe_def zero_task_def ladder_h264_def)
qed

text \<open>
  C10. The agent gets the encode the planner meant. For every encode task of a plan, whatever order the database
  keeps the keys of its specification in, the control plane resolves it to a text that the agent decodes to the
  configuration of one rung of the ladder, with the duration of the source, the label of the rung, the object key of
  the job for it, and the URLs signed for the source and for that key. Whole numbers are below \<open>10 ^ 15\<close>, so that
  passing through \<open>float64\<close> keeps them, and signed URLs are ASCII.
\<close>

theorem planned_encode_delivered:
  assumes "(name, p) \<in> set presets" "videoTrack media = Some video" "Plan p (SourceKey tn an vn) media = Inr ts"
    and "t \<in> set ts" "nt_Operation t = ''encode''" "same_document (as_Spec a) (nt_Spec t)"
    and "small (pr_DurationMS media)" "small (tr_FPSNum video)" "small (tr_FPSDen video)"
    and "dp_PresignGetForWorker d (SourceKey tn an vn) (dp_SourceURLTTL d) = Inr inURL" "ascii inURL"
    and "\<forall>key. ascii key \<longrightarrow> dp_PresignPutForWorker d key (dp_SourceURLTTL d) = Inr (outURL key) \<and> ascii (outURL key)"
  shows "\<exists>r \<in> set (rungsFor (ps_Ladder p) video). \<exists>key text.
    JobArtifactKey (as_TenantID a) (as_JobID a) 1 (rg_Label r) = Inr key \<and>
    resolveSpec d adb a = Inr text \<and>
    decode_spec encode_typing encode_of_json text =
      Some \<lparr>es_InputURL = inURL, es_OutputURL = outURL key, es_OutputKey = key, es_OutputLabel = rg_Label r,
        es_DurationMS = pr_DurationMS media, es_Encode = rung_config r video (audioTrack media)\<rparr>"
proof -
  obtain r where r: "r \<in> set (rungsFor (ps_Ladder p) video)" "t = encode_task (SourceKey tn an vn) media r (rung_config r video (audioTrack media))"
    "config_Validate (rung_config r video (audioTrack media)) = None"
    using planned_encodes [OF assms(3,2,4,5,1)] by blast
  have label: "Segment (rg_Label r) = Inr (rg_Label r)" using preset_labels [OF assms(1) r(1)] .
  then obtain key where key: "JobArtifactKey (as_TenantID a) (as_JobID a) 1 (rg_Label r) = Inr key" by (simp add: JobArtifactKey_def)
  have "ascii (rg_Label r)" using label label_ascii by (simp add: segment_ok)
  moreover have "SourceKey tn an vn \<noteq> []" by (simp add: SourceKey_def)
  ultimately show ?thesis
    using encode_resolved [OF _ rung_plain [OF r(3) assms(8,9)] assms(7) _ source_key_ascii _ key key_ascii [OF key] assms(10), of "outURL key" adb]
      assms(6,11,12) key_ascii [OF key] r(1,2) key by blast
qed

lemma same_document_refl:
  assumes "portable j" "json_depth j \<le> maxNestingDepth"
  shows "same_document (json_text j) (json_text j)"
  using parse_portable [OF assms] portable_whole [OF assms(1)] by (simp add: same_document_def)

definition demo_rung :: Rung where "demo_rung = rung ''720p_h264'' 1280 720 23 4000000"

definition demo_encode :: Assignment where
  "demo_encode = \<lparr>as_TaskID = 1, as_AttemptID = 2, as_JobID = 3, as_TenantID = 4, as_Operation = ''encode'',
     as_Spec = nt_Spec (encode_task (SourceKey 4 5 6) demo_media demo_rung (rung_config demo_rung demo_video None)),
     as_Attempt = 1, as_LeaseTTL = 60\<rparr>"

lemma demo_encode_facts:
  "\<forall>r \<in> set (rungsFor (ps_Ladder demo_preset) demo_video). config_Validate (rung_config r demo_video (audioTrack demo_media)) = None"
  "demo_rung \<in> set (rungsFor (ps_Ladder demo_preset) demo_video)" "NeedsProbe demo_preset" "pr_DurationMS demo_media = 10000"
  "ascii (rg_Label demo_rung)"
proof -
  have "ordinary demo_video" by (simp add: ordinary_def demo_video_def zero_track_def)
  moreover have "\<forall>x \<in> set (ps_Ladder demo_preset). rung_ok x" using presets_rungs [OF demo_preset_in] by blast
  ultimately show "\<forall>r \<in> set (rungsFor (ps_Ladder demo_preset) demo_video). config_Validate (rung_config r demo_video (audioTrack demo_media)) = None"
    using rung_config_valid demo_video_track(2) by fastforce
  show "NeedsProbe demo_preset" by (simp add: demo_preset_def presets_def NeedsProbe_def ladder_h264_def)
  show "demo_rung \<in> set (rungsFor (ps_Ladder demo_preset) demo_video)"
    by (simp add: demo_preset_def presets_def ladder_h264_def demo_rung_def rung_def rungsFor_def demo_video_def)
  show "pr_DurationMS demo_media = 10000" by (simp add: demo_media_def)
  show "ascii (rg_Label demo_rung)" by code_simp
qed

lemma demo_encode_small: "small (pr_DurationMS demo_media)" "small (tr_FPSNum demo_video)" "small (tr_FPSDen demo_video)"
  by (simp_all add: demo_encode_facts small_def demo_video_def zero_track_def)

lemma demo_encode_document:
  "same_document (as_Spec demo_encode) (nt_Spec (encode_task (SourceKey 4 5 6) demo_media demo_rung (rung_config demo_rung demo_video None)))"
proof -
  let ?ms = "[(''duration_ms'', JInt (pr_DurationMS demo_media)), (''encode'', config_json (rung_config demo_rung demo_video None)),
    (''output_label'', JStr (rg_Label demo_rung)), (''source_key'', JStr (SourceKey 4 5 6))]"
  have "plain_config (rung_config demo_rung demo_video None)"
    using demo_encode_facts(1,2) demo_video_track(2) demo_encode_small by (intro rung_plain) auto
  then have "portable (JObj ?ms)" using demo_encode_small demo_encode_facts(5) portable_config source_key_ascii
    by (simp add: spec_keys portable_int del: portable.simps(1))
  moreover have "json_depth (JObj ?ms) \<le> Suc 3" unfolding depth_members using depth_config by simp
  then have "json_depth (JObj ?ms) \<le> maxNestingDepth" by (simp add: maxNestingDepth_def del: json_depth.simps)
  ultimately show ?thesis using same_document_refl [of "JObj ?ms"] by (simp add: demo_encode_def encode_task_def del: json_text.simps)
qed

theorem planned_encode_delivered_witness:
  "\<exists>r text spec. resolveSpec demo_deps artifact_empty demo_encode = Inr text \<and> decode_spec encode_typing encode_of_json text = Some spec \<and>
     es_InputURL spec = SourceKey 4 5 6 \<and> es_DurationMS spec = 10000 \<and> es_Encode spec = rung_config r demo_video None"
proof -
  let ?t = "encode_task (SourceKey 4 5 6) demo_media demo_rung (rung_config demo_rung demo_video None)"
  let ?ts = "ladder_tasks demo_preset (SourceKey 4 5 6) demo_media demo_video"
  have plan: "Plan demo_preset (SourceKey 4 5 6) demo_media = Inr ?ts"
    using Plan_ladder [OF demo_encode_facts(3) demo_video_track(1) demo_encode_facts(1)] .
  have t: "?t \<in> set ?ts" using demo_encode_facts(2) demo_video_track(2) by (auto simp: ladder_tasks_def Let_def)
  have get: "dp_PresignGetForWorker demo_deps (SourceKey 4 5 6) (dp_SourceURLTTL demo_deps) = Inr (SourceKey 4 5 6)"
    and put: "\<forall>key. ascii key \<longrightarrow> dp_PresignPutForWorker demo_deps key (dp_SourceURLTTL demo_deps) = Inr key \<and> ascii key"
    by (simp_all add: demo_deps_def)
  show ?thesis
    using planned_encode_delivered [OF demo_preset_in demo_video_track(1) plan t encode_task_sel(2) demo_encode_document demo_encode_small get source_key_ascii put,
        of artifact_empty] demo_video_track(2) demo_encode_facts(4) by fastforce
qed

end
