(* ===== verification/Thumbnail_Properties.thy ===== *)
theory Thumbnail_Properties
  imports Agent_Thumbnails
begin

text \<open>The scrubbing strip is usable: its size is bounded and its index describes the sheet.\<close>

section \<open>Seconds of a duration\<close>

lemma go_quot_nonneg: "0 \<le> a \<Longrightarrow> 0 < b \<Longrightarrow> go_quot a b = a div b"
  by (simp add: go_quot_def sgn_if)

lemma go_rem_nonneg: "0 \<le> a \<Longrightarrow> 0 < b \<Longrightarrow> go_rem a b = a mod b"
  by (simp add: go_rem_def go_quot_nonneg minus_div_mult_eq_mod)

lemma whole_seconds_bound:
  assumes "0 \<le> d" "d \<le> 10 ^ 18"
  shows "whole_seconds d \<le> 10 ^ 9 + 1"
proof -
  have q: "0 \<le> d div second" "d div second \<le> 10 ^ 9" using assms by (auto simp: second_def)
  have "f64 (of_int (d mod second)) \<le> of_int second"
    using f64.below_int [of "of_int (d mod second)" second] by (simp add: second_def)
  then have "f64 (of_int (d mod second)) / of_int second \<le> of_int 1" by (simp add: second_def)
  then have r: "f64 (f64 (of_int (d mod second)) / of_int second) \<le> of_int 1" by (rule f64.below_int) simp
  have "f64 (of_int (d div second)) \<le> of_int (10 ^ 9)"
    using q(2) f64.below_int [of "of_int (d div second)" "10 ^ 9"] by simp
  then have "f64 (of_int (d div second)) + f64 (f64 (of_int (d mod second)) / of_int second) \<le> of_int (10 ^ 9 + 1)"
    using r by simp
  then have "f64 (f64 (of_int (d div second)) + f64 (f64 (of_int (d mod second)) / of_int second)) \<le> of_int (10 ^ 9 + 1)"
    by (rule f64.below_int) simp
  then show ?thesis
    unfolding whole_seconds_def using assms(1)
    by (simp add: go_quot_nonneg second_def minus_div_mult_eq_mod go_trunc_def floor_le_iff ceiling_le_iff split: if_split)
qed

section \<open>How many thumbnails\<close>

lemma interval_pos: "1 \<le> thumbnailInterval d"
  by (simp add: thumbnailInterval_def thumbnail_consts Let_def)

lemma interval_seconds:
  "0 < whole_seconds d \<Longrightarrow> thumbnailInterval d = (whole_seconds d + 99) div 100 \<and> thumbnailInterval d \<le> whole_seconds d \<and>
     whole_seconds d \<le> 100 * thumbnailInterval d"
  by (auto simp: thumbnailInterval_def thumbnail_consts Let_def go_quot_nonneg)

lemma count_seconds:
  assumes "0 < whole_seconds d"
  shows "thumbnailCount d (thumbnailInterval d) = whole_seconds d div thumbnailInterval d"
proof -
  have "1 \<le> whole_seconds d div thumbnailInterval d"
    using interval_seconds [OF assms] interval_pos [of d] pos_imp_zdiv_pos_iff [of "thumbnailInterval d" "whole_seconds d"] by simp
  then show ?thesis using assms interval_pos [of d] by (simp add: thumbnailCount_def Let_def go_quot_nonneg)
qed

lemma count_bounds: "1 \<le> thumbnailCount d (thumbnailInterval d) \<and> thumbnailCount d (thumbnailInterval d) \<le> maxThumbnails"
proof (cases "0 < whole_seconds d")
  case True
  have i: "0 < thumbnailInterval d" using interval_pos [of d] by simp
  have "whole_seconds d div thumbnailInterval d \<le> 100 * thumbnailInterval d div thumbnailInterval d"
    using interval_seconds [OF True] i by (intro zdiv_mono1) auto
  moreover have "1 \<le> whole_seconds d div thumbnailInterval d"
    using interval_seconds [OF True] i pos_imp_zdiv_pos_iff [of "thumbnailInterval d" "whole_seconds d"] by simp
  ultimately show ?thesis using i by (simp add: count_seconds [OF True] maxThumbnails_def)
qed (simp add: thumbnailCount_def maxThumbnails_def Let_def)

text \<open>The thumbnails reach to within one interval of the end.\<close>

lemma count_covers:
  assumes "0 < whole_seconds d"
  shows "thumbnailCount d (thumbnailInterval d) * thumbnailInterval d \<le> whole_seconds d \<and>
    whole_seconds d < (thumbnailCount d (thumbnailInterval d) + 1) * thumbnailInterval d"
proof -
  have i: "0 < thumbnailInterval d" using interval_pos [of d] by simp
  have "whole_seconds d mod thumbnailInterval d < thumbnailInterval d" "0 \<le> whole_seconds d mod thumbnailInterval d"
    using i by simp_all
  then show ?thesis
    unfolding count_seconds [OF assms] distrib_right mult_1
    using div_mult_mod_eq [of "whole_seconds d" "thumbnailInterval d"] by linarith
qed

section \<open>The sheet\<close>

definition inside :: "int \<Rightarrow> int \<Rightarrow> cue \<Rightarrow> bool" where
  "inside w h c \<longleftrightarrow> 0 \<le> cue_x c \<and> cue_x c + cue_w c \<le> w \<and> 0 \<le> cue_y c \<and> cue_y c + cue_h c \<le> h"

definition apart :: "cue \<Rightarrow> cue \<Rightarrow> bool" where
  "apart c c' \<longleftrightarrow> cue_x c + cue_w c \<le> cue_x c' \<or> cue_x c' + cue_w c' \<le> cue_x c \<or>
     cue_y c + cue_h c \<le> cue_y c' \<or> cue_y c' + cue_h c' \<le> cue_y c"

lemma sheet_rows_pos: "0 < n \<Longrightarrow> 0 < c \<Longrightarrow> sheet_rows n c = (n + c - 1) div c"
  by (simp add: sheet_rows_def go_quot_nonneg)

lemma row_below:
  assumes "0 < c" "0 \<le> i" "i < n"
  shows "i div c + 1 \<le> sheet_rows n c"
proof -
  have "(i + c) div c \<le> (n + c - 1) div c" using assms by (intro zdiv_mono1) auto
  then show ?thesis using assms by (simp add: sheet_rows_pos)
qed

text \<open>Sizes for which nothing of the index overflows.\<close>

definition sheet_ok :: "int \<Rightarrow> int \<Rightarrow> int \<Rightarrow> int \<Rightarrow> int \<Rightarrow> bool" where
  "sheet_ok count interval columns tw th \<longleftrightarrow> 0 < columns \<and> columns \<le> count \<and> count \<le> 100 \<and>
     0 < interval \<and> count * interval \<le> 10 ^ 9 + 1 \<and> 0 \<le> tw \<and> tw \<le> 2 ^ 40 \<and> 0 \<le> th \<and> th \<le> 2 ^ 40"

lemma wrap_seconds: "0 \<le> n \<Longrightarrow> n \<le> 10 ^ 9 + 1 \<Longrightarrow> wrap64 (wrap64 n * second) = n * second"
  by (simp add: wrap64_id min_int64_def max_int64_def second_def)

lemma wrap_pixels:
  fixes p v :: int
  assumes "0 \<le> p" "p \<le> 100" "0 \<le> v" "v \<le> 2 ^ 40"
  shows "wrap64 (p * v) = p * v"
proof (rule wrap64_id)
  have "p * v \<le> 100 * 2 ^ 40" using assms by (intro mult_mono) auto
  then show "p * v \<le> max_int64" by (simp add: max_int64_def)
  have "0 \<le> p * v" using assms by simp
  then show "min_int64 \<le> p * v" by (simp add: min_int64_def)
qed

lemma seconds_mono: "p \<le> q \<Longrightarrow> p * second \<le> q * second" "p < q \<Longrightarrow> p * second < q * second"
  by (simp_all add: second_def)

lemma cue_eq:
  assumes ok: "sheet_ok count interval columns tw th" and i: "0 \<le> i" "i < count"
  shows "sprite_cue interval columns tw th i =
    \<lparr>cue_start = i * interval * second, cue_end = (i + 1) * interval * second, cue_x = i mod columns * tw,
     cue_y = i div columns * th, cue_w = tw, cue_h = th\<rparr>"
proof -
  have columns: "0 < columns" "columns \<le> count" "count \<le> 100" and interval: "0 < interval" "count * interval \<le> 10 ^ 9 + 1"
    and tile: "0 \<le> tw" "tw \<le> 2 ^ 40" "0 \<le> th" "th \<le> 2 ^ 40"
    using ok by (simp_all add: sheet_ok_def)
  have t: "wrap64 (wrap64 (k * interval) * second) = k * interval * second" if "0 \<le> k" "k \<le> count" for k
  proof -
    have "k * interval \<le> count * interval" using that(2) interval(1) by (intro mult_right_mono) auto
    then have k: "k * interval \<le> 10 ^ 9 + 1" "0 \<le> k * interval" by (rule order_trans [OF _ interval(2)]) (use interval that(1) in simp)
    show ?thesis by (rule wrap_seconds [OF k(2,1)])
  qed
  have m: "i mod columns < columns" by (rule pos_mod_bound [OF columns(1)])
  have c: "0 \<le> i mod columns" "i mod columns \<le> 100" "0 \<le> i div columns" "i div columns \<le> 100"
    using i columns m zdiv_mono2 [of i 1 columns] by (auto simp: pos_imp_zdiv_nonneg_iff simp del: pos_mod_bound)
  have t1: "wrap64 (wrap64 (i * interval) * second) = i * interval * second" using i by (intro t) auto
  have t2: "wrap64 (wrap64 ((i + 1) * interval) * second) = (i + 1) * interval * second" using i by (intro t) auto
  have x: "wrap64 (i mod columns * tw) = i mod columns * tw" using c tile by (intro wrap_pixels) auto
  have y: "wrap64 (i div columns * th) = i div columns * th" using c tile by (intro wrap_pixels) auto
  show ?thesis unfolding sprite_cue_def t1 t2 using i(1) columns(1) x y by (simp add: go_quot_nonneg go_rem_nonneg)
qed

lemma cue_inside:
  assumes ok: "sheet_ok count interval columns tw th" and i: "0 \<le> i" "i < count"
  shows "inside (columns * tw) (sheet_rows count columns * th) (sprite_cue interval columns tw th i)"
proof -
  have columns: "0 < columns" and tile: "0 \<le> tw" "0 \<le> th" using ok by (simp_all add: sheet_ok_def)
  have "i mod columns + 1 \<le> columns" using pos_mod_bound [OF columns, of i] by linarith
  moreover have "0 \<le> i mod columns" "0 \<le> i div columns"
    using i columns by (auto simp: pos_imp_zdiv_nonneg_iff)
  moreover have "i div columns + 1 \<le> sheet_rows count columns" by (rule row_below [OF columns i])
  ultimately have "(i mod columns + 1) * tw \<le> columns * tw" "(i div columns + 1) * th \<le> sheet_rows count columns * th"
    "0 \<le> i mod columns * tw" "0 \<le> i div columns * th"
    using tile by (auto intro: mult_right_mono)
  then show ?thesis unfolding cue_eq [OF ok i] inside_def by (simp add: distrib_right)
qed

lemma cues_apart:
  assumes ok: "sheet_ok count interval columns tw th" and i: "0 \<le> i" "i < count" and j: "0 \<le> j" "j < count" and neq: "i \<noteq> j"
  shows "apart (sprite_cue interval columns tw th i) (sprite_cue interval columns tw th j)"
proof -
  have tile: "0 \<le> tw" "0 \<le> th" using ok by (simp_all add: sheet_ok_def)
  have step: "p * v + v \<le> q * v" if "p < q" "0 \<le> v" for p q v :: int
    using mult_right_mono [of "p + 1" q v] that by (simp add: distrib_right)
  consider "i div columns < j div columns" | "j div columns < i div columns"
    | "i mod columns < j mod columns" | "j mod columns < i mod columns"
    using neq by (metis div_mult_mod_eq linorder_neqE_linordered_idom)
  then show ?thesis
    unfolding cue_eq [OF ok i] cue_eq [OF ok j] apart_def
    by cases (auto dest: step [OF _ tile(1)] step [OF _ tile(2)])
qed

section \<open>The index fits the sheet\<close>

lemma thumbnail_sheet_ok:
  assumes "0 \<le> d" "d \<le> 10 ^ 18" "0 < cols" "0 \<le> tw" "tw \<le> 2 ^ 40" "0 \<le> th" "th \<le> 2 ^ 40"
  shows "sheet_ok (thumbnailCount d (thumbnailInterval d)) (thumbnailInterval d) (min cols (thumbnailCount d (thumbnailInterval d))) tw th"
proof -
  have "thumbnailCount d (thumbnailInterval d) * thumbnailInterval d \<le> 10 ^ 9 + 1"
  proof (cases "0 < whole_seconds d")
    case True
    then show ?thesis using count_covers [OF True] whole_seconds_bound [OF assms(1,2)] by linarith
  qed (simp add: thumbnailCount_def thumbnailInterval_def minIntervalS_def Let_def)
  then show ?thesis
    using assms(3-) count_bounds [of d] interval_pos [of d] by (simp add: sheet_ok_def maxThumbnails_def)
qed

lemma tile_height_fits: "tile_height measured rows = Inr th \<Longrightarrow> 0 < rows \<and> (\<exists>h. th = go_quot h rows \<and> h \<le> max_int64)"
  by (auto simp: tile_height_def ParseInt64_def split: sum.splits list.splits option.splits if_splits)

text \<open>
  C24. The scrubbing strip of any source is at most a hundred tiles, its times start at zero, follow one
  another without a gap and end less than one interval before the source does; every tile the index names
  lies inside the sheet of \<open>columns\<close> by \<open>rows\<close> tiles, which is no taller than the picture that was measured, and no
  two tiles overlap. (Sources of up to 31 years and tiles of up to \<open>2 ^ 40\<close> pixels, so that nothing overflows.)
\<close>

theorem sprite_index_fits:
  assumes "0 \<le> d" "d \<le> 10 ^ 18" "0 \<le> height" "height \<le> 2 ^ 40" "ts_ThumbWidth spec \<le> 2 ^ 40"
    and interval: "interval = thumbnailInterval d" and count: "count = thumbnailCount d interval"
    and columns: "columns = min (ts_Columns (applyThumbnailDefaults spec)) count"
    and rows: "rows = sheet_rows count columns" and th: "th = go_quot height rows"
    and tw: "tw = ts_ThumbWidth (applyThumbnailDefaults spec)"
    and cues: "cues = sprite_cues count interval columns tw th"
  shows "length cues = nat count \<and> 1 \<le> count \<and> count \<le> maxThumbnails \<and> rows * th \<le> height \<and>
    list_all (inside (columns * tw) (rows * th)) cues \<and> (\<forall>i<length cues. \<forall>j<i. apart (cues ! i) (cues ! j)) \<and>
    cue_start (cues ! 0) = 0 \<and> (\<forall>k. Suc k < length cues \<longrightarrow> cue_end (cues ! k) = cue_start (cues ! Suc k)) \<and>
    (0 < whole_seconds d \<longrightarrow> cue_end (last cues) \<le> whole_seconds d * second \<and>
      whole_seconds d * second < cue_end (last cues) + interval * second)"
proof -
  have b: "1 \<le> count" "count \<le> 100" using count_bounds [of d] unfolding count interval by (auto simp: maxThumbnails_def)
  have defaults: "0 < ts_Columns (applyThumbnailDefaults spec)" "0 \<le> tw" "tw \<le> 2 ^ 40"
    using assms(5) unfolding tw by (auto simp: applyThumbnailDefaults_def thumbnail_consts Let_def)
  have col: "0 < columns" "columns \<le> count" using defaults(1) b(1) columns by auto
  have r: "0 < rows" using row_below [OF col(1), of 0 count] b(1) rows by simp
  have thd: "th = height div rows" using th r assms(3) by (simp add: go_quot_nonneg)
  have t: "0 \<le> th" "rows * th \<le> height" "th \<le> 2 ^ 40"
    using assms(3,4) r zdiv_mono2 [of height 1 rows] unfolding thd
    by (auto simp: pos_imp_zdiv_nonneg_iff mult.commute [of rows] minus_mod_eq_div_mult [symmetric])
  have ok: "sheet_ok count interval columns tw th"
    using thumbnail_sheet_ok [OF assms(1,2) defaults t(1,3)] by (simp add: columns count interval)
  have nth: "cues ! k = sprite_cue interval columns tw th (int k)" "int k < count" if "k < nat count" for k
    using that by (auto simp: cues sprite_cues_def)
  have len: "length cues = nat count" by (simp add: cues sprite_cues_def)
  have "list_all (inside (columns * tw) (rows * th)) cues"
    using cue_inside [OF ok] rows by (auto simp: cues sprite_cues_def list_all_iff)
  moreover have "apart (cues ! i) (cues ! j)" if "i < length cues" "j < i" for i j
    using that len nth [of i] nth [of j] cues_apart [OF ok, of "int i" "int j"] by simp
  moreover have "cue_start (cues ! 0) = 0"
    using b(1) nth [of 0] cue_eq [OF ok, of 0] by simp
  moreover have "cue_end (cues ! k) = cue_start (cues ! Suc k)" if "Suc k < length cues" for k
    using that len nth [of k] nth [of "Suc k"] cue_eq [OF ok, of "int k"] cue_eq [OF ok, of "int (Suc k)"] by simp
  moreover have "cue_end (last cues) \<le> whole_seconds d * second \<and> whole_seconds d * second < cue_end (last cues) + interval * second"
    if "0 < whole_seconds d"
  proof -
    have "cues \<noteq> []" using len b(1) by auto
    then have "last cues = cues ! (nat count - 1)" using len by (simp add: last_conv_nth)
    then have "cue_end (last cues) = count * interval * second"
      using b(1) nth [of "nat count - 1"] cue_eq [OF ok, of "count - 1"] by (simp add: of_nat_diff)
    moreover have "count * interval \<le> whole_seconds d" "whole_seconds d < (count + 1) * interval"
      using count_covers [OF that] by (auto simp: count interval)
    ultimately have "cue_end (last cues) \<le> whole_seconds d * second" "whole_seconds d * second < (count + 1) * interval * second"
      using seconds_mono by auto
    moreover have "(count + 1) * interval * second = cue_end (last cues) + interval * second"
      using \<open>cue_end (last cues) = count * interval * second\<close> by (simp add: distrib_right)
    ultimately show ?thesis by simp
  qed
  ultimately show ?thesis using len b t(2) by (simp add: maxThumbnails_def)
qed

definition demo_thumbnails :: ThumbnailSpec where
  "demo_thumbnails = \<lparr>ts_InputURL = ''http://h/x'', ts_DurationMS = 250000, ts_PosterWidth = 0, ts_ThumbWidth = 0, ts_Columns = 0\<rparr>"

theorem sprite_index_fits_witness:
  "length (sprite_cues 83 3 10 160 90) = 83 \<and> list_all (inside 1600 810) (sprite_cues 83 3 10 160 90) \<and>
   cue_end (last (sprite_cues 83 3 10 160 90)) \<le> 250 * second"
proof -
  let ?d = "250 * second"
  have ws: "whole_seconds ?d = 250" by code_simp
  have i: "thumbnailInterval ?d = 3" by code_simp
  have c: "thumbnailCount ?d 3 = 83" by code_simp
  have col: "min (ts_Columns (applyThumbnailDefaults demo_thumbnails)) 83 = 10" "ts_ThumbWidth (applyThumbnailDefaults demo_thumbnails) = 160"
    by code_simp+
  have r: "sheet_rows 83 10 = 9" "go_quot 810 9 = 90" by code_simp+
  show ?thesis
    using sprite_index_fits [of ?d 810 demo_thumbnails 3 83 10 9 90 160 "sprite_cues 83 3 10 160 90"] i c col r ws
    by (simp add: second_def demo_thumbnails_def)
qed

end
