(* ===== verification/Task_Properties.thy ===== *)
theory Task_Properties
  imports Agent_Thumbnails "HOL-Library.Multiset"
begin

text \<open>
  What the executors and the agent's readers promise: the bounded tail of a stream, progress within its
  range, the URLs a tool may be given, and the shape of a successful outcome.
\<close>

section \<open>The tail of a stream\<close>

definition last_bytes :: "nat \<Rightarrow> string \<Rightarrow> string" where
  "last_bytes n s = drop (length s - n) s"

lemma tail_step_last: "tail_step n (last_bytes n xs) ys = last_bytes n (xs @ ys)"
proof (cases "length xs \<le> n")
  case False
  then have n: "length xs + length ys - (length xs - n) = n + length ys" "length ys + (length xs - n) = length xs + length ys - n"
    by linarith+
  show ?thesis using False n by (cases "ys = []") (simp_all add: tail_step_def last_bytes_def Let_def)
qed (simp add: tail_step_def last_bytes_def Let_def)

lemma tailCopy_from: "foldl (tail_step n) (last_bytes n xs) chunks = last_bytes n (xs @ concat chunks)"
  by (induction chunks arbitrary: xs) (auto simp: tail_step_last)

text \<open>However the stream is cut into chunks, what is kept is its last bytes.\<close>

lemma tailCopy_last: "tailCopy n chunks = last_bytes n (concat chunks)"
  using tailCopy_from [of n "[]" chunks] by (simp add: tailCopy_def last_bytes_def)

section \<open>Progress\<close>

lemma f32_nonneg: "0 \<le> x \<Longrightarrow> 0 \<le> f32 x"
proof -
  assume x: "0 \<le> x"
  have "0 \<le> round_half_even v" if "0 \<le> v" for v using that by (auto simp: round_half_even_def Let_def)
  then show ?thesis
    using x by (simp add: f32_def Let_def sgn_if divide_nonneg_nonneg less_imp_le [OF pow2_pos])
qed

lemma Percent_range: "0 \<le> out \<Longrightarrow> 0 \<le> Percent out whole \<and> Percent out whole \<le> 100"
  by (auto simp: Percent_def Let_def f32_nonneg)

section \<open>URLs\<close>

lemma go_Cut_prefix: "go_Cut s p = (b, a, f) \<Longrightarrow> \<exists>r. s = b @ r"
proof (induction s p arbitrary: b a f rule: go_Cut.induct)
  case (2 c cs p)
  then show ?case by (cases "HasPrefix (c # cs) p") (auto split: prod.splits)
qed (auto split: if_splits)

lemma getScheme_split:
  assumes "getScheme u = Some (scheme, rest)" "scheme \<noteq> []"
  shows "u = scheme @ CHR '':'' # rest"
proof -
  let ?p = "takeWhile scheme_char u"
  have u: "u = ?p @ drop (length ?p) u" by (metis append_take_drop_id takeWhile_eq_take)
  have "drop (length ?p) u \<noteq> []" "hd (drop (length ?p) u) = CHR '':''" "scheme = ?p" "rest = tl (drop (length ?p) u)"
    using assms by (auto simp: getScheme_def Let_def split: if_splits)
  then show ?thesis using u by (metis list.collapse)
qed

text \<open>An accepted URL begins with the scheme http or https.\<close>

lemma http_scheme:
  assumes "isHTTPURL raw"
  shows "\<exists>scheme rest. raw = scheme @ CHR '':'' # rest \<and> (ToLower scheme = ''http'' \<or> ToLower scheme = ''https'')"
proof -
  obtain u fragment found where cut: "go_Cut raw ''#'' = (u, fragment, found)" by (metis prod_cases3)
  then obtain scheme rest where s: "getScheme u = Some (scheme, rest)" "ToLower scheme = ''http'' \<or> ToLower scheme = ''https''"
    using assms by (auto simp: isHTTPURL_def split: option.splits)
  then have "scheme \<noteq> []" by (auto simp: ToLower_def)
  then show ?thesis using getScheme_split [OF s(1)] go_Cut_prefix [OF cut] s(2) by auto
qed

text \<open>With any other URL the machine is left as it was: nothing is run, fetched or written.\<close>

lemma probe_needs_http:
  "ProbeSpec_input raw = Some url \<Longrightarrow> \<not> isHTTPURL url \<Longrightarrow>
   \<exists>reason. run_state (probeTask m d bin raw) w = (failed ClassPermanentConfig reason, w)"
  by (auto simp: probeTask_def)

lemma encode_needs_http:
  assumes "decode_spec encode_typing encode_of_json raw = Some spec" "\<not> isHTTPURL (es_InputURL spec) \<or> \<not> isHTTPURL (es_OutputURL spec)"
  shows "\<exists>reason. run_state (encodeTask m dir bin raw p) w = (failed ClassPermanentConfig reason, w)"
proof -
  have "bad_url spec b \<noteq> None" for b
    using assms(2) by (cases b) (auto simp: bad_url_def split: list.splits)
  then obtain name where "bad_url spec (mc_SecondFirst m w) = Some name" by blast
  then show ?thesis using assms(1) by (auto simp: encodeTask_def)
qed

lemma thumbnail_needs_http:
  "decode_spec thumbnail_typing thumbnail_of_json raw = Some spec \<Longrightarrow> \<not> isHTTPURL (ts_InputURL spec) \<Longrightarrow>
   \<exists>reason. run_state (thumbnailTask m dir bin raw up p) w = (failed ClassPermanentConfig reason, w)"
  by (auto simp: thumbnailTask_def)

text \<open>A configuration that does not validate reaches no tool either.\<close>

lemma encode_needs_valid:
  assumes "decode_spec encode_typing encode_of_json raw = Some spec" "config_Validate (es_Encode spec) = Some e"
  shows "\<exists>reason. run_state (encodeTask m dir bin raw p) w = (failed ClassPermanentConfig reason, w)"
  using assms by (cases "bad_url spec (mc_SecondFirst m w)") (auto simp: encodeTask_def config_Args_def)

section \<open>Renditions\<close>

lemma orderRenditions_perm: "mset (orderRenditions arts) = mset arts"
  unfolding orderRenditions_def by (rule mset_sort)

lemma orderRenditions_largest_first:
  "sorted_wrt (\<lambda>a b. va_Height b < va_Height a \<or> va_Height b = va_Height a \<and> va_Width b \<le> va_Width a) (orderRenditions arts)"
proof -
  have "sorted (map (\<lambda>a. (- va_Height a, - va_Width a)) (orderRenditions arts))" by (simp add: orderRenditions_def)
  then show ?thesis by (rule sorted_wrt_mono_rel [rotated, OF sorted_wrt_map [THEN iffD1]]) (auto simp: less_eq_prod_def)
qed

section \<open>Outcomes\<close>

text \<open>\<open>results m P\<close>: whatever the machine does, the value of \<open>m\<close> satisfies \<open>P\<close>.\<close>

definition results :: "('w, 'a) state \<Rightarrow> ('a \<Rightarrow> bool) \<Rightarrow> bool" where
  "results m P \<longleftrightarrow> (\<forall>w. P (fst (run_state m w)))"

named_theorems results_intros \<open>rules for the values of a computation\<close>

lemma results_return [results_intros]: "P x \<Longrightarrow> results (State_Monad.return x) P"
  by (simp add: results_def)

lemma results_bind:
  assumes "results m P" "\<And>x. P x \<Longrightarrow> results (f x) Q"
  shows "results (State_Monad.bind m f) Q"
  using assms unfolding results_def by (auto split: prod.split) (metis fst_conv)

lemma results_any: "results m (\<lambda>x. True)"
  by (simp add: results_def)

lemmas results_then = results_bind [OF results_any]

lemma results_mono: "results m P \<Longrightarrow> (\<And>x. P x \<Longrightarrow> Q x) \<Longrightarrow> results m Q"
  by (simp add: results_def)

text \<open>Successful outcomes carry artifacts that satisfy \<open>P\<close>.\<close>

definition succeeds_with :: "(Outcome \<Rightarrow> bool) \<Rightarrow> executed \<Rightarrow> bool" where
  "succeeds_with P r \<longleftrightarrow> (case r of Inl e \<Rightarrow> True | Inr oc \<Rightarrow> Success (oc_Result oc) \<longrightarrow> P oc)"

lemma succeeds_failed [simp]: "succeeds_with P (failed c r)" "succeeds_with P (Inl e)"
  by (simp_all add: succeeds_with_def failed_def failure_def)

lemma succeeds_bad_spec [simp]: "succeeds_with P (bad_spec m k raw)"
  by (simp add: bad_spec_def)

lemma results_run_failed [results_intros]: "results (run_failed m c r) (succeeds_with P)"
  unfolding run_failed_def by (rule results_then) (auto intro!: results_return split: option.split)

lemma results_temp_dir [results_intros]:
  assumes "\<And>dir. results (body dir) (succeeds_with P)"
  shows "results (with_temp_dir m w p body) (succeeds_with P)"
  unfolding with_temp_dir_def
proof (rule results_then)
  fix r
  have "results (State_Monad.bind (body dir) (\<lambda>outcome. State_Monad.bind (State_Monad.update f) (\<lambda>_. State_Monad.return outcome)))
      (succeeds_with P)" for dir and f :: "'a \<Rightarrow> 'a"
    by (rule results_bind [OF assms], rule results_then, rule results_return)
  then show "results (case r of Inl e \<Rightarrow> State_Monad.return (Inl e)
      | Inr dir \<Rightarrow> State_Monad.bind (body dir) (\<lambda>outcome. State_Monad.bind (State_Monad.update (mc_RemoveAll m dir)) (\<lambda>_. State_Monad.return outcome)))
      (succeeds_with P)"
    by (auto split: sum.split intro: results_return)
qed

text \<open>An encoded rendition is not empty and carries the label and the key it was given.\<close>

lemma encode_outcome:
  assumes "decode_spec encode_typing encode_of_json raw = Some spec"
  shows "results (encodeTask m dir bin raw p)
    (succeeds_with (\<lambda>oc. \<exists>sz digest. sz \<noteq> 0 \<and> oc_Artifacts oc =
       [registration ''rendition'' (es_OutputLabel spec) (es_OutputKey spec) sz digest (Some (mediaSummary (es_Encode spec)))]))"
proof -
  have send: "results (send_encoded m spec path run)
      (succeeds_with (\<lambda>oc. \<exists>sz digest. sz \<noteq> 0 \<and> oc_Artifacts oc =
         [registration ''rendition'' (es_OutputLabel spec) (es_OutputKey spec) sz digest (Some (mediaSummary (es_Encode spec)))]))" for path run
    unfolding send_encoded_def
    by (rule results_then)
       (auto split: sum.split intro!: results_return results_then simp: succeeds_with_def encoded_def failed_def failure_def registration_def)
  show ?thesis
    unfolding encodeTask_def using assms send
    by (auto split: option.split sum.split intro!: results_then results_intros)
qed

text \<open>A loop with an early return: its outcome never succeeds, or the loop ends with a value in \<open>Q\<close>.\<close>

definition ends_in :: "('a \<Rightarrow> bool) \<Rightarrow> executed + 'a \<Rightarrow> bool" where
  "ends_in Q r \<longleftrightarrow> (case r of Inl outcome \<Rightarrow> succeeds_with (\<lambda>_. False) outcome | Inr x \<Rightarrow> Q x)"

lemma ends_in_simps [simp]:
  "ends_in Q (Inl outcome) = succeeds_with (\<lambda>_. False) outcome" "ends_in Q (Inr x) = Q x"
  by (simp_all add: ends_in_def)

lemma succeeds_weaken: "succeeds_with (\<lambda>_. False) r \<Longrightarrow> succeeds_with P r"
  by (auto simp: succeeds_with_def split: sum.splits)

lemma results_loop:
  assumes "results m (ends_in Q)" "\<And>x. Q x \<Longrightarrow> succeeds_with P (f x)"
  shows "results (State_Monad.bind m (\<lambda>r. State_Monad.return (case r of Inl outcome \<Rightarrow> outcome | Inr x \<Rightarrow> f x))) (succeeds_with P)"
  by (rule results_bind [OF assms(1)])
     (auto intro!: results_return assms(2) intro: succeeds_weaken split: sum.split)

lemma results_send_file: "results (send_file m up dir name) (ends_in (\<lambda>sent. True))"
  unfolding send_file_def
  by (rule results_then) (auto split: sum.split intro!: results_return results_then)

definition manifests_ok :: "packaged \<Rightarrow> bool" where
  "manifests_ok acc \<longleftrightarrow>
     (\<forall>reg. pd_hls acc = Some reg \<longrightarrow> (reg_Kind reg, reg_Label reg) = (''manifest'', ''hls_master'')) \<and>
     (\<forall>reg. pd_dash acc = Some reg \<longrightarrow> (reg_Kind reg, reg_Label reg) = (''manifest'', ''dash_manifest''))"

lemma note_file_ok: "manifests_ok acc \<Longrightarrow> manifests_ok (note_file name sent acc)"
  by (auto simp: manifests_ok_def note_file_def Let_def registration_def split: prod.split)

lemma package_loop_manifests: "manifests_ok acc \<Longrightarrow> results (package_loop m up out es acc) (ends_in manifests_ok)"
proof (induction es arbitrary: acc)
  case (Cons e es)
  obtain name isDir where e: "e = (name, isDir)" by force
  show ?case
    unfolding e package_loop.simps
    by (auto split: sum.split intro!: results_return results_bind [OF results_send_file] Cons.IH note_file_ok Cons.prems)
qed (simp add: results_return)

definition kinds :: "(string \<times> string) list \<Rightarrow> Outcome \<Rightarrow> bool" where
  "kinds ks oc \<longleftrightarrow> map (\<lambda>r. (reg_Kind r, reg_Label r)) (oc_Artifacts oc) = ks"

text \<open>Packaging succeeds only with both manifests.\<close>

lemma package_task_outcome:
  "results (packageTask m w bin raw up p) (succeeds_with (kinds [(''manifest'', ''hls_master''), (''manifest'', ''dash_manifest'')]))"
proof -
  let ?P = "succeeds_with (kinds [(''manifest'', ''hls_master''), (''manifest'', ''dash_manifest'')])"
  have fin: "?P (package_outcome k n s run acc)" if "manifests_ok acc" for k n s run acc
    using that by (cases "pd_hls acc"; cases "pd_dash acc")
      (simp_all add: package_outcome_def manifests_ok_def Let_def succeeds_with_def [of _ "Inr _"] kinds_def del: json_text.simps)
  have send: "results (send_packaged m up out k s run) ?P" for out k s run
  proof -
    let ?start = "\<lparr>pd_segments = 0, pd_size = 0, pd_hls = None, pd_dash = None\<rparr>"
    have "results (package_loop m up out produced ?start) (ends_in manifests_ok)" for produced
      by (rule package_loop_manifests) (simp add: manifests_ok_def)
    note loop = results_loop [OF this fin]
    show ?thesis unfolding send_packaged_def
    proof (rule results_then)
      fix listing
      show "results (case listing of Inl e \<Rightarrow> State_Monad.return (Inl e)
          | Inr produced \<Rightarrow> if produced = [] then State_Monad.return (failed ClassUnknown ''packaging reported success but produced no files'')
              else State_Monad.bind (package_loop m up out produced ?start)
                (\<lambda>r. State_Monad.return (case r of Inl outcome \<Rightarrow> outcome | Inr acc \<Rightarrow> package_outcome k (length produced) s run acc))) ?P"
        using loop by (cases listing) (simp_all add: results_return)
    qed
  qed
  have fetch: "results (fetch_loop m dir i as local) (ends_in (\<lambda>_. True))" for dir i as local
  proof (induction as arbitrary: i local)
    case (Cons a as)
    then show ?case
      by (auto split: sum.split intro!: results_return results_then results_bind [OF results_run_failed])
  qed (simp add: results_return)
  have "results (package_dir m bin up p inputs s dir) ?P" for inputs s dir
    unfolding package_dir_def
    by (rule results_bind [OF fetch])
       (auto split: sum.split option.split intro!: results_return results_then results_run_failed send intro: succeeds_weaken)
  then show ?thesis
    unfolding packageTask_def Let_def
    by (auto split: option.split intro!: results_return results_temp_dir)
qed

text \<open>Thumbnails succeed only with all three files.\<close>

lemma thumbnail_loop_kinds:
  "results (thumbnail_loop m up dir media us regs n)
     (ends_in (\<lambda>(regs', n'). map (\<lambda>r. (reg_Kind r, reg_Label r)) regs' = map (\<lambda>r. (reg_Kind r, reg_Label r)) regs @ map snd us))"
proof (induction us arbitrary: regs n)
  case (Cons u us)
  obtain fname kind label where u: "u = (fname, kind, label)" by (metis prod_cases3)
  show ?case
    unfolding u thumbnail_loop.simps
    by (rule results_bind [OF results_send_file])
       (auto split: sum.split prod.split intro!: results_return results_mono [OF Cons.IH] simp: ends_in_def registration_def split: sum.splits)
qed (simp add: results_return)

lemma thumbnail_task_outcome:
  "results (thumbnailTask m w bin raw up p)
     (succeeds_with (kinds [(''poster'', ''poster''), (''sprite'', ''sprite''), (''sprite_index'', ''sprite_index'')]))"
proof -
  let ?P = "succeeds_with (kinds [(''poster'', ''poster''), (''sprite'', ''sprite''), (''sprite_index'', ''sprite_index'')])"
  have fin: "?P (case r of (regs, whole) \<Rightarrow> thumbnail_outcome c i pr sr regs whole)"
    if "case r of (regs', n') \<Rightarrow> map (\<lambda>r. (reg_Kind r, reg_Label r)) regs' = map (\<lambda>r. (reg_Kind r, reg_Label r)) [] @ map snd thumbnail_files"
    for r c i pr sr
    using that by (auto simp: thumbnail_outcome_def thumbnail_files_def succeeds_with_def kinds_def)
  have send: "results (send_thumbnails m up dir spec i c cols rows pr sr) ?P" for dir spec i c cols rows pr sr
  proof -
    have loop: "results (State_Monad.bind (thumbnail_loop m up dir media thumbnail_files [] 0)
        (\<lambda>r. State_Monad.return (case r of Inl outcome \<Rightarrow> outcome | Inr (regs, whole) \<Rightarrow> thumbnail_outcome c i pr sr regs whole))) ?P" for media
      by (rule results_loop [OF thumbnail_loop_kinds]) (rule fin)
    show ?thesis unfolding send_thumbnails_def
    proof (rule results_then)
      fix measured
      show "results (case measured of Inl e \<Rightarrow> State_Monad.return (failed ClassUnknown e)
        | Inr tileHeight \<Rightarrow> State_Monad.bind (State (mc_Write m (path_Join dir ''sprite.vtt'')
              (SpriteIndex c i cols (ts_ThumbWidth spec) tileHeight ''sprite.jpg'')))
            (\<lambda>written. case written of Some e \<Rightarrow> State_Monad.return (Inl e)
              | None \<Rightarrow> State_Monad.bind (thumbnail_loop m up dir (thumbnail_media i c cols rows (ts_ThumbWidth spec) tileHeight) thumbnail_files [] 0)
                  (\<lambda>r. State_Monad.return (case r of Inl outcome \<Rightarrow> outcome
                    | Inr (regs, whole) \<Rightarrow> thumbnail_outcome c i pr sr regs whole)))) ?P"
      proof (cases measured)
        case (Inr tileHeight)
        then show ?thesis using loop by (simp, intro results_then) (auto split: option.split intro: results_return)
      qed (simp add: results_return)
    qed
  qed
  show ?thesis
    unfolding thumbnailTask_def thumbnail_dir_def Let_def
    by (auto split: option.split intro!: results_return results_temp_dir results_then results_run_failed send)
qed

section \<open>The validation task implements its specification\<close>

text \<open>
  A machine on which fetching a URL has the outcome \<open>dl\<close> says and inspecting what was fetched gives \<open>pf\<close>,
  whatever else it has done.
\<close>

definition steady :: "'w Machine \<Rightarrow> string \<Rightarrow> string \<Rightarrow> (string \<Rightarrow> (int \<times> string) option) \<Rightarrow> (string \<Rightarrow> string + ProbeResult) \<Rightarrow> bool" where
  "steady m bin path dl pf \<longleftrightarrow>
     (\<forall>w. mc_Ctx m w = None) \<and>
     (\<forall>url w. case run_state (download m url path) w of (r, w') \<Rightarrow>
        (case dl url of
           None \<Rightarrow> isl r
         | Some got \<Rightarrow> r = Inr got \<and> fst (run_state (probeFile m bin path) w') = pf url))"

lemma run_failed_steady: "mc_Ctx m w = None \<Longrightarrow> run_state (run_failed m c r) w = (failed c r, w)"
  by (simp add: run_failed_def)

definition agrees :: "string + Check list \<Rightarrow> executed + Check list \<Rightarrow> bool" where
  "agrees specified r \<longleftrightarrow>
     (case specified of
        Inl label \<Rightarrow> \<exists>err. r = Inl (failed ClassTransient (''could not fetch '' @ label @ '': '' @ err))
      | Inr checks \<Rightarrow> r = Inr checks)"

lemma validate_run_refines:
  assumes "steady m bin (path_Join dir ''artifact'') dl pf"
  shows "agrees (validate_loop dl (shorten \<circ> pf) arts es checks) (fst (run_state (validate_run m bin dir p arts es checks) w))"
proof (induction es arbitrary: checks w)
  case (Cons e es)
  show ?case
  proof (cases "arts (ex_Label e)")
    case None
    then show ?thesis using Cons.IH by (simp add: missing_check_def comp_def)
  next
    case (Some a)
    obtain r w1 where d: "run_state (download m (va_URL a) (path_Join dir ''artifact'')) w = (r, w1)" by force
    obtain media w2 where pr: "run_state (probeFile m bin (path_Join dir ''artifact'')) w1 = (media, w2)" by force
    have ctx: "mc_Ctx m w' = None" for w' using assms by (simp add: steady_def)
    have st: "case dl (va_URL a) of None \<Rightarrow> isl r | Some got \<Rightarrow> r = Inr got \<and> media = pf (va_URL a)"
    proof -
      have "case run_state (download m (va_URL a) (path_Join dir ''artifact'')) w of (r, w') \<Rightarrow>
          (case dl (va_URL a) of None \<Rightarrow> isl r
           | Some got \<Rightarrow> r = Inr got \<and> fst (run_state (probeFile m bin (path_Join dir ''artifact'')) w') = pf (va_URL a))"
        by (rule assms [unfolded steady_def, THEN conjunct2, rule_format])
      then show ?thesis unfolding d using pr by (auto split: option.splits)
    qed
    show ?thesis
    proof (cases "dl (va_URL a)")
      case None
      then obtain err where "r = Inl err" using st by (auto simp: isl_def)
      then show ?thesis using None Some d ctx by (auto simp: run_failed_steady agrees_def)
    next
      case got: (Some got)
      then have r: "r = Inr got" "media = pf (va_URL a)" using st by simp_all
      show ?thesis using got Some d pr r Cons.IH by (simp add: State_Monad.update_def comp_def)
    qed
  qed
qed (simp add: agrees_def)

text \<open>Run on such a machine, the task reports what \<open>validateTask\<close> specifies.\<close>

lemma validate_task_refines:
  assumes "decode_spec validate_typing validate_of_json raw = Some spec" "run_state (State (mc_MkdirTemp m wd ''validate-'')) w = (Inr dir, w0)"
    and "steady m bin (path_Join dir ''artifact'') dl pf"
  shows "case validateTask dl (shorten \<circ> pf) spec of
      FetchFailed label \<Rightarrow> \<exists>err. fst (run_state (run_validateTask m wd bin raw p) w) =
        failed ClassTransient (''could not fetch '' @ label @ '': '' @ err)
    | ReportFailed checks summary \<Rightarrow> fst (run_state (run_validateTask m wd bin raw p) w) = validated checks \<and> report_Failed checks
    | ReportPassed checks \<Rightarrow> fst (run_state (run_validateTask m wd bin raw p) w) = validated checks \<and> \<not> report_Failed checks"
proof -
  let ?arts = "by_label (vs_Artifacts spec)"
  let ?start = "[CheckArtifactCount (int (length (vs_Expect spec))) (int (length (filter (\<lambda>e. ?arts (ex_Label e) \<noteq> None) (vs_Expect spec))))]"
  obtain r w1 where loop: "run_state (validate_run m bin dir p ?arts (vs_Expect spec) ?start) w0 = (r, w1)" by force
  have res: "fst (run_state (run_validateTask m wd bin raw p) w) = (case r of Inl outcome \<Rightarrow> outcome | Inr checks \<Rightarrow> validated checks)"
    using assms(1,2) loop by (simp add: run_validateTask_def with_temp_dir_def State_Monad.update_def Let_def)
  have "agrees (validate_loop dl (shorten \<circ> pf) ?arts (vs_Expect spec) ?start) r"
    using validate_run_refines [OF assms(3), where w = w0 and p = p and arts = ?arts and es = "vs_Expect spec" and checks = ?start] loop by simp
  then show ?thesis unfolding res validateTask_def Let_def agrees_def by (auto split: sum.splits)
qed

end
