(* ===== verification/Observability.thy ===== *)
theory Observability
  imports Routes
begin

text \<open>
  Redaction (\<open>internal/obs/log.go\<close>), the audit trail (\<open>internal/audit/audit.go\<close>) and the metrics
  (\<open>internal/obs/metrics.go\<close>, \<open>collect.go\<close>). A \<open>map[string]any\<close> is the JSON object it is written as; a
  gauge or counter vector is the function from its label values to its value.
\<close>

section \<open>Redaction\<close>

definition Redacted :: string where "Redacted = ''[redacted]''"

definition sensitive :: "string list" where
  "sensitive =
     [''secret'', ''token'', ''password'', ''credential'', ''authorization'', ''key_hash'', ''content_key'', ''wrapped'',
      ''pssh'', ''private'', ''api_key'', ''apikey'', ''checksum_key'', ''signature'', ''presigned'', ''signed_url'',
      ''input_url'', ''output_url'', ''download_url'']"

definition IsSensitive :: "string \<Rightarrow> bool" where
  "IsSensitive key \<longleftrightarrow> list_ex (\<lambda>s. go_Contains (ToLower key) s) sensitive"

fun redact_value :: "json \<Rightarrow> json" where
  "redact_value (JObj ms) = JObj (map (\<lambda>(k, v). (k, if IsSensitive k then JStr Redacted else redact_value v)) ms)"
| "redact_value v = v"

definition Redact :: "(string \<times> json) list option \<Rightarrow> (string \<times> json) list" where
  "Redact inp = (case inp of None \<Rightarrow> [] | Some ms \<Rightarrow> members (redact_value (JObj ms)))"

text \<open>Log attributes: a key with a value, or a group.\<close>

datatype attr = Attr string json | Group string "attr list"

fun redactAttr :: "attr \<Rightarrow> attr" where
  "redactAttr (Attr k v) = (if IsSensitive k then Attr k (JStr Redacted) else Attr k v)"
| "redactAttr (Group k as) = (if IsSensitive k then Attr k (JStr Redacted) else Group k (map redactAttr as))"

text \<open>
  \<open>RedactingHandler\<close>: a logger is derived step by step with attributes or a group, and a record adds its
  own attributes. The result is what the wrapped handler is given to write.
\<close>

datatype log_step = WithAttrs "attr list" | WithGroup string

fun Handle :: "log_step list \<Rightarrow> attr list \<Rightarrow> attr list" where
  "Handle [] as = map redactAttr as"
| "Handle (WithAttrs bs # ss) as = map redactAttr bs @ Handle ss as"
| "Handle (WithGroup g # ss) as = [Group g (Handle ss as)]"

subsection \<open>Nothing sensitive is left\<close>

fun json_clean :: "json \<Rightarrow> bool" where
  "json_clean (JObj ms) = list_all (\<lambda>(k, v). if IsSensitive k then v = JStr Redacted else json_clean v) ms"
| "json_clean v = True"

lemma redact_clean: "json_clean (redact_value j)"
  by (induction j rule: redact_value.induct) (auto simp: list_all_iff)

lemma redact_idempotent: "redact_value (redact_value j) = redact_value j"
  by (induction j rule: redact_value.induct) auto

lemma redact_keeps_keys: "map fst (Redact (Some ms)) = map fst ms"
  by (induction ms) (auto simp: Redact_def)

lemma redact_keeps_values: "json_clean j \<Longrightarrow> redact_value j = j"
  by (induction j rule: json_clean.induct) (auto simp: list_all_iff intro!: map_idI)

fun attr_clean :: "attr \<Rightarrow> bool" where
  "attr_clean (Attr k v) = (IsSensitive k \<longrightarrow> v = JStr Redacted)"
| "attr_clean (Group k as) = list_all attr_clean as"

lemma redactAttr_clean: "attr_clean (redactAttr a)"
  by (induction a rule: redactAttr.induct) (auto simp: list_all_iff)

lemma Handle_clean: "list_all attr_clean (Handle ss as)"
  by (induction ss as rule: Handle.induct) (auto simp: list_all_iff redactAttr_clean)

section \<open>The audit trail\<close>

record Event =
  ev_TenantID :: "uuid option"
  ev_ActorType :: string
  ev_ActorID :: "uuid option"
  ev_Action :: string
  ev_SubjectType :: string
  ev_SubjectID :: "uuid option"
  ev_Detail :: "(string \<times> json) list option"

record audit_row =
  au_id :: uuid
  au_event :: Event

text \<open>\<open>Record\<close>: a violated constraint is logged and leaves the trail as it was.\<close>

definition audit_Record :: "uuid \<Rightarrow> auth_db \<Rightarrow> audit_row list \<Rightarrow> Event \<Rightarrow> audit_row list" where
  "audit_Record newID adb trail e =
     (if list_ex (\<lambda>r. au_id r = newID) trail \<or>
         \<not> List.member [''user'', ''api_key'', ''worker'', ''system''] (ev_ActorType e) \<or>
         (case ev_TenantID e of None \<Rightarrow> False | Some t \<Rightarrow> \<not> list_ex (\<lambda>r. te_id r = t) (tenants adb))
      then trail
      else trail @ [\<lparr>au_id = newID, au_event = e\<lparr>ev_Detail := Some (Redact (ev_Detail e))\<rparr>\<rparr>])"

lemma audit_append_only: "\<exists>rows. audit_Record newID adb trail e = trail @ rows"
  by (simp add: audit_Record_def)

lemma Redact_clean: "json_clean (JObj (Redact detail))"
  using redact_clean [of "JObj (the detail)"] by (cases detail) (simp_all add: Redact_def)

lemma audit_redacted:
  assumes "r \<in> set (audit_Record newID adb trail e)" "r \<notin> set trail"
  shows "json_clean (JObj (the (ev_Detail (au_event r))))"
proof -
  have "r = \<lparr>au_id = newID, au_event = e\<lparr>ev_Detail := Some (Redact (ev_Detail e))\<rparr>\<rparr>"
    using assms by (auto simp: audit_Record_def split: if_splits)
  then show ?thesis using Redact_clean [of "ev_Detail e"] by (simp del: json_clean.simps)
qed

section \<open>Metrics\<close>

text \<open>
  \<open>NewMetrics\<close>: the families, with their names and labels. Counters and histograms belong to the
  metrics library; what the program tells it is a list of samples. \<open>WithLabelValues\<close> panics when the number
  of values is not that of the labels, \<open>Add\<close> when the value is negative.
\<close>

datatype family = HTTPRequests | HTTPDuration | TasksByState | TaskOutcomes | TaskDuration | LeaseRequests
  | Unschedulable | WorkersByState | LeaseExpiries | BytesProcessed | CPUSecondsUsed

fun NewMetrics :: "family \<Rightarrow> string \<times> string list" where
  "NewMetrics HTTPRequests = (''transflux_http_requests_total'', [''method'', ''route'', ''status''])"
| "NewMetrics HTTPDuration = (''transflux_http_request_duration_seconds'', [''route''])"
| "NewMetrics TasksByState = (''transflux_tasks'', [''operation'', ''state''])"
| "NewMetrics TaskOutcomes = (''transflux_task_outcomes_total'', [''operation'', ''outcome''])"
| "NewMetrics TaskDuration = (''transflux_task_duration_seconds'', [''operation''])"
| "NewMetrics LeaseRequests = (''transflux_lease_requests_total'', [''result''])"
| "NewMetrics Unschedulable = (''transflux_unschedulable_tasks'', [])"
| "NewMetrics WorkersByState = (''transflux_workers'', [''state''])"
| "NewMetrics LeaseExpiries = (''transflux_lease_expiries_total'', [])"
| "NewMetrics BytesProcessed = (''transflux_bytes_total'', [''direction''])"
| "NewMetrics CPUSecondsUsed = (''transflux_task_cpu_seconds_total'', [''operation''])"

datatype sample = Inc family "string list" | AddTo family "string list" rat | Observe family "string list" rat

fun sample_family :: "sample \<Rightarrow> family" where
  "sample_family (Inc f ls) = f" | "sample_family (AddTo f ls x) = f" | "sample_family (Observe f ls x) = f"

fun sample_ok :: "sample \<Rightarrow> bool" where
  "sample_ok (Inc f ls) = (length ls = length (snd (NewMetrics f)))"
| "sample_ok (AddTo f ls x) = (length ls = length (snd (NewMetrics f)) \<and> 0 \<le> x)"
| "sample_ok (Observe f ls x) = (length ls = length (snd (NewMetrics f)))"

record metrics =
  mt_Samples :: "sample list"
  mt_TasksByState :: "string \<times> string \<Rightarrow> nat option"
  mt_Unschedulable :: nat
  mt_Workers :: "string \<Rightarrow> nat option"

text \<open>What a poll is counted as.\<close>

definition lease_samples :: "Env \<Rightarrow> 'st Deps \<Rightarrow> 'st server_db \<Rightarrow> string \<Rightarrow> sample list" where
  "lease_samples e d db header =
     (case authenticateWorker db header of
        Inl r \<Rightarrow> []
      | Inr wk \<Rightarrow>
          if wk_State wk \<noteq> StateOnline then []
          else (case worker_Facts (sv_workers db) (wk_ID wk) of
            Inl err \<Rightarrow> []
          | Inr (full, diskFree) \<Rightarrow>
              (case job_Lease (en_now e) (en_fresh e 0) (dp_quota d) (en_locked e) (sv_jobs db) (worker_facts full diskFree) (dp_LeaseTTL d) of
                 Inl ErrNoWork \<Rightarrow> [Inc LeaseRequests [''no_work'']]
               | Inl err \<Rightarrow> []
               | Inr (js, assignment) \<Rightarrow>
                   (case resolveSpec d (sv_artifacts db) assignment of
                      Inl err \<Rightarrow> [] | Inr resolved \<Rightarrow> [Inc LeaseRequests [''assigned'']]))))"

text \<open>The accounting of a finished attempt.\<close>

definition attempt_samples :: "Completion \<Rightarrow> Result \<Rightarrow> sample list" where
  "attempt_samples c res =
     (let op = comp_Operation c; m = res_Metrics res in
      [Inc TaskOutcomes [op, if comp_Succeeded c then ''succeeded'' else ''failed'']] @
      (if WallSeconds m > 0 then [Observe TaskDuration [op] (WallSeconds m)] else []) @
      (if CPUSeconds m > 0 then [AddTo CPUSecondsUsed [op] (CPUSeconds m)] else []) @
      (if BytesIn m > 0 then [AddTo BytesProcessed [''in''] (f64 (of_int (BytesIn m)))] else []) @
      (if BytesOut m > 0 then [AddTo BytesProcessed [''out''] (f64 (of_int (BytesOut m)))] else []))"

definition complete_samples :: "Env \<Rightarrow> 'st Deps \<Rightarrow> 'st server_db \<Rightarrow> string \<Rightarrow> string \<Rightarrow> req_body \<Rightarrow> sample list" where
  "complete_samples e d db header attempt body =
     (case workerAttempt d db header attempt of
        Inl r \<Rightarrow> []
      | Inr (wk, attemptID) \<Rightarrow>
          (case body of
             ResultBody res \<Rightarrow>
               (case job_Complete (en_now e) (sv_jobs db) attemptID (wk_ID wk) res of
                  Inl err \<Rightarrow> [] | Inr (js, c) \<Rightarrow> attempt_samples c res)
           | _ \<Rightarrow> []))"

definition handler_samples :: "Env \<Rightarrow> 'st Deps \<Rightarrow> 'st server_db \<Rightarrow> request \<Rightarrow> sample list" where
  "handler_samples e d db rq =
     (if behind_auth (rq_path rq) then []
      else case List.find (route_match rq) outer_routes of
        None \<Rightarrow> []
      | Some r \<Rightarrow>
          (case rt_handler r of
             LeaseEP \<Rightarrow> lease_samples e d db (rq_auth rq)
           | CompleteEP \<Rightarrow> complete_samples e d db (rq_auth rq) (hd_or_empty (route_values rq r)) (rq_body rq)
           | _ \<Rightarrow> []))"

definition response_status :: "reply \<Rightarrow> int" where
  "response_status r = (case r of Refused code msg \<Rightarrow> code | Answer code b \<Rightarrow> code)"

text \<open>\<open>Middleware\<close> around \<open>Handler\<close>; the path is the text of the request line, \<open>took\<close> the seconds since it arrived.\<close>

definition metrics_Middleware ::
  "Env \<Rightarrow> 'st Deps \<Rightarrow> 'st server_db \<Rightarrow> request \<Rightarrow> string \<Rightarrow> rat \<Rightarrow> metrics \<Rightarrow> metrics \<times> 'st server_db \<times> reply" where
  "metrics_Middleware e d db rq path took m =
     (let (db', r) = Handler e d db rq in
      (m\<lparr>mt_Samples := mt_Samples m @ handler_samples e d db rq @
           [Inc HTTPRequests [rq_method rq, Route path, Itoa (response_status r)], Observe HTTPDuration [Route path] took]\<rparr>, db', r))"

record QueueBucket =
  qb_Operation :: string
  qb_State :: string
  qb_Count :: nat

text \<open>\<open>collectOnce\<close>: each query of the source may fail, and what was set before stays set.\<close>

definition collectOnce ::
  "string + QueueBucket list \<Rightarrow> string + nat \<Rightarrow> string + (string \<times> nat) list \<Rightarrow> metrics \<Rightarrow> metrics \<times> string option" where
  "collectOnce buckets stuck states m =
     (case buckets of
        Inl e \<Rightarrow> (m, Some e)
      | Inr bs \<Rightarrow>
          (let m = m\<lparr>mt_TasksByState := foldl (\<lambda>g b. g((qb_Operation b, qb_State b) \<mapsto> qb_Count b)) Map.empty bs\<rparr> in
           case stuck of
             Inl e \<Rightarrow> (m, Some e)
           | Inr n \<Rightarrow>
               (let m = m\<lparr>mt_Unschedulable := n\<rparr> in
                case states of
                  Inl e \<Rightarrow> (m, Some e)
                | Inr ss \<Rightarrow> (m\<lparr>mt_Workers := foldl (\<lambda>g (st, c). g(st \<mapsto> c)) Map.empty ss\<rparr>, None))))"

text \<open>A bucket that has emptied is not reported: the gauges are those of the source and nothing else.\<close>

lemma collect_fresh:
  assumes "collectOnce (Inr bs) (Inr n) (Inr ss) m = (m', None)"
  shows "dom (mt_TasksByState m') = (\<lambda>b. (qb_Operation b, qb_State b)) ` set bs"
    and "dom (mt_Workers m') = fst ` set ss" and "mt_Unschedulable m' = n"
proof -
  have 1: "dom (foldl (\<lambda>g b. g((qb_Operation b, qb_State b) \<mapsto> qb_Count b)) g bs) = dom g \<union> (\<lambda>b. (qb_Operation b, qb_State b)) ` set bs"
    for g :: "string \<times> string \<Rightarrow> nat option" by (induction bs arbitrary: g) auto
  have 2: "dom (foldl (\<lambda>g (st, c). g(st \<mapsto> c)) g ss) = dom g \<union> fst ` set ss" for g :: "string \<Rightarrow> nat option"
    by (induction ss arbitrary: g) auto
  have m': "m' = m\<lparr>mt_TasksByState := foldl (\<lambda>g b. g((qb_Operation b, qb_State b) \<mapsto> qb_Count b)) Map.empty bs,
      mt_Unschedulable := n, mt_Workers := foldl (\<lambda>g (st, c). g(st \<mapsto> c)) Map.empty ss\<rparr>"
    using assms by (simp add: collectOnce_def Let_def)
  show "dom (mt_TasksByState m') = (\<lambda>b. (qb_Operation b, qb_State b)) ` set bs"
    using 1 [of Map.empty] unfolding m' by simp
  show "dom (mt_Workers m') = fst ` set ss" using 2 [of Map.empty] unfolding m' by simp
  show "mt_Unschedulable m' = n" unfolding m' by simp
qed

text \<open>Counting is part of no decision: the answer and the tables are those of the handler.\<close>

lemma middleware_transparent: "snd (metrics_Middleware e d db rq path took m) = Handler e d db rq"
  by (simp add: metrics_Middleware_def Let_def split: prod.split)

text \<open>Counting never panics: every sample has the labels of its family and adds nothing negative.\<close>

lemma attempt_samples_ok: "list_all sample_ok (attempt_samples c res)"
  by (simp add: attempt_samples_def Let_def f64.nonneg)

lemma handler_samples_ok: "list_all sample_ok (handler_samples e d db rq)"
  by (auto simp: handler_samples_def lease_samples_def complete_samples_def attempt_samples_ok
      split: option.split outer.split sum.split prod.split job_error.split req_body.split)

lemma middleware_samples_ok:
  "list_all sample_ok (mt_Samples m) \<Longrightarrow> list_all sample_ok (mt_Samples (fst (metrics_Middleware e d db rq path took m)))"
  by (simp add: metrics_Middleware_def Let_def handler_samples_ok split: prod.split)

text \<open>A poll is counted as assigned exactly when it is answered with work.\<close>

lemma assigned_counted:
  "lease_samples e d db h = [Inc LeaseRequests [''assigned'']] \<longleftrightarrow> (\<exists>as. snd (handleWorkerLease e d db h) = Answer 200 (AssignmentBody as))"
  by (auto simp: lease_samples_def handleWorkerLease_def reply_defs authenticateWorker_def
      split: sum.split prod.split job_error.split option.split worker_error.split)

text \<open>Nothing is ever counted as an expired lease: the family is registered and never written.\<close>

lemma expiries_never_counted: "list_all (\<lambda>x. sample_family x \<noteq> LeaseExpiries) (handler_samples e d db rq)"
proof -
  have "list_all (\<lambda>x. sample_family x \<noteq> LeaseExpiries) (attempt_samples c res)" for c res
    by (simp add: attempt_samples_def Let_def)
  then show ?thesis
    by (auto simp: handler_samples_def lease_samples_def complete_samples_def
        split: option.split outer.split sum.split prod.split job_error.split req_body.split)
qed

end
