(* ===== verification/Object_Store.thy ===== *)
theory Object_Store
  imports Server
begin

text \<open>
  The object store as it is built over the vendor's client, \<open>internal/storage/s3.go\<close>. The client is a record of
  operations on a state of its own; what the store adds is which endpoint a URL is signed for, the listing
  of parts page by page, and the reading of the client's errors.
\<close>

record StorageConfig =
  sg_Endpoint :: string
  sg_PublicEndpoint :: string
  sg_WorkerEndpoint :: string
  sg_Region :: string
  sg_Bucket :: string
  sg_AccessKey :: string
  sg_SecretKey :: string
  sg_PathStyle :: bool

section \<open>The object store\<close>

text \<open>Which endpoint a URL is signed for: the internal one, the public one, the workers' one.\<close>

definition public_endpoint :: "StorageConfig \<Rightarrow> string" where
  "public_endpoint c =
     (if sg_PublicEndpoint c \<noteq> [] \<and> sg_PublicEndpoint c \<noteq> sg_Endpoint c then sg_PublicEndpoint c else sg_Endpoint c)"

definition worker_endpoint :: "StorageConfig \<Rightarrow> string" where
  "worker_endpoint c =
     (if sg_WorkerEndpoint c \<noteq> [] \<and> sg_WorkerEndpoint c \<noteq> sg_PublicEndpoint c then sg_WorkerEndpoint c else public_endpoint c)"

text \<open>
  The store keeps the endpoint each of its three clients was built for, and the bucket. \<open>load\<close> is the
  loading of the vendor's configuration, with the credentials it is given, or its error.
\<close>

record S3Store =
  ss_Client :: string
  ss_Presign :: string
  ss_PresignWorker :: string
  ss_Bucket :: string

datatype storage_start_error = BucketRequired | StorageLoad string

definition static_credentials :: "StorageConfig \<Rightarrow> (string \<times> string) option" where
  "static_credentials c = (if sg_AccessKey c \<noteq> [] then Some (sg_AccessKey c, sg_SecretKey c) else None)"

definition NewS3 :: "((string \<times> string) option \<Rightarrow> string option) \<Rightarrow> StorageConfig \<Rightarrow> storage_start_error + S3Store" where
  "NewS3 load c =
     (if sg_Bucket c = [] then Inl BucketRequired
      else case load (static_credentials c) of
        Some e \<Rightarrow> Inl (StorageLoad e)
      | None \<Rightarrow> Inr \<lparr>ss_Client = sg_Endpoint c, ss_Presign = public_endpoint c, ss_PresignWorker = worker_endpoint c,
                    ss_Bucket = sg_Bucket c\<rparr>)"

datatype sdk_error = NoSuchKey | SdkNotFound | BucketAlreadyOwned | SdkOther string

definition mapErr :: "sdk_error \<Rightarrow> storage_error" where
  "mapErr e =
     (case e of
        NoSuchKey \<Rightarrow> StorageNotFound | SdkNotFound \<Rightarrow> StorageNotFound
      | BucketAlreadyOwned \<Rightarrow> StorageOther ''bucket already owned'' | SdkOther msg \<Rightarrow> StorageOther msg)"

definition mapped :: "sdk_error + 'a \<Rightarrow> storage_error + 'a" where
  "mapped r = (case r of Inl e \<Rightarrow> Inl (mapErr e) | Inr x \<Rightarrow> Inr x)"

record page =
  pg_Parts :: "Part list"
  pg_IsTruncated :: bool
  pg_NextMarker :: "string option"

text \<open>The vendor's client on one bucket, for an endpoint.\<close>

record 'st Sdk =
  sdk_HeadBucket :: "'st \<Rightarrow> sdk_error option"
  sdk_CreateBucket :: "'st \<Rightarrow> sdk_error option \<times> 'st"
  sdk_HeadObject :: "string \<Rightarrow> 'st \<Rightarrow> sdk_error + ObjectInfo"
  sdk_GetObject :: "string \<Rightarrow> 'st \<Rightarrow> sdk_error + string"
  sdk_PutObject :: "string \<Rightarrow> string \<Rightarrow> int option \<Rightarrow> string option \<Rightarrow> 'st \<Rightarrow> 'st \<times> (sdk_error + string)"
  sdk_DeleteObject :: "string \<Rightarrow> 'st \<Rightarrow> 'st \<times> sdk_error option"
  sdk_Presign :: "string \<Rightarrow> string \<Rightarrow> string \<Rightarrow> duration \<Rightarrow> sdk_error + string"
  sdk_PresignPart :: "string \<Rightarrow> string \<Rightarrow> string \<Rightarrow> int \<Rightarrow> duration \<Rightarrow> sdk_error + string"
  sdk_CreateMultipart :: "string \<Rightarrow> string \<Rightarrow> 'st \<Rightarrow> 'st \<times> (sdk_error + string)"
  sdk_ListParts :: "string \<Rightarrow> string \<Rightarrow> string option \<Rightarrow> 'st \<Rightarrow> sdk_error + page"
  sdk_CompleteMultipart :: "string \<Rightarrow> string \<Rightarrow> (int \<times> string) list \<Rightarrow> 'st \<Rightarrow> 'st \<times> sdk_error option"
  sdk_AbortMultipart :: "string \<Rightarrow> string \<Rightarrow> 'st \<Rightarrow> 'st \<times> sdk_error option"

definition s3_Verify :: "'st Sdk \<Rightarrow> bool \<Rightarrow> 'st \<Rightarrow> sdk_error option \<times> 'st" where
  "s3_Verify sdk create st =
     (case sdk_HeadBucket sdk st of
        None \<Rightarrow> (None, st)
      | Some e \<Rightarrow>
          if \<not> create then (Some e, st)
          else (case sdk_CreateBucket sdk st of
                  (None, st') \<Rightarrow> (None, st') | (Some BucketAlreadyOwned, st') \<Rightarrow> (None, st') | (Some e, st') \<Rightarrow> (Some e, st')))"

definition s3_Head :: "'st Sdk \<Rightarrow> 'st \<Rightarrow> string \<Rightarrow> storage_error + ObjectInfo" where
  "s3_Head sdk st key = (case sdk_HeadObject sdk key st of Inl e \<Rightarrow> Inl (mapErr e) | Inr i \<Rightarrow> Inr (i\<lparr>o_Key := key\<rparr>))"

definition s3_Get :: "'st Sdk \<Rightarrow> 'st \<Rightarrow> string \<Rightarrow> storage_error + string" where
  "s3_Get sdk st key = mapped (sdk_GetObject sdk key st)"

text \<open>\<open>Put\<close> answers with the size it was given; the length is sent only when it is positive.\<close>

definition s3_Put :: "'st Sdk \<Rightarrow> 'st \<Rightarrow> string \<Rightarrow> string \<Rightarrow> int \<Rightarrow> string \<Rightarrow> 'st \<times> (storage_error + ObjectInfo)" where
  "s3_Put sdk st key content n contentType =
     (case sdk_PutObject sdk key content (if n > 0 then Some n else None) (if contentType \<noteq> [] then Some contentType else None) st of
        (st', Inl e) \<Rightarrow> (st', Inl (mapErr e))
      | (st', Inr etag) \<Rightarrow> (st', Inr \<lparr>o_Key = key, o_Size = n, o_ETag = etag, o_ContentType = contentType\<rparr>))"

definition s3_Delete :: "'st Sdk \<Rightarrow> 'st \<Rightarrow> string \<Rightarrow> 'st \<times> storage_error option" where
  "s3_Delete sdk st key = (case sdk_DeleteObject sdk key st of (st', r) \<Rightarrow> (st', map_option mapErr r))"

text \<open>The endpoint and the method are what the signature covers.\<close>

definition s3_PresignGet :: "'st Sdk \<Rightarrow> S3Store \<Rightarrow> string \<Rightarrow> duration \<Rightarrow> storage_error + string" where
  "s3_PresignGet sdk s key ttl = mapped (sdk_Presign sdk (ss_Presign s) ''GET'' key ttl)"

definition s3_PresignPut :: "'st Sdk \<Rightarrow> S3Store \<Rightarrow> string \<Rightarrow> duration \<Rightarrow> storage_error + string" where
  "s3_PresignPut sdk s key ttl = mapped (sdk_Presign sdk (ss_Presign s) ''PUT'' key ttl)"

definition s3_PresignGetForWorker :: "'st Sdk \<Rightarrow> S3Store \<Rightarrow> string \<Rightarrow> duration \<Rightarrow> storage_error + string" where
  "s3_PresignGetForWorker sdk s key ttl = mapped (sdk_Presign sdk (ss_PresignWorker s) ''GET'' key ttl)"

definition s3_PresignPutForWorker :: "'st Sdk \<Rightarrow> S3Store \<Rightarrow> string \<Rightarrow> duration \<Rightarrow> storage_error + string" where
  "s3_PresignPutForWorker sdk s key ttl = mapped (sdk_Presign sdk (ss_PresignWorker s) ''PUT'' key ttl)"

definition s3_PresignUploadPart ::
  "'st Sdk \<Rightarrow> S3Store \<Rightarrow> string \<Rightarrow> string \<Rightarrow> int \<Rightarrow> duration \<Rightarrow> storage_error + string" where
  "s3_PresignUploadPart sdk s key uploadID part ttl = mapped (sdk_PresignPart sdk (ss_Presign s) key uploadID part ttl)"

definition s3_CreateMultipart :: "'st Sdk \<Rightarrow> 'st \<Rightarrow> string \<Rightarrow> string \<Rightarrow> 'st \<times> (storage_error + string)" where
  "s3_CreateMultipart sdk st key contentType = (case sdk_CreateMultipart sdk key contentType st of (st', r) \<Rightarrow> (st', mapped r))"

text \<open>Page after page until the last; \<open>None\<close> when \<open>n\<close> pages did not reach it.\<close>

fun s3_ListParts :: "'st Sdk \<Rightarrow> 'st \<Rightarrow> string \<Rightarrow> string \<Rightarrow> nat \<Rightarrow> string option \<Rightarrow> Part list \<Rightarrow> (storage_error + Part list) option" where
  "s3_ListParts sdk st key uploadID 0 marker parts = None"
| "s3_ListParts sdk st key uploadID (Suc n) marker parts =
     (case sdk_ListParts sdk key uploadID marker st of
        Inl e \<Rightarrow> Some (Inl (mapErr e))
      | Inr out \<Rightarrow>
          if \<not> pg_IsTruncated out then Some (Inr (parts @ pg_Parts out))
          else s3_ListParts sdk st key uploadID n (pg_NextMarker out) (parts @ pg_Parts out))"

text \<open>Listing ends when every page but the last moves the marker up and markers are bounded, as part numbers are.\<close>

lemma ListParts_ends:
  assumes "\<And>marker out. sdk_ListParts sdk key uploadID marker st = Inr out \<Longrightarrow> pg_IsTruncated out \<Longrightarrow>
      pos marker < pos (pg_NextMarker out) \<and> pos (pg_NextMarker out) \<le> bound" and "bound - pos marker < n"
  shows "\<exists>r. s3_ListParts sdk st key uploadID n marker parts = Some r"
  using assms(2)
proof (induction n arbitrary: marker parts)
  case (Suc n)
  show ?case
  proof (cases "sdk_ListParts sdk key uploadID marker st")
    case (Inr out)
    show ?thesis
    proof (cases "pg_IsTruncated out")
      case True
      then have "bound - pos (pg_NextMarker out) < n" using assms(1) [OF Inr True] Suc.prems by linarith
      then show ?thesis using Inr True Suc.IH by simp
    qed (simp add: Inr)
  qed simp
qed simp

definition s3_CompleteMultipart ::
  "'st Sdk \<Rightarrow> 'st \<Rightarrow> string \<Rightarrow> string \<Rightarrow> Part list \<Rightarrow> 'st \<times> (storage_error + ObjectInfo)" where
  "s3_CompleteMultipart sdk st key uploadID parts =
     (case sdk_CompleteMultipart sdk key uploadID (map (\<lambda>p. (p_Number p, p_ETag p)) parts) st of
        (st', Some e) \<Rightarrow> (st', Inl (mapErr e))
      | (st', None) \<Rightarrow> (st', s3_Head sdk st' key))"

definition s3_AbortMultipart :: "'st Sdk \<Rightarrow> 'st \<Rightarrow> string \<Rightarrow> string \<Rightarrow> 'st \<times> storage_error option" where
  "s3_AbortMultipart sdk st key uploadID = (case sdk_AbortMultipart sdk key uploadID st of (st', r) \<Rightarrow> (st', map_option mapErr r))"

section \<open>What the services see\<close>

text \<open>
  The interface the upload service works with. An upload has at most 10000 parts and every page but the last
  holds at least one, so the bound on the pages is never what ends a listing.
\<close>

definition part_pages :: nat where "part_pages = 10001"

definition s3_uploads :: "'st Sdk \<Rightarrow> S3Store \<Rightarrow> 'st Store" where
  "s3_uploads sdk s =
     \<lparr>st_CreateMultipart = s3_CreateMultipart sdk, st_PresignUploadPart = (\<lambda>st. s3_PresignUploadPart sdk s),
      st_ListParts = (\<lambda>st key uploadID. case s3_ListParts sdk st key uploadID part_pages None [] of
        Some r \<Rightarrow> r | None \<Rightarrow> Inl (StorageOther ''listing did not end'')),
      st_CompleteMultipart = s3_CompleteMultipart sdk, st_AbortMultipart = s3_AbortMultipart sdk\<rparr>"

definition head_of :: "storage_error \<Rightarrow> head_error" where
  "head_of e = (case e of StorageNotFound \<Rightarrow> HeadNotFound | StorageOther msg \<Rightarrow> HeadOther msg)"

text \<open>A worker's URL is signed for the endpoint the worker can reach, and a viewer's for the public one.\<close>

lemma NewS3_endpoints:
  assumes "NewS3 load c = Inr s"
  shows "ss_Bucket s \<noteq> []" "sg_PublicEndpoint c \<noteq> [] \<Longrightarrow> ss_Presign s = sg_PublicEndpoint c"
    "sg_WorkerEndpoint c \<noteq> [] \<Longrightarrow> ss_PresignWorker s = sg_WorkerEndpoint c"
  using assms by (auto simp: NewS3_def public_endpoint_def worker_endpoint_def split: if_splits option.splits)

text \<open>A listing with enough pages is the concatenation of them, whatever the size of a page.\<close>

lemma ListParts_extends:
  "s3_ListParts sdk st key uploadID n marker parts = Some (Inr ps) \<Longrightarrow> \<exists>more. ps = parts @ more"
  by (induction sdk st key uploadID n marker parts rule: s3_ListParts.induct) (auto split: sum.splits if_splits)

lemma ListParts_more_pages:
  "s3_ListParts sdk st key uploadID n marker parts = Some r \<Longrightarrow> n \<le> k \<Longrightarrow> s3_ListParts sdk st key uploadID k marker parts = Some r"
proof (induction sdk st key uploadID n marker parts arbitrary: k rule: s3_ListParts.induct)
  case (2 sdk st key uploadID n marker parts)
  then show ?case by (cases k) (auto split: sum.splits if_splits)
qed simp

end
