(* ===== verification/Boot.thy ===== *)
theory Boot
  imports Agent Observability Object_Store
begin

text \<open>
  Starting the two programs: the configuration read from the environment (\<open>internal/config/config.go\<close>,
  \<open>cmd/transflux-worker/main.go\<close>), the migrations (\<open>internal/db/db.go\<close>), and the commands of
  \<open>cmd/transflux/main.go\<close>: creating the first tenant, and serving, with the services the handlers are given.
  \<open>getenv\<close> is the environment, empty for a variable that is not set.
\<close>

section \<open>Configuration\<close>

definition go_env :: "(string \<Rightarrow> string) \<Rightarrow> string \<Rightarrow> string \<Rightarrow> string" where
  "go_env getenv key fallback = (if getenv key \<noteq> [] then getenv key else fallback)"

record ServerConfig =
  sc_Env :: string
  sc_HTTPAddr :: string
  sc_DatabaseURL :: string
  sc_LogLevel :: int
  sc_ShutdownTimeout :: duration
  sc_Storage :: StorageConfig
  sc_WorkerBootstrapToken :: string
  sc_HeartbeatInterval :: duration
  sc_WorkerStaleAfter :: duration
  sc_LeaseTTL :: duration
  sc_LeaseSweepInterval :: duration
  sc_SourceURLTTL :: duration
  sc_DownloadURLTTL :: duration
  sc_PlaybackSecret :: string
  sc_PlaybackTTL :: duration

definition to_upper :: "char \<Rightarrow> char" where
  "to_upper c = (if is_lower c then char_of ((of_char c :: nat) - 32) else c)"

text \<open>\<open>slog.Level.UnmarshalText\<close>: a name, with an offset after a sign.\<close>

definition parse_level :: "string \<Rightarrow> int option" where
  "parse_level s =
     (let name = takeWhile (\<lambda>c. c \<noteq> CHR ''+'' \<and> c \<noteq> CHR ''-'') s; rest = drop (length name) s in
      case (map_of [(''DEBUG'', - 4), (''INFO'', 0), (''WARN'', 4), (''ERROR'', 8)] (map to_upper name),
            if rest = [] then Some 0 else ParseInt64 rest) of
        (Some base, Some offset) \<Rightarrow> Some (wrap64 (base + offset))
      | _ \<Rightarrow> None)"

datatype load_error = Missing string | BadEnv string | BadLeaseTTL string | BadLogLevel string

definition lease_ttl :: "string \<Rightarrow> duration option" where
  "lease_ttl raw =
     (if raw = [] then Some (60 * second)
      else case ParseInt64 raw of
        None \<Rightarrow> None
      | Some secs \<Rightarrow> if secs < 5 then None else Some (wrap64 (secs * second)))"

definition storage_of :: "(string \<Rightarrow> string) \<Rightarrow> StorageConfig" where
  "storage_of getenv =
     \<lparr>sg_Endpoint = getenv ''TRANSFLUX_S3_ENDPOINT'', sg_PublicEndpoint = getenv ''TRANSFLUX_S3_PUBLIC_ENDPOINT'',
      sg_WorkerEndpoint = getenv ''TRANSFLUX_S3_WORKER_ENDPOINT'', sg_Region = go_env getenv ''TRANSFLUX_S3_REGION'' ''us-east-1'',
      sg_Bucket = getenv ''TRANSFLUX_S3_BUCKET'', sg_AccessKey = getenv ''TRANSFLUX_S3_ACCESS_KEY'',
      sg_SecretKey = getenv ''TRANSFLUX_S3_SECRET_KEY'', sg_PathStyle = (getenv ''TRANSFLUX_S3_PATH_STYLE'' = ''true'')\<rparr>"

definition Load :: "(string \<Rightarrow> string) \<Rightarrow> load_error + ServerConfig" where
  "Load getenv =
     (let e = go_env getenv ''TRANSFLUX_ENV'' ''dev''; lvl = go_env getenv ''TRANSFLUX_LOG_LEVEL'' ''info'' in
      if getenv ''TRANSFLUX_DATABASE_URL'' = [] then Inl (Missing ''TRANSFLUX_DATABASE_URL'')
      else if e \<noteq> ''dev'' \<and> e \<noteq> ''prod'' then Inl (BadEnv e)
      else if sg_Bucket (storage_of getenv) = [] then Inl (Missing ''TRANSFLUX_S3_BUCKET'')
      else if getenv ''TRANSFLUX_WORKER_BOOTSTRAP_TOKEN'' = [] then Inl (Missing ''TRANSFLUX_WORKER_BOOTSTRAP_TOKEN'')
      else if getenv ''TRANSFLUX_PLAYBACK_SECRET'' = [] then Inl (Missing ''TRANSFLUX_PLAYBACK_SECRET'')
      else case lease_ttl (getenv ''TRANSFLUX_LEASE_TTL_SECONDS'') of
        None \<Rightarrow> Inl (BadLeaseTTL (getenv ''TRANSFLUX_LEASE_TTL_SECONDS''))
      | Some leaseTTL \<Rightarrow>
          (case parse_level (map to_upper lvl) of
             None \<Rightarrow> Inl (BadLogLevel lvl)
           | Some level \<Rightarrow>
               Inr \<lparr>sc_Env = e, sc_HTTPAddr = go_env getenv ''TRANSFLUX_HTTP_ADDR'' '':8080'',
                    sc_DatabaseURL = getenv ''TRANSFLUX_DATABASE_URL'', sc_LogLevel = level, sc_ShutdownTimeout = 20 * second,
                    sc_Storage = storage_of getenv, sc_WorkerBootstrapToken = getenv ''TRANSFLUX_WORKER_BOOTSTRAP_TOKEN'',
                    sc_HeartbeatInterval = 10 * second, sc_WorkerStaleAfter = 3 * (10 * second), sc_LeaseTTL = leaseTTL,
                    sc_LeaseSweepInterval = 5 * second, sc_SourceURLTTL = 6 * 3600 * second, sc_DownloadURLTTL = 15 * 60 * second,
                    sc_PlaybackSecret = getenv ''TRANSFLUX_PLAYBACK_SECRET'', sc_PlaybackTTL = 4 * 3600 * second\<rparr>))"

text \<open>What a server that starts can rely on.\<close>

lemma Load_complete:
  assumes "Load getenv = Inr c"
  shows "sc_DatabaseURL c \<noteq> []" "sg_Bucket (sc_Storage c) \<noteq> []" "sc_WorkerBootstrapToken c \<noteq> []" "sc_PlaybackSecret c \<noteq> []"
    "sc_Env c = ''dev'' \<or> sc_Env c = ''prod''" "sc_HeartbeatInterval c < sc_WorkerStaleAfter c"
  using assms by (auto simp: Load_def Let_def second_def split: if_splits option.splits)

lemma lease_ttl_bounds:
  assumes "lease_ttl raw = Some d" "raw = [] \<or> (\<exists>n. ParseInt64 raw = Some n \<and> n \<le> 9223372036)"
  shows "5 * second \<le> d"
proof (cases "raw = []")
  case False
  then obtain n where n: "ParseInt64 raw = Some n" "n \<le> 9223372036" using assms(2) by blast
  then have "5 \<le> n" "d = wrap64 (n * second)" using assms(1) False by (auto simp: lease_ttl_def split: if_splits)
  moreover have "wrap64 (n * second) = n * second"
    using n(2) calculation(1) by (intro wrap64_id) (auto simp: min_int64_def max_int64_def second_def)
  ultimately show ?thesis by (simp add: second_def)
qed (use assms in \<open>simp add: lease_ttl_def second_def\<close>)

text \<open>A larger number of seconds is accepted as well and wraps around: the lease is over before it starts.\<close>

lemma lease_ttl_overflows: "\<exists>d. lease_ttl ''10000000000'' = Some d \<and> d < 0"
proof -
  have "ParseInt64 ''10000000000'' = Some 10000000000"
    by (simp add: ParseInt64_def int_literal_def split_sign_def nat_of_digits_def is_digit_def min_int64_def max_int64_def)
  then show ?thesis by (simp add: lease_ttl_def wrap64_def second_def)
qed

section \<open>The worker's configuration\<close>

definition defaultName :: "string option \<Rightarrow> string" where
  "defaultName hostname = (case hostname of Some h \<Rightarrow> if h \<noteq> [] then h else ''transflux-worker'' | None \<Rightarrow> ''transflux-worker'')"

datatype worker_start_error = WorkerMissing string | BadSlots

definition slots_of_text :: "string \<Rightarrow> (string \<times> int) list option" where
  "slots_of_text raw =
     (case json_parse raw of
        None \<Rightarrow> None
      | Some j \<Rightarrow>
          if is_obj j \<and> list_all (\<lambda>(k, v). is_int64 v) (members j)
          then Some (go_map (map (\<lambda>(k, v). (k, as_int v)) (members j))) else None)"

definition worker_run :: "(string \<Rightarrow> string) \<Rightarrow> string option \<Rightarrow> worker_start_error + AgentConfig" where
  "worker_run getenv hostname =
     (if getenv ''TRANSFLUX_CONTROL_PLANE_URL'' = [] then Inl (WorkerMissing ''TRANSFLUX_CONTROL_PLANE_URL'')
      else if getenv ''TRANSFLUX_WORKER_BOOTSTRAP_TOKEN'' = [] then Inl (WorkerMissing ''TRANSFLUX_WORKER_BOOTSTRAP_TOKEN'')
      else case (if getenv ''TRANSFLUX_WORKER_SLOTS'' = [] then Some [] else slots_of_text (getenv ''TRANSFLUX_WORKER_SLOTS'')) of
        None \<Rightarrow> Inl BadSlots
      | Some slots \<Rightarrow>
          Inr \<lparr>cf_BootstrapToken = getenv ''TRANSFLUX_WORKER_BOOTSTRAP_TOKEN'',
               cf_Name = go_env getenv ''TRANSFLUX_WORKER_NAME'' (defaultName hostname),
               cf_WorkDir = go_env getenv ''TRANSFLUX_WORKER_DIR'' ''.'', cf_FFmpegBin = go_env getenv ''TRANSFLUX_FFMPEG'' ''ffmpeg'',
               cf_FFprobeBin = go_env getenv ''TRANSFLUX_FFPROBE'' ''ffprobe'', cf_SlotCapacity = slots, cf_PollInterval = 3 * second\<rparr>)"

section \<open>Migrations\<close>

text \<open>
  The database holds the schema and the names of the applied files; \<open>apply name\<close> executes one file, \<open>None\<close>
  when it fails. Each file commits together with its name.
\<close>

record 'd schema =
  sm_data :: 'd
  sm_applied :: "string list"

text \<open>\<open>Open\<close>: a pool that does not answer a ping is closed again.\<close>

definition db_Open :: "(string \<Rightarrow> string option) \<Rightarrow> (string \<Rightarrow> string option) \<Rightarrow> string \<Rightarrow> string option" where
  "db_Open connect ping url =
     (case connect url of Some e \<Rightarrow> Some (''connect: '' @ e) | None \<Rightarrow> map_option (\<lambda>e. ''ping: '' @ e) (ping url))"

definition migrationNames :: "(string \<times> bool) list \<Rightarrow> string list" where
  "migrationNames entries = sort (map fst (filter (\<lambda>(name, isDir). \<not> isDir) entries))"

fun migrate_loop :: "(string \<Rightarrow> 'd \<Rightarrow> 'd option) \<Rightarrow> string list \<Rightarrow> string list \<Rightarrow> 'd schema \<Rightarrow> 'd schema \<times> string option" where
  "migrate_loop app known [] db = (db, None)"
| "migrate_loop app known (name # names) db =
     (if List.member known name then migrate_loop app known names db
      else case app name (sm_data db) of
        None \<Rightarrow> (db, Some name)
      | Some d \<Rightarrow>
          if List.member (sm_applied db) name then (db, Some name)
          else migrate_loop app known names (db\<lparr>sm_data := d, sm_applied := sm_applied db @ [name]\<rparr>))"

definition Migrate :: "(string \<Rightarrow> 'd \<Rightarrow> 'd option) \<Rightarrow> (string \<times> bool) list \<Rightarrow> 'd schema \<Rightarrow> 'd schema \<times> string option" where
  "Migrate app entries db = migrate_loop app (sm_applied db) (migrationNames entries) db"

text \<open>
  Files are applied in name order and each at most once; what a failure leaves is a prefix of the work, and
  a database on which everything was applied is left alone.
\<close>

lemma migrate_loop_names:
  assumes "distinct names" "distinct (sm_applied db)" "set known \<subseteq> set (sm_applied db)" "set names \<inter> set (sm_applied db) \<subseteq> set known"
  shows "\<exists>k. sm_applied (fst (migrate_loop app known names db)) = sm_applied db @ take k (filter (\<lambda>n. n \<notin> set known) names) \<and>
    (snd (migrate_loop app known names db) = None \<longrightarrow> length (filter (\<lambda>n. n \<notin> set known) names) \<le> k)"
  using assms
proof (induction app known names db rule: migrate_loop.induct)
  case (2 app known name names db)
  let ?f = "filter (\<lambda>n. n \<notin> set known)"
  consider (seen) "name \<in> set known" | (fail) "name \<notin> set known" "app name (sm_data db) = None"
    | (run) d where "name \<notin> set known" "app name (sm_data db) = Some d" by blast
  then show ?case
  proof cases
    case seen
    then show ?thesis using 2 by auto
  next
    case fail
    then show ?thesis using 2(4) by (intro exI [of _ 0]) simp
  next
    case run
    have new: "name \<notin> set (sm_applied db)" using 2(6) run(1) by auto
    let ?db = "db\<lparr>sm_data := d, sm_applied := sm_applied db @ [name]\<rparr>"
    have "\<exists>k. sm_applied (fst (migrate_loop app known names ?db)) = sm_applied ?db @ take k (?f names) \<and>
        (snd (migrate_loop app known names ?db) = None \<longrightarrow> length (?f names) \<le> k)"
      using new run(1) 2(3-6) by (intro 2(2) [OF _ run(2)]) auto
    then obtain k where k: "sm_applied (fst (migrate_loop app known names ?db)) = sm_applied ?db @ take k (?f names) \<and>
        (snd (migrate_loop app known names ?db) = None \<longrightarrow> length (?f names) \<le> k)" by (rule exE)
    have loop: "migrate_loop app known (name # names) db = migrate_loop app known names ?db" using run new by simp
    have fil: "?f (name # names) = name # ?f names" using run(1) by simp
    show ?thesis unfolding loop fil using k by (intro exI [of _ "Suc k"]) simp
  qed
qed simp

lemma migrate_applied: "set (migrationNames entries) \<subseteq> set (sm_applied db) \<Longrightarrow> Migrate app entries db = (db, None)"
proof -
  have "set names \<subseteq> set known \<Longrightarrow> migrate_loop app known names db = (db, None)" for names known
    by (induction names) auto
  then show "set (migrationNames entries) \<subseteq> set (sm_applied db) \<Longrightarrow> Migrate app entries db = (db, None)"
    by (simp add: Migrate_def)
qed

lemma Migrate_once:
  assumes "distinct (map fst entries)" "distinct (sm_applied db)" "Migrate app entries db = (db', None)"
  shows "sm_applied db' = sm_applied db @ filter (\<lambda>n. n \<notin> set (sm_applied db)) (migrationNames entries)"
    and "Migrate app' entries db' = (db', None)"
proof -
  have d: "distinct (migrationNames entries)" using assms(1) by (simp add: migrationNames_def distinct_map_filter)
  obtain k where "sm_applied db' = sm_applied db @ take k (filter (\<lambda>n. n \<notin> set (sm_applied db)) (migrationNames entries))"
      "length (filter (\<lambda>n. n \<notin> set (sm_applied db)) (migrationNames entries)) \<le> k"
    using migrate_loop_names [OF d assms(2), of "sm_applied db" app] assms(3) by (auto simp: Migrate_def)
  then show "sm_applied db' = sm_applied db @ filter (\<lambda>n. n \<notin> set (sm_applied db)) (migrationNames entries)" by simp
  then show "Migrate app' entries db' = (db', None)" by (intro migrate_applied) auto
qed

section \<open>The first tenant\<close>

datatype bootstrap_error = NoName | BootstrapAuth auth_error

text \<open>The tables, the trail, and what is printed.\<close>

definition bootstrap ::
  "time \<Rightarrow> (nat \<Rightarrow> uuid) \<Rightarrow> string option \<Rightarrow> string \<Rightarrow> string \<Rightarrow> auth_db \<Rightarrow> audit_row list \<Rightarrow>
   auth_db \<times> audit_row list \<times> (bootstrap_error + uuid \<times> string)" where
  "bootstrap now fresh random e name adb trail =
     (if name = [] then (adb, trail, Inl NoName)
      else case tenant_Create (fresh 0) adb name of
        Inl err \<Rightarrow> (adb, trail, Inl (BootstrapAuth err))
      | Inr (adb1, t) \<Rightarrow>
          (case Issue now (fresh 1) random adb1 (tn_ID t) ''bootstrap'' (if e = ''dev'' then ''test'' else ''live'') [ScopeAdmin] None of
             Inl err \<Rightarrow> (adb1, trail, Inl (BootstrapAuth err))
           | Inr (adb2, key, keyID) \<Rightarrow>
               (let event = \<lparr>ev_TenantID = Some (tn_ID t), ev_ActorType = ''system'', ev_ActorID = None, ev_Action = [],
                      ev_SubjectType = [], ev_SubjectID = None, ev_Detail = None\<rparr>;
                    trail1 = audit_Record (fresh 2) adb2 trail (event\<lparr>ev_Action := ''tenant.created'', ev_SubjectType := ''tenant'',
                      ev_SubjectID := Some (tn_ID t), ev_Detail := Some [(''name'', JStr (tn_Name t))]\<rparr>);
                    trail2 = audit_Record (fresh 3) adb2 trail1 (event\<lparr>ev_Action := ''api_key.issued'', ev_SubjectType := ''api_key'',
                      ev_SubjectID := Some keyID,
                      ev_Detail := Some [(''name'', JStr ''bootstrap''), (''scopes'', JArr [JStr ScopeAdmin])]\<rparr>)
                in (adb2, trail2, Inr (tn_ID t, key_Secret key)))))"

text \<open>
  An issued key is the caller it was issued to, until it expires: the tenant and the scopes it was given. The
  first key a control plane prints is an administrator of the tenant it just created.
\<close>

lemma sql_find_last: "P y \<Longrightarrow> (\<And>x. x \<in> set xs \<Longrightarrow> \<not> P x) \<Longrightarrow> sql_find P (xs @ [y]) = Some y"
  by (induction xs) (auto simp: sql_find_def)

lemma issued_key_works:
  assumes "Issue now newID (Some buf) db t name e scopes expiresAt = Inr (db', k, kid)" "length buf = secretBytes"
    and "tn \<in> set (tenants db)" "te_id tn = t" "te_status tn = ''active''" "\<And>x. expiresAt = Some x \<Longrightarrow> later \<le> x"
  shows "\<exists>db''. auth_Authenticate later db' (key_Secret k) = Inr (db'', \<lparr>pr_TenantID = t, pr_KeyID = kid, pr_Scopes = scopes\<rparr>)"
proof -
  have new: "NewKey (Some buf) e = Inr k" and fresh: "\<not> list_ex (\<lambda>r. ak_hash r = key_Hash k) (api_keys db)"
    and db': "db' = db\<lparr>api_keys := api_keys db @ [\<lparr>ak_id = kid, ak_tenant = t, ak_name = name, ak_prefix = key_Prefix k, ak_hash = key_Hash k,
      ak_scopes = scopes, ak_last_used = None, ak_expires = expiresAt, ak_revoked = None, ak_created = now\<rparr>]\<rparr>"
      (is "_ = db\<lparr>api_keys := _ @ [?row]\<rparr>")
    using assms(1) by (auto simp: Issue_def split: sum.splits if_splits)
  have token: "parseToken (key_Secret k) = Inr (key_Hash k)" using minted_key_parses [OF new assms(2)] .
  have "key_usable db' (key_Hash k) ?row" using assms(3-5) by (auto simp: key_usable_def db' list_ex_iff)
  moreover have "\<not> key_usable db' (key_Hash k) r" if "r \<in> set (api_keys db)" for r
    using fresh that by (auto simp: key_usable_def list_ex_iff)
  ultimately have "sql_find (key_usable db' (key_Hash k)) (api_keys db @ [?row]) = Some ?row"
    by (intro sql_find_last)
  then show ?thesis using token assms(6) by (auto simp: auth_Authenticate_def db' split: option.split)
qed

lemma bootstrap_key_works:
  assumes "bootstrap now fresh (Some buf) e name adb trail = (adb', trail', Inr (tid, secret))" "length buf = secretBytes"
  shows "\<exists>adb'' p. auth_Authenticate later adb' secret = Inr (adb'', p) \<and> pr_TenantID p = tid \<and> HasScope p scope"
proof -
  obtain adb1 t k kid where t: "tenant_Create (fresh 0) adb name = Inr (adb1, t)" "tid = tn_ID t" "secret = key_Secret k"
    and k: "Issue now (fresh 1) (Some buf) adb1 (tn_ID t) ''bootstrap'' (if e = ''dev'' then ''test'' else ''live'') [ScopeAdmin] None = Inr (adb', k, kid)"
    using assms(1) by (auto simp: bootstrap_def Let_def split: if_splits sum.splits)
  have "\<lparr>te_id = tn_ID t, te_name = name, te_status = ''active''\<rparr> \<in> set (tenants adb1)"
    using t(1) by (auto simp: tenant_Create_def split: if_splits)
  from issued_key_works [OF k assms(2) this, of later] t(2,3) show ?thesis by (auto simp: HasScope_def)
qed

section \<open>Serving\<close>

text \<open>The services \<open>serve\<close> gives the handlers: the object store and the settings of the configuration.\<close>

definition server_deps ::
  "'st Sdk \<Rightarrow> S3Store \<Rightarrow> (string \<Rightarrow> uuid option) \<Rightarrow> (uuid \<Rightarrow> int option) \<Rightarrow> ServerConfig \<Rightarrow> 'st Deps" where
  "server_deps sdk s parseUUID quota cfg =
     \<lparr>dp_Uploads = s3_uploads sdk s,
      dp_Head = (\<lambda>st key. case s3_Head sdk st key of Inl e \<Rightarrow> Inl (head_of e) | Inr i \<Rightarrow> Inr (o_Size i)),
      dp_Get = (\<lambda>st key. case s3_Get sdk st key of Inl e \<Rightarrow> Inl (head_of e) | Inr b \<Rightarrow> Inr b),
      dp_PresignGet = s3_PresignGet sdk s, dp_PresignGetForWorker = s3_PresignGetForWorker sdk s,
      dp_PresignPutForWorker = s3_PresignPutForWorker sdk s, dp_parseUUID = parseUUID, dp_quota = quota,
      dp_Playback = sc_PlaybackSecret cfg, dp_bootstrapHash = sha256 (sc_WorkerBootstrapToken cfg),
      dp_HeartbeatInterval = sc_HeartbeatInterval cfg, dp_LeaseTTL = sc_LeaseTTL cfg, dp_SourceURLTTL = sc_SourceURLTTL cfg,
      dp_DownloadURLTTL = sc_DownloadURLTTL cfg, dp_PlaybackTTL = sc_PlaybackTTL cfg\<rparr>"

text \<open>The loops that run beside the handlers, with the interval of each ticker.\<close>

datatype background = StaleSweep duration | LeaseReclaim | CollectMetrics

definition serve_loops :: "ServerConfig \<Rightarrow> (background \<times> duration) list" where
  "serve_loops cfg =
     [(StaleSweep (sc_WorkerStaleAfter cfg), sc_HeartbeatInterval cfg), (LeaseReclaim, sc_LeaseSweepInterval cfg), (CollectMetrics, 15 * second)]"

text \<open>The queries of \<open>statsSource\<close> as \<open>collectOnce\<close> takes them.\<close>

definition stats_buckets :: "job_db \<Rightarrow> QueueBucket list" where
  "stats_buckets db = map (\<lambda>c. \<lparr>qb_Operation = qc_Operation c, qb_State = task_state_str (qc_State c), qb_Count = qc_Count c\<rparr>) (QueueStats db)"

datatype run_failure = BadConfig load_error | NoDatabase string | NotMigrated string | NoStorage storage_start_error | NoBucket sdk_error

datatype 'st launch = Bootstrap "string list" | Serve ServerConfig "'st Deps"

definition serve_launch ::
  "((string \<times> string) option \<Rightarrow> string option) \<Rightarrow> 'st Sdk \<Rightarrow> (string \<Rightarrow> uuid option) \<Rightarrow> (uuid \<Rightarrow> int option) \<Rightarrow> ServerConfig \<Rightarrow>
   'd \<times> 'st \<Rightarrow> (run_failure + 'st launch) \<times> 'd \<times> 'st" where
  "serve_launch load sdk parseUUID quota cfg w =
     (case w of (db, st) \<Rightarrow>
      case NewS3 load (sc_Storage cfg) of
        Inl e \<Rightarrow> (Inl (NoStorage e), db, st)
      | Inr s \<Rightarrow>
          (case s3_Verify sdk (sc_Env cfg = ''dev'') st of
             (Some e, st') \<Rightarrow> (Inl (NoBucket e), db, st')
           | (None, st') \<Rightarrow> (Inr (Serve cfg (server_deps sdk s parseUUID quota cfg)), db, st')))"

text \<open>
  \<open>run\<close> up to the work itself: the database is opened and migrated before anything else, the bucket is
  checked before the server listens, and created on the way in development only.
\<close>

definition control_plane_run ::
  "(string \<Rightarrow> string) \<Rightarrow> (string \<Rightarrow> string option) \<Rightarrow> (string \<Rightarrow> string option) \<Rightarrow> (string \<Rightarrow> 'd \<Rightarrow> 'd option) \<Rightarrow> (string \<times> bool) list \<Rightarrow>
   ((string \<times> string) option \<Rightarrow> string option) \<Rightarrow> 'st Sdk \<Rightarrow> (string \<Rightarrow> uuid option) \<Rightarrow> (uuid \<Rightarrow> int option) \<Rightarrow> string list \<Rightarrow>
   'd schema \<times> 'st \<Rightarrow> (run_failure + 'st launch) \<times> 'd schema \<times> 'st" where
  "control_plane_run getenv connect ping app entries load sdk parseUUID quota args w =
     (case w of (db, st) \<Rightarrow>
      case Load getenv of
        Inl e \<Rightarrow> (Inl (BadConfig e), db, st)
      | Inr cfg \<Rightarrow>
          (case db_Open connect ping (sc_DatabaseURL cfg) of
             Some e \<Rightarrow> (Inl (NoDatabase e), db, st)
           | None \<Rightarrow>
               (case Migrate app entries db of
                  (db1, Some name) \<Rightarrow> (Inl (NotMigrated name), db1, st)
                | (db1, None) \<Rightarrow>
                    (case args of
                       cmd # rest \<Rightarrow>
                         if cmd = ''bootstrap'' then (Inr (Bootstrap rest), db1, st)
                         else serve_launch load sdk parseUUID quota cfg (db1, st)
                     | [] \<Rightarrow> serve_launch load sdk parseUUID quota cfg (db1, st)))))"

text \<open>
  A server that listens has a complete configuration and every migration applied, its bucket answered or
  was created, its tickers have positive intervals, and it gives the handlers the keys of the
  configuration. In production the object store is as it was found.
\<close>

lemma serving_ready:
  assumes "control_plane_run getenv connect ping app entries load sdk parseUUID quota args (db, st) = (Inr (Serve cfg d), db', st')"
  shows "Load getenv = Inr cfg" "Migrate app entries db = (db', None)" "fst (s3_Verify sdk (sc_Env cfg = ''dev'') st) = None"
    "dp_Playback d \<noteq> []" "dp_bootstrapHash d = sha256 (sc_WorkerBootstrapToken cfg)" "list_all (\<lambda>(w, every). 0 < every) (serve_loops cfg)"
    "sc_Env cfg = ''prod'' \<Longrightarrow> st' = st"
proof -
  obtain s where run: "Load getenv = Inr cfg" "Migrate app entries db = (db', None)" "s3_Verify sdk (sc_Env cfg = ''dev'') st = (None, st')"
    "d = server_deps sdk s parseUUID quota cfg"
    using assms by (auto simp: control_plane_run_def serve_launch_def split: sum.splits option.splits prod.splits list.splits if_splits)
  then show "Load getenv = Inr cfg" "Migrate app entries db = (db', None)" "fst (s3_Verify sdk (sc_Env cfg = ''dev'') st) = None"
    "dp_bootstrapHash d = sha256 (sc_WorkerBootstrapToken cfg)" by (simp_all add: server_deps_def)
  show "dp_Playback d \<noteq> []" using Load_complete(4) [OF run(1)] run(4) by (simp add: server_deps_def)
  show "list_all (\<lambda>(w, every). 0 < every) (serve_loops cfg)"
    using run(1) by (auto simp: Load_def Let_def serve_loops_def second_def split: if_splits option.splits)
  show "st' = st" if "sc_Env cfg = ''prod''" using run(3) that by (auto simp: s3_Verify_def split: option.splits)
qed

end
