(* ===== verification/Spec2Isabelle.thy ===== *)
theory Spec2Isabelle
  imports Report_Properties Encode_Properties Media_Properties Upload_Parts Probe_Properties Pipeline_Properties
    Validation_Properties Artifact_Properties Server_Properties Composition Spec_Delivery Thumbnail_Properties
    Task_Properties Boot
begin

text \<open>
  A verification development for transflux, a media-processing control plane and its worker agent.

  \<^bold>\<open>The program.\<close> The control plane (\<open>cmd/transflux\<close>) keeps tenants, assets, uploads, jobs, tasks, attempts,
  workers and artifacts in PostgreSQL and the media in an object store. A tenant creates an asset, uploads
  its bytes in parts straight to the store, and creates a job for a preset. The planner turns the preset and
  what inspection found into a graph of tasks. Worker agents (\<open>cmd/transflux-worker\<close>) register, poll for a
  task, run FFmpeg on it, upload and register the outputs, and report. A lease bounds how long a silent
  worker keeps a task, and a sweeper takes lapsed ones back. Finished outputs form an artifact set, which
  viewers reach through signed links.

  \<^bold>\<open>Conventions.\<close> A table is a list of row records. An operation is one transaction: a function of the clock,
  the tables and its arguments that returns an error or the new tables, so every early return and every
  constraint the database can violate is a branch. Clock readings are integers, in microseconds for the
  database and nanoseconds for a process. Identifiers are natural numbers and a new one is \<open>fresh\<close>. Strings are
  byte lists; letter case and white space are those of the ASCII range. A \<open>float64\<close> is the rational it denotes,
  rounded by \<open>f64\<close>. Code outside the repository is an argument: the object store, random bytes, the signing
  of URLs, the host of the agent with its processes and files, the transport of HTTP.

  \<^bold>\<open>Foundations.\<close>
  \<^item> \<open>Prelude\<close>: identifiers, the SQL fragment over lists of rows, Go's string functions, decimal text, and the
    interfaces \<open>transition_system\<close> and \<open>evolving_system\<close>.
  \<^item> \<open>Float64\<close>: binary64 rounding, the locale \<open>rounding\<close> and its laws.
  \<^item> \<open>Go_Text\<close>, \<open>Go_Json\<close>, \<open>Json_Text\<close>: number parsing, identifiers in text, JSON values, the text of
    \<open>json.Marshal\<close>, and a reader proved to invert it.
  \<^item> \<open>Go_Crypto\<close>: SHA-256, HMAC, base64 and hexadecimal.

  \<^bold>\<open>Jobs\<close> (\<open>internal/job\<close>).
  \<^item> \<open>Task_State\<close> is \<open>state.go\<close>; \<open>Job_Store\<close> is \<open>job.go\<close>; \<open>Job_Lease\<close> is \<open>lease.go\<close>; \<open>Job_Schedule\<close> is
    \<open>schedule.go\<close>; \<open>Job_Expire\<close> is \<open>expire.go\<close>. The record \<open>job_db\<close> holds the tables.
  \<^item> \<open>Job_Invariant\<close> and \<open>Job_Preservation\<close>: the invariant of the tables, kept by every operation. \<open>Job_System\<close>:
    the operations as the steps of a transition system, and the state machines the steps follow.
  \<^item> \<open>Job_Properties\<close> (C1 to C7): one live attempt, the retry budget, derived job states, dependency order,
    no stalled job, refinement of the state tables, final states. \<open>Lease_Properties\<close> (C8, C9): what a
    poll hands out. \<open>Report_Properties\<close> (C12 to C15, C17 to C19): sweeping, stale reports, failures,
    successes, creation and cancelling.

  \<^bold>\<open>Media\<close> (\<open>internal/asset\<close>, \<open>upload\<close>, \<open>probe\<close>, \<open>storage\<close>).
  \<^item> \<open>Storage_Key\<close> is \<open>storage/key.go\<close> (C23). \<open>Media_Store\<close> is the asset store, \<open>Upload_Service\<close> the upload
    service over the object store interface, \<open>Probe_Parse\<close> and \<open>Probe_Store\<close> the reading and storing of
    what the inspection tool prints. \<open>Object_Store\<close> is \<open>storage/s3.go\<close>, the object store interface over the calls of
    the vendor's SDK.
  \<^item> \<open>Upload_Parts\<close> (C25): a part plan tiles the object, and an upload whose parts verify is whole. \<open>Media_Invariant\<close> and \<open>Media_Properties\<close> (C27, C29):
    the tables as a transition system beside a store that changes on its own. \<open>Probe_Properties\<close> (C30, C31).

  \<^bold>\<open>Encoding, planning, validation\<close> (\<open>internal/encode\<close>, \<open>pipeline\<close>, \<open>validate\<close>).
  \<^item> \<open>Encode_Config\<close> with \<open>Encode_Properties\<close> (C21); \<open>Pipeline\<close> with \<open>Pipeline_Properties\<close> (C32 to C34);
    \<open>Validation\<close> with \<open>Validation_Properties\<close> (C35).

  \<^bold>\<open>Outputs and playback\<close> (\<open>internal/artifact\<close>, \<open>playback\<close>).
  \<^item> \<open>Artifact_Store\<close> with \<open>Artifact_Properties\<close> (C36, C37); \<open>Playback\<close> with \<open>Playback_Properties\<close> (C38, C39).

  \<^bold>\<open>The server\<close> (\<open>internal/api\<close>, \<open>auth\<close>, \<open>tenant\<close>, \<open>worker\<close>).
  \<^item> \<open>Auth\<close>: keys, scopes and tenants. \<open>Worker_Registry\<close> with \<open>Worker_Properties\<close> (C20): the registry as a
    transition system and the rotation of credentials.
  \<^item> \<open>Server\<close>: the record \<open>server_db\<close> of all tables with the object store, and the services of the handlers.
    \<open>Worker_Api\<close>, \<open>Client_Api\<close>: the handlers of the two surfaces. \<open>Routes\<close>: which handler a request reaches.
  \<^item> \<open>Server_System\<close>: requests, sweeps, key management and outside changes as steps, each made of steps of
    the component systems. \<open>Delivery\<close> (C40): what viewers get belongs to a job that succeeded.
    \<open>Server_Properties\<close> (C22, C28): isolation of tenants, refinement of the components.

  \<^bold>\<open>The agent\<close> (\<open>internal/agent\<close>).
  \<^item> \<open>Agent_Tools\<close>: progress, capabilities, one supervised run, over the record \<open>Machine\<close> of what the host offers.
    \<open>Agent_Specs\<close>: typed decoding of specifications, outcomes. \<open>Agent_Tasks\<close>, \<open>Agent_Thumbnails\<close>: the
    five executors as computations of the state monad. \<open>Agent\<close>: client, reporting, lease renewal, execution,
    polling, registration. Its record \<open>Agent\<close> logs the calls made, a ghost the properties speak of.
  \<^item> \<open>Agent_Steps\<close>: which relation between two agents every computation of the agent respects, proved once for the
    executors and the reports in the interfaces \<open>machine_relation\<close> and \<open>agent_relation\<close>. \<open>Agent_Calls\<close>: the calls
    a computation makes, the interpretation \<open>calls\<close>. \<open>Agent_Properties\<close> (C11, C16): outputs are
    registered before success is reported, a report ends; the interface \<open>task_executor\<close> with its five
    interpretations. \<open>Thumbnail_Properties\<close> (C24) and \<open>Task_Properties\<close>: the strip and its index, the bounded
    tail, progress in range, the URLs a tool is given.
  \<^item> \<open>Composition\<close> (C26): the agent over a network whose far end is the server. A request or its answer may be
    lost, and the server serves others meanwhile; the interpretation \<open>network\<close> shows that whatever the agent does
    is a run of the server, and a report of success it saw accepted has ended the attempt in the tables.

  \<^bold>\<open>From plan to agent.\<close>
  \<^item> \<open>Config_Json\<close>: the agent's reader of a configuration inverts the planner's writer. \<open>Json_Rewrite\<close>: what a document
    says after the control plane has read it into \<open>map[string]any\<close>, set keys and written it again; whole numbers keep
    their digits through \<open>float64\<close>. \<open>Spec_Delivery\<close> (C10): an encode task the planner made, stored as \<open>jsonb\<close>,
    resolved with signed URLs and decoded by the agent, is the rung it was planned for.

  \<^bold>\<open>Around them.\<close> \<open>Observability\<close> is redaction, the audit trail, the metric families with the samples each handler
  adds, and the middleware. \<open>Boot\<close> is the configuration from the environment, migrations, the first tenant and its
  key, and the order in which the control plane and the worker start their parts.

  \<^bold>\<open>Interfaces.\<close> \<open>transition_system\<close> is interpreted by the job tables, the media tables, the registry and the
  server; \<open>evolving_system\<close>, which adds a relation every step respects, by the artifact tables; \<open>transition_table\<close>
  by the task and attempt tables of \<open>state.go\<close>; \<open>ranking\<close> by the order of the scheduler's query; \<open>rounding\<close> by \<open>f64\<close>;
  \<open>task_executor\<close> by the five executors; \<open>machine_relation\<close> and \<open>agent_relation\<close> by the calls an agent makes and by
  the runs of the server they cause.

  \<^bold>\<open>Bounds.\<close> Constants are the source's: \<open>maxNestingDepth\<close> of the JSON reader, \<open>max_line\<close> of a manifest, five
  attempts of a report, the limits of the queries. Loops are structural or have a measure, with three
  exceptions whose length is an argument: \<open>pollLoop\<close> has no end in the source and runs a number of rounds;
  \<open>keepAlive\<close> runs over the list of its wake-ups; the listing of parts in \<open>Object_Store\<close> reads pages until
  the store says there are no more, at most \<open>part_pages\<close> of them: an upload has at most 10000 parts.

  \<^bold>\<open>Not modelled.\<close> The Prometheus registry and the buckets of its histograms; the
  vendor's storage SDK beyond the calls made of it; connection pools and advisory locks, since transactions are
  atomic here; process groups and signals beyond the times at which a run ends; log lines; the Darwin variants
  of host inspection; signals, flags, listening and shutdown of the two programs; redirects of unclean paths; and the
  console under \<open>web\<close>, a client of the API in another language.
\<close>

end
